(* ===== verification/Prelude.thy ===== *)
theory Prelude
  imports Main "HOL-Library.Word" "HOL-Library.List_Lexorder" "HOL-Library.Char_ord"
begin

text \<open>
  The vocabulary the component theories share: machine types, timestamps, the outcome of a
  fallible state-changing call, and generic lemmas on lists.

  A Go call that changes the state and may fail, \<open>func (...) (T, error)\<close>, is a function into
  \<open>('e + 'a) \<times> 's\<close>: \<open>Inl\<close> carries the error, \<open>Inr\<close> the result, and the second
  component is the state afterwards, on both branches. Time is the number of microseconds (the
  resolution of a PostgreSQL timestamptz) since the zero value of Go's \<open>time.Time\<close>.
\<close>

named_theorems go_simps "rewriting rules for the Go runtime functions"
named_theorems db_frames "what an operation leaves unchanged"
named_theorems svc_cases "inversion of the outcome of a service operation"

type_synonym u64 = "64 word"
type_synonym u8 = "8 word"
type_synonym time = int
type_synonym ('e, 'a, 's) outcome = "('e + 'a) \<times> 's"

text \<open>\<open>time.Time.IsZero\<close>: the zero value.\<close>

definition is_zero_time :: "time \<Rightarrow> bool" where
  "is_zero_time t \<longleftrightarrow> t = 0"

text \<open>The largest value of a PostgreSQL \<open>bigint\<close> and of Go's \<open>int64\<close>.\<close>

definition max_int64 :: int where
  "max_int64 = 9223372036854775807"

fun is_Inr :: "'e + 'a \<Rightarrow> bool" where
  "is_Inr (Inl _) = False"
| "is_Inr (Inr _) = True"

lemma is_Inr_iff: "is_Inr r \<longleftrightarrow> (\<exists>x. r = Inr x)"
  by (cases r) auto

text \<open>Evaluation compares a length with a limit in binary, not in unary.\<close>

lemma nat_limit_code [code_unfold]:
  "nat_of_num k < x \<longleftrightarrow> numeral k < int x" "x < nat_of_num k \<longleftrightarrow> int x < numeral k"
  "nat_of_num k \<le> x \<longleftrightarrow> numeral k \<le> int x" "x \<le> nat_of_num k \<longleftrightarrow> int x \<le> numeral k"
  by (simp_all add: nat_of_num_numeral)

section \<open>Lists as tables\<close>

text \<open>
  A table is the list of its rows in insertion order. \<open>find\<close> is a \<open>SELECT\<close> of at most one
  row, \<open>update_where P f\<close> an \<open>UPDATE ... SET f WHERE P\<close>.
\<close>

definition update_where :: "('a \<Rightarrow> bool) \<Rightarrow> ('a \<Rightarrow> 'a) \<Rightarrow> 'a list \<Rightarrow> 'a list" where
  "update_where P f xs = map (\<lambda>x. if P x then f x else x) xs"

lemma update_where_Nil [simp]: "update_where P f [] = []"
  by (simp add: update_where_def)

lemma update_where_Cons [simp]:
  "update_where P f (x # xs) = (if P x then f x else x) # update_where P f xs"
  by (simp add: update_where_def)

lemma length_update_where [simp]: "length (update_where P f xs) = length xs"
  by (simp add: update_where_def)

lemma set_update_where:
  "set (update_where P f xs) = (\<lambda>x. if P x then f x else x) ` set xs"
  by (simp add: update_where_def)

lemma update_whereE:
  assumes "x \<in> set (update_where P f xs)"
  obtains y where "y \<in> set xs" "P y" "x = f y" | "x \<in> set xs" "\<not> P x"
  using assms by (auto simp: update_where_def split: if_splits)

lemma map_update_where:
  "(\<And>x. P x \<Longrightarrow> key (f x) = key x) \<Longrightarrow> map key (update_where P f xs) = map key xs"
  by (induction xs) simp_all

lemma update_where_none: "\<forall>x\<in>set xs. \<not> P x \<Longrightarrow> update_where P f xs = xs"
  by (induction xs) auto

lemma update_where_compose:
  "(\<And>x. P x \<Longrightarrow> \<not> Q (f x)) \<Longrightarrow>
   update_where Q g (update_where P f xs) = update_where (\<lambda>x. P x \<or> Q x) (\<lambda>x. if P x then f x else g x) xs"
  by (induction xs) auto

lemma update_where_cong:
  "(\<And>x. x \<in> set xs \<Longrightarrow> P x = Q x) \<Longrightarrow> (\<And>x. x \<in> set xs \<Longrightarrow> Q x \<Longrightarrow> f x = g x) \<Longrightarrow>
   update_where P f xs = update_where Q g xs"
  by (simp add: update_where_def)

lemma find_in_set: "find P xs = Some x \<Longrightarrow> x \<in> set xs \<and> P x"
  by (induction xs) (auto split: if_splits)

lemma find_None: "find P xs = None \<longleftrightarrow> (\<forall>x\<in>set xs. \<not> P x)"
  by (induction xs) auto

lemma find_Some_ex: "x \<in> set xs \<Longrightarrow> P x \<Longrightarrow> \<exists>y. find P xs = Some y"
  by (induction xs) auto

lemma find_unique:
  assumes "x \<in> set xs" "P x" "\<And>y. y \<in> set xs \<Longrightarrow> P y \<Longrightarrow> y = x"
  shows "find P xs = Some x"
proof -
  obtain y where "find P xs = Some y"
    using find_Some_ex [of x xs P, OF assms(1,2)] by (rule exE)
  moreover from find_in_set [OF this] have "y = x" by (blast intro: assms(3))
  ultimately show ?thesis by blast
qed

lemma find_cong_set: "(\<And>x. x \<in> set xs \<Longrightarrow> P x = Q x) \<Longrightarrow> find P xs = find Q xs"
  by (induction xs) auto

lemma find_append: "find P (xs @ ys) = (case find P xs of None \<Rightarrow> find P ys | Some x \<Rightarrow> Some x)"
  by (induction xs) auto

lemma distinct_map_inj:
  "distinct (map f xs) \<Longrightarrow> x \<in> set xs \<Longrightarrow> y \<in> set xs \<Longrightarrow> f x = f y \<Longrightarrow> x = y"
  by (induction xs) (auto simp: rev_image_eqI)

text \<open>A primary key lookup through an update that keeps the keys.\<close>

lemma find_key_update_where:
  assumes "\<And>x. key (f x) = key x"
  shows "find (\<lambda>x. key x = k) (update_where P f xs)
       = map_option (\<lambda>x. if P x then f x else x) (find (\<lambda>x. key x = k) xs)"
  using assms by (induction xs) auto

section \<open>Tables over time\<close>

text \<open>
  \<open>table_evolves R\<close>: rows are never removed or reordered, and each row develops along \<open>R\<close>.
\<close>

definition table_evolves :: "('a \<Rightarrow> 'a \<Rightarrow> bool) \<Rightarrow> 'a list \<Rightarrow> 'a list \<Rightarrow> bool" where
  "table_evolves R xs ys \<longleftrightarrow> length xs \<le> length ys \<and> (\<forall>i<length xs. R (xs ! i) (ys ! i))"

lemma table_evolves_refl: "(\<And>x. R x x) \<Longrightarrow> table_evolves R xs xs"
  by (simp add: table_evolves_def)

lemma table_evolves_trans:
  "(\<And>x y z. R x y \<Longrightarrow> R y z \<Longrightarrow> R x z) \<Longrightarrow> table_evolves R xs ys \<Longrightarrow> table_evolves R ys zs \<Longrightarrow>
   table_evolves R xs zs"
  unfolding table_evolves_def by (metis le_trans order_less_le_trans)

lemma table_evolves_append: "(\<And>x. R x x) \<Longrightarrow> table_evolves R xs (xs @ ys)"
  by (simp add: table_evolves_def nth_append)

lemma table_evolves_update_where:
  "(\<And>x. R x x) \<Longrightarrow> (\<And>x. x \<in> set xs \<Longrightarrow> P x \<Longrightarrow> R x (f x)) \<Longrightarrow> table_evolves R xs (update_where P f xs)"
  by (simp add: table_evolves_def update_where_def)

lemma table_evolves_mem:
  "table_evolves R xs ys \<Longrightarrow> x \<in> set xs \<Longrightarrow> \<exists>y\<in>set ys. R x y"
  unfolding table_evolves_def in_set_conv_nth by (meson nth_mem order_less_le_trans)

section \<open>One change of one row\<close>

text \<open>
  \<open>row_change ident key R k xs ys\<close>: a table with primary key \<open>ident\<close> and a unique \<open>key\<close> has changed at
  most in the row of the key \<open>k\<close>: one was appended under unused keys, or the stored one developed along
  \<open>R\<close>.
\<close>

definition row_change ::
    "('a \<Rightarrow> 'i) \<Rightarrow> ('a \<Rightarrow> 'k) \<Rightarrow> ('a \<Rightarrow> 'a \<Rightarrow> bool) \<Rightarrow> 'k \<Rightarrow> 'a list \<Rightarrow> 'a list \<Rightarrow> bool" where
  "row_change ident key R k xs ys \<longleftrightarrow>
     ys = xs
   \<or> (\<exists>x. ys = xs @ [x] \<and> key x = k \<and> ident x \<notin> set (map ident xs) \<and> key x \<notin> set (map key xs))
   \<or> (\<exists>old\<in>set xs. \<exists>P f. key old = k \<and> (\<forall>x. P x \<longrightarrow> ident x = ident old)
        \<and> (\<forall>x. ident (f x) = ident x \<and> key (f x) = key x) \<and> (\<forall>x. P x \<longrightarrow> R x (f x))
        \<and> ys = update_where P f xs)"

lemma row_change_refl [simp]: "row_change ident key R k xs xs"
  by (simp add: row_change_def)

lemma row_change_append:
  "key x = k \<Longrightarrow> ident x \<notin> set (map ident xs) \<Longrightarrow> key x \<notin> set (map key xs) \<Longrightarrow>
   row_change ident key R k xs (xs @ [x])"
  unfolding row_change_def by blast

lemma row_change_update:
  assumes "old \<in> set xs" "key old = k" "\<And>x. P x \<Longrightarrow> ident x = ident old"
    and "\<And>x. ident (f x) = ident x" "\<And>x. key (f x) = key x" "\<And>x. P x \<Longrightarrow> R x (f x)"
  shows "row_change ident key R k xs (update_where P f xs)"
  using assms unfolding row_change_def by blast

definition table_keys :: "('a \<Rightarrow> 'i) \<Rightarrow> ('a \<Rightarrow> 'k) \<Rightarrow> 'a list \<Rightarrow> bool" where
  "table_keys ident key xs \<longleftrightarrow> distinct (map ident xs) \<and> distinct (map key xs)"

lemma row_change_keys:
  assumes "row_change ident key R k xs ys" "table_keys ident key xs"
  shows "table_keys ident key ys"
  using assms by (auto simp: row_change_def table_keys_def map_update_where)

lemma row_change_evolves:
  assumes "row_change ident key R k xs ys" "\<And>x. R x x"
  shows "table_evolves R xs ys"
  using assms
  by (auto simp: row_change_def intro: table_evolves_refl table_evolves_append intro!: table_evolves_update_where)

lemma row_change_key_set:
  assumes "row_change ident key R k xs ys"
  shows "key ` set ys \<subseteq> insert k (key ` set xs)"
  using assms by (fastforce simp: row_change_def set_update_where)

text \<open>The rows of all other keys stay as they were.\<close>

lemma row_change_others:
  assumes "row_change ident key R k xs ys" "table_keys ident key xs" "key x \<noteq> k"
  shows "x \<in> set ys \<longleftrightarrow> x \<in> set xs"
proof -
  consider "ys = xs" | z where "ys = xs @ [z]" "key z = k"
    | old P f where "old \<in> set xs" "key old = k" "\<forall>x. P x \<longrightarrow> ident x = ident old"
        "\<forall>x. ident (f x) = ident x \<and> key (f x) = key x" "ys = update_where P f xs"
    using assms(1) unfolding row_change_def by blast
  then show ?thesis
  proof cases
    case 3
    have d: "distinct (map ident xs)"
      using assms(2) by (simp add: table_keys_def)
    have e: "key y = k" if "y \<in> set xs" "P y" for y
      using distinct_map_inj [OF d that(1) 3(1)] 3(2,3) that(2) by metis
    show ?thesis
    proof
      assume "x \<in> set ys"
      then have "x \<in> set (update_where P f xs)" by (simp only: 3(5))
      then show "x \<in> set xs" by (cases rule: update_whereE) (use e 3(4) assms(3) in force)+
    next
      assume x: "x \<in> set xs"
      with e assms(3) have "\<not> P x" by blast
      with x show "x \<in> set ys" unfolding 3(5) set_update_where by force
    qed
  qed (use assms(3) in auto)
qed

text \<open>An update by the primary key of a known row gives that row's new value.\<close>

lemma updated_row:
  assumes "\<exists>old\<in>set xs. ident old = ident x \<and> Q old \<and> y = f old \<and> R
      \<and> ys = update_where (\<lambda>z. ident z = ident x \<and> Q z) f xs"
    and "table_keys ident key xs" "x \<in> set xs"
  shows "y = f x \<and> y \<in> set ys"
proof -
  obtain old where o: "old \<in> set xs" "ident old = ident x" "Q old" "y = f old"
    "ys = update_where (\<lambda>z. ident z = ident x \<and> Q z) f xs"
    using assms(1) by blast
  have "distinct (map ident xs)"
    using assms(2) by (simp add: table_keys_def)
  with o assms(3) have "old = x" by (auto dest: distinct_map_inj)
  with o show ?thesis by (auto simp: set_update_where image_iff)
qed

end
