(* ===== verification/GoStrings.thy ===== *)
theory GoStrings
  imports Prelude
begin

text \<open>
  Go's strings and the functions of \<open>strings\<close>, \<open>unicode/utf8\<close>, \<open>path\<close> and \<open>sort\<close> the
  program uses. A Go string is a byte sequence: here a \<open>string\<close>, whose characters are bytes, so
  \<open>length\<close> is Go's \<open>len\<close>. White space and runes are recognised on the UTF-8 encoding.
\<close>

section \<open>strings.TrimSpace\<close>

definition ascii_space :: "char \<Rightarrow> bool" where
  "ascii_space c \<longleftrightarrow> c = CHR 0x09 \<or> c = CHR 0x0A \<or> c = CHR 0x0B \<or> c = CHR 0x0C \<or> c = CHR 0x0D \<or> c = CHR 0x20"

text \<open>The two- and three-byte encodings of the runes for which \<open>unicode.IsSpace\<close> holds.\<close>

definition space2 :: "char \<Rightarrow> char \<Rightarrow> bool" where
  "space2 a b \<longleftrightarrow> a = CHR 0xC2 \<and> (b = CHR 0x85 \<or> b = CHR 0xA0)"

definition space3 :: "char \<Rightarrow> char \<Rightarrow> char \<Rightarrow> bool" where
  "space3 a b c \<longleftrightarrow>
     a = CHR 0xE1 \<and> b = CHR 0x9A \<and> c = CHR 0x80
   \<or> a = CHR 0xE2 \<and> b = CHR 0x80 \<and>
       (CHR 0x80 \<le> c \<and> c \<le> CHR 0x8A \<or> c = CHR 0xA8 \<or> c = CHR 0xA9 \<or> c = CHR 0xAF)
   \<or> a = CHR 0xE2 \<and> b = CHR 0x81 \<and> c = CHR 0x9F
   \<or> a = CHR 0xE3 \<and> b = CHR 0x80 \<and> c = CHR 0x80"

fun trim_left :: "string \<Rightarrow> string" where
  "trim_left [] = []"
| "trim_left [a] = (if ascii_space a then [] else [a])"
| "trim_left [a, b] =
     (if ascii_space a then trim_left [b] else if space2 a b then [] else [a, b])"
| "trim_left (a # b # c # r) =
     (if ascii_space a then trim_left (b # c # r)
      else if space2 a b then trim_left (c # r)
      else if space3 a b c then trim_left r
      else a # b # c # r)"

text \<open>The same from the right end: the argument is the reversed string.\<close>

fun trim_left_rev :: "string \<Rightarrow> string" where
  "trim_left_rev [] = []"
| "trim_left_rev [a] = (if ascii_space a then [] else [a])"
| "trim_left_rev [a, b] =
     (if ascii_space a then trim_left_rev [b] else if space2 b a then [] else [a, b])"
| "trim_left_rev (a # b # c # r) =
     (if ascii_space a then trim_left_rev (b # c # r)
      else if space2 b a then trim_left_rev (c # r)
      else if space3 c b a then trim_left_rev r
      else a # b # c # r)"

definition trim_space :: "string \<Rightarrow> string" where
  "trim_space s = rev (trim_left_rev (rev (trim_left s)))"

abbreviation blank :: "string \<Rightarrow> bool" where
  "blank s \<equiv> trim_space s = []"

lemma length_trim_left: "length (trim_left s) \<le> length s"
  by (induction s rule: trim_left.induct) auto

lemma length_trim_left_rev: "length (trim_left_rev s) \<le> length s"
  by (induction s rule: trim_left_rev.induct) auto

lemma length_trim_space: "length (trim_space s) \<le> length s"
  using length_trim_left_rev [of "rev (trim_left s)"] length_trim_left [of s]
  by (simp add: trim_space_def)

lemma trim_space_Nil [simp]: "trim_space [] = []"
  by (simp add: trim_space_def)

lemma not_blank_nonempty: "\<not> blank s \<Longrightarrow> s \<noteq> []"
  by auto

lemma trim_left_idem: "trim_left (trim_left s) = trim_left s"
  by (induction s rule: trim_left.induct) auto

lemma trim_left_rev_idem: "trim_left_rev (trim_left_rev s) = trim_left_rev s"
  by (induction s rule: trim_left_rev.induct) auto

lemma trim_left_prefix: "trim_left (p @ q) = p @ q \<Longrightarrow> trim_left p = p"
proof (cases p rule: trim_left.cases)
  case (2 a)
  assume "trim_left (p @ q) = p @ q"
  with 2 length_trim_left [of q] show ?thesis
    by (cases q; cases "tl q") (auto split: if_splits dest: arg_cong [where f = length])
next
  case (3 a b)
  assume t: "trim_left (p @ q) = p @ q"
  with 3 length_trim_left [of "b # q"] length_trim_left [of q] show ?thesis
    by (cases q) (auto split: if_splits dest: arg_cong [where f = length])
next
  case (4 a b c r)
  assume t: "trim_left (p @ q) = p @ q"
  with 4 length_trim_left [of "b # c # r @ q"] length_trim_left [of "c # r @ q"] length_trim_left [of "r @ q"]
  show ?thesis
    by (auto split: if_splits dest: arg_cong [where f = length])
qed simp

lemma trim_left_rev_suffix: "\<exists>q. s = q @ trim_left_rev s"
  by (induction s rule: trim_left_rev.induct) (auto, (metis append_Cons append_Nil)+)

lemma trim_space_idem [simp]: "trim_space (trim_space s) = trim_space s"
proof -
  let ?t = "trim_left s"
  obtain q where "rev ?t = q @ trim_left_rev (rev ?t)" using trim_left_rev_suffix by blast
  then have "?t = trim_space s @ rev q"
    by (metis rev_append rev_rev_ident trim_space_def)
  then have "trim_left (trim_space s) = trim_space s"
    by (metis trim_left_idem trim_left_prefix)
  then show ?thesis
    by (simp add: trim_space_def trim_left_rev_idem)
qed
section \<open>Runes\<close>

abbreviation cont_byte :: "char \<Rightarrow> bool" where
  "cont_byte c \<equiv> CHR 0x80 \<le> c \<and> c \<le> CHR 0xBF"

text \<open>
  \<open>utf8.DecodeRune\<close>: the width of the first rune of a non-empty string and whether it is a
  valid encoding. An invalid byte is a rune error of width 1.
\<close>

definition decode_rune :: "string \<Rightarrow> nat \<times> bool" where
  "decode_rune s =
     (case s of
        [] \<Rightarrow> (0, False)
      | a # r \<Rightarrow>
          if a < CHR 0x80 then (1, True)
          else if CHR 0xC2 \<le> a \<and> a \<le> CHR 0xDF then
            (case r of b # _ \<Rightarrow> if cont_byte b then (2, True) else (1, False) | _ \<Rightarrow> (1, False))
          else if CHR 0xE0 \<le> a \<and> a \<le> CHR 0xEF then
            (case r of
               b # c # _ \<Rightarrow>
                 if (if a = CHR 0xE0 then CHR 0xA0 \<le> b \<and> b \<le> CHR 0xBF
                     else if a = CHR 0xED then CHR 0x80 \<le> b \<and> b \<le> CHR 0x9F
                     else cont_byte b) \<and> cont_byte c
                 then (3, True) else (1, False)
             | _ \<Rightarrow> (1, False))
          else if CHR 0xF0 \<le> a \<and> a \<le> CHR 0xF4 then
            (case r of
               b # c # d # _ \<Rightarrow>
                 if (if a = CHR 0xF0 then CHR 0x90 \<le> b \<and> b \<le> CHR 0xBF
                     else if a = CHR 0xF4 then CHR 0x80 \<le> b \<and> b \<le> CHR 0x8F
                     else cont_byte b) \<and> cont_byte c \<and> cont_byte d
                 then (4, True) else (1, False)
             | _ \<Rightarrow> (1, False))
          else (1, False))"

text \<open>
  \<open>len([]rune(s))\<close> and \<open>utf8.ValidString(s)\<close>: the first argument counts the bytes of the
  current rune that are still to be skipped.
\<close>

primrec rune_count_from :: "nat \<Rightarrow> string \<Rightarrow> nat" where
  "rune_count_from k [] = 0"
| "rune_count_from k (c # cs) =
     (if 0 < k then rune_count_from (k - 1) cs
      else Suc (rune_count_from (fst (decode_rune (c # cs)) - 1) cs))"

definition rune_count :: "string \<Rightarrow> nat" where
  "rune_count s = rune_count_from 0 s"

primrec utf8_valid_from :: "nat \<Rightarrow> string \<Rightarrow> bool" where
  "utf8_valid_from k [] = True"
| "utf8_valid_from k (c # cs) =
     (if 0 < k then utf8_valid_from (k - 1) cs
      else snd (decode_rune (c # cs)) \<and> utf8_valid_from (fst (decode_rune (c # cs)) - 1) cs)"

definition utf8_valid :: "string \<Rightarrow> bool" where
  "utf8_valid s = utf8_valid_from 0 s"

lemma rune_count_from_le: "rune_count_from k s \<le> length s"
  by (induction s arbitrary: k) (auto simp: le_SucI)

lemma rune_count_le: "rune_count s \<le> length s"
  by (simp add: rune_count_def rune_count_from_le)

section \<open>Letters\<close>

definition lower_char :: "char \<Rightarrow> char" where
  "lower_char c =
     (if CHR ''A'' \<le> c \<and> c \<le> CHR ''Z'' then char_of (of_char c + 32 :: nat) else c)"

definition is_ascii :: "string \<Rightarrow> bool" where
  "is_ascii s = list_all (\<lambda>c. c < CHR 0x80) s"

text \<open>
  \<open>strings.ToLower\<close>. Its ASCII path is written out; a string with a byte beyond ASCII goes
  through the Unicode tables of the runtime, which are the parameter \<open>ulower\<close>.
\<close>

definition to_lower :: "(string \<Rightarrow> string) \<Rightarrow> string \<Rightarrow> string" where
  "to_lower ulower s = (if is_ascii s then map lower_char s else ulower s)"

section \<open>Prefixes, suffixes and paths\<close>

definition has_prefix :: "string \<Rightarrow> string \<Rightarrow> bool" where
  "has_prefix s p \<longleftrightarrow> take (length p) s = p"

definition has_suffix :: "string \<Rightarrow> string \<Rightarrow> bool" where
  "has_suffix s p \<longleftrightarrow> has_prefix (rev s) (rev p)"

fun contains :: "string \<Rightarrow> string \<Rightarrow> bool" where
  "contains [] p = (p = [])"
| "contains (c # cs) p = (has_prefix (c # cs) p \<or> contains cs p)"

text \<open>\<open>strings.TrimSuffix(s, "/")\<close> and \<open>strings.Trim(s, "/")\<close>.\<close>

definition trim_suffix_slash :: "string \<Rightarrow> string" where
  "trim_suffix_slash s = (if s \<noteq> [] \<and> last s = CHR ''/'' then butlast s else s)"

definition trim_slashes :: "string \<Rightarrow> string" where
  "trim_slashes s =
     rev (dropWhile (\<lambda>c. c = CHR ''/'') (rev (dropWhile (\<lambda>c. c = CHR ''/'') s)))"

text \<open>\<open>strings.Split(s, "/")\<close>.\<close>

fun split_slash :: "string \<Rightarrow> string list" where
  "split_slash [] = [[]]"
| "split_slash (c # cs) =
     (if c = CHR ''/'' then [] # split_slash cs
      else (case split_slash cs of [] \<Rightarrow> [[c]] | x # xs \<Rightarrow> (c # x) # xs))"

fun join_slash :: "string list \<Rightarrow> string" where
  "join_slash [] = []"
| "join_slash [x] = x"
| "join_slash (x # y # ys) = x @ CHR ''/'' # join_slash (y # ys)"

lemma split_slash_nonempty: "split_slash s \<noteq> []"
  by (induction s) (auto split: list.splits)

lemma join_split_slash: "join_slash (split_slash s) = s"
proof (induction s)
  case (Cons c cs)
  then show ?case
    using split_slash_nonempty [of cs]
    by (cases "split_slash cs" rule: join_slash.cases) auto
qed simp

lemma split_slash_no_slash: "x \<in> set (split_slash s) \<Longrightarrow> CHR ''/'' \<notin> set x"
  by (induction s arbitrary: x) (fastforce split: if_splits list.splits)+

lemma split_join_slash:
  "xs \<noteq> [] \<Longrightarrow> \<forall>x\<in>set xs. CHR ''/'' \<notin> set x \<Longrightarrow> split_slash (join_slash xs) = xs"
proof (induction xs rule: join_slash.induct)
  case (2 x)
  then have "CHR ''/'' \<notin> set x" by simp
  then show ?case by (induction x) auto
next
  case (3 x y ys)
  then have rest: "split_slash (join_slash (y # ys)) = y # ys" and "CHR ''/'' \<notin> set x" by auto
  from this(2) have "split_slash (x @ CHR ''/'' # join_slash (y # ys)) = x # split_slash (join_slash (y # ys))"
    by (induction x) auto
  with rest show ?case by simp
qed simp

text \<open>
  \<open>path.Clean\<close>: the lexical processing of its documentation, element by element; the stack
  holds the elements kept so far, the last one first.
\<close>

fun clean_elements :: "bool \<Rightarrow> string list \<Rightarrow> string list \<Rightarrow> string list" where
  "clean_elements rooted stk [] = rev stk"
| "clean_elements rooted stk (x # xs) =
     (if x = [] \<or> x = ''.'' then clean_elements rooted stk xs
      else if x = ''..'' then
        (case stk of
           [] \<Rightarrow> clean_elements rooted (if rooted then [] else [''..'']) xs
         | t # ts \<Rightarrow> if t = ''..'' then clean_elements rooted (''..'' # stk) xs
                    else clean_elements rooted ts xs)
      else clean_elements rooted (x # stk) xs)"

definition path_clean :: "string \<Rightarrow> string" where
  "path_clean s =
     (let rooted = (s \<noteq> [] \<and> hd s = CHR ''/'');
          body = join_slash (clean_elements rooted [] (split_slash s))
      in if rooted then CHR ''/'' # body else if body = [] then ''.'' else body)"

section \<open>Slices of identifiers\<close>

text \<open>\<open>unique\<close> of access/gate.go: the non-empty values, each at its first occurrence.\<close>

fun unique_from :: "string list \<Rightarrow> string list \<Rightarrow> string list" where
  "unique_from seen [] = []"
| "unique_from seen (v # vs) =
     (if v \<noteq> [] \<and> v \<notin> set seen then v # unique_from (v # seen) vs else unique_from seen vs)"

definition unique :: "string list \<Rightarrow> string list" where
  "unique values = unique_from [] values"

lemma set_unique_from: "set (unique_from seen vs) = {v \<in> set vs. v \<noteq> [] \<and> v \<notin> set seen}"
  by (induction vs arbitrary: seen) auto

lemma set_unique [simp]: "set (unique vs) = {v \<in> set vs. v \<noteq> []}"
  by (simp add: unique_def set_unique_from)

lemma distinct_unique_from: "distinct (unique_from seen vs)"
  by (induction vs arbitrary: seen) (auto simp: set_unique_from)

lemma distinct_unique [simp]: "distinct (unique vs)"
  by (simp add: unique_def distinct_unique_from)

lemma unique_from_fixpoint:
  "distinct vs \<Longrightarrow> [] \<notin> set vs \<Longrightarrow> set vs \<inter> set seen = {} \<Longrightarrow> unique_from seen vs = vs"
  by (induction vs arbitrary: seen) auto

lemma unique_fixpoint: "distinct vs \<Longrightarrow> [] \<notin> set vs \<Longrightarrow> unique vs = vs"
  by (simp add: unique_def unique_from_fixpoint)

lemma unique_idem: "unique (unique vs) = unique vs"
  by (rule unique_fixpoint) auto

lemma unique_Nil [simp]: "unique [] = []"
  by (simp add: unique_def)

section \<open>Random identifiers\<close>

text \<open>
  \<open>newGrantID\<close> and its copies: 16 random bytes, the version and variant bits forced, printed
  as 8-4-4-4-12 hexadecimal digits.
\<close>

unbundle bit_operations_syntax

definition hex_digit :: "nat \<Rightarrow> char" where
  "hex_digit n = char_of (if n < 10 then 48 + n else 87 + n)"

definition hex_byte :: "u8 \<Rightarrow> string" where
  "hex_byte b = [hex_digit (unat b div 16), hex_digit (unat b mod 16)]"

definition hex_bytes :: "u8 list \<Rightarrow> string" where
  "hex_bytes bs = concat (map hex_byte bs)"

definition format_uuid :: "u8 list \<Rightarrow> string" where
  "format_uuid raw =
     (let v = (raw[6 := (raw ! 6 AND 0x0F) OR 0x40])[8 := (raw ! 8 AND 0x3F) OR 0x80]
      in hex_bytes (take 4 v) @ ''-'' @ hex_bytes (take 2 (drop 4 v)) @ ''-''
       @ hex_bytes (take 2 (drop 6 v)) @ ''-'' @ hex_bytes (take 2 (drop 8 v)) @ ''-''
       @ hex_bytes (drop 10 v))"

text \<open>A code equation over integers, for the evaluation of witnesses.\<close>

definition hex_char :: "int \<Rightarrow> char" where
  "hex_char i =
     (if i = 0 then CHR ''0'' else if i = 1 then CHR ''1'' else if i = 2 then CHR ''2'' else if i = 3 then CHR ''3''
      else if i = 4 then CHR ''4'' else if i = 5 then CHR ''5'' else if i = 6 then CHR ''6'' else if i = 7 then CHR ''7''
      else if i = 8 then CHR ''8'' else if i = 9 then CHR ''9'' else if i = 10 then CHR ''a'' else if i = 11 then CHR ''b''
      else if i = 12 then CHR ''c'' else if i = 13 then CHR ''d'' else if i = 14 then CHR ''e'' else CHR ''f'')"

lemma hex_char_digit:
  assumes "n < 16"
  shows "hex_char (int n) = hex_digit n"
proof -
  have "list_all (\<lambda>n. hex_char (int n) = hex_digit n) [0..<16]" by code_simp
  with assms show ?thesis by (simp add: list_all_iff)
qed

lemma hex_byte_code [code]: "hex_byte b = (let i = uint b in [hex_char (i div 16), hex_char (i mod 16)])"
proof -
  have "unat b < 256" using unsigned_less [of b, where ?'a = nat] by simp
  then have "unat b div 16 < 16" "unat b mod 16 < 16" by simp_all
  then show ?thesis
    by (simp add: hex_byte_def Let_def zdiv_int zmod_int flip: hex_char_digit)
qed

lemma length_hex_bytes [simp]: "length (hex_bytes bs) = 2 * length bs"
  by (induction bs) (auto simp: hex_bytes_def hex_byte_def)

lemma length_format_uuid: "length raw = 16 \<Longrightarrow> length (format_uuid raw) = 36"
  by (simp add: format_uuid_def Let_def)

end
