(* ===== verification/Profiles.thy ===== *)
theory Profiles
  imports GoStrings
begin

text \<open>
  internal/profile and internal/notespolicy: the product profile of a knowledge base and the
  owner-only rules of Personal Notes. A Go string type with named constants is a datatype with one
  constructor per constant and one, \<open>...Other\<close>, for every other string, which a database row or a
  request can hold; the empty string is one of those.
\<close>

text \<open>An error answer of the gateway: its machine-readable code and its HTTP status.\<close>

datatype api_error = ApiError (err_code: string) (err_status: nat)

text \<open>
  \<open>http.Header.Get\<close>: the first value of a header, the empty string when it is absent.
\<close>

type_synonym headers = "string \<Rightarrow> string"

definition request_id :: "headers \<Rightarrow> string" where
  "request_id headers = trim_space (headers ''X-Request-ID'')"

datatype product_mode = ModePersonalNotes | ModeRAG | ModeOntology | ModeOther string

datatype access_policy = PolicyOwnerOnly | PolicyUpstream | PolicyOther string

record profile =
  pf_kb_id :: string
  pf_tenant_id :: u64
  pf_owner_user_id :: string
  pf_product_mode :: product_mode
  pf_schema_version :: int
  pf_access_policy :: access_policy
  pf_index_profile :: string
  pf_index_profile_version :: int
  pf_effective_config :: string
  pf_created_at :: time
  pf_updated_at :: time

datatype profile_error = ProfileNotFound | ProfileConflict | ProfileFailed

fun product_mode_supported :: "product_mode \<Rightarrow> bool" where
  "product_mode_supported (ModeOther _) = False"
| "product_mode_supported _ = True"

fun access_policy_supported :: "access_policy \<Rightarrow> bool" where
  "access_policy_supported (PolicyOther _) = False"
| "access_policy_supported _ = True"

fun expected_index_profile :: "product_mode \<Rightarrow> string" where
  "expected_index_profile ModePersonalNotes = ''notes_plain''"
| "expected_index_profile ModeRAG = ''plain''"
| "expected_index_profile _ = ''ontology_draft''"

text \<open>\<open>Profile.validate\<close>; \<open>json.Valid\<close> of the runtime is the parameter \<open>json_valid\<close>.\<close>

definition profile_valid :: "(string \<Rightarrow> bool) \<Rightarrow> profile \<Rightarrow> bool" where
  "profile_valid json_valid p \<longleftrightarrow>
     \<not> (blank (pf_kb_id p) \<or> blank (pf_owner_user_id p) \<or> pf_tenant_id p = 0)
   \<and> product_mode_supported (pf_product_mode p)
   \<and> access_policy_supported (pf_access_policy p)
   \<and> \<not> (pf_product_mode p = ModePersonalNotes \<and> pf_access_policy p \<noteq> PolicyOwnerOnly)
   \<and> \<not> (pf_index_profile p \<noteq> expected_index_profile (pf_product_mode p)
        \<or> pf_index_profile_version p < 1 \<or> \<not> json_valid (pf_effective_config p))
   \<and> \<not> pf_schema_version p < 0"

section \<open>notespolicy\<close>

datatype operation = OpRead | OpWrite | OpShare | OpPublish | OpOther string

record principal =
  pr_user_id :: string
  pr_tenant_id :: u64

datatype policy_error = PolicyDenied api_error | UnknownOperation

text \<open>\<open>Authorize\<close>: \<open>None\<close> is the nil error.\<close>

definition notes_authorize :: "profile \<Rightarrow> principal \<Rightarrow> operation \<Rightarrow> policy_error option" where
  "notes_authorize p who operation =
     (if pf_product_mode p \<noteq> ModePersonalNotes then None
      else if pf_access_policy p \<noteq> PolicyOwnerOnly then
        Some (PolicyDenied (ApiError ''security.profile_invalid'' 503))
      else if pr_user_id who \<noteq> pf_owner_user_id p \<or> pr_tenant_id who \<noteq> pf_tenant_id p then
        Some (PolicyDenied (ApiError ''resource.not_found'' 404))
      else (case operation of
              OpRead \<Rightarrow> None
            | OpWrite \<Rightarrow> None
            | OpShare \<Rightarrow> Some (PolicyDenied (ApiError ''personal_notes.sharing_disabled'' 403))
            | OpPublish \<Rightarrow> Some (PolicyDenied (ApiError ''personal_notes.sharing_disabled'' 403))
            | OpOther _ \<Rightarrow> Some UnknownOperation))"

lemma notes_authorize_owner_only:
  "pf_product_mode p = ModePersonalNotes \<Longrightarrow> notes_authorize p who op = None \<Longrightarrow>
   pr_user_id who = pf_owner_user_id p \<and> pr_tenant_id who = pf_tenant_id p
   \<and> pf_access_policy p = PolicyOwnerOnly \<and> op \<in> {OpRead, OpWrite}"
  by (auto simp: notes_authorize_def split: if_splits operation.splits)

end
