(* ===== verification/Ownership.thy ===== *)
theory Ownership
  imports Profiles
begin

text \<open>
  internal/ownership: who owns a knowledge base, from the upstream record and the product profile.
  WeKnora, which is not in the repository, is the parameter \<open>rd_upstream\<close>, a function of the
  requested ID and the forwarded headers.
\<close>

datatype upstream_error =
    UpstreamError (ue_code: string) (ue_status: nat)
  | TransportError

record knowledge_base =
  kb_id :: string
  kb_name :: string
  kb_type :: string
  kb_description :: string
  kb_tenant_id :: u64
  kb_creator_id :: string

datatype own_error = OwnInvalid | OwnNotFound | OwnUnavailable | OwnAdoptionRequired | OwnConflict

datatype own_source = OwnProductProfile | OwnUpstream

record ownership =
  own_kb_id :: string
  own_user_id :: string
  own_tenant_id :: u64
  own_product_mode :: product_mode
  own_source :: own_source

definition is_personal_notes :: "ownership \<Rightarrow> bool" where
  "is_personal_notes own \<longleftrightarrow> own_product_mode own = ModePersonalNotes"

record 's resolver =
  rd_profiles :: "string \<Rightarrow> 's \<Rightarrow> (profile_error, profile, 's) outcome"
  rd_upstream :: "string \<Rightarrow> headers \<Rightarrow> upstream_error + knowledge_base"

text \<open>
  \<open>Resolver.Resolve\<close>. An upstream 403 is reported as a missing knowledge base.
\<close>

fun hidden_upstream_error :: "upstream_error \<Rightarrow> bool" where
  "hidden_upstream_error (UpstreamError code status) = (code = ''upstream.not_found'' \<or> status = 403)"
| "hidden_upstream_error TransportError = False"

definition resolve ::
    "'s resolver \<Rightarrow> string \<Rightarrow> headers \<Rightarrow> 's \<Rightarrow> (own_error, ownership, 's) outcome" where
  "resolve r raw_id inbound s =
     (let kbid = trim_space raw_id in
      if kbid = [] then (Inl OwnInvalid, s)
      else case rd_upstream r kbid inbound of
        Inl e \<Rightarrow> (Inl (if hidden_upstream_error e then OwnNotFound else OwnUnavailable), s)
      | Inr kb \<Rightarrow>
          if kb_id kb \<noteq> kbid \<or> kb_tenant_id kb = 0 then (Inl OwnUnavailable, s)
          else if blank (kb_creator_id kb) then (Inl OwnAdoptionRequired, s)
          else (case rd_profiles r kbid s of
              (Inl ProfileNotFound, s1) \<Rightarrow>
                (Inr \<lparr>own_kb_id = kb_id kb, own_user_id = kb_creator_id kb,
                      own_tenant_id = kb_tenant_id kb, own_product_mode = ModeOther [],
                      own_source = OwnUpstream\<rparr>, s1)
            | (Inl _, s1) \<Rightarrow> (Inl OwnUnavailable, s1)
            | (Inr p, s1) \<Rightarrow>
                if pf_kb_id p \<noteq> kb_id kb \<or> pf_owner_user_id p \<noteq> kb_creator_id kb
                   \<or> pf_tenant_id p \<noteq> kb_tenant_id kb then (Inl OwnConflict, s1)
                else if \<not> product_mode_supported (pf_product_mode p) then (Inl OwnConflict, s1)
                else (Inr \<lparr>own_kb_id = kb_id kb, own_user_id = pf_owner_user_id p,
                           own_tenant_id = pf_tenant_id p, own_product_mode = pf_product_mode p,
                           own_source = OwnProductProfile\<rparr>, s1)))"

text \<open>
  What a resolved ownership guarantees: it is the upstream record of the trimmed ID, with a
  non-blank creator and a non-zero workspace.
\<close>

lemma resolve_Inr:
  assumes "resolve r raw_id inbound s = (Inr own, s1)"
  shows "\<exists>kb. rd_upstream r (trim_space raw_id) inbound = Inr kb \<and> kb_id kb = trim_space raw_id
     \<and> own_kb_id own = trim_space raw_id \<and> own_user_id own = kb_creator_id kb
     \<and> own_tenant_id own = kb_tenant_id kb \<and> own_tenant_id own \<noteq> 0 \<and> \<not> blank (own_user_id own)
     \<and> trim_space raw_id \<noteq> []"
  using assms
  by (auto simp: resolve_def Let_def split: if_splits sum.splits prod.splits profile_error.splits)

lemma resolve_state:
  "resolve r raw_id inbound s = (res, s1) \<Longrightarrow> s1 = s \<or> (\<exists>x. rd_profiles r (trim_space raw_id) s = (x, s1))"
  by (auto simp: resolve_def Let_def split: if_splits sum.splits prod.splits profile_error.splits)

end
