(* ===== verification/Grants.thy ===== *)
theory Grants
  imports Ownership
begin

text \<open>internal/grant/grant.go: explicit grants on a knowledge base, and when one is well formed.\<close>

datatype grant_error =
    GrantInvalid | GrantNotFound | GrantConflict | GrantRevisionConflict | GrantNotOwner
  | GrantPersonalNotes | GrantSubjectUnsupported | GrantAuditUnavailable
  | GrantOwnership own_error  \<comment> \<open>an ownership error passed on\<close>
  | GrantFailed               \<comment> \<open>a database or random-source error\<close>

datatype subject_type = SubjectUser | SubjectGroup | SubjectWorkspace | SubjectOther string

fun subject_type_valid :: "subject_type \<Rightarrow> bool" where
  "subject_type_valid (SubjectOther _) = False"
| "subject_type_valid _ = True"

datatype permission = PermissionViewer | PermissionEditor | PermissionOther string

definition permission_valid :: "permission \<Rightarrow> bool" where
  "permission_valid p \<longleftrightarrow> p = PermissionViewer \<or> p = PermissionEditor"

record grant =
  g_id :: string
  g_kb_id :: string
  g_subject_type :: subject_type
  g_subject_id :: string
  g_permission :: permission
  g_granted_by :: string
  g_created_at :: time
  g_updated_at :: time
  g_expires_at :: "time option"
  g_revoked_at :: "time option"
  g_revision :: int
  g_correlation_id :: string

definition grant_active :: "grant \<Rightarrow> time \<Rightarrow> bool" where
  "grant_active g at \<longleftrightarrow>
     g_revoked_at g = None \<and> (case g_expires_at g of None \<Rightarrow> True | Some e \<Rightarrow> at < e)"

definition grant_valid :: "grant \<Rightarrow> bool" where
  "grant_valid g \<longleftrightarrow>
     \<not> (blank (g_id g) \<or> blank (g_kb_id g) \<or> blank (g_subject_id g) \<or> blank (g_granted_by g)
        \<or> blank (g_correlation_id g) \<or> \<not> subject_type_valid (g_subject_type g)
        \<or> \<not> permission_valid (g_permission g))
   \<and> \<not> (g_revision g < 1 \<or> is_zero_time (g_created_at g) \<or> is_zero_time (g_updated_at g)
        \<or> g_updated_at g < g_created_at g)
   \<and> (case g_expires_at g of None \<Rightarrow> True | Some e \<Rightarrow> g_created_at g < e)
   \<and> (case g_revoked_at g of None \<Rightarrow> True | Some r \<Rightarrow> \<not> r < g_created_at g)"

lemma grant_valid_permission: "grant_valid g \<Longrightarrow> permission_valid (g_permission g)"
  by (simp add: grant_valid_def)

end
