(* ===== verification/Publications.thy ===== *)
theory Publications
  imports Ownership
begin

text \<open>
  internal/publication/publication.go: a publication of a knowledge base and its audience.
\<close>

datatype publication_error =
    PubInvalid | PubNotFound | PubConflict | PubRevisionConflict | PubNotOwner
  | PubPersonalNotes | PubUnavailable
  | PubOwnership own_error | PubFailed

datatype access_mode = AccessSubscriber | AccessOrganizationPublic | AccessOther string

definition access_mode_valid :: "access_mode \<Rightarrow> bool" where
  "access_mode_valid m \<longleftrightarrow> m = AccessSubscriber \<or> m = AccessOrganizationPublic"

datatype audience_type = AudienceOrganization | AudienceWorkspaceSet | AudienceOther string

record audience =
  aud_type :: audience_type
  aud_workspaces :: "u64 list"

fun workspace_ids_ok :: "u64 list \<Rightarrow> u64 list \<Rightarrow> bool" where
  "workspace_ids_ok seen [] = True"
| "workspace_ids_ok seen (w # ws) =
     (if w = 0 \<or> w \<in> set seen then False else workspace_ids_ok (w # seen) ws)"

definition audience_valid :: "audience \<Rightarrow> bool" where
  "audience_valid a =
     (if aud_type a = AudienceOrganization then aud_workspaces a = []
      else if aud_type a \<noteq> AudienceWorkspaceSet \<or> aud_workspaces a = []
              \<or> length (aud_workspaces a) > 100 then False
      else workspace_ids_ok [] (aud_workspaces a))"

definition audience_allows :: "audience \<Rightarrow> u64 \<Rightarrow> bool" where
  "audience_allows a w =
     (if w = 0 \<or> \<not> audience_valid a then False
      else if aud_type a = AudienceOrganization then True
      else w \<in> set (aud_workspaces a))"

definition audience_normalized :: "audience \<Rightarrow> audience" where
  "audience_normalized a = a\<lparr>aud_workspaces := sort (aud_workspaces a)\<rparr>"

datatype publication_status = StatusPublished | StatusUnpublished | PubStatusOther string

record publication =
  pub_id :: string
  pub_kb_id :: string
  pub_publisher_id :: string
  pub_publisher_tenant_id :: u64
  pub_title :: string
  pub_description :: string
  pub_tags :: "string list"
  pub_usage_guidance :: string
  pub_audience :: audience
  pub_access_mode :: access_mode
  pub_status :: publication_status
  pub_published_revision :: int
  pub_created_at :: time
  pub_published_at :: time
  pub_unpublished_at :: "time option"
  pub_updated_at :: time
  pub_row_version :: int
  pub_correlation_id :: string

definition published :: "publication \<Rightarrow> bool" where
  "published p \<longleftrightarrow> pub_status p = StatusPublished \<and> pub_unpublished_at p = None"

definition visible_to :: "publication \<Rightarrow> u64 \<Rightarrow> bool" where
  "visible_to p w \<longleftrightarrow> published p \<and> audience_allows (pub_audience p) w"

fun tags_ok :: "string list \<Rightarrow> string list \<Rightarrow> bool" where
  "tags_ok seen [] = True"
| "tags_ok seen (t # ts) =
     (if trim_space t \<noteq> t \<or> t = [] \<or> rune_count t > 40 \<or> t \<in> set seen then False
      else tags_ok (t # seen) ts)"

definition publication_valid :: "publication \<Rightarrow> bool" where
  "publication_valid p \<longleftrightarrow>
     \<not> (blank (pub_id p) \<or> length (pub_id p) > 36 \<or> blank (pub_kb_id p) \<or> length (pub_kb_id p) > 36
        \<or> blank (pub_publisher_id p) \<or> length (pub_publisher_id p) > 512 \<or> pub_publisher_tenant_id p = 0
        \<or> blank (pub_title p) \<or> rune_count (pub_title p) > 160 \<or> rune_count (pub_description p) > 2000
        \<or> rune_count (pub_usage_guidance p) > 2000 \<or> length (pub_tags p) > 20
        \<or> \<not> audience_valid (pub_audience p) \<or> \<not> access_mode_valid (pub_access_mode p)
        \<or> (pub_status p \<noteq> StatusPublished \<and> pub_status p \<noteq> StatusUnpublished)
        \<or> pub_published_revision p < 1 \<or> pub_row_version p < 1
        \<or> is_zero_time (pub_created_at p) \<or> is_zero_time (pub_published_at p)
        \<or> is_zero_time (pub_updated_at p) \<or> pub_published_at p < pub_created_at p
        \<or> pub_updated_at p < pub_created_at p
        \<or> blank (pub_correlation_id p) \<or> length (pub_correlation_id p) > 128)
   \<and> \<not> ((pub_status p = StatusPublished \<and> pub_unpublished_at p \<noteq> None)
        \<or> (pub_status p = StatusUnpublished \<and> pub_unpublished_at p = None))
   \<and> (case pub_unpublished_at p of None \<Rightarrow> True | Some u \<Rightarrow> \<not> u < pub_published_at p)
   \<and> tags_ok [] (pub_tags p)"

section \<open>What validity and visibility mean\<close>

lemma workspace_ids_ok_iff:
  "workspace_ids_ok seen ws \<longleftrightarrow> distinct ws \<and> 0 \<notin> set ws \<and> set ws \<inter> set seen = {}"
  by (induction ws arbitrary: seen) auto

lemma tags_ok_iff:
  "tags_ok seen ts \<longleftrightarrow> distinct ts \<and> set ts \<inter> set seen = {}
     \<and> (\<forall>t\<in>set ts. trim_space t = t \<and> t \<noteq> [] \<and> rune_count t \<le> 40)"
  by (induction ts arbitrary: seen) auto

lemma audience_valid_normalized [simp]: "audience_valid (audience_normalized a) = audience_valid a"
proof -
  have "sort (aud_workspaces a) = [] \<longleftrightarrow> aud_workspaces a = []"
    by (metis set_empty set_sort)
  then show ?thesis
    by (simp add: audience_valid_def audience_normalized_def workspace_ids_ok_iff)
qed

lemma audience_allows_normalized [simp]:
  "audience_allows (audience_normalized a) w = audience_allows a w"
  by (simp add: audience_allows_def) (simp add: audience_normalized_def)

lemma visible_to_published: "visible_to p w \<Longrightarrow> published p"
  by (simp add: visible_to_def)

lemma visible_to_workspace: "visible_to p w \<Longrightarrow> w \<noteq> 0"
  by (auto simp: visible_to_def audience_allows_def split: if_splits)

end
