(* ===== verification/Subscriptions.thy ===== *)
theory Subscriptions
  imports Publications
begin

text \<open>internal/subscription/subscription.go: the follow relation between a user and a publication.\<close>

datatype subscription_error =
    SubInvalid | SubNotFound | SubUnavailable | SubPublication | SubOutsideAudience | SubOwner
  | SubFailed

datatype subscription_status = SubActive | SubInactive | SubUnsubscribed | SubStatusOther string

record subscription =
  sub_id :: string
  sub_publication_id :: string
  sub_subscriber_id :: string
  sub_subscriber_tenant_id :: u64
  sub_status :: subscription_status
  sub_notification_enabled :: bool
  sub_last_seen_revision :: int
  sub_created_at :: time
  sub_updated_at :: time
  sub_ended_at :: "time option"
  sub_correlation_id :: string

definition subscription_active :: "subscription \<Rightarrow> bool" where
  "subscription_active x \<longleftrightarrow> sub_status x = SubActive \<and> sub_ended_at x = None"

definition subscription_valid :: "subscription \<Rightarrow> bool" where
  "subscription_valid x \<longleftrightarrow>
     \<not> (blank (sub_id x) \<or> length (sub_id x) > 36
        \<or> blank (sub_publication_id x) \<or> length (sub_publication_id x) > 36
        \<or> blank (sub_subscriber_id x) \<or> length (sub_subscriber_id x) > 512
        \<or> sub_subscriber_tenant_id x = 0
        \<or> (sub_status x \<noteq> SubActive \<and> sub_status x \<noteq> SubInactive \<and> sub_status x \<noteq> SubUnsubscribed)
        \<or> sub_last_seen_revision x < 0
        \<or> is_zero_time (sub_created_at x) \<or> is_zero_time (sub_updated_at x)
        \<or> sub_updated_at x < sub_created_at x
        \<or> blank (sub_correlation_id x) \<or> length (sub_correlation_id x) > 128)
   \<and> \<not> ((sub_status x = SubActive \<and> sub_ended_at x \<noteq> None)
        \<or> (sub_status x \<noteq> SubActive \<and> sub_ended_at x = None))
   \<and> (case sub_ended_at x of None \<Rightarrow> True | Some e \<Rightarrow> \<not> e < sub_created_at x)"

lemma subscription_valid_active:
  "subscription_valid x \<Longrightarrow> subscription_active x \<longleftrightarrow> sub_status x = SubActive"
  by (auto simp: subscription_valid_def subscription_active_def)

end
