(* ===== verification/Json.thy ===== *)
theory Json
  imports GoStrings
begin

text \<open>
  JSON values, as \<open>encoding/json\<close> decodes them into \<open>any\<close>, and \<open>json.Marshal\<close> as far as the audit
  records use it. An object is the list of its members; a decoded Go map has each key once, and its
  iteration order is unspecified, so the theorems about traversals speak of sets. A number is its
  literal.
\<close>

datatype json =
    JNull
  | JBool bool
  | JNum string
  | JStr string
  | JArr "json list"
  | JObj "(string \<times> json) list"

fun is_object :: "json \<Rightarrow> bool" where
  "is_object (JObj _) = True"
| "is_object _ = False"

text \<open>Decimal digits of a Go integer.\<close>

function digits :: "int \<Rightarrow> string" where
  "digits i = (if i < 10 then [char_of (48 + i)] else digits (i div 10) @ [char_of (48 + i mod 10)])"
  by auto
termination by (relation "measure nat") auto

declare digits.simps [simp del]

definition itoa :: "int \<Rightarrow> string" where
  "itoa i = (if i < 0 then CHR ''-'' # digits (- i) else digits i)"

text \<open>
  \<open>time.Time\<close> in JSON: RFC 3339 in UTC with the fraction of the second down to the microsecond,
  its trailing zeros dropped. The date of a day number (counted from 1 March of the year 0) is
  computed by eras of 400 years.
\<close>

definition pad :: "nat \<Rightarrow> int \<Rightarrow> string" where
  "pad w n = (let d = digits n in replicate (w - length d) CHR ''0'' @ d)"

definition civil_date :: "int \<Rightarrow> int \<times> int \<times> int" where
  "civil_date z =
     (let era = z div 146097; doe = z mod 146097;
          yoe = (doe - doe div 1460 + doe div 36524 - doe div 146096) div 365;
          doy = doe - (365 * yoe + yoe div 4 - yoe div 100);
          mp = (5 * doy + 2) div 153;
          m = (if mp < 10 then mp + 3 else mp - 9)
      in (yoe + era * 400 + (if m \<le> 2 then 1 else 0), m, doy - (153 * mp + 2) div 5 + 1))"

definition format_time :: "time \<Rightarrow> string" where
  "format_time t =
     (let secs = t div 1000000; frac = t mod 1000000;
          (y, m, d) = civil_date (secs div 86400 + 306); sod = secs mod 86400
      in pad 4 y @ ''-'' @ pad 2 m @ ''-'' @ pad 2 d @ ''T'' @ pad 2 (sod div 3600) @ '':''
       @ pad 2 (sod div 60 mod 60) @ '':'' @ pad 2 (sod mod 60)
       @ (if frac = 0 then [] else CHR ''.'' # rev (dropWhile (\<lambda>c. c = CHR ''0'') (rev (pad 6 frac))))
       @ ''Z'')"

text \<open>
  The string escapes of \<open>json.Marshal\<close>: quote, backslash, the control characters, \<open><\<close>, \<open>>\<close> and
  \<open>&\<close>, the line separators U+2028 and U+2029, and U+FFFD for a byte that is not UTF-8.
\<close>

definition unicode_escape :: "nat \<Rightarrow> string" where
  "unicode_escape n = CHR 0x5C # ''u'' @
     [hex_digit (n div 4096 mod 16), hex_digit (n div 256 mod 16), hex_digit (n div 16 mod 16), hex_digit (n mod 16)]"

definition escape_ascii :: "char \<Rightarrow> string" where
  "escape_ascii c =
     (if c = CHR 0x22 then [CHR 0x5C, CHR 0x22]
      else if c = CHR 0x5C then [CHR 0x5C, CHR 0x5C]
      else if c = CHR 0x08 then [CHR 0x5C, CHR ''b'']
      else if c = CHR 0x0C then [CHR 0x5C, CHR ''f'']
      else if c = CHR 0x0A then [CHR 0x5C, CHR ''n'']
      else if c = CHR 0x0D then [CHR 0x5C, CHR ''r'']
      else if c = CHR 0x09 then [CHR 0x5C, CHR ''t'']
      else if c < CHR 0x20 \<or> c = CHR ''<'' \<or> c = CHR ''>'' \<or> c = CHR ''&'' then unicode_escape (of_char c)
      else [c])"

text \<open>The first argument counts the bytes of the current rune still to be copied or skipped.\<close>

primrec escape_from :: "nat \<times> bool \<Rightarrow> string \<Rightarrow> string" where
  "escape_from k [] = []"
| "escape_from k (c # cs) =
     (if 0 < fst k then (if snd k then c # escape_from (fst k - 1, True) cs else escape_from (fst k - 1, False) cs)
      else if c < CHR 0x80 then escape_ascii c @ escape_from (0, True) cs
      else if \<not> snd (decode_rune (c # cs)) then unicode_escape 0xFFFD @ escape_from (0, True) cs
      else if take 2 (c # cs) = [CHR 0xE2, CHR 0x80] \<and> cs ! 1 = CHR 0xA8 then unicode_escape 0x2028 @ escape_from (2, False) cs
      else if take 2 (c # cs) = [CHR 0xE2, CHR 0x80] \<and> cs ! 1 = CHR 0xA9 then unicode_escape 0x2029 @ escape_from (2, False) cs
      else c # escape_from (fst (decode_rune (c # cs)) - 1, True) cs)"

definition json_quote :: "string \<Rightarrow> string" where
  "json_quote s = CHR 0x22 # escape_from (0, True) s @ [CHR 0x22]"

fun join_comma :: "string list \<Rightarrow> string" where
  "join_comma [] = []"
| "join_comma [x] = x"
| "join_comma (x # y # ys) = x @ CHR '','' # join_comma (y # ys)"

fun json_marshal :: "json \<Rightarrow> string" where
  "json_marshal JNull = ''null''"
| "json_marshal (JBool b) = (if b then ''true'' else ''false'')"
| "json_marshal (JNum n) = n"
| "json_marshal (JStr s) = json_quote s"
| "json_marshal (JArr xs) = CHR ''['' # join_comma (map json_marshal xs) @ '']''"
| "json_marshal (JObj ms) =
     CHR ''{'' # join_comma (map (\<lambda>m. json_quote (fst m) @ CHR '':'' # json_marshal (snd m)) ms) @ ''}''"

text \<open>\<open>m[key]\<close>, \<open>m[key] = v\<close> and \<open>delete(m, key)\<close> on a decoded object.\<close>

definition obj_get :: "string \<Rightarrow> (string \<times> json) list \<Rightarrow> json option" where
  "obj_get k ms = map_of ms k"

definition obj_set :: "string \<Rightarrow> json \<Rightarrow> (string \<times> json) list \<Rightarrow> (string \<times> json) list" where
  "obj_set k v ms = (k, v) # filter (\<lambda>m. fst m \<noteq> k) ms"

definition obj_del :: "string \<Rightarrow> (string \<times> json) list \<Rightarrow> (string \<times> json) list" where
  "obj_del k ms = filter (\<lambda>m. fst m \<noteq> k) ms"

lemma map_of_filter_key: "map_of (filter (\<lambda>m. fst m \<noteq> k) ms) = (map_of ms)(k := None)"
  by (induction ms) (auto simp: fun_eq_iff)

lemma obj_get_set [go_simps]: "obj_get k (obj_set k' v ms) = (if k = k' then Some v else obj_get k ms)"
  by (simp add: obj_get_def obj_set_def map_of_filter_key)

lemma obj_get_del [go_simps]: "obj_get k (obj_del k' ms) = (if k = k' then None else obj_get k ms)"
  by (simp add: obj_get_def obj_del_def map_of_filter_key)

text \<open>\<open>s, _ := m[key].(string)\<close>: the string, or the empty string when there is none.\<close>

definition obj_string :: "string \<Rightarrow> (string \<times> json) list \<Rightarrow> string" where
  "obj_string k ms = (case obj_get k ms of Some (JStr s) \<Rightarrow> s | _ \<Rightarrow> [])"

end
