(* ===== verification/AuditEvents.thy ===== *)
theory AuditEvents
  imports Json Ownership
begin

text \<open>
  internal/audit and internal/agentaudit: the events of the two append-only audit trails and when
  one is well formed. A nil \<open>json.RawMessage\<close> is \<open>None\<close>; a present one is the JSON value it holds.
\<close>

datatype audit_error = AuditInvalid | AuditFailed

datatype audit_outcome = OutcomeSuccess | OutcomeDenied | OutcomeFailure | OutcomeOther string

fun outcome_known :: "audit_outcome \<Rightarrow> bool" where
  "outcome_known (OutcomeOther _) = False"
| "outcome_known _ = True"

record audit_event =
  ev_id :: string
  ev_tenant_id :: u64
  ev_kb_id :: string
  ev_actor_user_id :: string
  ev_action :: string
  ev_target_type :: string
  ev_target_id :: string
  ev_outcome :: audit_outcome
  ev_error_code :: string
  ev_correlation_id :: string
  ev_old_value :: "json option"
  ev_new_value :: "json option"
  ev_created_at :: time

definition audit_value_ok :: "json option \<Rightarrow> bool" where
  "audit_value_ok v =
     (case v of None \<Rightarrow> True | Some j \<Rightarrow> length (json_marshal j) \<le> 16384 \<and> is_object j)"

definition audit_event_valid :: "audit_event \<Rightarrow> bool" where
  "audit_event_valid e \<longleftrightarrow>
     \<not> (blank (ev_id e) \<or> length (ev_id e) > 36 \<or> ev_tenant_id e = 0
        \<or> blank (ev_kb_id e) \<or> length (ev_kb_id e) > 36
        \<or> blank (ev_actor_user_id e) \<or> length (ev_actor_user_id e) > 512
        \<or> blank (ev_action e) \<or> length (ev_action e) > 64
        \<or> blank (ev_target_type e) \<or> length (ev_target_type e) > 32
        \<or> blank (ev_target_id e) \<or> length (ev_target_id e) > 128
        \<or> blank (ev_correlation_id e) \<or> length (ev_correlation_id e) > 128
        \<or> is_zero_time (ev_created_at e))
   \<and> outcome_known (ev_outcome e)
   \<and> audit_value_ok (ev_old_value e) \<and> audit_value_ok (ev_new_value e)"

section \<open>agentaudit\<close>

datatype client_kind = ClientWeb | ClientMCP | ClientOther string

fun client_known :: "client_kind \<Rightarrow> bool" where
  "client_known (ClientOther _) = False"
| "client_known _ = True"

record agent_event =
  ag_id :: string
  ag_tenant_id :: u64
  ag_actor_user_id :: string
  ag_client_kind :: client_kind
  ag_operation :: string
  ag_kb_ids :: "string list"
  ag_outcome :: audit_outcome
  ag_error_code :: string
  ag_correlation_id :: string
  ag_duration :: int
  ag_created_at :: time

definition max_audit_scope :: nat where
  "max_audit_scope = 64"

fun scope_ids_ok :: "string list \<Rightarrow> string list \<Rightarrow> bool" where
  "scope_ids_ok seen [] = True"
| "scope_ids_ok seen (i # is) =
     (if blank i \<or> length i > 128 \<or> i \<in> set seen then False else scope_ids_ok (i # seen) is)"

definition agent_event_valid :: "agent_event \<Rightarrow> bool" where
  "agent_event_valid e \<longleftrightarrow>
     \<not> (blank (ag_id e) \<or> length (ag_id e) > 36 \<or> ag_tenant_id e = 0
        \<or> blank (ag_actor_user_id e) \<or> length (ag_actor_user_id e) > 512
        \<or> blank (ag_operation e) \<or> length (ag_operation e) > 64
        \<or> blank (ag_correlation_id e) \<or> length (ag_correlation_id e) > 128
        \<or> ag_duration e < 0 \<or> is_zero_time (ag_created_at e)
        \<or> length (ag_kb_ids e) > max_audit_scope)
   \<and> client_known (ag_client_kind e)
   \<and> outcome_known (ag_outcome e)
   \<and> scope_ids_ok [] (ag_kb_ids e)"

lemma agent_event_scope_bound: "agent_event_valid e \<Longrightarrow> length (ag_kb_ids e) \<le> max_audit_scope"
  by (simp add: agent_event_valid_def)

end
