(* ===== verification/NoteRevisions.thy ===== *)
theory NoteRevisions
  imports GoStrings
begin

text \<open>
  The rows of note/revision_repository.go: one immutable snapshot of a note per version.
  SHA-256 in hexadecimal is the parameter \<open>sha256hex\<close>, a function of the hashed bytes.
\<close>

datatype note_revision_error = NoteRevisionNotFound | NoteRevisionConflict | NoteRevisionFailed

record note_revision =
  nr_kb_id :: string
  nr_note_id :: string
  nr_version :: int
  nr_title :: string
  nr_content :: string
  nr_status :: string
  nr_operation :: string
  nr_restored_from :: "int option"
  nr_sha256 :: string
  nr_actor_user_id :: string
  nr_recorded_at :: time

definition max_note_bytes :: int where
  "max_note_bytes = 65536"

definition note_revision_valid :: "note_revision \<Rightarrow> bool" where
  "note_revision_valid r \<longleftrightarrow>
     \<not> (blank (nr_kb_id r) \<or> blank (nr_note_id r) \<or> nr_version r < 1 \<or> blank (nr_title r)
        \<or> blank (nr_content r) \<or> blank (nr_actor_user_id r))
   \<and> (nr_status r = ''draft'' \<or> nr_status r = ''publish'')
   \<and> nr_operation r \<in> set [''create'', ''edit'', ''import'', ''restore'', ''snapshot'']
   \<and> int (length (nr_content r)) \<le> max_note_bytes"

definition revision_hash :: "(string \<Rightarrow> string) \<Rightarrow> string \<Rightarrow> string \<Rightarrow> string \<Rightarrow> string" where
  "revision_hash sha256hex title content status =
     sha256hex (title @ CHR 0x00 # status @ CHR 0x00 # content)"

end
