(* ===== verification/Database.thy ===== *)
theory Database
  imports Grants Subscriptions AuditEvents NoteRevisions
begin

text \<open>
  The product schema \<open>mindcreek\<close> of the PostgreSQL database, as one record of tables, and the two
  sources of failure every repository call depends on. \<open>db_faults\<close> is the script of the
  connection: each statement takes its next entry, \<open>True\<close> means that the statement fails before it
  has an effect, and an exhausted script means no more failures. \<open>db_random\<close> is what
  \<open>crypto/rand\<close> will deliver: each read takes the next entry, and an entry that is not 16 bytes
  long (or none) is a failed read.
\<close>

record content_revision =
  cr_kb_id :: string
  cr_revision :: int
  cr_updated_at :: time

record activity =
  act_id :: string
  act_kb_id :: string
  act_actor_id :: string
  act_event_type :: string
  act_revision :: int
  act_summary :: string
  act_correlation_id :: string
  act_created_at :: time

record session_scope =
  ss_session_id :: string
  ss_kb_id :: string
  ss_first_recorded_at :: time
  ss_last_seen_at :: time

record database =
  db_profiles :: "profile list"
  db_grants :: "grant list"
  db_publications :: "publication list"
  db_subscriptions :: "subscription list"
  db_revisions :: "content_revision list"
  db_activities :: "activity list"
  db_sessions :: "session_scope list"
  db_note_revisions :: "note_revision list"
  db_audit :: "audit_event list"
  db_agent_audit :: "agent_event list"
  db_faults :: "bool list"
  db_random :: "u8 list list"

definition empty_database :: database where
  "empty_database = \<lparr>db_profiles = [], db_grants = [], db_publications = [], db_subscriptions = [],
     db_revisions = [], db_activities = [], db_sessions = [], db_note_revisions = [],
     db_audit = [], db_agent_audit = [], db_faults = [], db_random = []\<rparr>"

text \<open>The next statement: whether it reaches the database, and the script left.\<close>

definition statement :: "database \<Rightarrow> bool \<times> database" where
  "statement db = (case db_faults db of [] \<Rightarrow> (True, db) | f # fs \<Rightarrow> (\<not> f, db\<lparr>db_faults := fs\<rparr>))"

text \<open>
  A read and a write statement: \<open>failed\<close> is the error of a statement that does not reach the
  database; a write gives its own answer and the tables after it.
\<close>

definition query :: "'e \<Rightarrow> (database \<Rightarrow> 'e + 'a) \<Rightarrow> database \<Rightarrow> ('e, 'a, database) outcome" where
  "query failed select db =
     (if fst (statement db) then (select db, snd (statement db)) else (Inl failed, snd (statement db)))"

definition exec ::
    "'e \<Rightarrow> (database \<Rightarrow> ('e, 'a, database) outcome) \<Rightarrow> database \<Rightarrow> ('e, 'a, database) outcome" where
  "exec failed write db =
     (if fst (statement db) then write (snd (statement db)) else (Inl failed, snd (statement db)))"

text \<open>
  A transaction: begin, the statements of the body, commit. A failure of any of them rolls the
  tables back; what the connection and the random source delivered meanwhile is spent.
\<close>

definition rollback :: "database \<Rightarrow> database \<Rightarrow> database" where
  "rollback before after = before\<lparr>db_faults := db_faults after, db_random := db_random after\<rparr>"

definition transaction ::
    "'e \<Rightarrow> (database \<Rightarrow> ('e, 'a, database) outcome) \<Rightarrow> database \<Rightarrow> ('e, 'a, database) outcome" where
  "transaction failed body db =
     (if \<not> fst (statement db) then (Inl failed, snd (statement db))
      else case body (snd (statement db)) of
        (Inl e, db2) \<Rightarrow> (Inl e, rollback db db2)
      | (Inr x, db2) \<Rightarrow>
          if fst (statement db2) then (Inr x, snd (statement db2))
          else (Inl failed, rollback db (snd (statement db2))))"

text \<open>
  \<open>UPDATE ... SET f WHERE P RETURNING ...\<close> for a condition that matches at most one row, followed by
  the scan of the returned row. \<open>missing\<close> is the error for no row, \<open>ok\<close> are the constraints of the
  table; a scan that refuses the row does so after the write.
\<close>

definition update_returning ::
    "'e \<Rightarrow> 'e \<Rightarrow> (database \<Rightarrow> 'r list) \<Rightarrow> ('r list \<Rightarrow> database \<Rightarrow> database) \<Rightarrow> ('r \<Rightarrow> bool) \<Rightarrow>
     ('r \<Rightarrow> 'e + 'r) \<Rightarrow> ('r \<Rightarrow> bool) \<Rightarrow> ('r \<Rightarrow> 'r) \<Rightarrow> database \<Rightarrow> ('e, 'r, database) outcome" where
  "update_returning failed missing get put ok scan P f =
     exec failed (\<lambda>db.
       case find P (get db) of
         None \<Rightarrow> (Inl missing, db)
       | Some r \<Rightarrow>
           if \<not> ok (f r) then (Inl failed, db)
           else (scan (f r), put (update_where P f (get db)) db))"

text \<open>\<open>newGrantID\<close> and its copies in every package, on the next 16 random bytes.\<close>

definition new_id :: "database \<Rightarrow> string option \<times> database" where
  "new_id db = (case db_random db of
       [] \<Rightarrow> (None, db)
     | b # bs \<Rightarrow> (if length b = 16 then Some (format_uuid b) else None, db\<lparr>db_random := bs\<rparr>))"

text \<open>
  \<open>varchar(n)\<close>: PostgreSQL counts characters, and takes only valid UTF-8 without a NUL.
\<close>

definition pg_text :: "string \<Rightarrow> bool" where
  "pg_text s \<longleftrightarrow> utf8_valid s \<and> CHR 0x00 \<notin> set s"

definition varchar :: "nat \<Rightarrow> string \<Rightarrow> bool" where
  "varchar n s \<longleftrightarrow> rune_count s \<le> n \<and> pg_text s"

text \<open>A \<open>bigint\<close> addition fails when the result is out of range.\<close>

definition bigint_ok :: "int \<Rightarrow> bool" where
  "bigint_ok i \<longleftrightarrow> - max_int64 - 1 \<le> i \<and> i \<le> max_int64"

section \<open>Frames\<close>

lemma statement_tables [db_frames, simp]:
  "db_profiles (snd (statement db)) = db_profiles db" "db_grants (snd (statement db)) = db_grants db"
  "db_publications (snd (statement db)) = db_publications db"
  "db_subscriptions (snd (statement db)) = db_subscriptions db"
  "db_revisions (snd (statement db)) = db_revisions db"
  "db_activities (snd (statement db)) = db_activities db"
  "db_sessions (snd (statement db)) = db_sessions db"
  "db_note_revisions (snd (statement db)) = db_note_revisions db"
  "db_audit (snd (statement db)) = db_audit db"
  "db_agent_audit (snd (statement db)) = db_agent_audit db"
  "db_random (snd (statement db)) = db_random db"
  by (auto simp: statement_def split: list.splits)

lemma new_id_tables [db_frames, simp]:
  "db_profiles (snd (new_id db)) = db_profiles db" "db_grants (snd (new_id db)) = db_grants db"
  "db_publications (snd (new_id db)) = db_publications db"
  "db_subscriptions (snd (new_id db)) = db_subscriptions db"
  "db_revisions (snd (new_id db)) = db_revisions db"
  "db_activities (snd (new_id db)) = db_activities db"
  "db_sessions (snd (new_id db)) = db_sessions db"
  "db_note_revisions (snd (new_id db)) = db_note_revisions db"
  "db_audit (snd (new_id db)) = db_audit db"
  "db_agent_audit (snd (new_id db)) = db_agent_audit db"
  "db_faults (snd (new_id db)) = db_faults db"
  by (auto simp: new_id_def split: list.splits)

lemma statement_no_faults: "db_faults db = [] \<Longrightarrow> statement db = (True, db)"
  by (simp add: statement_def)

lemma snd_query [simp]: "snd (query e f db) = snd (statement db)"
  by (simp add: query_def)

lemma query_Inr: "query e f db = (Inr x, db1) \<Longrightarrow> f db = Inr x \<and> db1 = snd (statement db)"
  by (auto simp: query_def split: if_splits)

lemma query_Inl: "query e f db = (Inl x, db1) \<Longrightarrow> (x = e \<or> f db = Inl x) \<and> db1 = snd (statement db)"
  by (auto simp: query_def split: if_splits)

lemma exec_Inr: "exec e f db = (Inr x, db1) \<Longrightarrow> f (snd (statement db)) = (Inr x, db1)"
  by (auto simp: exec_def split: if_splits)

lemma exec_Inl:
  "exec e f db = (Inl x, db1) \<Longrightarrow>
   (x = e \<and> db1 = snd (statement db)) \<or> f (snd (statement db)) = (Inl x, db1)"
  by (auto simp: exec_def split: if_splits)

lemma query_ready: "db_faults db = [] \<Longrightarrow> query e f db = (f db, db)"
  by (simp add: query_def statement_no_faults)

lemma exec_ready: "db_faults db = [] \<Longrightarrow> exec e f db = f db"
  by (simp add: exec_def statement_no_faults)

lemma rollback_tables [db_frames, simp]:
  "db_profiles (rollback db db2) = db_profiles db" "db_grants (rollback db db2) = db_grants db"
  "db_publications (rollback db db2) = db_publications db"
  "db_subscriptions (rollback db db2) = db_subscriptions db"
  "db_revisions (rollback db db2) = db_revisions db"
  "db_activities (rollback db db2) = db_activities db"
  "db_sessions (rollback db db2) = db_sessions db"
  "db_note_revisions (rollback db db2) = db_note_revisions db"
  "db_audit (rollback db db2) = db_audit db"
  "db_agent_audit (rollback db db2) = db_agent_audit db"
  by (simp_all add: rollback_def)

lemma transaction_Inr:
  "transaction e body db = (Inr x, db1) \<Longrightarrow>
   \<exists>db2. body (snd (statement db)) = (Inr x, db2) \<and> db1 = snd (statement db2)"
  by (auto simp: transaction_def split: if_splits prod.splits sum.splits)

lemma transaction_Inl:
  "transaction e body db = (Inl x, db1) \<Longrightarrow> db1 = snd (statement db) \<or> (\<exists>db2. db1 = rollback db db2)"
  by (auto simp: transaction_def split: if_splits prod.splits sum.splits)

lemma update_returning_Inr:
  assumes "update_returning failed missing get put ok scan P f db = (Inr r, db1)"
  shows "\<exists>old\<in>set (get (snd (statement db))). P old \<and> ok (f old) \<and> scan (f old) = Inr r
     \<and> db1 = put (update_where P f (get (snd (statement db)))) (snd (statement db))"
  using exec_Inr [OF assms [unfolded update_returning_def]]
  by (auto split: option.splits if_splits dest!: find_in_set)

lemma update_returning_state:
  "update_returning failed missing get put ok scan P f db = (r, db1) \<Longrightarrow>
   db1 = snd (statement db) \<or> db1 = put (update_where P f (get (snd (statement db)))) (snd (statement db))"
  by (auto simp: update_returning_def exec_def split: if_splits option.splits)

lemma new_id_length: "new_id db = (Some i, db1) \<Longrightarrow> length i = 36"
  by (auto simp: new_id_def length_format_uuid split: list.splits if_splits)

end
