(* ===== verification/GrantRepository.thy ===== *)
theory GrantRepository
  imports Database
begin

text \<open>
  internal/grant/repository.go: the statements on \<open>mindcreek.kb_access_grants\<close> with the
  constraints of migration 000006, the interface \<open>Store\<close> the service sees, the contract of that
  interface, and the proof that the repository keeps it.
\<close>

section \<open>The interface\<close>

record 's grant_store =
  gs_create :: "grant \<Rightarrow> 's \<Rightarrow> (grant_error, grant, 's) outcome"
  gs_get :: "string \<Rightarrow> 's \<Rightarrow> (grant_error, grant, 's) outcome"
  gs_find_current :: "string \<Rightarrow> subject_type \<Rightarrow> string \<Rightarrow> 's \<Rightarrow> (grant_error, grant, 's) outcome"
  gs_list_current :: "string \<Rightarrow> 's \<Rightarrow> (grant_error, grant list, 's) outcome"
  gs_effective :: "string \<Rightarrow> string \<Rightarrow> time \<Rightarrow> 's \<Rightarrow> (grant_error, grant, 's) outcome"
  gs_update :: "string \<Rightarrow> int \<Rightarrow> permission \<Rightarrow> time option \<Rightarrow> string \<Rightarrow> time \<Rightarrow> 's \<Rightarrow> (grant_error, grant, 's) outcome"
  gs_revoke :: "string \<Rightarrow> int \<Rightarrow> string \<Rightarrow> time \<Rightarrow> 's \<Rightarrow> (grant_error, grant, 's) outcome"

section \<open>The table\<close>

definition grant_current :: "grant \<Rightarrow> bool" where
  "grant_current g \<longleftrightarrow> g_revoked_at g = None"

definition grant_subject :: "grant \<Rightarrow> string \<times> subject_type \<times> string" where
  "grant_subject g = (g_kb_id g, g_subject_type g, g_subject_id g)"

text \<open>The CHECK constraints and column types of migration 000006.\<close>

definition grant_row_ok :: "grant \<Rightarrow> bool" where
  "grant_row_ok g \<longleftrightarrow>
     varchar 36 (g_id g) \<and> varchar 36 (g_kb_id g) \<and> varchar 36 (g_subject_id g)
   \<and> varchar 36 (g_granted_by g) \<and> varchar 128 (g_correlation_id g)
   \<and> subject_type_valid (g_subject_type g) \<and> permission_valid (g_permission g)
   \<and> 0 < g_revision g \<and> bigint_ok (g_revision g)
   \<and> (case g_expires_at g of None \<Rightarrow> True | Some e \<Rightarrow> g_created_at g < e)
   \<and> (case g_revoked_at g of None \<Rightarrow> True | Some r \<Rightarrow> g_created_at g \<le> r)"

text \<open>The primary key and the unique index on the current subjects.\<close>

definition grants_unique :: "grant list \<Rightarrow> bool" where
  "grants_unique rows \<longleftrightarrow>
     distinct (map g_id rows) \<and> distinct (map grant_subject (filter grant_current rows))"

definition grant_duplicate :: "grant \<Rightarrow> grant list \<Rightarrow> bool" where
  "grant_duplicate g rows \<longleftrightarrow>
     g_id g \<in> set (map g_id rows)
   \<or> (grant_current g \<and> grant_subject g \<in> set (map grant_subject (filter grant_current rows)))"

section \<open>The statements\<close>

definition scan_grant :: "grant option \<Rightarrow> grant_error + grant" where
  "scan_grant row =
     (case row of None \<Rightarrow> Inl GrantNotFound
      | Some g \<Rightarrow> if grant_valid g then Inr g else Inl GrantInvalid)"

fun scan_grants :: "grant list \<Rightarrow> grant_error + grant list" where
  "scan_grants [] = Inr []"
| "scan_grants (g # gs) =
     (case scan_grant (Some g) of
        Inl e \<Rightarrow> Inl e
      | Inr x \<Rightarrow> (case scan_grants gs of Inl e \<Rightarrow> Inl e | Inr xs \<Rightarrow> Inr (x # xs)))"

definition repo_create :: "grant \<Rightarrow> database \<Rightarrow> (grant_error, grant, database) outcome" where
  "repo_create candidate db =
     (if \<not> grant_valid candidate then (Inl GrantInvalid, db)
      else exec GrantFailed
        (\<lambda>db. if \<not> grant_row_ok candidate then (Inl GrantFailed, db)
             else if grant_duplicate candidate (db_grants db) then (Inl GrantConflict, db)
             else (Inr candidate, db\<lparr>db_grants := db_grants db @ [candidate]\<rparr>)) db)"

definition repo_get :: "string \<Rightarrow> database \<Rightarrow> (grant_error, grant, database) outcome" where
  "repo_get gid = query GrantFailed (\<lambda>db. scan_grant (find (\<lambda>g. g_id g = gid) (db_grants db)))"

definition repo_find_current ::
    "string \<Rightarrow> subject_type \<Rightarrow> string \<Rightarrow> database \<Rightarrow> (grant_error, grant, database) outcome" where
  "repo_find_current kbid stype sid =
     query GrantFailed (\<lambda>db. scan_grant
       (find (\<lambda>g. g_kb_id g = kbid \<and> g_subject_type g = stype \<and> g_subject_id g = sid \<and> g_revoked_at g = None)
         (db_grants db)))"

text \<open>\<open>ORDER BY created_at, id\<close>.\<close>

definition repo_list_current :: "string \<Rightarrow> database \<Rightarrow> (grant_error, grant list, database) outcome" where
  "repo_list_current kbid =
     query GrantFailed (\<lambda>db. scan_grants
       (sort_key g_created_at (sort_key g_id
         (filter (\<lambda>g. g_kb_id g = kbid \<and> g_revoked_at g = None) (db_grants db)))))"

text \<open>\<open>ORDER BY CASE permission WHEN 'editor' THEN 0 ELSE 1 END LIMIT 1\<close>.\<close>

definition effective_row :: "string \<Rightarrow> string \<Rightarrow> time \<Rightarrow> grant list \<Rightarrow> grant option" where
  "effective_row kbid user at rows =
     (let live = filter (\<lambda>g. g_kb_id g = kbid \<and> g_subject_type g = SubjectUser \<and> g_subject_id g = user
                         \<and> g_revoked_at g = None
                         \<and> (case g_expires_at g of None \<Rightarrow> True | Some e \<Rightarrow> at < e)) rows
      in case find (\<lambda>g. g_permission g = PermissionEditor) live of
           Some g \<Rightarrow> Some g
         | None \<Rightarrow> (case live of [] \<Rightarrow> None | g # _ \<Rightarrow> Some g))"

definition repo_effective ::
    "string \<Rightarrow> string \<Rightarrow> time \<Rightarrow> database \<Rightarrow> (grant_error, grant, database) outcome" where
  "repo_effective kbid user at =
     query GrantFailed (\<lambda>db. scan_grant (effective_row kbid user at (db_grants db)))"

text \<open>
  The two updates: \<open>UPDATE ... SET f WHERE id = .. AND revision = .. AND revoked_at IS NULL
  RETURNING ...\<close>. The row is written when its constraints hold; the returned row is then scanned,
  so a row the program finds malformed is an error after the write.
\<close>

definition cas_matches :: "string \<Rightarrow> int \<Rightarrow> grant \<Rightarrow> bool" where
  "cas_matches gid expected g \<longleftrightarrow> g_id g = gid \<and> g_revision g = expected \<and> g_revoked_at g = None"

definition put_grants :: "grant list \<Rightarrow> database \<Rightarrow> database" where
  "put_grants rows db = db\<lparr>db_grants := rows\<rparr>"

definition cas_grant ::
    "string \<Rightarrow> int \<Rightarrow> (grant \<Rightarrow> grant) \<Rightarrow> database \<Rightarrow> (grant_error, grant, database) outcome" where
  "cas_grant gid expected =
     update_returning GrantFailed GrantRevisionConflict db_grants put_grants grant_row_ok
       (\<lambda>g. scan_grant (Some g)) (cas_matches gid expected)"

definition set_grant ::
    "permission \<Rightarrow> time option \<Rightarrow> string \<Rightarrow> time \<Rightarrow> grant \<Rightarrow> grant" where
  "set_grant perm expires correlation at g =
     g\<lparr>g_permission := perm, g_expires_at := expires, g_updated_at := at,
       g_revision := g_revision g + 1, g_correlation_id := correlation\<rparr>"

definition revoke_row :: "string \<Rightarrow> time \<Rightarrow> grant \<Rightarrow> grant" where
  "revoke_row correlation at g =
     g\<lparr>g_revoked_at := Some at, g_updated_at := at, g_revision := g_revision g + 1,
       g_correlation_id := correlation\<rparr>"

definition repo_update ::
    "string \<Rightarrow> int \<Rightarrow> permission \<Rightarrow> time option \<Rightarrow> string \<Rightarrow> time \<Rightarrow> database \<Rightarrow> (grant_error, grant, database) outcome" where
  "repo_update gid expected perm expires correlation at db =
     (if gid = [] \<or> expected < 1 \<or> \<not> permission_valid perm \<or> correlation = [] \<or> is_zero_time at
      then (Inl GrantInvalid, db)
      else cas_grant gid expected (set_grant perm expires correlation at) db)"

definition repo_revoke ::
    "string \<Rightarrow> int \<Rightarrow> string \<Rightarrow> time \<Rightarrow> database \<Rightarrow> (grant_error, grant, database) outcome" where
  "repo_revoke gid expected correlation at db =
     (if gid = [] \<or> expected < 1 \<or> correlation = [] \<or> is_zero_time at then (Inl GrantInvalid, db)
      else cas_grant gid expected (revoke_row correlation at) db)"

definition grant_repository :: "database grant_store" where
  "grant_repository = \<lparr>gs_create = repo_create, gs_get = repo_get, gs_find_current = repo_find_current,
     gs_list_current = repo_list_current, gs_effective = repo_effective,
     gs_update = repo_update, gs_revoke = repo_revoke\<rparr>"

section \<open>Facts about the table\<close>

lemma grants_unique_append:
  "grants_unique rows \<Longrightarrow> \<not> grant_duplicate g rows \<Longrightarrow> grants_unique (rows @ [g])"
  by (auto simp: grants_unique_def grant_duplicate_def)

lemma distinct_filter_update_where:
  assumes "distinct (map key (filter Q xs))"
    and "\<And>x. P x \<Longrightarrow> key (f x) = key x" and "\<And>x. P x \<Longrightarrow> Q (f x) \<Longrightarrow> Q x"
  shows "distinct (map key (filter Q (update_where P f xs)))"
    and "key ` set (filter Q (update_where P f xs)) \<subseteq> key ` set (filter Q xs)"
proof -
  show sub: "key ` set (filter Q (update_where P f xs)) \<subseteq> key ` set (filter Q xs)" for xs
    using assms(2,3) by (fastforce simp: set_update_where split: if_splits)
  show "distinct (map key (filter Q (update_where P f xs)))"
    using assms(1)
  proof (induction xs)
    case (Cons x xs)
    have "key ` set (filter Q (update_where P f xs)) \<subseteq> key ` set (filter Q xs)" by (rule sub)
    with Cons assms(2,3) [of x] show ?case by (cases "Q x"; cases "P x"; cases "Q (f x)") auto
  qed simp
qed

lemma grants_unique_update:
  assumes "grants_unique rows"
    and "\<And>g. g_id (f g) = g_id g" and "\<And>g. grant_subject (f g) = grant_subject g"
    and "\<And>g. P g \<Longrightarrow> grant_current (f g) \<Longrightarrow> grant_current g"
  shows "grants_unique (update_where P f rows)"
  using assms distinct_filter_update_where [of grant_subject grant_current rows P f]
  by (simp add: grants_unique_def map_update_where)

lemma set_grant_keys [simp]:
  "g_id (set_grant p e c t g) = g_id g" "grant_subject (set_grant p e c t g) = grant_subject g"
  "grant_current (set_grant p e c t g) = grant_current g"
  "g_revision (set_grant p e c t g) = g_revision g + 1"
  by (simp_all add: set_grant_def grant_subject_def grant_current_def)

lemma revoke_row_keys [simp]:
  "g_id (revoke_row c t g) = g_id g" "grant_subject (revoke_row c t g) = grant_subject g"
  "\<not> grant_current (revoke_row c t g)" "g_revision (revoke_row c t g) = g_revision g + 1"
  by (simp_all add: revoke_row_def grant_subject_def grant_current_def)

lemma scan_grant_Inr: "scan_grant row = Inr g \<longleftrightarrow> row = Some g \<and> grant_valid g"
  by (auto simp: scan_grant_def split: option.splits)

lemma scan_grant_NotFound: "scan_grant row = Inl GrantNotFound \<longleftrightarrow> row = None"
  by (auto simp: scan_grant_def split: option.splits)

lemma scan_grants_Inr: "scan_grants gs = Inr xs \<Longrightarrow> xs = gs \<and> (\<forall>g\<in>set gs. grant_valid g)"
  by (induction gs arbitrary: xs) (auto simp: scan_grant_def split: if_splits sum.splits)

lemma cas_grant_Inr:
  assumes "cas_grant gid expected f db = (Inr g, db1)"
  shows "\<exists>old\<in>set (db_grants db). cas_matches gid expected old \<and> g = f old \<and> grant_valid g
     \<and> db_grants db1 = update_where (cas_matches gid expected) f (db_grants db)"
  using update_returning_Inr [OF assms [unfolded cas_grant_def]]
  by (auto simp: scan_grant_Inr put_grants_def)

lemma effective_row_Some:
  "effective_row kbid user at rows = Some g \<Longrightarrow>
   g \<in> set rows \<and> g_kb_id g = kbid \<and> g_subject_type g = SubjectUser \<and> g_subject_id g = user
   \<and> grant_active g at"
proof -
  assume e: "effective_row kbid user at rows = Some g"
  let ?live = "filter (\<lambda>g. g_kb_id g = kbid \<and> g_subject_type g = SubjectUser \<and> g_subject_id g = user
    \<and> g_revoked_at g = None \<and> (case g_expires_at g of None \<Rightarrow> True | Some e \<Rightarrow> at < e)) rows"
  from e have "g \<in> set ?live"
    by (cases "find (\<lambda>g. g_permission g = PermissionEditor) ?live"; cases ?live)
       (auto simp: effective_row_def Let_def split: if_splits dest: find_in_set)
  then show ?thesis by (simp add: grant_active_def)
qed

lemma effective_row_None:
  "effective_row kbid user at rows = None \<longleftrightarrow>
   (\<forall>g\<in>set rows. g_kb_id g = kbid \<and> g_subject_type g = SubjectUser \<and> g_subject_id g = user
      \<longrightarrow> \<not> grant_active g at)"
proof -
  let ?live = "filter (\<lambda>g. g_kb_id g = kbid \<and> g_subject_type g = SubjectUser \<and> g_subject_id g = user
    \<and> g_revoked_at g = None \<and> (case g_expires_at g of None \<Rightarrow> True | Some e \<Rightarrow> at < e)) rows"
  have "effective_row kbid user at rows = None \<longleftrightarrow> ?live = []"
    by (cases ?live) (auto simp: effective_row_def Let_def split: option.splits)
  then show ?thesis by (auto simp: filter_empty_conv grant_active_def)
qed

section \<open>The contract of the interface\<close>

text \<open>
  What a reader of effective grants may rely on (\<open>authorization.GrantReader\<close>), then what the whole
  \<open>Store\<close> promises. \<open>rows\<close> abstracts a state of the store to the table it holds.
\<close>

locale effective_grants =
  fixes eff :: "string \<Rightarrow> string \<Rightarrow> time \<Rightarrow> 's \<Rightarrow> (grant_error, grant, 's) outcome"
    and rows :: "'s \<Rightarrow> grant list"
  assumes effective_frame: "rows (snd (eff k u t s)) = rows s"
    and effective_Inr: "eff k u t s = (Inr g, s1) \<Longrightarrow>
      g \<in> set (rows s) \<and> g_kb_id g = k \<and> g_subject_type g = SubjectUser \<and> g_subject_id g = u
      \<and> grant_active g t \<and> permission_valid (g_permission g)"
    and effective_NotFound: "eff k u t s = (Inl GrantNotFound, s1) \<Longrightarrow> g \<in> set (rows s) \<Longrightarrow>
      g_kb_id g = k \<Longrightarrow> g_subject_type g = SubjectUser \<Longrightarrow> g_subject_id g = u \<Longrightarrow> \<not> grant_active g t"
begin

lemma revoked_not_effective:
  assumes "\<And>g. g \<in> set (rows s) \<Longrightarrow> g_kb_id g = k \<Longrightarrow> g_subject_type g = SubjectUser \<Longrightarrow>
      g_subject_id g = u \<Longrightarrow> \<not> grant_active g t"
  shows "\<exists>e s1. eff k u t s = (Inl e, s1)"
proof (cases "eff k u t s")
  case (Pair r s1)
  with assms show ?thesis by (cases r) (auto dest!: effective_Inr)
qed

end

locale grant_contract = effective_grants "gs_effective st" rows
  for st :: "'s grant_store" and rows :: "'s \<Rightarrow> grant list" +
  assumes get_frame: "rows (snd (gs_get st i s)) = rows s"
    and find_frame: "rows (snd (gs_find_current st k ty u s)) = rows s"
    and list_frame: "rows (snd (gs_list_current st k s)) = rows s"
    and get_Inr: "gs_get st i s = (Inr g, s1) \<Longrightarrow> g \<in> set (rows s) \<and> g_id g = i"
    and find_Inr: "gs_find_current st k ty u s = (Inr g, s1) \<Longrightarrow>
      g \<in> set (rows s) \<and> g_kb_id g = k \<and> g_subject_type g = ty \<and> g_subject_id g = u \<and> grant_current g"
    and find_NotFound: "gs_find_current st k ty u s = (Inl GrantNotFound, s1) \<Longrightarrow> g \<in> set (rows s) \<Longrightarrow>
      grant_subject g = (k, ty, u) \<Longrightarrow> \<not> grant_current g"
    and list_Inr: "gs_list_current st k s = (Inr gs, s1) \<Longrightarrow>
      set gs = {g \<in> set (rows s). g_kb_id g = k \<and> grant_current g}"
    and create_Inr: "gs_create st g s = (Inr g', s1) \<Longrightarrow> g' = g \<and> rows s1 = rows s @ [g]"
    and create_Inl: "gs_create st g s = (Inl e, s1) \<Longrightarrow> rows s1 = rows s"
    and create_unique: "grants_unique (rows s) \<Longrightarrow> grants_unique (rows (snd (gs_create st g s)))"
    and update_Inr: "gs_update st i v p x c t s = (Inr g, s1) \<Longrightarrow>
      \<exists>old\<in>set (rows s). cas_matches i v old \<and> g = set_grant p x c t old
        \<and> rows s1 = update_where (cas_matches i v) (set_grant p x c t) (rows s)"
    and update_Inl: "gs_update st i v p x c t s = (Inl e, s1) \<Longrightarrow>
      rows s1 = rows s \<or> rows s1 = update_where (cas_matches i v) (set_grant p x c t) (rows s)"
    and revoke_Inr: "gs_revoke st i v c t s = (Inr g, s1) \<Longrightarrow>
      \<exists>old\<in>set (rows s). cas_matches i v old \<and> g = revoke_row c t old
        \<and> rows s1 = update_where (cas_matches i v) (revoke_row c t) (rows s)"
    and revoke_Inl: "gs_revoke st i v c t s = (Inl e, s1) \<Longrightarrow>
      rows s1 = rows s \<or> rows s1 = update_where (cas_matches i v) (revoke_row c t) (rows s)"

text \<open>The repository keeps it.\<close>

lemma repo_sel [simp]:
  "gs_create grant_repository = repo_create" "gs_get grant_repository = repo_get"
  "gs_find_current grant_repository = repo_find_current"
  "gs_list_current grant_repository = repo_list_current"
  "gs_effective grant_repository = repo_effective"
  "gs_update grant_repository = repo_update" "gs_revoke grant_repository = repo_revoke"
  by (simp_all add: grant_repository_def)

lemma repo_create_cases:
  "repo_create g db = (r, db1) \<Longrightarrow>
   (case r of Inl _ \<Rightarrow> db_grants db1 = db_grants db
    | Inr g' \<Rightarrow> g' = g \<and> grant_valid g \<and> \<not> grant_duplicate g (db_grants db)
        \<and> db_grants db1 = db_grants db @ [g])"
  by (auto simp: repo_create_def exec_def split: if_splits)

lemma repo_create_unique:
  "grants_unique (db_grants db) \<Longrightarrow> grants_unique (db_grants (snd (repo_create g db)))"
  using repo_create_cases [of g db] grants_unique_append
  by (cases "repo_create g db") (auto split: sum.splits)

lemma cas_grant_rows:
  "cas_grant i v f db = (r, db1) \<Longrightarrow>
   db_grants db1 = db_grants db \<or> db_grants db1 = update_where (cas_matches i v) f (db_grants db)"
  by (auto simp: cas_grant_def put_grants_def dest!: update_returning_state)

lemma repo_update_rows:
  "repo_update i v p x c t db = (r, db1) \<Longrightarrow>
   db_grants db1 = db_grants db \<or> db_grants db1 = update_where (cas_matches i v) (set_grant p x c t) (db_grants db)"
  by (auto simp: repo_update_def split: if_splits dest: cas_grant_rows)

lemma repo_revoke_rows:
  "repo_revoke i v c t db = (r, db1) \<Longrightarrow>
   db_grants db1 = db_grants db \<or> db_grants db1 = update_where (cas_matches i v) (revoke_row c t) (db_grants db)"
  by (auto simp: repo_revoke_def split: if_splits dest: cas_grant_rows)

lemma repo_update_Inr:
  "repo_update i v p x c t db = (Inr g, db1) \<Longrightarrow>
   \<exists>old\<in>set (db_grants db). cas_matches i v old \<and> g = set_grant p x c t old
     \<and> db_grants db1 = update_where (cas_matches i v) (set_grant p x c t) (db_grants db)"
  by (auto simp: repo_update_def split: if_splits dest!: cas_grant_Inr)

lemma repo_revoke_Inr:
  "repo_revoke i v c t db = (Inr g, db1) \<Longrightarrow>
   \<exists>old\<in>set (db_grants db). cas_matches i v old \<and> g = revoke_row c t old
     \<and> db_grants db1 = update_where (cas_matches i v) (revoke_row c t) (db_grants db)"
  by (auto simp: repo_revoke_def split: if_splits dest!: cas_grant_Inr)

interpretation eff: effective_grants repo_effective db_grants
proof
  show "db_grants (snd (repo_effective k u t s)) = db_grants s" for k u t s
    by (simp add: repo_effective_def)
next
  fix k u t s g s1
  assume "repo_effective k u t s = (Inr g, s1)"
  then show "g \<in> set (db_grants s) \<and> g_kb_id g = k \<and> g_subject_type g = SubjectUser \<and> g_subject_id g = u
      \<and> grant_active g t \<and> permission_valid (g_permission g)"
    using effective_row_Some grant_valid_permission
    by (fastforce simp: repo_effective_def scan_grant_Inr dest!: query_Inr)
next
  fix k u t s s1 g
  assume "repo_effective k u t s = (Inl GrantNotFound, s1)" "g \<in> set (db_grants s)"
    "g_kb_id g = k" "g_subject_type g = SubjectUser" "g_subject_id g = u"
  then show "\<not> grant_active g t"
    by (auto simp: repo_effective_def scan_grant_NotFound effective_row_None dest!: query_Inl)
qed

interpretation gc: grant_contract grant_repository db_grants
proof
  fix k u t s g s1
  show "db_grants (snd (gs_effective grant_repository k u t s)) = db_grants s"
    by (simp add: eff.effective_frame)
  show "gs_effective grant_repository k u t s = (Inr g, s1) \<Longrightarrow>
      g \<in> set (db_grants s) \<and> g_kb_id g = k \<and> g_subject_type g = SubjectUser \<and> g_subject_id g = u
      \<and> grant_active g t \<and> permission_valid (g_permission g)"
    by (simp add: eff.effective_Inr)
  show "gs_effective grant_repository k u t s = (Inl GrantNotFound, s1) \<Longrightarrow> g \<in> set (db_grants s) \<Longrightarrow>
      g_kb_id g = k \<Longrightarrow> g_subject_type g = SubjectUser \<Longrightarrow> g_subject_id g = u \<Longrightarrow> \<not> grant_active g t"
    using eff.effective_NotFound by simp
next
  fix i k u and ty :: subject_type and s :: database and g s1 gs
  show "db_grants (snd (gs_get grant_repository i s)) = db_grants s"
    and "db_grants (snd (gs_find_current grant_repository k ty u s)) = db_grants s"
    and "db_grants (snd (gs_list_current grant_repository k s)) = db_grants s"
    by (simp_all add: repo_get_def repo_find_current_def repo_list_current_def)
  show "gs_get grant_repository i s = (Inr g, s1) \<Longrightarrow> g \<in> set (db_grants s) \<and> g_id g = i"
    by (auto simp: repo_get_def scan_grant_Inr dest!: query_Inr find_in_set)
  show "gs_find_current grant_repository k ty u s = (Inr g, s1) \<Longrightarrow>
      g \<in> set (db_grants s) \<and> g_kb_id g = k \<and> g_subject_type g = ty \<and> g_subject_id g = u \<and> grant_current g"
    by (auto simp: repo_find_current_def scan_grant_Inr grant_current_def dest!: query_Inr find_in_set)
  show "gs_find_current grant_repository k ty u s = (Inl GrantNotFound, s1) \<Longrightarrow> g \<in> set (db_grants s) \<Longrightarrow>
      grant_subject g = (k, ty, u) \<Longrightarrow> \<not> grant_current g"
    by (auto simp: repo_find_current_def scan_grant_NotFound find_None grant_current_def grant_subject_def
        dest!: query_Inl)
  show "gs_list_current grant_repository k s = (Inr gs, s1) \<Longrightarrow>
      set gs = {g \<in> set (db_grants s). g_kb_id g = k \<and> grant_current g}"
    by (auto simp: repo_list_current_def grant_current_def dest!: query_Inr scan_grants_Inr)
next
  fix g s g' s1 e
  show "gs_create grant_repository g s = (Inr g', s1) \<Longrightarrow> g' = g \<and> db_grants s1 = db_grants s @ [g]"
    and "gs_create grant_repository g s = (Inl e, s1) \<Longrightarrow> db_grants s1 = db_grants s"
    by (auto dest!: repo_create_cases)
  show "grants_unique (db_grants s) \<Longrightarrow> grants_unique (db_grants (snd (gs_create grant_repository g s)))"
    by (simp add: repo_create_unique)
qed (simp_all add: repo_update_rows repo_update_Inr repo_revoke_rows repo_revoke_Inr)

end
