(* ===== verification/ProfileRepository.thy ===== *)
theory ProfileRepository
  imports Database
begin

text \<open>
  The repository of internal/profile on \<open>mindcreek.kb_profiles\<close> (migrations 000002 and 000005).
\<close>

definition profile_row_ok :: "profile \<Rightarrow> bool" where
  "profile_row_ok p \<longleftrightarrow>
     varchar 128 (pf_kb_id p) \<and> varchar 128 (pf_owner_user_id p)
   \<and> 0 < pf_schema_version p \<and> uint (pf_tenant_id p) \<le> max_int64"

definition profile_create ::
    "(string \<Rightarrow> bool) \<Rightarrow> time \<Rightarrow> profile \<Rightarrow> database \<Rightarrow> (profile_error, profile, database) outcome" where
  "profile_create json_valid now candidate db =
     (if \<not> profile_valid json_valid candidate then (Inl ProfileFailed, db)
      else let c1 = (if pf_schema_version candidate = 0 then candidate\<lparr>pf_schema_version := 1\<rparr> else candidate);
               c2 = (if is_zero_time (pf_created_at c1) then c1\<lparr>pf_created_at := now\<rparr> else c1);
               c3 = (if is_zero_time (pf_updated_at c2) then c2\<lparr>pf_updated_at := pf_created_at c2\<rparr> else c2)
           in exec ProfileFailed
             (\<lambda>db. if \<not> profile_row_ok c3 then (Inl ProfileFailed, db)
                  else if pf_kb_id c3 \<in> set (map pf_kb_id (db_profiles db)) then (Inl ProfileConflict, db)
                  else (Inr c3, db\<lparr>db_profiles := db_profiles db @ [c3]\<rparr>)) db)"

definition profile_get :: "string \<Rightarrow> database \<Rightarrow> (profile_error, profile, database) outcome" where
  "profile_get kbid db =
     (if blank kbid then (Inl ProfileNotFound, db)
      else query ProfileFailed
        (\<lambda>db. case find (\<lambda>p. pf_kb_id p = kbid) (db_profiles db) of
                None \<Rightarrow> Inl ProfileNotFound | Some p \<Rightarrow> Inr p) db)"

definition forbidden_personal_note_ids ::
    "string \<Rightarrow> database \<Rightarrow> (profile_error, string list, database) outcome" where
  "forbidden_personal_note_ids owner db =
     (if blank owner then (Inl ProfileFailed, db)
      else query ProfileFailed
        (\<lambda>db. Inr (map pf_kb_id (filter (\<lambda>p. pf_product_mode p = ModePersonalNotes
                                            \<and> pf_owner_user_id p \<noteq> owner) (db_profiles db)))) db)"

lemma profile_get_frame: "snd (profile_get kbid db) = db \<or> snd (profile_get kbid db) = snd (statement db)"
  by (simp add: profile_get_def)

lemma profile_get_tables [db_frames, simp]:
  "db_profiles (snd (profile_get k db)) = db_profiles db" "db_grants (snd (profile_get k db)) = db_grants db"
  "db_publications (snd (profile_get k db)) = db_publications db"
  "db_subscriptions (snd (profile_get k db)) = db_subscriptions db"
  "db_revisions (snd (profile_get k db)) = db_revisions db"
  "db_activities (snd (profile_get k db)) = db_activities db"
  "db_sessions (snd (profile_get k db)) = db_sessions db"
  "db_note_revisions (snd (profile_get k db)) = db_note_revisions db"
  "db_audit (snd (profile_get k db)) = db_audit db"
  "db_agent_audit (snd (profile_get k db)) = db_agent_audit db"
  "db_random (snd (profile_get k db)) = db_random db"
  by (simp_all add: profile_get_def)

text \<open>The owner resolver of the product: profiles from the database, records from WeKnora.\<close>

definition product_resolver ::
    "(string \<Rightarrow> headers \<Rightarrow> upstream_error + knowledge_base) \<Rightarrow> database resolver" where
  "product_resolver upstream = \<lparr>rd_profiles = profile_get, rd_upstream = upstream\<rparr>"

lemma resolve_tables [db_frames, simp]:
  "db_profiles (snd (resolve (product_resolver u) k h db)) = db_profiles db"
  "db_grants (snd (resolve (product_resolver u) k h db)) = db_grants db"
  "db_publications (snd (resolve (product_resolver u) k h db)) = db_publications db"
  "db_subscriptions (snd (resolve (product_resolver u) k h db)) = db_subscriptions db"
  "db_revisions (snd (resolve (product_resolver u) k h db)) = db_revisions db"
  "db_activities (snd (resolve (product_resolver u) k h db)) = db_activities db"
  "db_sessions (snd (resolve (product_resolver u) k h db)) = db_sessions db"
  "db_note_revisions (snd (resolve (product_resolver u) k h db)) = db_note_revisions db"
  "db_audit (snd (resolve (product_resolver u) k h db)) = db_audit db"
  "db_agent_audit (snd (resolve (product_resolver u) k h db)) = db_agent_audit db"
  "db_random (snd (resolve (product_resolver u) k h db)) = db_random db"
proof -
  obtain res db1 where e: "resolve (product_resolver u) k h db = (res, db1)" by fastforce
  then have "db1 = db \<or> (\<exists>x. profile_get (trim_space k) db = (x, db1))"
    by (auto dest: resolve_state simp: product_resolver_def)
  then have d: "db1 = db \<or> db1 = snd (profile_get (trim_space k) db)" by auto
  show "db_profiles (snd (resolve (product_resolver u) k h db)) = db_profiles db"
    "db_grants (snd (resolve (product_resolver u) k h db)) = db_grants db"
    "db_publications (snd (resolve (product_resolver u) k h db)) = db_publications db"
    "db_subscriptions (snd (resolve (product_resolver u) k h db)) = db_subscriptions db"
    "db_revisions (snd (resolve (product_resolver u) k h db)) = db_revisions db"
    "db_activities (snd (resolve (product_resolver u) k h db)) = db_activities db"
    "db_sessions (snd (resolve (product_resolver u) k h db)) = db_sessions db"
    "db_note_revisions (snd (resolve (product_resolver u) k h db)) = db_note_revisions db"
    "db_audit (snd (resolve (product_resolver u) k h db)) = db_audit db"
    "db_agent_audit (snd (resolve (product_resolver u) k h db)) = db_agent_audit db"
    "db_random (snd (resolve (product_resolver u) k h db)) = db_random db"
    using d by (auto simp: e)
qed

end
