(* ===== verification/AuditRepository.thy ===== *)
theory AuditRepository
  imports Database
begin

text \<open>
  The repositories of internal/audit and internal/agentaudit: inserts into the two append-only
  trails (migrations 000007 and 000009). A stored event has the generated ID; the agent trail keeps
  the sorted scope.
\<close>

type_synonym 's recorder = "audit_event \<Rightarrow> 's \<Rightarrow> (audit_error, unit, 's) outcome"
type_synonym 's agent_recorder = "agent_event \<Rightarrow> 's \<Rightarrow> (audit_error, unit, 's) outcome"

definition audit_row_ok :: "audit_event \<Rightarrow> bool" where
  "audit_row_ok e \<longleftrightarrow>
     varchar 36 (ev_id e) \<and> varchar 36 (ev_kb_id e) \<and> varchar 512 (ev_actor_user_id e)
   \<and> varchar 64 (ev_action e) \<and> varchar 32 (ev_target_type e) \<and> varchar 128 (ev_target_id e)
   \<and> varchar 128 (ev_error_code e) \<and> varchar 128 (ev_correlation_id e)
   \<and> uint (ev_tenant_id e) \<le> max_int64"

definition insert_audit :: "audit_event \<Rightarrow> database \<Rightarrow> (audit_error, unit, database) outcome" where
  "insert_audit e db =
     (if \<not> audit_event_valid e then (Inl AuditInvalid, db)
      else exec AuditFailed
        (\<lambda>db. if \<not> audit_row_ok e \<or> ev_id e \<in> set (map ev_id (db_audit db)) then (Inl AuditFailed, db)
             else (Inr (), db\<lparr>db_audit := db_audit db @ [e]\<rparr>)) db)"

definition audit_record :: "database recorder" where
  "audit_record e db =
     (if ev_id e = [] then
        (case new_id db of
           (None, db1) \<Rightarrow> (Inl AuditFailed, db1)
         | (Some i, db1) \<Rightarrow> insert_audit (e\<lparr>ev_id := i\<rparr>) db1)
      else insert_audit e db)"

definition agent_row_ok :: "agent_event \<Rightarrow> bool" where
  "agent_row_ok e \<longleftrightarrow>
     varchar 36 (ag_id e) \<and> varchar 512 (ag_actor_user_id e) \<and> varchar 64 (ag_operation e)
   \<and> varchar 128 (ag_error_code e) \<and> varchar 128 (ag_correlation_id e)
   \<and> uint (ag_tenant_id e) \<le> max_int64"

definition insert_agent_audit :: "agent_event \<Rightarrow> database \<Rightarrow> (audit_error, unit, database) outcome" where
  "insert_agent_audit e db =
     (if \<not> agent_event_valid e then (Inl AuditInvalid, db)
      else exec AuditFailed
        (\<lambda>db. if \<not> agent_row_ok e \<or> ag_id e \<in> set (map ag_id (db_agent_audit db)) then (Inl AuditFailed, db)
             else (Inr (), db\<lparr>db_agent_audit := db_agent_audit db @ [e\<lparr>ag_kb_ids := sort (ag_kb_ids e)\<rparr>]\<rparr>)) db)"

definition agent_audit_record :: "database agent_recorder" where
  "agent_audit_record e db =
     (if ag_id e = [] then
        (case new_id db of
           (None, db1) \<Rightarrow> (Inl AuditFailed, db1)
         | (Some i, db1) \<Rightarrow> insert_agent_audit (e\<lparr>ag_id := i\<rparr>) db1)
      else insert_agent_audit e db)"

section \<open>Frames and effects\<close>

lemma insert_audit_tables [simp]:
  "db_profiles (snd (insert_audit e db)) = db_profiles db" "db_grants (snd (insert_audit e db)) = db_grants db"
  "db_publications (snd (insert_audit e db)) = db_publications db"
  "db_subscriptions (snd (insert_audit e db)) = db_subscriptions db"
  "db_revisions (snd (insert_audit e db)) = db_revisions db"
  "db_activities (snd (insert_audit e db)) = db_activities db"
  "db_sessions (snd (insert_audit e db)) = db_sessions db"
  "db_note_revisions (snd (insert_audit e db)) = db_note_revisions db"
  "db_agent_audit (snd (insert_audit e db)) = db_agent_audit db"
  by (simp_all add: insert_audit_def exec_def)

lemma audit_record_state:
  "snd (audit_record e db) = snd (insert_audit e db) \<or> snd (audit_record e db) = snd (new_id db)
   \<or> (\<exists>e'. snd (audit_record e db) = snd (insert_audit e' (snd (new_id db))))"
  by (auto simp: audit_record_def split: prod.splits option.splits)

lemma audit_record_tables [db_frames, simp]:
  "db_profiles (snd (audit_record e db)) = db_profiles db" "db_grants (snd (audit_record e db)) = db_grants db"
  "db_publications (snd (audit_record e db)) = db_publications db"
  "db_subscriptions (snd (audit_record e db)) = db_subscriptions db"
  "db_revisions (snd (audit_record e db)) = db_revisions db"
  "db_activities (snd (audit_record e db)) = db_activities db"
  "db_sessions (snd (audit_record e db)) = db_sessions db"
  "db_note_revisions (snd (audit_record e db)) = db_note_revisions db"
  "db_agent_audit (snd (audit_record e db)) = db_agent_audit db"
  using audit_record_state [of e db] by auto

lemma insert_audit_log:
  "insert_audit e db = (r, db1) \<Longrightarrow>
   (case r of Inl _ \<Rightarrow> db_audit db1 = db_audit db
    | Inr _ \<Rightarrow> db_audit db1 = db_audit db @ [e] \<and> audit_event_valid e)"
  by (auto simp: insert_audit_def exec_def split: if_splits)

text \<open>A successful record appends exactly the event, under a generated ID when it had none.\<close>

lemma audit_record_log:
  assumes "audit_record e db = (r, db1)"
  shows "case r of Inl _ \<Rightarrow> db_audit db1 = db_audit db
    | Inr _ \<Rightarrow> \<exists>i. db_audit db1 = db_audit db @ [e\<lparr>ev_id := i\<rparr>] \<and> audit_event_valid (e\<lparr>ev_id := i\<rparr>)"
proof (cases "ev_id e = []")
  case True
  have n: "db_audit (snd (new_id db)) = db_audit db" by simp
  show ?thesis
  proof (cases "new_id db")
    case (Pair i db2)
    with True assms n show ?thesis
      by (cases i) (auto simp: audit_record_def dest!: insert_audit_log split: sum.splits)
  qed
next
  case False
  have "e\<lparr>ev_id := ev_id e\<rparr> = e" by simp
  with False assms show ?thesis
    by (auto simp: audit_record_def dest!: insert_audit_log split: sum.splits intro!: exI [of _ "ev_id e"])
qed

lemma insert_agent_audit_tables [simp]:
  "db_profiles (snd (insert_agent_audit e db)) = db_profiles db"
  "db_grants (snd (insert_agent_audit e db)) = db_grants db"
  "db_publications (snd (insert_agent_audit e db)) = db_publications db"
  "db_subscriptions (snd (insert_agent_audit e db)) = db_subscriptions db"
  "db_revisions (snd (insert_agent_audit e db)) = db_revisions db"
  "db_activities (snd (insert_agent_audit e db)) = db_activities db"
  "db_sessions (snd (insert_agent_audit e db)) = db_sessions db"
  "db_note_revisions (snd (insert_agent_audit e db)) = db_note_revisions db"
  "db_audit (snd (insert_agent_audit e db)) = db_audit db"
  by (simp_all add: insert_agent_audit_def exec_def)

lemma agent_audit_record_state:
  "snd (agent_audit_record e db) = snd (insert_agent_audit e db) \<or> snd (agent_audit_record e db) = snd (new_id db)
   \<or> (\<exists>e'. snd (agent_audit_record e db) = snd (insert_agent_audit e' (snd (new_id db))))"
  by (auto simp: agent_audit_record_def split: prod.splits option.splits)

lemma agent_audit_record_tables [db_frames, simp]:
  "db_profiles (snd (agent_audit_record e db)) = db_profiles db"
  "db_grants (snd (agent_audit_record e db)) = db_grants db"
  "db_publications (snd (agent_audit_record e db)) = db_publications db"
  "db_subscriptions (snd (agent_audit_record e db)) = db_subscriptions db"
  "db_revisions (snd (agent_audit_record e db)) = db_revisions db"
  "db_activities (snd (agent_audit_record e db)) = db_activities db"
  "db_sessions (snd (agent_audit_record e db)) = db_sessions db"
  "db_note_revisions (snd (agent_audit_record e db)) = db_note_revisions db"
  "db_audit (snd (agent_audit_record e db)) = db_audit db"
  using agent_audit_record_state [of e db] by auto

text \<open>An event whose scope is longer than the limit is refused and leaves the trail as it was.\<close>

lemma agent_audit_oversize:
  "length (ag_kb_ids e) > max_audit_scope \<Longrightarrow>
   \<exists>x. fst (agent_audit_record e db) = Inl x \<and> db_agent_audit (snd (agent_audit_record e db)) = db_agent_audit db"
  by (auto simp: agent_audit_record_def insert_agent_audit_def agent_event_valid_def new_id_def
      split: list.splits if_splits)

end
