(* ===== verification/GrantService.thy ===== *)
theory GrantService
  imports GrantRepository ProfileRepository AuditRepository
begin

text \<open>
  internal/grant/service.go: the owner's operations on the grants of a knowledge base. The service
  is a record of what the Go struct holds; \<open>gsv_now\<close> is the clock during the call. The contract of
  the store is the locale \<open>grant_contract\<close>, what the service needs of its other dependencies is the
  locale \<open>grant_service_deps\<close>; the theorems about the service are proved from these, and both are
  interpreted on the repository and on the product's wiring.
\<close>

section \<open>The operations\<close>

record create_request =
  crq_subject_type :: subject_type
  crq_subject_id :: string
  crq_permission :: permission
  crq_expires_at :: "time option"
  crq_correlation_id :: string

record update_request =
  urq_expected_revision :: int
  urq_permission :: permission
  urq_expires_at :: "time option"
  urq_correlation_id :: string

record revoke_request =
  rrq_expected_revision :: int
  rrq_correlation_id :: string

record 's grant_service =
  gsv_store :: "'s grant_store"
  gsv_owners :: "string \<Rightarrow> headers \<Rightarrow> 's \<Rightarrow> (own_error, ownership, 's) outcome"
  gsv_now :: time
  gsv_new_id :: "'s \<Rightarrow> string option \<times> 's"
  gsv_auditor :: "'s recorder option"

text \<open>The JSON of \<open>auditGrantValue\<close>; absent times are omitted.\<close>

fun subject_type_text :: "subject_type \<Rightarrow> string" where
  "subject_type_text SubjectUser = ''user''"
| "subject_type_text SubjectGroup = ''group''"
| "subject_type_text SubjectWorkspace = ''workspace''"
| "subject_type_text (SubjectOther s) = s"

fun permission_text :: "permission \<Rightarrow> string" where
  "permission_text PermissionViewer = ''viewer''"
| "permission_text PermissionEditor = ''editor''"
| "permission_text (PermissionOther s) = s"

definition time_member :: "string \<Rightarrow> time option \<Rightarrow> (string \<times> json) list" where
  "time_member key t = (case t of None \<Rightarrow> [] | Some x \<Rightarrow> [(key, JStr (format_time x))])"

definition audit_grant_value :: "grant \<Rightarrow> json" where
  "audit_grant_value g = JObj
     ([(''subject_type'', JStr (subject_type_text (g_subject_type g))),
       (''subject_id'', JStr (g_subject_id g)),
       (''permission'', JStr (permission_text (g_permission g)))]
      @ time_member ''expires_at'' (g_expires_at g) @ time_member ''revoked_at'' (g_revoked_at g)
      @ [(''revision'', JNum (itoa (g_revision g)))])"

text \<open>
  \<open>recordAudit\<close>: \<open>None\<close> stands for the zero \<open>Grant\<close>, whose ID is empty.
\<close>

definition grant_audit_event ::
    "ownership \<Rightarrow> principal \<Rightarrow> string \<Rightarrow> grant option \<Rightarrow> grant \<Rightarrow> string \<Rightarrow> time \<Rightarrow> audit_event" where
  "grant_audit_event own who action old new correlation at =
     \<lparr>ev_id = [], ev_tenant_id = own_tenant_id own, ev_kb_id = own_kb_id own,
      ev_actor_user_id = pr_user_id who, ev_action = action, ev_target_type = ''kb_grant'',
      ev_target_id = (if g_id new = [] then (case old of None \<Rightarrow> [] | Some g \<Rightarrow> g_id g) else g_id new),
      ev_outcome = OutcomeSuccess, ev_error_code = [], ev_correlation_id = correlation,
      ev_old_value = (case old of None \<Rightarrow> None | Some g \<Rightarrow> if g_id g = [] then None else Some (audit_grant_value g)),
      ev_new_value = (if g_id new = [] then None else Some (audit_grant_value new)),
      ev_created_at = at\<rparr>"

definition grant_record_audit ::
    "'s grant_service \<Rightarrow> audit_event \<Rightarrow> 's \<Rightarrow> (grant_error, unit, 's) outcome" where
  "grant_record_audit svc event s =
     (case gsv_auditor svc of
        None \<Rightarrow> (Inr (), s)
      | Some record \<Rightarrow>
          (case record event s of
             (Inl _, s1) \<Rightarrow> (Inl GrantAuditUnavailable, s1)
           | (Inr _, s1) \<Rightarrow> (Inr (), s1)))"

definition denied_event :: "string \<Rightarrow> ownership \<Rightarrow> principal \<Rightarrow> string \<Rightarrow> time \<Rightarrow> audit_event" where
  "denied_event action own who correlation at =
     \<lparr>ev_id = [], ev_tenant_id = own_tenant_id own, ev_kb_id = own_kb_id own,
      ev_actor_user_id = pr_user_id who, ev_action = action, ev_target_type = ''knowledge_base'',
      ev_target_id = own_kb_id own, ev_outcome = OutcomeDenied, ev_error_code = ''resource.not_found'',
      ev_correlation_id = correlation, ev_old_value = None, ev_new_value = None, ev_created_at = at\<rparr>"

definition record_denied_grant ::
    "'s grant_service \<Rightarrow> ownership \<Rightarrow> principal \<Rightarrow> headers \<Rightarrow> 's \<Rightarrow> 's" where
  "record_denied_grant svc own who inbound s =
     (case gsv_auditor svc of
        None \<Rightarrow> s
      | Some record \<Rightarrow>
          if blank (pr_user_id who) \<or> pr_tenant_id who = 0 then s
          else if request_id inbound = [] then s
          else snd (record (denied_event ''authorization.denied.manage_grants'' own who
                              (request_id inbound) (gsv_now svc)) s))"

definition require_owner ::
    "'s grant_service \<Rightarrow> string \<Rightarrow> principal \<Rightarrow> headers \<Rightarrow> 's \<Rightarrow> (grant_error, ownership, 's) outcome" where
  "require_owner svc kbid who inbound s =
     (if blank (pr_user_id who) \<or> pr_tenant_id who = 0 then (Inl GrantNotOwner, s)
      else case gsv_owners svc kbid inbound s of
        (Inl e, s1) \<Rightarrow> (Inl (GrantOwnership e), s1)
      | (Inr own, s1) \<Rightarrow>
          if pr_user_id who \<noteq> own_user_id own \<or> pr_tenant_id who \<noteq> own_tenant_id own then
            (Inl GrantNotOwner, record_denied_grant svc own who inbound s1)
          else if is_personal_notes own then
            (Inl GrantPersonalNotes, record_denied_grant svc own who inbound s1)
          else (Inr own, s1))"

definition valid_correlation_id :: "string \<Rightarrow> bool" where
  "valid_correlation_id v \<longleftrightarrow> trim_space v \<noteq> [] \<and> length (trim_space v) \<le> 128"

definition validate_create_request ::
    "create_request \<Rightarrow> ownership \<Rightarrow> time \<Rightarrow> grant_error option" where
  "validate_create_request req own now =
     (if crq_subject_type req \<noteq> SubjectUser then
        (if subject_type_valid (crq_subject_type req) then Some GrantSubjectUnsupported else Some GrantInvalid)
      else if blank (crq_subject_id req) \<or> length (crq_subject_id req) > 36
              \<or> crq_subject_id req = own_user_id own
              \<or> \<not> permission_valid (crq_permission req)
              \<or> \<not> valid_correlation_id (crq_correlation_id req)
              \<or> (case crq_expires_at req of None \<Rightarrow> False | Some e \<Rightarrow> \<not> now < e) then Some GrantInvalid
      else None)"

definition same_grant_request :: "grant \<Rightarrow> create_request \<Rightarrow> bool" where
  "same_grant_request g req \<longleftrightarrow>
     g_subject_type g = crq_subject_type req \<and> g_subject_id g = crq_subject_id req
   \<and> g_permission g = crq_permission req \<and> g_expires_at g = crq_expires_at req"

definition candidate_grant ::
    "string \<Rightarrow> string \<Rightarrow> principal \<Rightarrow> create_request \<Rightarrow> time \<Rightarrow> grant" where
  "candidate_grant gid kbid who req now =
     \<lparr>g_id = gid, g_kb_id = kbid, g_subject_type = crq_subject_type req,
      g_subject_id = crq_subject_id req, g_permission = crq_permission req,
      g_granted_by = pr_user_id who, g_created_at = now, g_updated_at = now,
      g_expires_at = crq_expires_at req, g_revoked_at = None, g_revision = 1,
      g_correlation_id = crq_correlation_id req\<rparr>"

text \<open>\<open>Service.Create\<close>, with its second lookup after a lost uniqueness race.\<close>

definition grant_create ::
    "'s grant_service \<Rightarrow> string \<Rightarrow> principal \<Rightarrow> create_request \<Rightarrow> headers \<Rightarrow> 's \<Rightarrow> (grant_error, grant, 's) outcome" where
  "grant_create svc kbid who req inbound s =
     (let st = gsv_store svc; now = gsv_now svc;
          lookup = gs_find_current st kbid (crq_subject_type req) (crq_subject_id req)
      in case require_owner svc kbid who inbound s of
        (Inl e, s1) \<Rightarrow> (Inl e, s1)
      | (Inr own, s1) \<Rightarrow>
        (case validate_create_request req own now of
          Some e \<Rightarrow> (Inl e, s1)
        | None \<Rightarrow>
          (case lookup s1 of
            (Inr existing, s2) \<Rightarrow>
              if same_grant_request existing req then (Inr existing, s2) else (Inl GrantConflict, s2)
          | (Inl e, s2) \<Rightarrow>
              if e \<noteq> GrantNotFound then (Inl e, s2)
              else (case gsv_new_id svc s2 of
                (None, s3) \<Rightarrow> (Inl GrantFailed, s3)
              | (Some gid, s3) \<Rightarrow>
                (case gs_create st (candidate_grant gid kbid who req now) s3 of
                  (Inr created, s4) \<Rightarrow>
                    (case grant_record_audit svc
                            (grant_audit_event own who ''grant.create'' None created (crq_correlation_id req) now) s4 of
                      (Inl e, s5) \<Rightarrow> (Inl e, s5)
                    | (Inr _, s5) \<Rightarrow> (Inr created, s5))
                | (Inl e, s4) \<Rightarrow>
                    if e \<noteq> GrantConflict then (Inl e, s4)
                    else (case lookup s4 of
                      (Inr existing, s5) \<Rightarrow>
                        if same_grant_request existing req then (Inr existing, s5)
                        else (Inl GrantConflict, s5)
                    | (Inl _, s5) \<Rightarrow> (Inl GrantConflict, s5)))))))"

definition grant_list ::
    "'s grant_service \<Rightarrow> string \<Rightarrow> principal \<Rightarrow> headers \<Rightarrow> 's \<Rightarrow> (grant_error, grant list, 's) outcome" where
  "grant_list svc kbid who inbound s =
     (case require_owner svc kbid who inbound s of
        (Inl e, s1) \<Rightarrow> (Inl e, s1)
      | (Inr _, s1) \<Rightarrow>
        (case gs_list_current (gsv_store svc) kbid s1 of
           (Inl e, s2) \<Rightarrow> (Inl e, s2)
         | (Inr items, s2) \<Rightarrow> (Inr (filter (\<lambda>g. grant_active g (gsv_now svc)) items), s2)))"

definition grant_update ::
    "'s grant_service \<Rightarrow> string \<Rightarrow> string \<Rightarrow> principal \<Rightarrow> update_request \<Rightarrow> headers \<Rightarrow> 's \<Rightarrow> (grant_error, grant, 's) outcome" where
  "grant_update svc kbid gid who req inbound s =
     (let st = gsv_store svc; now = gsv_now svc in
      case require_owner svc kbid who inbound s of
        (Inl e, s1) \<Rightarrow> (Inl e, s1)
      | (Inr own, s1) \<Rightarrow>
        if gid = [] \<or> urq_expected_revision req < 1 \<or> \<not> permission_valid (urq_permission req)
           \<or> \<not> valid_correlation_id (urq_correlation_id req)
           \<or> (case urq_expires_at req of None \<Rightarrow> False | Some e \<Rightarrow> \<not> now < e) then (Inl GrantInvalid, s1)
        else (case gs_get st gid s1 of
          (Inl e, s2) \<Rightarrow> (Inl e, s2)
        | (Inr existing, s2) \<Rightarrow>
          if g_kb_id existing \<noteq> kbid \<or> g_revoked_at existing \<noteq> None then (Inl GrantNotFound, s2)
          else if g_revision existing \<noteq> urq_expected_revision req then (Inl GrantRevisionConflict, s2)
          else (case gs_update st gid (urq_expected_revision req) (urq_permission req)
                       (urq_expires_at req) (urq_correlation_id req) now s2 of
            (Inl e, s3) \<Rightarrow> (Inl e, s3)
          | (Inr updated, s3) \<Rightarrow>
            (case grant_record_audit svc
                    (grant_audit_event own who ''grant.update'' (Some existing) updated (urq_correlation_id req) now) s3 of
              (Inl e, s4) \<Rightarrow> (Inl e, s4)
            | (Inr _, s4) \<Rightarrow> (Inr updated, s4)))))"

definition grant_revoke ::
    "'s grant_service \<Rightarrow> string \<Rightarrow> string \<Rightarrow> principal \<Rightarrow> revoke_request \<Rightarrow> headers \<Rightarrow> 's \<Rightarrow> (grant_error, grant, 's) outcome" where
  "grant_revoke svc kbid gid who req inbound s =
     (let st = gsv_store svc; now = gsv_now svc in
      case require_owner svc kbid who inbound s of
        (Inl e, s1) \<Rightarrow> (Inl e, s1)
      | (Inr own, s1) \<Rightarrow>
        if gid = [] \<or> rrq_expected_revision req < 1 \<or> \<not> valid_correlation_id (rrq_correlation_id req)
        then (Inl GrantInvalid, s1)
        else (case gs_get st gid s1 of
          (Inl e, s2) \<Rightarrow> (Inl e, s2)
        | (Inr existing, s2) \<Rightarrow>
          if g_kb_id existing \<noteq> kbid \<or> g_revoked_at existing \<noteq> None then (Inl GrantNotFound, s2)
          else if g_revision existing \<noteq> rrq_expected_revision req then (Inl GrantRevisionConflict, s2)
          else (case gs_revoke st gid (rrq_expected_revision req) (rrq_correlation_id req) now s2 of
            (Inl e, s3) \<Rightarrow> (Inl e, s3)
          | (Inr revoked, s3) \<Rightarrow>
            (case grant_record_audit svc
                    (grant_audit_event own who ''grant.revoke'' (Some existing) revoked (rrq_correlation_id req) now) s3 of
              (Inl e, s4) \<Rightarrow> (Inl e, s4)
            | (Inr _, s4) \<Rightarrow> (Inr revoked, s4)))))"

text \<open>The product's wiring in cmd/gateway/main.go.\<close>

definition product_grant_service ::
    "(string \<Rightarrow> headers \<Rightarrow> upstream_error + knowledge_base) \<Rightarrow> time \<Rightarrow> database grant_service" where
  "product_grant_service upstream now =
     \<lparr>gsv_store = grant_repository, gsv_owners = resolve (product_resolver upstream), gsv_now = now,
      gsv_new_id = new_id, gsv_auditor = Some audit_record\<rparr>"

end
