(* ===== verification/GrantProofs.thy ===== *)
theory GrantProofs
  imports GrantService
begin

text \<open>
  The theorems about the grant service, proved from the contracts of what it depends on, and the
  product's wiring as their instance.
\<close>

section \<open>The life of a grant\<close>

text \<open>What no operation changes, and what a revoked grant keeps for ever.\<close>

definition grant_evolves :: "grant \<Rightarrow> grant \<Rightarrow> bool" where
  "grant_evolves g h \<longleftrightarrow>
     g_id h = g_id g \<and> grant_subject h = grant_subject g \<and> g_created_at h = g_created_at g
   \<and> g_granted_by h = g_granted_by g \<and> (\<not> grant_current g \<longrightarrow> h = g)
   \<and> (h = g \<or> g_revision g < g_revision h)"

lemma grant_evolves_refl [simp]: "grant_evolves g g"
  by (simp add: grant_evolves_def)

lemma grant_evolves_trans: "grant_evolves g h \<Longrightarrow> grant_evolves h k \<Longrightarrow> grant_evolves g k"
  by (auto simp: grant_evolves_def)

lemma grant_evolves_set: "cas_matches i v g \<Longrightarrow> grant_evolves g (set_grant p x c t g)"
  by (simp add: grant_evolves_def cas_matches_def grant_current_def) (simp add: set_grant_def)

lemma grant_evolves_revoke: "cas_matches i v g \<Longrightarrow> grant_evolves g (revoke_row c t g)"
  by (simp add: grant_evolves_def cas_matches_def grant_current_def) (simp add: revoke_row_def)

lemma grants_evolve_cas:
  "table_evolves grant_evolves gs (update_where (cas_matches i v) (set_grant p x c t) gs)"
  "table_evolves grant_evolves gs (update_where (cas_matches i v) (revoke_row c t) gs)"
  by (auto intro!: table_evolves_update_where grant_evolves_set grant_evolves_revoke)

lemma grants_unique_cas:
  assumes "grants_unique gs"
  shows "grants_unique (update_where (cas_matches i v) (set_grant p x c t) gs)"
    and "grants_unique (update_where (cas_matches i v) (revoke_row c t) gs)"
  using assms by (auto intro!: grants_unique_update simp: cas_matches_def grant_current_def)

text \<open>The primary key identifies a row: with the keys unique, the updated row is the matching one.\<close>

lemma cas_other_rows:
  assumes "grants_unique gs" "old \<in> set gs" "cas_matches i v old" "g \<in> set gs" "g_id g \<noteq> i"
  shows "g \<in> set (update_where (cas_matches i v) f gs)"
  using assms by (force simp: set_update_where cas_matches_def)

section \<open>The service over its dependencies\<close>

locale grant_service_deps = grant_contract "gsv_store svc" rows
  for svc :: "'s grant_service" and rows :: "'s \<Rightarrow> grant list" +
  assumes owners_frame: "rows (snd (gsv_owners svc k h s)) = rows s"
    and new_id_frame: "rows (snd (gsv_new_id svc s)) = rows s"
    and auditor_frame: "gsv_auditor svc = Some record \<Longrightarrow> rows (snd (record e s)) = rows s"
begin

lemma denied_frame: "rows (record_denied_grant svc own who h s) = rows s"
  by (simp add: record_denied_grant_def auditor_frame split: option.splits)

lemma audit_frame: "grant_record_audit svc e s = (r, s1) \<Longrightarrow> rows s1 = rows s"
  using auditor_frame [of _ e s]
  by (auto simp: grant_record_audit_def split: option.splits prod.splits sum.splits)

lemma owners_rows: "gsv_owners svc k h s = (r, s1) \<Longrightarrow> rows s1 = rows s"
  using owners_frame [of k h s] by simp

lemma require_owner_rows: "require_owner svc k who h s = (r, s1) \<Longrightarrow> rows s1 = rows s"
  by (auto simp: require_owner_def denied_frame split: if_splits prod.splits sum.splits
      dest: owners_rows)

lemma require_owner_Inr:
  "require_owner svc k who h s = (Inr own, s1) \<Longrightarrow>
   gsv_owners svc k h s = (Inr own, s1) \<and> pr_user_id who = own_user_id own
   \<and> pr_tenant_id who = own_tenant_id own \<and> \<not> is_personal_notes own"
  by (auto simp: require_owner_def split: if_splits prod.splits sum.splits)

lemma require_owner_facts:
  "require_owner svc k who h s = (Inr own, s1) \<Longrightarrow>
   gsv_owners svc k h s = (Inr own, s1) \<and> pr_user_id who = own_user_id own
   \<and> pr_tenant_id who = own_tenant_id own \<and> \<not> is_personal_notes own \<and> rows s1 = rows s"
  using require_owner_Inr require_owner_rows by blast

lemma find_rows: "gs_find_current (gsv_store svc) k ty u s = (r, s1) \<Longrightarrow> rows s1 = rows s"
  using find_frame [of k ty u s] by simp

lemma get_rows: "gs_get (gsv_store svc) i s = (r, s1) \<Longrightarrow> rows s1 = rows s"
  using get_frame [of i s] by simp

lemma new_id_rows: "gsv_new_id svc s = (r, s1) \<Longrightarrow> rows s1 = rows s"
  using new_id_frame [of s] by simp

lemmas reads = owners_rows require_owner_rows find_rows get_rows new_id_rows audit_frame

text \<open>\<open>Create\<close>: one new row at most, and it is the candidate.\<close>

lemma create_rows:
  assumes "grant_create svc k who req h s = (r, s1)"
  shows "rows s1 = rows s \<or> (\<exists>gid. rows s1 = rows s @ [candidate_grant gid k who req (gsv_now svc)])"
  using assms
  by (auto simp: grant_create_def Let_def split: prod.splits sum.splits option.splits if_splits
      dest!: create_Inr create_Inl reads)

lemma create_keeps_unique:
  assumes "grants_unique (rows s)"
  shows "grants_unique (rows (snd (grant_create svc k who req h s)))"
proof (cases "grant_create svc k who req h s")
  case (Pair r s1)
  have step: "gs_create (gsv_store svc) g s3 = (r, s4) \<Longrightarrow> rows s3 = rows s \<Longrightarrow> grants_unique (rows s4)"
    for g s3 r s4
    using create_unique [of s3 g] assms by simp
  show ?thesis
    using Pair assms
    by (auto simp: grant_create_def Let_def split: prod.splits sum.splits option.splits if_splits
        dest!: step reads)
qed

lemma create_Inr_grant:
  assumes "grant_create svc k who req h s = (Inr g, s1)"
  shows "(\<exists>own s0. gsv_owners svc k h s = (Inr own, s0) \<and> pr_user_id who = own_user_id own
       \<and> pr_tenant_id who = own_tenant_id own \<and> \<not> is_personal_notes own)
     \<and> g \<in> set (rows s1) \<and> grant_current g \<and> g_kb_id g = k
     \<and> g_subject_type g = SubjectUser \<and> g_subject_id g = crq_subject_id req
     \<and> g_permission g = crq_permission req \<and> permission_valid (g_permission g)
     \<and> g_expires_at g = crq_expires_at req
     \<and> (rows s1 = rows s \<or> rows s1 = rows s @ [g])"
proof -
  have v: "validate_create_request req own now = None \<Longrightarrow>
      crq_subject_type req = SubjectUser \<and> permission_valid (crq_permission req)" for own now
    by (auto simp: validate_create_request_def split: if_splits)
  have f: "gs_find_current (gsv_store svc) k (crq_subject_type req) (crq_subject_id req) s2 = (Inr g', s3) \<Longrightarrow>
      g' \<in> set (rows s2) \<and> g_kb_id g' = k \<and> grant_current g' \<and> rows s3 = rows s2" for s2 g' s3
    using find_Inr find_rows by blast
  have n: "gs_find_current (gsv_store svc) k (crq_subject_type req) (crq_subject_id req) s2 = (Inl e, s3) \<Longrightarrow>
      rows s3 = rows s2" for s2 e s3
    using find_rows by blast
  show ?thesis
    using assms
    by (auto simp: grant_create_def Let_def candidate_grant_def grant_current_def same_grant_request_def
        split: prod.splits sum.splits option.splits if_splits
        dest!: create_Inr create_Inl v require_owner_facts f n new_id_rows audit_frame)
qed

text \<open>\<open>Update\<close> and \<open>Revoke\<close>: the matching row, or nothing.\<close>

lemma update_rows:
  assumes "grant_update svc k i who req h s = (r, s1)"
  shows "rows s1 = rows s
     \<or> rows s1 = update_where (cas_matches i (urq_expected_revision req))
         (set_grant (urq_permission req) (urq_expires_at req) (urq_correlation_id req) (gsv_now svc)) (rows s)"
  using assms
  by (auto simp: grant_update_def Let_def split: prod.splits sum.splits option.splits if_splits
      dest!: update_Inr update_Inl reads)

lemma revoke_rows:
  assumes "grant_revoke svc k i who req h s = (r, s1)"
  shows "rows s1 = rows s
     \<or> rows s1 = update_where (cas_matches i (rrq_expected_revision req))
         (revoke_row (rrq_correlation_id req) (gsv_now svc)) (rows s)"
  using assms
  by (auto simp: grant_revoke_def Let_def split: prod.splits sum.splits option.splits if_splits
      dest!: revoke_Inr revoke_Inl reads)

lemma update_Inr_grant:
  assumes "grant_update svc k i who req h s = (Inr g, s1)"
  shows "(\<exists>own s0. gsv_owners svc k h s = (Inr own, s0) \<and> pr_user_id who = own_user_id own
       \<and> pr_tenant_id who = own_tenant_id own)
     \<and> (\<exists>old\<in>set (rows s). cas_matches i (urq_expected_revision req) old
          \<and> g = set_grant (urq_permission req) (urq_expires_at req) (urq_correlation_id req) (gsv_now svc) old)
     \<and> rows s1 = update_where (cas_matches i (urq_expected_revision req))
         (set_grant (urq_permission req) (urq_expires_at req) (urq_correlation_id req) (gsv_now svc)) (rows s)"
  using assms
  by (auto simp: grant_update_def Let_def split: prod.splits sum.splits option.splits if_splits
      dest!: update_Inr require_owner_facts get_rows audit_frame)

lemma revoke_Inr_grant:
  assumes "grant_revoke svc k i who req h s = (Inr g, s1)"
  shows "(\<exists>own s0. gsv_owners svc k h s = (Inr own, s0) \<and> pr_user_id who = own_user_id own
       \<and> pr_tenant_id who = own_tenant_id own)
     \<and> (\<exists>old\<in>set (rows s). cas_matches i (rrq_expected_revision req) old
          \<and> g = revoke_row (rrq_correlation_id req) (gsv_now svc) old)
     \<and> rows s1 = update_where (cas_matches i (rrq_expected_revision req))
         (revoke_row (rrq_correlation_id req) (gsv_now svc)) (rows s)"
  using assms
  by (auto simp: grant_revoke_def Let_def split: prod.splits sum.splits option.splits if_splits
      dest!: revoke_Inr require_owner_facts get_rows audit_frame)

text \<open>Every operation keeps the keys unique and lets the rows only evolve.\<close>

lemma update_keeps:
  assumes "grant_update svc k i who req h s = (r, s1)"
  shows "(grants_unique (rows s) \<longrightarrow> grants_unique (rows s1)) \<and> table_evolves grant_evolves (rows s) (rows s1)"
  using update_rows [OF assms] by (auto simp: grants_unique_cas grants_evolve_cas table_evolves_refl)

lemma revoke_keeps:
  assumes "grant_revoke svc k i who req h s = (r, s1)"
  shows "(grants_unique (rows s) \<longrightarrow> grants_unique (rows s1)) \<and> table_evolves grant_evolves (rows s) (rows s1)"
  using revoke_rows [OF assms] by (auto simp: grants_unique_cas grants_evolve_cas table_evolves_refl)

lemma create_keeps:
  assumes "grant_create svc k who req h s = (r, s1)"
  shows "(grants_unique (rows s) \<longrightarrow> grants_unique (rows s1)) \<and> table_evolves grant_evolves (rows s) (rows s1)"
  using create_rows [OF assms] create_keeps_unique [of s k who req h] assms
  by (auto intro: table_evolves_append [OF grant_evolves_refl] table_evolves_refl [OF grant_evolves_refl])

lemma list_rows: "grant_list svc k who h s = (r, s1) \<Longrightarrow> rows s1 = rows s"
  using list_frame [of k]
  by (auto simp: grant_list_def split: prod.splits sum.splits dest!: require_owner_rows)
     (metis snd_conv)+

text \<open>Without ownership no operation succeeds, and none changes the table.\<close>

lemma not_owner_outcome:
  assumes "\<And>own s0. gsv_owners svc k h s = (Inr own, s0) \<Longrightarrow>
      pr_user_id who \<noteq> own_user_id own \<or> pr_tenant_id who \<noteq> own_tenant_id own"
  shows "\<exists>e s1. require_owner svc k who h s = (Inl e, s1) \<and> rows s1 = rows s"
proof (cases "require_owner svc k who h s")
  case (Pair r s1)
  with assms require_owner_Inr [of k who h s _ s1] require_owner_rows [OF Pair] show ?thesis
    by (cases r) auto
qed

end

section \<open>The product's grant service\<close>

interpretation gsd: grant_service_deps "product_grant_service upstream now" db_grants
  for upstream now
proof (intro grant_service_deps.intro)
  show "grant_contract (gsv_store (product_grant_service upstream now)) db_grants"
    by (simp add: product_grant_service_def gc.grant_contract_axioms)
qed (auto simp: grant_service_deps_axioms_def product_grant_service_def)

end
