(* ===== verification/SubscriptionRepository.thy ===== *)
theory SubscriptionRepository
  imports Database
begin

text \<open>
  internal/subscription/repository.go: the statements on \<open>mindcreek.kb_subscriptions\<close> with the
  constraints of migration 000008, and the contract the services rely on.
\<close>

record 's subscription_store =
  ss_create :: "subscription \<Rightarrow> 's \<Rightarrow> (subscription_error, subscription, 's) outcome"
  ss_get :: "string \<Rightarrow> string \<Rightarrow> 's \<Rightarrow> (subscription_error, subscription, 's) outcome"
  ss_list_by_user :: "string \<Rightarrow> 's \<Rightarrow> (subscription_error, subscription list, 's) outcome"
  ss_activate :: "string \<Rightarrow> u64 \<Rightarrow> int \<Rightarrow> string \<Rightarrow> time \<Rightarrow> 's \<Rightarrow> (subscription_error, subscription, 's) outcome"
  ss_unsubscribe :: "string \<Rightarrow> string \<Rightarrow> time \<Rightarrow> 's \<Rightarrow> (subscription_error, subscription, 's) outcome"
  ss_mark_seen :: "string \<Rightarrow> int \<Rightarrow> string \<Rightarrow> time \<Rightarrow> 's \<Rightarrow> (subscription_error, subscription, 's) outcome"
  ss_inactivate_publication :: "string \<Rightarrow> string \<Rightarrow> time \<Rightarrow> 's \<Rightarrow> (subscription_error, unit, 's) outcome"
  ss_inactivate_outside :: "string \<Rightarrow> audience \<Rightarrow> string \<Rightarrow> time \<Rightarrow> 's \<Rightarrow> (subscription_error, unit, 's) outcome"

section \<open>The table\<close>

definition subscription_row_ok :: "subscription \<Rightarrow> bool" where
  "subscription_row_ok x \<longleftrightarrow>
     varchar 36 (sub_id x) \<and> varchar 36 (sub_publication_id x) \<and> varchar 512 (sub_subscriber_id x)
   \<and> varchar 128 (sub_correlation_id x)
   \<and> sub_subscriber_tenant_id x \<noteq> 0 \<and> uint (sub_subscriber_tenant_id x) \<le> max_int64
   \<and> 0 \<le> sub_last_seen_revision x \<and> bigint_ok (sub_last_seen_revision x)
   \<and> sub_created_at x \<le> sub_updated_at x
   \<and> (sub_status x = SubActive \<and> sub_ended_at x = None
      \<or> (sub_status x = SubInactive \<or> sub_status x = SubUnsubscribed)
        \<and> (case sub_ended_at x of None \<Rightarrow> False | Some e \<Rightarrow> sub_created_at x \<le> e))"

definition sub_key :: "subscription \<Rightarrow> string \<times> string" where
  "sub_key x = (sub_publication_id x, sub_subscriber_id x)"

definition subscriptions_unique :: "subscription list \<Rightarrow> bool" where
  "subscriptions_unique rows \<longleftrightarrow> distinct (map sub_id rows) \<and> distinct (map sub_key rows)"

definition put_subscriptions :: "subscription list \<Rightarrow> database \<Rightarrow> database" where
  "put_subscriptions rows db = db\<lparr>db_subscriptions := rows\<rparr>"

section \<open>The statements\<close>

definition scan_subscription :: "subscription option \<Rightarrow> subscription_error + subscription" where
  "scan_subscription row =
     (case row of None \<Rightarrow> Inl SubNotFound
      | Some x \<Rightarrow> if subscription_valid x then Inr x else Inl SubInvalid)"

fun scan_subscriptions :: "subscription list \<Rightarrow> subscription_error + subscription list" where
  "scan_subscriptions [] = Inr []"
| "scan_subscriptions (x # xs) =
     (case scan_subscription (Some x) of
        Inl e \<Rightarrow> Inl e
      | Inr y \<Rightarrow> (case scan_subscriptions xs of Inl e \<Rightarrow> Inl e | Inr ys \<Rightarrow> Inr (y # ys)))"

text \<open>
  The foreign key to the publication and the two unique constraints; a duplicate is reported as
  \<open>ErrInvalid\<close>.
\<close>

definition subscription_create ::
    "subscription \<Rightarrow> database \<Rightarrow> (subscription_error, subscription, database) outcome" where
  "subscription_create candidate db =
     (if \<not> subscription_valid candidate \<or> \<not> subscription_active candidate then (Inl SubInvalid, db)
      else exec SubFailed
        (\<lambda>db. if \<not> subscription_row_ok candidate then (Inl SubFailed, db)
             else if sub_id candidate \<in> set (map sub_id (db_subscriptions db))
                     \<or> sub_key candidate \<in> set (map sub_key (db_subscriptions db)) then (Inl SubInvalid, db)
             else if sub_publication_id candidate \<notin> set (map pub_id (db_publications db)) then (Inl SubFailed, db)
             else (Inr candidate, db\<lparr>db_subscriptions := db_subscriptions db @ [candidate]\<rparr>)) db)"

definition subscription_get ::
    "string \<Rightarrow> string \<Rightarrow> database \<Rightarrow> (subscription_error, subscription, database) outcome" where
  "subscription_get publication user = query SubFailed
     (\<lambda>db. scan_subscription (find (\<lambda>x. sub_publication_id x = publication \<and> sub_subscriber_id x = user)
        (db_subscriptions db)))"

text \<open>\<open>ORDER BY updated_at DESC, id\<close>.\<close>

definition subscription_list_by_user ::
    "string \<Rightarrow> database \<Rightarrow> (subscription_error, subscription list, database) outcome" where
  "subscription_list_by_user user = query SubFailed
     (\<lambda>db. scan_subscriptions
       (sort_key (\<lambda>x. - sub_updated_at x) (sort_key sub_id
         (filter (\<lambda>x. sub_subscriber_id x = user) (db_subscriptions db)))))"

definition activate_row :: "u64 \<Rightarrow> int \<Rightarrow> string \<Rightarrow> time \<Rightarrow> subscription \<Rightarrow> subscription" where
  "activate_row tenant revision correlation at x =
     x\<lparr>sub_subscriber_tenant_id := tenant, sub_status := SubActive, sub_last_seen_revision := revision,
       sub_updated_at := at, sub_ended_at := None, sub_correlation_id := correlation\<rparr>"

definition end_row :: "subscription_status \<Rightarrow> string \<Rightarrow> time \<Rightarrow> subscription \<Rightarrow> subscription" where
  "end_row status correlation at x =
     x\<lparr>sub_status := status, sub_updated_at := at, sub_ended_at := Some at, sub_correlation_id := correlation\<rparr>"

definition seen_row :: "int \<Rightarrow> string \<Rightarrow> time \<Rightarrow> subscription \<Rightarrow> subscription" where
  "seen_row revision correlation at x =
     x\<lparr>sub_last_seen_revision := max (sub_last_seen_revision x) revision, sub_updated_at := at,
       sub_correlation_id := correlation\<rparr>"

abbreviation update_subscription where
  "update_subscription \<equiv> update_returning SubFailed SubNotFound db_subscriptions put_subscriptions
     subscription_row_ok (\<lambda>x. scan_subscription (Some x))"

definition subscription_activate ::
    "string \<Rightarrow> u64 \<Rightarrow> int \<Rightarrow> string \<Rightarrow> time \<Rightarrow> database \<Rightarrow> (subscription_error, subscription, database) outcome" where
  "subscription_activate i tenant revision correlation at =
     update_subscription (\<lambda>x. sub_id x = i) (activate_row tenant revision correlation at)"

definition subscription_unsubscribe ::
    "string \<Rightarrow> string \<Rightarrow> time \<Rightarrow> database \<Rightarrow> (subscription_error, subscription, database) outcome" where
  "subscription_unsubscribe i correlation at =
     update_subscription (\<lambda>x. sub_id x = i) (end_row SubUnsubscribed correlation at)"

definition subscription_mark_seen ::
    "string \<Rightarrow> int \<Rightarrow> string \<Rightarrow> time \<Rightarrow> database \<Rightarrow> (subscription_error, subscription, database) outcome" where
  "subscription_mark_seen i revision correlation at =
     update_subscription (\<lambda>x. sub_id x = i \<and> sub_status x = SubActive) (seen_row revision correlation at)"

text \<open>
  The bulk updates. \<open>InactivateOutsideAudience\<close> reads the active subscriptions in its transaction
  and ends, one statement each, those whose workspace the audience does not admit.
\<close>

definition bulk_end ::
    "(subscription \<Rightarrow> bool) \<Rightarrow> string \<Rightarrow> time \<Rightarrow> database \<Rightarrow> (subscription_error, unit, database) outcome" where
  "bulk_end P correlation at = exec SubFailed
     (\<lambda>db. if list_all (\<lambda>x. P x \<longrightarrow> subscription_row_ok (end_row SubInactive correlation at x)) (db_subscriptions db)
          then (Inr (), db\<lparr>db_subscriptions := update_where P (end_row SubInactive correlation at) (db_subscriptions db)\<rparr>)
          else (Inl SubFailed, db))"

definition subscription_inactivate_publication ::
    "string \<Rightarrow> string \<Rightarrow> time \<Rightarrow> database \<Rightarrow> (subscription_error, unit, database) outcome" where
  "subscription_inactivate_publication publication correlation at =
     bulk_end (\<lambda>x. sub_publication_id x = publication \<and> sub_status x = SubActive) correlation at"

fun end_candidates ::
    "audience \<Rightarrow> string \<Rightarrow> time \<Rightarrow> (string \<times> u64) list \<Rightarrow> database \<Rightarrow> (subscription_error, unit, database) outcome" where
  "end_candidates audience correlation at [] db = (Inr (), db)"
| "end_candidates audience correlation at ((i, tenant) # rest) db =
     (if audience_allows audience tenant then end_candidates audience correlation at rest db
      else case bulk_end (\<lambda>x. sub_id x = i \<and> sub_status x = SubActive) correlation at db of
        (Inl e, db1) \<Rightarrow> (Inl e, db1)
      | (Inr _, db1) \<Rightarrow> end_candidates audience correlation at rest db1)"

definition subscription_inactivate_outside ::
    "string \<Rightarrow> audience \<Rightarrow> string \<Rightarrow> time \<Rightarrow> database \<Rightarrow> (subscription_error, unit, database) outcome" where
  "subscription_inactivate_outside publication audience correlation at db =
     (if \<not> audience_valid audience then (Inl SubInvalid, db)
      else if aud_type audience = AudienceOrganization then (Inr (), db)
      else transaction SubFailed
        (\<lambda>db. case query SubFailed
            (\<lambda>db. Inr (map (\<lambda>x. (sub_id x, sub_subscriber_tenant_id x))
               (filter (\<lambda>x. sub_publication_id x = publication \<and> sub_status x = SubActive) (db_subscriptions db)))) db of
            (Inl e, db1) \<Rightarrow> (Inl e, db1)
          | (Inr candidates, db1) \<Rightarrow> end_candidates audience correlation at candidates db1) db)"

definition subscription_repository :: "database subscription_store" where
  "subscription_repository = \<lparr>ss_create = subscription_create, ss_get = subscription_get,
     ss_list_by_user = subscription_list_by_user, ss_activate = subscription_activate,
     ss_unsubscribe = subscription_unsubscribe, ss_mark_seen = subscription_mark_seen,
     ss_inactivate_publication = subscription_inactivate_publication,
     ss_inactivate_outside = subscription_inactivate_outside\<rparr>"

section \<open>Facts about the table\<close>

lemma scan_subscription_Inr: "scan_subscription row = Inr x \<longleftrightarrow> row = Some x \<and> subscription_valid x"
  by (auto simp: scan_subscription_def split: option.splits)

lemma scan_subscription_NotFound: "scan_subscription row = Inl SubNotFound \<longleftrightarrow> row = None"
  by (auto simp: scan_subscription_def split: option.splits)

lemma scan_subscriptions_Inr:
  "scan_subscriptions xs = Inr ys \<Longrightarrow> ys = xs \<and> (\<forall>x\<in>set xs. subscription_valid x)"
  by (induction xs arbitrary: ys) (auto simp: scan_subscription_def split: if_splits sum.splits)

lemma sub_rows_keys [simp]:
  "sub_id (activate_row w r c t x) = sub_id x" "sub_key (activate_row w r c t x) = sub_key x"
  "sub_id (end_row st c t x) = sub_id x" "sub_key (end_row st c t x) = sub_key x"
  "sub_id (seen_row r c t x) = sub_id x" "sub_key (seen_row r c t x) = sub_key x"
  "sub_publication_id (activate_row w r c t x) = sub_publication_id x"
  "sub_publication_id (end_row st c t x) = sub_publication_id x"
  "sub_publication_id (seen_row r c t x) = sub_publication_id x"
  "sub_subscriber_id (activate_row w r c t x) = sub_subscriber_id x"
  "sub_subscriber_id (end_row st c t x) = sub_subscriber_id x"
  "sub_subscriber_id (seen_row r c t x) = sub_subscriber_id x"
  "sub_subscriber_tenant_id (end_row st c t x) = sub_subscriber_tenant_id x"
  "sub_subscriber_tenant_id (seen_row r c t x) = sub_subscriber_tenant_id x"
  "sub_status (end_row st c t x) = st" "sub_status (activate_row w r c t x) = SubActive"
  "sub_status (seen_row r c t x) = sub_status x"
  "sub_subscriber_tenant_id (activate_row w r c t x) = w"
  by (simp_all add: activate_row_def end_row_def seen_row_def sub_key_def)

lemma subscriptions_unique_update:
  assumes "subscriptions_unique rows" "\<And>x. sub_id (f x) = sub_id x" "\<And>x. sub_key (f x) = sub_key x"
  shows "subscriptions_unique (update_where P f rows)"
  using assms by (simp add: subscriptions_unique_def map_update_where)

lemma bulk_end_Inr:
  "bulk_end P c t db = (Inr u, db1) \<Longrightarrow>
   db1 = put_subscriptions (update_where P (end_row SubInactive c t) (db_subscriptions db)) (snd (statement db))"
  by (auto simp: bulk_end_def put_subscriptions_def split: if_splits dest!: exec_Inr)

lemma bulk_end_Inl:
  "bulk_end P c t db = (Inl e, db1) \<Longrightarrow> db1 = snd (statement db)"
  by (auto simp: bulk_end_def split: if_splits dest!: exec_Inl)

text \<open>
  The loop of \<open>InactivateOutsideAudience\<close>, one statement per row, has the effect of one update of
  all the rows it names.
\<close>

lemma end_candidates_Inr:
  "end_candidates a c t cs db = (Inr u, db1) \<Longrightarrow>
   db_subscriptions db1 = update_where
     (\<lambda>x. sub_status x = SubActive \<and> (\<exists>w. (sub_id x, w) \<in> set cs \<and> \<not> audience_allows a w))
     (end_row SubInactive c t) (db_subscriptions db)"
proof (induction a c t cs db rule: end_candidates.induct)
  case (1 a c t db)
  then show ?case by (auto intro!: update_where_none [symmetric])
next
  case (2 a c t i tenant rest db)
  show ?case
  proof (cases "audience_allows a tenant")
    case True
    with 2 show ?thesis by (auto intro!: update_where_cong)
  next
    case False
    let ?P = "\<lambda>x. sub_id x = i \<and> sub_status x = SubActive"
    from False 2(3) obtain u2 db2 where b: "bulk_end ?P c t db = (Inr u2, db2)"
      and r: "end_candidates a c t rest db2 = (Inr u, db1)"
      by (auto split: prod.splits sum.splits)
    from 2(2) [OF False b [symmetric] refl r] bulk_end_Inr [OF b] False show ?thesis
      by (auto simp: put_subscriptions_def update_where_compose intro!: update_where_cong)
  qed
qed

lemma inactivate_outside_Inr:
  assumes "subscription_inactivate_outside p a c t db = (Inr u, db1)"
    and "subscriptions_unique (db_subscriptions db)"
  shows "audience_valid a \<and> db_subscriptions db1 = update_where
     (\<lambda>x. sub_publication_id x = p \<and> sub_status x = SubActive \<and> aud_type a \<noteq> AudienceOrganization
        \<and> \<not> audience_allows a (sub_subscriber_tenant_id x))
     (end_row SubInactive c t) (db_subscriptions db)"
proof (cases "aud_type a = AudienceOrganization")
  case True
  with assms(1) show ?thesis
    by (auto simp: subscription_inactivate_outside_def intro!: update_where_none [symmetric] split: if_splits)
next
  case False
  let ?rows = "db_subscriptions db"
  let ?cs = "map (\<lambda>x. (sub_id x, sub_subscriber_tenant_id x))
    (filter (\<lambda>x. sub_publication_id x = p \<and> sub_status x = SubActive) ?rows)"
  from assms(1) False have v: "audience_valid a"
    by (simp add: subscription_inactivate_outside_def split: if_splits)
  from assms(1) False v obtain db2 db3 where
    r: "end_candidates a c t ?cs db2 = (Inr u, db3)" and "db_subscriptions db2 = ?rows" "db1 = snd (statement db3)"
    by (auto simp: subscription_inactivate_outside_def dest!: transaction_Inr query_Inr
        split: prod.splits sum.splits)
  then have e: "db_subscriptions db1 = update_where
     (\<lambda>x. sub_status x = SubActive \<and> (\<exists>w. (sub_id x, w) \<in> set ?cs \<and> \<not> audience_allows a w))
     (end_row SubInactive c t) ?rows"
    using end_candidates_Inr [OF r] by simp
  have d: "distinct (map sub_id ?rows)"
    using assms(2) by (simp add: subscriptions_unique_def)
  have "(sub_status x = SubActive \<and> (\<exists>w. (sub_id x, w) \<in> set ?cs \<and> \<not> audience_allows a w))
     = (sub_publication_id x = p \<and> sub_status x = SubActive \<and> \<not> audience_allows a (sub_subscriber_tenant_id x))"
    if "x \<in> set ?rows" for x
    using distinct_map_inj [OF d _ that] that by auto
  with e v False show ?thesis by (auto intro!: update_where_cong)
qed

lemma inactivate_outside_Inl:
  "subscription_inactivate_outside p a c t db = (Inl e, db1) \<Longrightarrow> db_subscriptions db1 = db_subscriptions db"
  by (auto simp: subscription_inactivate_outside_def split: if_splits dest!: transaction_Inl)

section \<open>The contract\<close>

text \<open>What the publication service calls (\<open>publication.SubscriptionInvalidator\<close>).\<close>

locale subscription_invalidator =
  fixes inact_publication :: "string \<Rightarrow> string \<Rightarrow> time \<Rightarrow> 's \<Rightarrow> (subscription_error, unit, 's) outcome"
    and inact_outside :: "string \<Rightarrow> audience \<Rightarrow> string \<Rightarrow> time \<Rightarrow> 's \<Rightarrow> (subscription_error, unit, 's) outcome"
    and subs :: "'s \<Rightarrow> subscription list"
  assumes inact_publication_Inr: "inact_publication p c t s = (Inr u, s1) \<Longrightarrow>
      subs s1 = update_where (\<lambda>x. sub_publication_id x = p \<and> sub_status x = SubActive) (end_row SubInactive c t) (subs s)"
    and inact_publication_Inl: "inact_publication p c t s = (Inl e, s1) \<Longrightarrow> subs s1 = subs s"
    and inact_outside_Inr: "inact_outside p a c t s = (Inr u, s1) \<Longrightarrow> subscriptions_unique (subs s) \<Longrightarrow>
      audience_valid a \<and> subs s1 = update_where
        (\<lambda>x. sub_publication_id x = p \<and> sub_status x = SubActive \<and> aud_type a \<noteq> AudienceOrganization
           \<and> \<not> audience_allows a (sub_subscriber_tenant_id x)) (end_row SubInactive c t) (subs s)"
    and inact_outside_Inl: "inact_outside p a c t s = (Inl e, s1) \<Longrightarrow> subs s1 = subs s"
begin

lemma inact_publication_none_active:
  assumes "inact_publication p c t s = (Inr u, s1)" "x \<in> set (subs s1)" "sub_publication_id x = p"
  shows "sub_status x \<noteq> SubActive"
proof -
  from assms(2) have "x \<in> set (update_where (\<lambda>x. sub_publication_id x = p \<and> sub_status x = SubActive)
      (end_row SubInactive c t) (subs s))"
    by (simp only: inact_publication_Inr [OF assms(1)])
  then show ?thesis by (cases rule: update_whereE) (use assms(3) in auto)
qed

lemma inact_outside_only_allowed:
  assumes "inact_outside p a c t s = (Inr u, s1)" "subscriptions_unique (subs s)"
    and "x \<in> set (subs s1)" "sub_publication_id x = p" "sub_status x = SubActive" "sub_subscriber_tenant_id x \<noteq> 0"
  shows "audience_allows a (sub_subscriber_tenant_id x)"
proof -
  note e = inact_outside_Inr [OF assms(1,2)]
  from assms(3) have "x \<in> set (update_where (\<lambda>x. sub_publication_id x = p \<and> sub_status x = SubActive
      \<and> aud_type a \<noteq> AudienceOrganization \<and> \<not> audience_allows a (sub_subscriber_tenant_id x))
      (end_row SubInactive c t) (subs s))"
    by (simp only: e)
  then show ?thesis
    by (cases rule: update_whereE) (use assms(4-) e in \<open>auto simp: audience_allows_def\<close>)
qed

end

locale subscription_contract =
  subscription_invalidator "ss_inactivate_publication st" "ss_inactivate_outside st" subs
  for st :: "'s subscription_store" and subs :: "'s \<Rightarrow> subscription list" +
  assumes get_frame: "subs (snd (ss_get st p u s)) = subs s"
    and list_frame: "subs (snd (ss_list_by_user st u s)) = subs s"
    and get_Inr: "ss_get st p u s = (Inr x, s1) \<Longrightarrow>
      x \<in> set (subs s) \<and> sub_publication_id x = p \<and> sub_subscriber_id x = u \<and> subscription_valid x"
    and get_NotFound: "ss_get st p u s = (Inl SubNotFound, s1) \<Longrightarrow> x \<in> set (subs s) \<Longrightarrow> sub_key x \<noteq> (p, u)"
    and list_Inr: "ss_list_by_user st u s = (Inr xs, s1) \<Longrightarrow>
      set xs = {x \<in> set (subs s). sub_subscriber_id x = u} \<and> (\<forall>x\<in>set xs. subscription_valid x)"
    and create_Inr: "ss_create st x s = (Inr y, s1) \<Longrightarrow>
      y = x \<and> subscription_valid x \<and> subscription_active x
      \<and> sub_id x \<notin> set (map sub_id (subs s)) \<and> sub_key x \<notin> set (map sub_key (subs s)) \<and> subs s1 = subs s @ [x]"
    and create_Inl: "ss_create st x s = (Inl e, s1) \<Longrightarrow> subs s1 = subs s"
    and create_unique: "subscriptions_unique (subs s) \<Longrightarrow> subscriptions_unique (subs (snd (ss_create st x s)))"
    and activate_Inr: "ss_activate st i w r c t s = (Inr y, s1) \<Longrightarrow>
      \<exists>old\<in>set (subs s). sub_id old = i \<and> y = activate_row w r c t old \<and> subscription_valid y
        \<and> subs s1 = update_where (\<lambda>x. sub_id x = i) (activate_row w r c t) (subs s)"
    and activate_Inl: "ss_activate st i w r c t s = (Inl e, s1) \<Longrightarrow> subs s1 = subs s
      \<or> subs s1 = update_where (\<lambda>x. sub_id x = i) (activate_row w r c t) (subs s)"
    and unsubscribe_Inr: "ss_unsubscribe st i c t s = (Inr y, s1) \<Longrightarrow>
      \<exists>old\<in>set (subs s). sub_id old = i \<and> y = end_row SubUnsubscribed c t old \<and> subscription_valid y
        \<and> subs s1 = update_where (\<lambda>x. sub_id x = i) (end_row SubUnsubscribed c t) (subs s)"
    and unsubscribe_Inl: "ss_unsubscribe st i c t s = (Inl e, s1) \<Longrightarrow> subs s1 = subs s
      \<or> subs s1 = update_where (\<lambda>x. sub_id x = i) (end_row SubUnsubscribed c t) (subs s)"
    and mark_seen_Inr: "ss_mark_seen st i r c t s = (Inr y, s1) \<Longrightarrow>
      \<exists>old\<in>set (subs s). sub_id old = i \<and> sub_status old = SubActive \<and> y = seen_row r c t old \<and> subscription_valid y
        \<and> subs s1 = update_where (\<lambda>x. sub_id x = i \<and> sub_status x = SubActive) (seen_row r c t) (subs s)"
    and mark_seen_Inl: "ss_mark_seen st i r c t s = (Inl e, s1) \<Longrightarrow> subs s1 = subs s
      \<or> subs s1 = update_where (\<lambda>x. sub_id x = i \<and> sub_status x = SubActive) (seen_row r c t) (subs s)"

lemma subscription_repo_sel [simp]:
  "ss_create subscription_repository = subscription_create"
  "ss_get subscription_repository = subscription_get"
  "ss_list_by_user subscription_repository = subscription_list_by_user"
  "ss_activate subscription_repository = subscription_activate"
  "ss_unsubscribe subscription_repository = subscription_unsubscribe"
  "ss_mark_seen subscription_repository = subscription_mark_seen"
  "ss_inactivate_publication subscription_repository = subscription_inactivate_publication"
  "ss_inactivate_outside subscription_repository = subscription_inactivate_outside"
  by (simp_all add: subscription_repository_def)

interpretation subi: subscription_invalidator
    subscription_inactivate_publication subscription_inactivate_outside db_subscriptions
  by unfold_locales
     (auto simp: subscription_inactivate_publication_def put_subscriptions_def
       dest: inactivate_outside_Inr inactivate_outside_Inl dest!: bulk_end_Inr bulk_end_Inl)

lemma subscription_create_cases:
  "subscription_create x db = (r, db1) \<Longrightarrow>
   (case r of Inl _ \<Rightarrow> db_subscriptions db1 = db_subscriptions db
    | Inr y \<Rightarrow> y = x \<and> subscription_valid x \<and> subscription_active x
        \<and> sub_id x \<notin> set (map sub_id (db_subscriptions db)) \<and> sub_key x \<notin> set (map sub_key (db_subscriptions db))
        \<and> sub_publication_id x \<in> set (map pub_id (db_publications db))
        \<and> db_subscriptions db1 = db_subscriptions db @ [x])"
  by (auto simp: subscription_create_def exec_def split: if_splits)

lemma subscription_create_unique:
  "subscriptions_unique (db_subscriptions db) \<Longrightarrow> subscriptions_unique (db_subscriptions (snd (subscription_create x db)))"
  using subscription_create_cases [of x db]
  by (cases "subscription_create x db") (auto simp: subscriptions_unique_def split: sum.splits)

lemma subscription_reads [simp]:
  "snd (subscription_get p u db) = snd (statement db)"
  "snd (subscription_list_by_user u db) = snd (statement db)"
  by (simp_all add: subscription_get_def subscription_list_by_user_def)

lemma update_subscription_Inr:
  "update_subscription P f db = (Inr y, db1) \<Longrightarrow>
   \<exists>old\<in>set (db_subscriptions db). P old \<and> y = f old \<and> subscription_valid y
     \<and> db_subscriptions db1 = update_where P f (db_subscriptions db)"
  by (auto simp: scan_subscription_Inr put_subscriptions_def dest!: update_returning_Inr)

lemma update_subscription_state:
  "update_subscription P f db = (r, db1) \<Longrightarrow> db_subscriptions db1 = db_subscriptions db
   \<or> db_subscriptions db1 = update_where P f (db_subscriptions db)"
  by (auto simp: put_subscriptions_def dest!: update_returning_state)

interpretation subc: subscription_contract subscription_repository db_subscriptions
proof (intro subscription_contract.intro)
  show "subscription_invalidator (ss_inactivate_publication subscription_repository)
     (ss_inactivate_outside subscription_repository) db_subscriptions"
    by (simp add: subi.subscription_invalidator_axioms)
  have get: "subscription_get p u s = (Inr x, s1) \<Longrightarrow>
      x \<in> set (db_subscriptions s) \<and> sub_publication_id x = p \<and> sub_subscriber_id x = u \<and> subscription_valid x"
    and none: "subscription_get p u s = (Inl SubNotFound, s1) \<Longrightarrow> y \<in> set (db_subscriptions s) \<Longrightarrow> sub_key y \<noteq> (p, u)"
    for p u s x s1 y
    by (auto simp: subscription_get_def scan_subscription_Inr scan_subscription_NotFound find_None sub_key_def
        dest!: query_Inr query_Inl find_in_set)
  have lst: "subscription_list_by_user u s = (Inr xs, s1) \<Longrightarrow>
      set xs = {x \<in> set (db_subscriptions s). sub_subscriber_id x = u} \<and> (\<forall>x\<in>set xs. subscription_valid x)"
    for u s xs s1
    by (auto simp: subscription_list_by_user_def dest!: query_Inr scan_subscriptions_Inr)
  show "subscription_contract_axioms subscription_repository db_subscriptions"
    by unfold_locales
       (auto simp: subscription_create_unique subscription_activate_def subscription_unsubscribe_def
          subscription_mark_seen_def
        dest: get none lst update_subscription_Inr update_subscription_state
        dest!: subscription_create_cases)
qed

end
