(* ===== verification/PublicationRepository.thy ===== *)
theory PublicationRepository
  imports Database
begin

text \<open>
  internal/publication/repository.go: the statements on \<open>mindcreek.kb_publications\<close> with the
  constraints of migration 000008, and the contract the services rely on. The JSON columns hold the
  tags and the audience unchanged: a row whose strings PostgreSQL would refuse is refused.
\<close>

record 's publication_store =
  ps_create :: "publication \<Rightarrow> 's \<Rightarrow> (publication_error, publication, 's) outcome"
  ps_get :: "string \<Rightarrow> 's \<Rightarrow> (publication_error, publication, 's) outcome"
  ps_get_by_kb :: "string \<Rightarrow> 's \<Rightarrow> (publication_error, publication, 's) outcome"
  ps_get_published_by_kb :: "string \<Rightarrow> 's \<Rightarrow> (publication_error, publication, 's) outcome"
  ps_list_published :: "'s \<Rightarrow> (publication_error, publication list, 's) outcome"
  ps_update :: "publication \<Rightarrow> int \<Rightarrow> 's \<Rightarrow> (publication_error, publication, 's) outcome"
  ps_unpublish :: "string \<Rightarrow> int \<Rightarrow> string \<Rightarrow> time \<Rightarrow> 's \<Rightarrow> (publication_error, publication, 's) outcome"

section \<open>The table\<close>

fun audience_type_known :: "audience_type \<Rightarrow> bool" where
  "audience_type_known (AudienceOther _) = False"
| "audience_type_known _ = True"

definition publication_row_ok :: "publication \<Rightarrow> bool" where
  "publication_row_ok p \<longleftrightarrow>
     varchar 36 (pub_id p) \<and> varchar 36 (pub_kb_id p) \<and> varchar 512 (pub_publisher_id p)
   \<and> varchar 160 (pub_title p) \<and> varchar 2000 (pub_description p) \<and> varchar 2000 (pub_usage_guidance p)
   \<and> varchar 128 (pub_correlation_id p) \<and> list_all pg_text (pub_tags p)
   \<and> pub_publisher_tenant_id p \<noteq> 0 \<and> uint (pub_publisher_tenant_id p) \<le> max_int64
   \<and> audience_type_known (aud_type (pub_audience p)) \<and> access_mode_valid (pub_access_mode p)
   \<and> (pub_status p = StatusPublished \<or> pub_status p = StatusUnpublished)
   \<and> 0 < pub_published_revision p \<and> bigint_ok (pub_published_revision p)
   \<and> 0 < pub_row_version p \<and> bigint_ok (pub_row_version p)
   \<and> pub_created_at p \<le> pub_updated_at p \<and> pub_created_at p \<le> pub_published_at p
   \<and> (pub_status p = StatusPublished \<and> pub_unpublished_at p = None
      \<or> pub_status p = StatusUnpublished
        \<and> (case pub_unpublished_at p of None \<Rightarrow> False | Some u \<Rightarrow> pub_published_at p \<le> u))"

definition publications_unique :: "publication list \<Rightarrow> bool" where
  "publications_unique rows \<longleftrightarrow> distinct (map pub_id rows) \<and> distinct (map pub_kb_id rows)"

definition put_publications :: "publication list \<Rightarrow> database \<Rightarrow> database" where
  "put_publications rows db = db\<lparr>db_publications := rows\<rparr>"

section \<open>The statements\<close>

definition scan_publication :: "publication option \<Rightarrow> publication_error + publication" where
  "scan_publication row =
     (case row of None \<Rightarrow> Inl PubNotFound
      | Some p \<Rightarrow> if publication_valid p then Inr p else Inl PubInvalid)"

fun scan_publications :: "publication list \<Rightarrow> publication_error + publication list" where
  "scan_publications [] = Inr []"
| "scan_publications (p # ps) =
     (case scan_publication (Some p) of
        Inl e \<Rightarrow> Inl e
      | Inr x \<Rightarrow> (case scan_publications ps of Inl e \<Rightarrow> Inl e | Inr xs \<Rightarrow> Inr (x # xs)))"

definition publication_create ::
    "publication \<Rightarrow> database \<Rightarrow> (publication_error, publication, database) outcome" where
  "publication_create candidate db =
     (if \<not> publication_valid candidate \<or> \<not> published candidate then (Inl PubInvalid, db)
      else exec PubFailed
        (\<lambda>db. if \<not> publication_row_ok candidate then (Inl PubFailed, db)
             else if pub_id candidate \<in> set (map pub_id (db_publications db))
                     \<or> pub_kb_id candidate \<in> set (map pub_kb_id (db_publications db)) then (Inl PubConflict, db)
             else (Inr candidate, db\<lparr>db_publications := db_publications db @ [candidate]\<rparr>)) db)"

definition publication_get :: "string \<Rightarrow> database \<Rightarrow> (publication_error, publication, database) outcome" where
  "publication_get i = query PubFailed
     (\<lambda>db. scan_publication (find (\<lambda>p. pub_id p = i) (db_publications db)))"

definition publication_get_by_kb :: "string \<Rightarrow> database \<Rightarrow> (publication_error, publication, database) outcome" where
  "publication_get_by_kb kbid = query PubFailed
     (\<lambda>db. scan_publication (find (\<lambda>p. pub_kb_id p = kbid) (db_publications db)))"

definition publication_get_published_by_kb ::
    "string \<Rightarrow> database \<Rightarrow> (publication_error, publication, database) outcome" where
  "publication_get_published_by_kb kbid = query PubFailed
     (\<lambda>db. scan_publication (find (\<lambda>p. pub_kb_id p = kbid \<and> pub_status p = StatusPublished) (db_publications db)))"

text \<open>\<open>ORDER BY updated_at DESC, id\<close>.\<close>

definition publication_list_published :: "database \<Rightarrow> (publication_error, publication list, database) outcome" where
  "publication_list_published = query PubFailed
     (\<lambda>db. scan_publications
       (sort_key (\<lambda>p. - pub_updated_at p) (sort_key pub_id
         (filter (\<lambda>p. pub_status p = StatusPublished) (db_publications db)))))"

definition publication_matches :: "string \<Rightarrow> int \<Rightarrow> publication \<Rightarrow> bool" where
  "publication_matches i expected p \<longleftrightarrow> pub_id p = i \<and> pub_row_version p = expected"

definition set_publication :: "publication \<Rightarrow> publication \<Rightarrow> publication" where
  "set_publication c p =
     p\<lparr>pub_title := pub_title c, pub_description := pub_description c, pub_tags := pub_tags c,
       pub_usage_guidance := pub_usage_guidance c, pub_audience := pub_audience c,
       pub_access_mode := pub_access_mode c, pub_status := StatusPublished,
       pub_published_revision := pub_published_revision c, pub_published_at := pub_published_at c,
       pub_unpublished_at := None, pub_updated_at := pub_updated_at c,
       pub_row_version := pub_row_version p + 1, pub_correlation_id := pub_correlation_id c\<rparr>"

definition publication_update ::
    "publication \<Rightarrow> int \<Rightarrow> database \<Rightarrow> (publication_error, publication, database) outcome" where
  "publication_update candidate expected db =
     (if \<not> publication_valid candidate \<or> \<not> published candidate \<or> expected < 1 then (Inl PubInvalid, db)
      else update_returning PubFailed PubRevisionConflict db_publications put_publications
        publication_row_ok (\<lambda>p. scan_publication (Some p))
        (publication_matches (pub_id candidate) expected) (set_publication candidate) db)"

definition unpublish_row :: "string \<Rightarrow> time \<Rightarrow> publication \<Rightarrow> publication" where
  "unpublish_row correlation at p =
     p\<lparr>pub_status := StatusUnpublished, pub_unpublished_at := Some at, pub_updated_at := at,
       pub_row_version := pub_row_version p + 1, pub_correlation_id := correlation\<rparr>"

definition unpublish_matches :: "string \<Rightarrow> int \<Rightarrow> publication \<Rightarrow> bool" where
  "unpublish_matches i expected p \<longleftrightarrow>
     pub_id p = i \<and> pub_row_version p = expected \<and> pub_status p = StatusPublished"

definition publication_unpublish ::
    "string \<Rightarrow> int \<Rightarrow> string \<Rightarrow> time \<Rightarrow> database \<Rightarrow> (publication_error, publication, database) outcome" where
  "publication_unpublish i expected correlation at db =
     (if i = [] \<or> expected < 1 \<or> correlation = [] \<or> is_zero_time at then (Inl PubInvalid, db)
      else update_returning PubFailed PubRevisionConflict db_publications put_publications
        publication_row_ok (\<lambda>p. scan_publication (Some p))
        (unpublish_matches i expected) (unpublish_row correlation at) db)"

definition publication_repository :: "database publication_store" where
  "publication_repository = \<lparr>ps_create = publication_create, ps_get = publication_get,
     ps_get_by_kb = publication_get_by_kb, ps_get_published_by_kb = publication_get_published_by_kb,
     ps_list_published = publication_list_published, ps_update = publication_update,
     ps_unpublish = publication_unpublish\<rparr>"

section \<open>Facts about the table\<close>

lemma scan_publication_Inr: "scan_publication row = Inr p \<longleftrightarrow> row = Some p \<and> publication_valid p"
  by (auto simp: scan_publication_def split: option.splits)

lemma scan_publication_NotFound: "scan_publication row = Inl PubNotFound \<longleftrightarrow> row = None"
  by (auto simp: scan_publication_def split: option.splits)

lemma scan_publications_Inr:
  "scan_publications ps = Inr xs \<Longrightarrow> xs = ps \<and> (\<forall>p\<in>set ps. publication_valid p)"
  by (induction ps arbitrary: xs) (auto simp: scan_publication_def split: if_splits sum.splits)

lemma set_publication_keys [simp]:
  "pub_id (set_publication c p) = pub_id p" "pub_kb_id (set_publication c p) = pub_kb_id p"
  "pub_publisher_id (set_publication c p) = pub_publisher_id p"
  "pub_publisher_tenant_id (set_publication c p) = pub_publisher_tenant_id p"
  "pub_row_version (set_publication c p) = pub_row_version p + 1"
  "pub_audience (set_publication c p) = pub_audience c" "published (set_publication c p)"
  "pub_created_at (set_publication c p) = pub_created_at p"
  by (simp_all add: set_publication_def published_def)

lemma unpublish_row_keys [simp]:
  "pub_id (unpublish_row c t p) = pub_id p" "pub_kb_id (unpublish_row c t p) = pub_kb_id p"
  "pub_publisher_id (unpublish_row c t p) = pub_publisher_id p"
  "pub_publisher_tenant_id (unpublish_row c t p) = pub_publisher_tenant_id p"
  "pub_row_version (unpublish_row c t p) = pub_row_version p + 1"
  "\<not> published (unpublish_row c t p)" "pub_created_at (unpublish_row c t p) = pub_created_at p"
  by (simp_all add: unpublish_row_def published_def)

lemma publications_unique_update:
  assumes "publications_unique rows" "\<And>p. pub_id (f p) = pub_id p" "\<And>p. pub_kb_id (f p) = pub_kb_id p"
  shows "publications_unique (update_where P f rows)"
  using assms by (simp add: publications_unique_def map_update_where)

lemma publications_unique_append:
  "publications_unique rows \<Longrightarrow> pub_id p \<notin> set (map pub_id rows) \<Longrightarrow> pub_kb_id p \<notin> set (map pub_kb_id rows) \<Longrightarrow>
   publications_unique (rows @ [p])"
  by (auto simp: publications_unique_def)

section \<open>The contract\<close>

text \<open>
  Two readers (\<open>authorization.PublicationReader\<close>, \<open>subscription.PublicationReader\<close>) and the whole
  store, over the table \<open>pubs\<close> of a state.
\<close>

locale publication_reader =
  fixes by_kb :: "string \<Rightarrow> 's \<Rightarrow> (publication_error, publication, 's) outcome"
    and pubs :: "'s \<Rightarrow> publication list"
  assumes by_kb_frame: "pubs (snd (by_kb k s)) = pubs s"
    and by_kb_Inr: "by_kb k s = (Inr p, s1) \<Longrightarrow>
      p \<in> set (pubs s) \<and> pub_kb_id p = k \<and> published p \<and> publication_valid p"
    and by_kb_NotFound: "by_kb k s = (Inl PubNotFound, s1) \<Longrightarrow> p \<in> set (pubs s) \<Longrightarrow>
      pub_kb_id p = k \<Longrightarrow> \<not> published p"

locale publication_contract = publication_reader "ps_get_published_by_kb st" pubs
  for st :: "'s publication_store" and pubs :: "'s \<Rightarrow> publication list" +
  assumes get_frame: "pubs (snd (ps_get st i s)) = pubs s"
    and get_by_kb_frame: "pubs (snd (ps_get_by_kb st k s)) = pubs s"
    and list_published_frame: "pubs (snd (ps_list_published st s)) = pubs s"
    and get_Inr: "ps_get st i s = (Inr p, s1) \<Longrightarrow> p \<in> set (pubs s) \<and> pub_id p = i \<and> publication_valid p"
    and get_by_kb_Inr: "ps_get_by_kb st k s = (Inr p, s1) \<Longrightarrow>
      p \<in> set (pubs s) \<and> pub_kb_id p = k \<and> publication_valid p"
    and get_by_kb_NotFound: "ps_get_by_kb st k s = (Inl PubNotFound, s1) \<Longrightarrow> p \<in> set (pubs s) \<Longrightarrow> pub_kb_id p \<noteq> k"
    and list_published_Inr: "ps_list_published st s = (Inr ps, s1) \<Longrightarrow>
      set ps = {p \<in> set (pubs s). pub_status p = StatusPublished} \<and> (\<forall>p\<in>set ps. publication_valid p)"
    and create_Inr: "ps_create st p s = (Inr p', s1) \<Longrightarrow>
      p' = p \<and> publication_valid p \<and> published p
      \<and> pub_id p \<notin> set (map pub_id (pubs s)) \<and> pub_kb_id p \<notin> set (map pub_kb_id (pubs s)) \<and> pubs s1 = pubs s @ [p]"
    and create_Inl: "ps_create st p s = (Inl e, s1) \<Longrightarrow> pubs s1 = pubs s"
    and create_unique: "publications_unique (pubs s) \<Longrightarrow> publications_unique (pubs (snd (ps_create st p s)))"
    and update_Inr: "ps_update st c v s = (Inr p, s1) \<Longrightarrow>
      \<exists>old\<in>set (pubs s). publication_matches (pub_id c) v old \<and> p = set_publication c old
        \<and> publication_valid p
        \<and> pubs s1 = update_where (publication_matches (pub_id c) v) (set_publication c) (pubs s)"
    and update_Inl: "ps_update st c v s = (Inl e, s1) \<Longrightarrow> pubs s1 = pubs s
      \<or> pubs s1 = update_where (publication_matches (pub_id c) v) (set_publication c) (pubs s)"
    and unpublish_Inr: "ps_unpublish st i v x t s = (Inr p, s1) \<Longrightarrow>
      \<exists>old\<in>set (pubs s). unpublish_matches i v old \<and> p = unpublish_row x t old \<and> publication_valid p
        \<and> pubs s1 = update_where (unpublish_matches i v) (unpublish_row x t) (pubs s)"
    and unpublish_Inl: "ps_unpublish st i v x t s = (Inl e, s1) \<Longrightarrow> pubs s1 = pubs s
      \<or> pubs s1 = update_where (unpublish_matches i v) (unpublish_row x t) (pubs s)"

lemma publication_repo_sel [simp]:
  "ps_create publication_repository = publication_create"
  "ps_get publication_repository = publication_get"
  "ps_get_by_kb publication_repository = publication_get_by_kb"
  "ps_get_published_by_kb publication_repository = publication_get_published_by_kb"
  "ps_list_published publication_repository = publication_list_published"
  "ps_update publication_repository = publication_update"
  "ps_unpublish publication_repository = publication_unpublish"
  by (simp_all add: publication_repository_def)

lemma publication_create_cases:
  "publication_create p db = (r, db1) \<Longrightarrow>
   (case r of Inl _ \<Rightarrow> db_publications db1 = db_publications db
    | Inr p' \<Rightarrow> p' = p \<and> publication_valid p \<and> published p
        \<and> pub_id p \<notin> set (map pub_id (db_publications db))
        \<and> pub_kb_id p \<notin> set (map pub_kb_id (db_publications db))
        \<and> db_publications db1 = db_publications db @ [p])"
  by (auto simp: publication_create_def exec_def split: if_splits)

lemma publication_create_unique:
  "publications_unique (db_publications db) \<Longrightarrow> publications_unique (db_publications (snd (publication_create p db)))"
  using publication_create_cases [of p db] publications_unique_append
  by (cases "publication_create p db") (auto split: sum.splits)

lemma publication_update_state:
  "publication_update c v db = (r, db1) \<Longrightarrow> db_publications db1 = db_publications db
   \<or> db_publications db1 = update_where (publication_matches (pub_id c) v) (set_publication c) (db_publications db)"
  by (auto simp: publication_update_def put_publications_def split: if_splits dest!: update_returning_state)

lemma publication_unpublish_state:
  "publication_unpublish i v x t db = (r, db1) \<Longrightarrow> db_publications db1 = db_publications db
   \<or> db_publications db1 = update_where (unpublish_matches i v) (unpublish_row x t) (db_publications db)"
  by (auto simp: publication_unpublish_def put_publications_def split: if_splits dest!: update_returning_state)

lemma publication_update_Inr:
  "publication_update c v db = (Inr p, db1) \<Longrightarrow>
   \<exists>old\<in>set (db_publications db). publication_matches (pub_id c) v old \<and> p = set_publication c old
     \<and> publication_valid p
     \<and> db_publications db1 = update_where (publication_matches (pub_id c) v) (set_publication c) (db_publications db)"
  by (auto simp: publication_update_def put_publications_def scan_publication_Inr split: if_splits
      dest!: update_returning_Inr)

lemma publication_unpublish_Inr:
  "publication_unpublish i v x t db = (Inr p, db1) \<Longrightarrow>
   \<exists>old\<in>set (db_publications db). unpublish_matches i v old \<and> p = unpublish_row x t old
     \<and> publication_valid p
     \<and> db_publications db1 = update_where (unpublish_matches i v) (unpublish_row x t) (db_publications db)"
  by (auto simp: publication_unpublish_def put_publications_def scan_publication_Inr split: if_splits
      dest!: update_returning_Inr)

lemma publication_valid_published:
  "publication_valid p \<Longrightarrow> published p \<longleftrightarrow> pub_status p = StatusPublished"
  by (auto simp: publication_valid_def published_def)

lemma publication_reads [simp]:
  "snd (publication_get i db) = snd (statement db)" "snd (publication_get_by_kb k db) = snd (statement db)"
  "snd (publication_get_published_by_kb k db) = snd (statement db)"
  "snd (publication_list_published db) = snd (statement db)"
  by (simp_all add: publication_get_def publication_get_by_kb_def publication_get_published_by_kb_def
      publication_list_published_def)

interpretation pubr: publication_reader publication_get_published_by_kb db_publications
proof
  show "db_publications (snd (publication_get_published_by_kb k s)) = db_publications s" for k s
    by (simp add: publication_get_published_by_kb_def)
next
  fix k s p s1
  assume "publication_get_published_by_kb k s = (Inr p, s1)"
  then show "p \<in> set (db_publications s) \<and> pub_kb_id p = k \<and> published p \<and> publication_valid p"
    by (auto simp: publication_get_published_by_kb_def scan_publication_Inr publication_valid_published
        dest!: query_Inr find_in_set)
next
  fix k s s1 p
  assume "publication_get_published_by_kb k s = (Inl PubNotFound, s1)" "p \<in> set (db_publications s)" "pub_kb_id p = k"
  then show "\<not> published p"
    by (auto simp: publication_get_published_by_kb_def scan_publication_NotFound find_None published_def
        dest!: query_Inl)
qed

interpretation pubc: publication_contract publication_repository db_publications
proof (intro publication_contract.intro)
  show "publication_reader (ps_get_published_by_kb publication_repository) db_publications"
    by (simp add: pubr.publication_reader_axioms)
  have get: "publication_get i s = (Inr p, s1) \<Longrightarrow> p \<in> set (db_publications s) \<and> pub_id p = i \<and> publication_valid p"
    and by_kb: "publication_get_by_kb k s = (Inr p, s1) \<Longrightarrow> p \<in> set (db_publications s) \<and> pub_kb_id p = k \<and> publication_valid p"
    for i k s p s1
    by (auto simp: publication_get_def publication_get_by_kb_def scan_publication_Inr dest!: query_Inr find_in_set)
  have none: "publication_get_by_kb k s = (Inl PubNotFound, s1) \<Longrightarrow> p \<in> set (db_publications s) \<Longrightarrow> pub_kb_id p \<noteq> k"
    for k s s1 p
    by (auto simp: publication_get_by_kb_def scan_publication_NotFound find_None dest!: query_Inl)
  have lst: "publication_list_published s = (Inr ps, s1) \<Longrightarrow>
      set ps = {p \<in> set (db_publications s). pub_status p = StatusPublished} \<and> (\<forall>p\<in>set ps. publication_valid p)"
    for s ps s1
    by (auto simp: publication_list_published_def dest!: query_Inr scan_publications_Inr)
  show "publication_contract_axioms publication_repository db_publications"
    by unfold_locales
       (auto simp: publication_create_unique
        dest: get by_kb none publication_update_state publication_unpublish_state
          publication_update_Inr publication_unpublish_Inr lst dest!: publication_create_cases)
qed

end
