(* ===== verification/RevisionRepository.thy ===== *)
theory RevisionRepository
  imports Database
begin

text \<open>
  internal/revision: the content revision of a knowledge base, which only grows, and the activity
  events written with it in one transaction.
\<close>

datatype revision_error = RevInvalid | RevNotFound | RevFailed

text \<open>\<open>validate\<close>.\<close>

definition revision_args_valid :: "string \<Rightarrow> string \<Rightarrow> string \<Rightarrow> string \<Rightarrow> string \<Rightarrow> time \<Rightarrow> bool" where
  "revision_args_valid kbid actor event summary correlation at \<longleftrightarrow>
     \<not> (blank kbid \<or> length kbid > 36 \<or> length actor > 512 \<or> blank event \<or> length event > 64
        \<or> rune_count summary > 500 \<or> blank correlation \<or> length correlation > 128 \<or> is_zero_time at)"

definition activity_row_ok :: "activity \<Rightarrow> bool" where
  "activity_row_ok a \<longleftrightarrow>
     varchar 36 (act_id a) \<and> varchar 36 (act_kb_id a) \<and> varchar 512 (act_actor_id a)
   \<and> varchar 64 (act_event_type a) \<and> varchar 500 (act_summary a) \<and> varchar 128 (act_correlation_id a)
   \<and> 0 < act_revision a"

definition insert_activity ::
    "string \<Rightarrow> string \<Rightarrow> string \<Rightarrow> string \<Rightarrow> string \<Rightarrow> int \<Rightarrow> time \<Rightarrow> database \<Rightarrow> (revision_error, unit, database) outcome" where
  "insert_activity kbid actor event summary correlation value at db =
     (case new_id db of
        (None, db1) \<Rightarrow> (Inl RevFailed, db1)
      | (Some i, db1) \<Rightarrow>
          let a = \<lparr>act_id = i, act_kb_id = kbid, act_actor_id = actor, act_event_type = event,
                   act_revision = value, act_summary = summary, act_correlation_id = correlation,
                   act_created_at = at\<rparr>
          in exec RevFailed
            (\<lambda>db. if \<not> activity_row_ok a \<or> i \<in> set (map act_id (db_activities db)) then (Inl RevFailed, db)
                 else (Inr (), db\<lparr>db_activities := db_activities db @ [a]\<rparr>)) db1)"

text \<open>
  The upsert of \<open>kb_content_revisions\<close>: insert revision 1, or change the stored row by \<open>bump\<close>.
  The answer is the revision after the statement and whether the row is new.
\<close>

definition upsert_revision ::
    "(content_revision \<Rightarrow> content_revision) \<Rightarrow> string \<Rightarrow> time \<Rightarrow> database \<Rightarrow> (revision_error, int \<times> bool, database) outcome" where
  "upsert_revision bump kbid at = exec RevFailed
     (\<lambda>db. if \<not> varchar 36 kbid then (Inl RevFailed, db)
          else case find (\<lambda>r. cr_kb_id r = kbid) (db_revisions db) of
            None \<Rightarrow> (Inr (1, True),
              db\<lparr>db_revisions := db_revisions db @ [\<lparr>cr_kb_id = kbid, cr_revision = 1, cr_updated_at = at\<rparr>]\<rparr>)
          | Some r \<Rightarrow>
              if \<not> bigint_ok (cr_revision (bump r)) then (Inl RevFailed, db)
              else (Inr (cr_revision (bump r), False),
                db\<lparr>db_revisions := update_where (\<lambda>r. cr_kb_id r = kbid) bump (db_revisions db)\<rparr>))"

text \<open>The statements inside the two transactions.\<close>

definition ensure_body ::
    "string \<Rightarrow> string \<Rightarrow> string \<Rightarrow> string \<Rightarrow> string \<Rightarrow> time \<Rightarrow> database \<Rightarrow> (revision_error, int, database) outcome" where
  "ensure_body kbid actor event summary correlation at db =
     (case upsert_revision (\<lambda>r. r) kbid at db of
        (Inl e, db1) \<Rightarrow> (Inl e, db1)
      | (Inr (revision, inserted), db1) \<Rightarrow>
          if inserted then
            (case insert_activity kbid actor event summary correlation revision at db1 of
               (Inl e, db2) \<Rightarrow> (Inl e, db2)
             | (Inr _, db2) \<Rightarrow> (Inr revision, db2))
          else (Inr revision, db1))"

definition increment_body ::
    "string \<Rightarrow> string \<Rightarrow> string \<Rightarrow> string \<Rightarrow> string \<Rightarrow> time \<Rightarrow> database \<Rightarrow> (revision_error, int, database) outcome" where
  "increment_body kbid actor event summary correlation at db =
     (case upsert_revision (\<lambda>r. r\<lparr>cr_revision := cr_revision r + 1, cr_updated_at := at\<rparr>) kbid at db of
        (Inl e, db1) \<Rightarrow> (Inl e, db1)
      | (Inr (revision, _), db1) \<Rightarrow>
          (case insert_activity kbid actor event summary correlation revision at db1 of
             (Inl e, db2) \<Rightarrow> (Inl e, db2)
           | (Inr _, db2) \<Rightarrow> (Inr revision, db2)))"

definition revision_ensure ::
    "string \<Rightarrow> string \<Rightarrow> string \<Rightarrow> string \<Rightarrow> string \<Rightarrow> time \<Rightarrow> database \<Rightarrow> (revision_error, int, database) outcome" where
  "revision_ensure kbid actor event summary correlation at db =
     (if \<not> revision_args_valid kbid actor event summary correlation at then (Inl RevInvalid, db)
      else transaction RevFailed (ensure_body kbid actor event summary correlation at) db)"

definition revision_current :: "string \<Rightarrow> database \<Rightarrow> (revision_error, int, database) outcome" where
  "revision_current kbid db =
     (if blank kbid then (Inl RevInvalid, db)
      else query RevFailed
        (\<lambda>db. case find (\<lambda>r. cr_kb_id r = kbid) (db_revisions db) of
                None \<Rightarrow> Inl RevNotFound | Some r \<Rightarrow> Inr (cr_revision r)) db)"

definition revision_increment ::
    "string \<Rightarrow> string \<Rightarrow> string \<Rightarrow> string \<Rightarrow> string \<Rightarrow> time \<Rightarrow> database \<Rightarrow> (revision_error, int, database) outcome" where
  "revision_increment kbid actor event summary correlation at db =
     (if \<not> revision_args_valid kbid actor event summary correlation at then (Inl RevInvalid, db)
      else transaction RevFailed (increment_body kbid actor event summary correlation at) db)"

definition list_activity :: "string \<Rightarrow> int \<Rightarrow> database \<Rightarrow> (revision_error, activity list, database) outcome" where
  "list_activity kbid limit db =
     (if blank kbid \<or> limit < 1 \<or> 100 < limit then (Inl RevInvalid, db)
      else query RevFailed
        (\<lambda>db. Inr (take (nat limit)
           (sort_key (\<lambda>a. - act_revision a) (sort_key (\<lambda>a. - act_created_at a)
             (filter (\<lambda>a. act_kb_id a = kbid) (db_activities db)))))) db)"

section \<open>Frames\<close>

text \<open>The tables these operations leave alone.\<close>

definition but_revisions where
  "but_revisions db = (db_profiles db, db_grants db, db_publications db, db_subscriptions db,
     db_sessions db, db_note_revisions db, db_audit db, db_agent_audit db)"

lemma but_revisions_basic [simp]:
  "but_revisions (snd (statement db)) = but_revisions db"
  "but_revisions (snd (new_id db)) = but_revisions db"
  "but_revisions (rollback db db2) = but_revisions db"
  "but_revisions (db\<lparr>db_revisions := x\<rparr>) = but_revisions db"
  "but_revisions (db\<lparr>db_activities := y\<rparr>) = but_revisions db"
  by (simp_all add: but_revisions_def)

lemma snd_of_eq: "x = (a, b) \<Longrightarrow> b = snd x"
  by simp

lemma upsert_revision_but [simp]: "but_revisions (snd (upsert_revision f k t db)) = but_revisions db"
  by (simp add: upsert_revision_def exec_def split: option.splits)

lemma insert_activity_but [simp]:
  "but_revisions (snd (insert_activity k a e s c v t db)) = but_revisions db"
proof -
  have "but_revisions (snd (new_id db)) = but_revisions db" by simp
  then show ?thesis
    by (cases "new_id db") (simp add: insert_activity_def exec_def Let_def split: option.splits)
qed

lemma transaction_frame:
  assumes "\<And>db. view (snd (body db)) = view db"
    and "\<And>db. view (snd (statement db)) = view db" and "\<And>db db2. view (rollback db db2) = view db"
  shows "view (snd (transaction e body db)) = view db"
proof (cases "body (snd (statement db))")
  case (Pair r db2)
  with assms(1) [of "snd (statement db)"] have "view db2 = view db" by (simp add: assms(2))
  with Pair show ?thesis by (cases r) (simp_all add: transaction_def assms(2,3))
qed

lemma ensure_body_but: "but_revisions (snd (ensure_body k a e s c t db)) = but_revisions db"
proof (cases "upsert_revision (\<lambda>r. r) k t db")
  case (Pair r db1)
  with upsert_revision_but [of "\<lambda>r. r" k t db] have b: "but_revisions db1 = but_revisions db" by simp
  show ?thesis
  proof (cases r)
    case (Inr x)
    with Pair b insert_activity_but [of k a e s c "fst x" t db1] show ?thesis
      by (cases x; cases "insert_activity k a e s c (fst x) t db1"; cases "fst (insert_activity k a e s c (fst x) t db1)")
         (simp_all add: ensure_body_def)
  qed (simp add: ensure_body_def Pair b)
qed

lemma increment_body_but: "but_revisions (snd (increment_body k a e s c t db)) = but_revisions db"
proof (cases "upsert_revision (\<lambda>r. r\<lparr>cr_revision := cr_revision r + 1, cr_updated_at := t\<rparr>) k t db")
  case (Pair r db1)
  with upsert_revision_but [of "\<lambda>r. r\<lparr>cr_revision := cr_revision r + 1, cr_updated_at := t\<rparr>" k t db]
  have b: "but_revisions db1 = but_revisions db" by simp
  show ?thesis
  proof (cases r)
    case (Inr x)
    with Pair b insert_activity_but [of k a e s c "fst x" t db1] show ?thesis
      by (cases x; cases "insert_activity k a e s c (fst x) t db1"; cases "fst (insert_activity k a e s c (fst x) t db1)")
         (simp_all add: increment_body_def)
  qed (simp add: increment_body_def Pair b)
qed

lemma revision_ensure_but [simp]:
  "but_revisions (snd (revision_ensure k a e s c t db)) = but_revisions db"
  by (simp add: revision_ensure_def transaction_frame ensure_body_but)

lemma revision_increment_but [simp]:
  "but_revisions (snd (revision_increment k a e s c t db)) = but_revisions db"
  by (simp add: revision_increment_def transaction_frame increment_body_but)

lemma revision_ensure_tables [simp]:
  "db_profiles (snd (revision_ensure k a e s c t db)) = db_profiles db"
  "db_grants (snd (revision_ensure k a e s c t db)) = db_grants db"
  "db_publications (snd (revision_ensure k a e s c t db)) = db_publications db"
  "db_subscriptions (snd (revision_ensure k a e s c t db)) = db_subscriptions db"
  "db_sessions (snd (revision_ensure k a e s c t db)) = db_sessions db"
  "db_note_revisions (snd (revision_ensure k a e s c t db)) = db_note_revisions db"
  "db_audit (snd (revision_ensure k a e s c t db)) = db_audit db"
  "db_agent_audit (snd (revision_ensure k a e s c t db)) = db_agent_audit db"
  using revision_ensure_but [of k a e s c t db] by (auto simp only: but_revisions_def prod.inject)

lemma revision_increment_tables [simp]:
  "db_profiles (snd (revision_increment k a e s c t db)) = db_profiles db"
  "db_grants (snd (revision_increment k a e s c t db)) = db_grants db"
  "db_publications (snd (revision_increment k a e s c t db)) = db_publications db"
  "db_subscriptions (snd (revision_increment k a e s c t db)) = db_subscriptions db"
  "db_sessions (snd (revision_increment k a e s c t db)) = db_sessions db"
  "db_note_revisions (snd (revision_increment k a e s c t db)) = db_note_revisions db"
  "db_audit (snd (revision_increment k a e s c t db)) = db_audit db"
  "db_agent_audit (snd (revision_increment k a e s c t db)) = db_agent_audit db"
  using revision_increment_but [of k a e s c t db] by (auto simp only: but_revisions_def prod.inject)

lemma revision_current_state:
  "snd (revision_current k db) = db \<or> snd (revision_current k db) = snd (statement db)"
  by (simp add: revision_current_def)

lemma revision_current_tables [simp]:
  "db_profiles (snd (revision_current k db)) = db_profiles db"
  "db_grants (snd (revision_current k db)) = db_grants db"
  "db_publications (snd (revision_current k db)) = db_publications db"
  "db_subscriptions (snd (revision_current k db)) = db_subscriptions db"
  "db_revisions (snd (revision_current k db)) = db_revisions db"
  "db_activities (snd (revision_current k db)) = db_activities db"
  "db_sessions (snd (revision_current k db)) = db_sessions db"
  "db_note_revisions (snd (revision_current k db)) = db_note_revisions db"
  "db_audit (snd (revision_current k db)) = db_audit db"
  "db_agent_audit (snd (revision_current k db)) = db_agent_audit db"
  using revision_current_state [of k db] by auto

end
