(* ===== verification/PublicationService.thy ===== *)
theory PublicationService
  imports SubscriptionRepository PublicationRepository RevisionRepository AuditRepository ProfileRepository GrantService
begin

text \<open>
  internal/publication/service.go: publishing a knowledge base, changing its publication and
  withdrawing it. \<open>PubFailed\<close> stands for an error that is none of the package's own.
\<close>

record write_request =
  wrq_title :: string
  wrq_description :: string
  wrq_tags :: "string list"
  wrq_usage_guidance :: string
  wrq_audience :: audience
  wrq_access_mode :: access_mode
  wrq_expected_row_version :: int
  wrq_correlation_id :: string

record 's invalidator =
  iv_publication :: "string \<Rightarrow> string \<Rightarrow> time \<Rightarrow> 's \<Rightarrow> (subscription_error, unit, 's) outcome"
  iv_outside :: "string \<Rightarrow> audience \<Rightarrow> string \<Rightarrow> time \<Rightarrow> 's \<Rightarrow> (subscription_error, unit, 's) outcome"

record 's publication_service =
  pvs_store :: "'s publication_store"
  pvs_owners :: "string \<Rightarrow> headers \<Rightarrow> 's \<Rightarrow> (own_error, ownership, 's) outcome"
  pvs_ensure :: "string \<Rightarrow> string \<Rightarrow> string \<Rightarrow> string \<Rightarrow> string \<Rightarrow> time \<Rightarrow> 's \<Rightarrow> (revision_error, int, 's) outcome"
  pvs_current :: "string \<Rightarrow> 's \<Rightarrow> (revision_error, int, 's) outcome"
  pvs_subscriptions :: "'s invalidator option"
  pvs_auditor :: "'s recorder option"
  pvs_now :: time
  pvs_new_id :: "'s \<Rightarrow> string option \<times> 's"
  pvs_ulower :: "string \<Rightarrow> string"

section \<open>Requests\<close>

text \<open>The tag loop of \<open>normalizeWrite\<close>: trimmed, lower case, no blanks, no repeats.\<close>

fun normalize_tags :: "(string \<Rightarrow> string) \<Rightarrow> string list \<Rightarrow> string list \<Rightarrow> string list" where
  "normalize_tags ulower seen [] = []"
| "normalize_tags ulower seen (raw # rest) =
     (let tag = to_lower ulower (trim_space raw) in
      if tag = [] \<or> tag \<in> set seen then normalize_tags ulower seen rest
      else tag # normalize_tags ulower (tag # seen) rest)"

definition valid_correlation :: "string \<Rightarrow> bool" where
  "valid_correlation v \<longleftrightarrow> trim_space v \<noteq> [] \<and> length (trim_space v) \<le> 128"

text \<open>\<open>time.Unix(1, 0)\<close>.\<close>

definition unix_one :: time where
  "unix_one = 62135596801000000"

definition probe_publication :: "write_request \<Rightarrow> publication" where
  "probe_publication req =
     \<lparr>pub_id = ''probe'', pub_kb_id = ''probe'', pub_publisher_id = ''probe'', pub_publisher_tenant_id = 1,
      pub_title = wrq_title req, pub_description = wrq_description req, pub_tags = wrq_tags req,
      pub_usage_guidance = wrq_usage_guidance req, pub_audience = wrq_audience req,
      pub_access_mode = wrq_access_mode req, pub_status = StatusPublished, pub_published_revision = 1,
      pub_created_at = unix_one, pub_published_at = unix_one, pub_unpublished_at = None,
      pub_updated_at = unix_one, pub_row_version = 1, pub_correlation_id = wrq_correlation_id req\<rparr>"

definition normalize_write ::
    "(string \<Rightarrow> string) \<Rightarrow> write_request \<Rightarrow> publication_error + write_request" where
  "normalize_write ulower req =
     (let n = req\<lparr>wrq_title := trim_space (wrq_title req), wrq_description := trim_space (wrq_description req),
                  wrq_usage_guidance := trim_space (wrq_usage_guidance req),
                  wrq_audience := audience_normalized (wrq_audience req),
                  wrq_correlation_id := trim_space (wrq_correlation_id req),
                  wrq_tags := sort (normalize_tags ulower [] (wrq_tags req))\<rparr>
      in if \<not> publication_valid (probe_publication n) \<or> \<not> valid_correlation (wrq_correlation_id n)
         then Inl PubInvalid else Inr n)"

definition apply_write :: "publication \<Rightarrow> write_request \<Rightarrow> int \<Rightarrow> string \<Rightarrow> time \<Rightarrow> publication" where
  "apply_write existing req revision correlation at =
     existing\<lparr>pub_title := wrq_title req, pub_description := wrq_description req, pub_tags := wrq_tags req,
       pub_usage_guidance := wrq_usage_guidance req, pub_audience := wrq_audience req,
       pub_access_mode := wrq_access_mode req, pub_published_revision := revision,
       pub_updated_at := at, pub_correlation_id := correlation\<rparr>"

section \<open>Audit and ownership\<close>

fun audience_type_text :: "audience_type \<Rightarrow> string" where
  "audience_type_text AudienceOrganization = ''organization''"
| "audience_type_text AudienceWorkspaceSet = ''workspace_set''"
| "audience_type_text (AudienceOther s) = s"

fun access_mode_text :: "access_mode \<Rightarrow> string" where
  "access_mode_text AccessSubscriber = ''subscriber''"
| "access_mode_text AccessOrganizationPublic = ''organization_public''"
| "access_mode_text (AccessOther s) = s"

fun pub_status_text :: "publication_status \<Rightarrow> string" where
  "pub_status_text StatusPublished = ''published''"
| "pub_status_text StatusUnpublished = ''unpublished''"
| "pub_status_text (PubStatusOther s) = s"

definition audience_value :: "audience \<Rightarrow> json" where
  "audience_value a = JObj
     ((''type'', JStr (audience_type_text (aud_type a))) #
      (if aud_workspaces a = [] then []
       else [(''workspace_ids'', JArr (map (\<lambda>w. JNum (itoa (uint w))) (aud_workspaces a)))]))"

definition audit_publication_value :: "publication \<Rightarrow> json" where
  "audit_publication_value p = JObj
     [(''audience'', audience_value (pub_audience p)),
      (''access_mode'', JStr (access_mode_text (pub_access_mode p))),
      (''status'', JStr (pub_status_text (pub_status p))),
      (''published_revision'', JNum (itoa (pub_published_revision p))),
      (''row_version'', JNum (itoa (pub_row_version p)))]"

definition publication_audit_event ::
    "ownership \<Rightarrow> principal \<Rightarrow> string \<Rightarrow> publication option \<Rightarrow> publication \<Rightarrow> string \<Rightarrow> time \<Rightarrow> audit_event" where
  "publication_audit_event own who action old new correlation at =
     \<lparr>ev_id = [], ev_tenant_id = own_tenant_id own, ev_kb_id = own_kb_id own,
      ev_actor_user_id = pr_user_id who, ev_action = action, ev_target_type = ''kb_publication'',
      ev_target_id = (if pub_id new = [] then (case old of None \<Rightarrow> [] | Some p \<Rightarrow> pub_id p) else pub_id new),
      ev_outcome = OutcomeSuccess, ev_error_code = [], ev_correlation_id = correlation,
      ev_old_value = (case old of None \<Rightarrow> None
                      | Some p \<Rightarrow> if pub_id p = [] then None else Some (audit_publication_value p)),
      ev_new_value = (if pub_id new = [] then None else Some (audit_publication_value new)),
      ev_created_at = at\<rparr>"

definition pub_record_audit ::
    "'s publication_service \<Rightarrow> audit_event \<Rightarrow> 's \<Rightarrow> (publication_error, unit, 's) outcome" where
  "pub_record_audit svc event s =
     (case pvs_auditor svc of
        None \<Rightarrow> (Inr (), s)
      | Some record \<Rightarrow>
          (case record event s of
             (Inl _, s1) \<Rightarrow> (Inl PubUnavailable, s1)
           | (Inr _, s1) \<Rightarrow> (Inr (), s1)))"

definition pub_record_denied ::
    "'s publication_service \<Rightarrow> ownership \<Rightarrow> principal \<Rightarrow> headers \<Rightarrow> 's \<Rightarrow> 's" where
  "pub_record_denied svc own who inbound s =
     (case pvs_auditor svc of
        None \<Rightarrow> s
      | Some record \<Rightarrow>
          if pr_user_id who = [] \<or> pr_tenant_id who = 0 then s
          else if request_id inbound = [] then s
          else snd (record (denied_event ''authorization.denied.publish'' own who
                              (request_id inbound) (pvs_now svc)) s))"

definition pub_require_owner ::
    "'s publication_service \<Rightarrow> string \<Rightarrow> principal \<Rightarrow> headers \<Rightarrow> 's \<Rightarrow> (publication_error, ownership, 's) outcome" where
  "pub_require_owner svc kbid who inbound s =
     (if blank (pr_user_id who) \<or> pr_tenant_id who = 0 \<or> blank kbid then (Inl PubNotOwner, s)
      else case pvs_owners svc kbid inbound s of
        (Inl e, s1) \<Rightarrow> (Inl (PubOwnership e), s1)
      | (Inr own, s1) \<Rightarrow>
          if pr_user_id who \<noteq> own_user_id own \<or> pr_tenant_id who \<noteq> own_tenant_id own then
            (Inl PubNotOwner, pub_record_denied svc own who inbound s1)
          else if is_personal_notes own then
            (Inl PubPersonalNotes, pub_record_denied svc own who inbound s1)
          else (Inr own, s1))"

section \<open>The operations\<close>

definition new_publication ::
    "string \<Rightarrow> string \<Rightarrow> principal \<Rightarrow> ownership \<Rightarrow> write_request \<Rightarrow> int \<Rightarrow> string \<Rightarrow> time \<Rightarrow> publication" where
  "new_publication i kbid who own n revision correlation now =
     \<lparr>pub_id = i, pub_kb_id = kbid, pub_publisher_id = pr_user_id who,
      pub_publisher_tenant_id = own_tenant_id own, pub_title = wrq_title n,
      pub_description = wrq_description n, pub_tags = wrq_tags n, pub_usage_guidance = wrq_usage_guidance n,
      pub_audience = wrq_audience n, pub_access_mode = wrq_access_mode n, pub_status = StatusPublished,
      pub_published_revision = revision, pub_created_at = now, pub_published_at = now,
      pub_unpublished_at = None, pub_updated_at = now, pub_row_version = 1,
      pub_correlation_id = correlation\<rparr>"

definition pub_finish ::
    "'s publication_service \<Rightarrow> audit_event \<Rightarrow> publication \<Rightarrow> 's \<Rightarrow> (publication_error, publication, 's) outcome" where
  "pub_finish svc event p s =
     (case pub_record_audit svc event s of (Inl e, s1) \<Rightarrow> (Inl e, s1) | (Inr _, s1) \<Rightarrow> (Inr p, s1))"

definition publish ::
    "'s publication_service \<Rightarrow> string \<Rightarrow> principal \<Rightarrow> write_request \<Rightarrow> headers \<Rightarrow> 's \<Rightarrow> (publication_error, publication, 's) outcome" where
  "publish svc kbid who req inbound s =
     (let now = pvs_now svc; correlation = wrq_correlation_id req in
      case pub_require_owner svc kbid who inbound s of
        (Inl e, s1) \<Rightarrow> (Inl e, s1)
      | (Inr own, s1) \<Rightarrow>
        (case normalize_write (pvs_ulower svc) req of
          Inl e \<Rightarrow> (Inl e, s1)
        | Inr n \<Rightarrow>
          (case pvs_ensure svc kbid (pr_user_id who) ''publication.initialized'' [] correlation now s1 of
            (Inl _, s2) \<Rightarrow> (Inl PubUnavailable, s2)
          | (Inr revision, s2) \<Rightarrow>
            (case ps_get_by_kb (pvs_store svc) kbid s2 of
              (Inr existing, s3) \<Rightarrow>
                if published existing then (Inl PubConflict, s3)
                else if wrq_expected_row_version req \<noteq> pub_row_version existing then (Inl PubRevisionConflict, s3)
                else (case ps_update (pvs_store svc)
                         ((apply_write existing n revision correlation now)
                            \<lparr>pub_status := StatusPublished, pub_published_at := now, pub_unpublished_at := None\<rparr>)
                         (pub_row_version existing) s3 of
                  (Inl e, s4) \<Rightarrow> (Inl e, s4)
                | (Inr updated, s4) \<Rightarrow>
                    pub_finish svc (publication_audit_event own who ''publication.published''
                      (Some existing) updated correlation now) updated s4)
            | (Inl e, s3) \<Rightarrow>
                if e \<noteq> PubNotFound then (Inl e, s3)
                else (case pvs_new_id svc s3 of
                  (None, s4) \<Rightarrow> (Inl PubFailed, s4)
                | (Some i, s4) \<Rightarrow>
                  (case ps_create (pvs_store svc) (new_publication i kbid who own n revision correlation now) s4 of
                    (Inl e, s5) \<Rightarrow> (Inl e, s5)
                  | (Inr created, s5) \<Rightarrow>
                      pub_finish svc (publication_audit_event own who ''publication.published''
                        None created correlation now) created s5))))))"

definition update_publication ::
    "'s publication_service \<Rightarrow> string \<Rightarrow> principal \<Rightarrow> write_request \<Rightarrow> headers \<Rightarrow> 's \<Rightarrow> (publication_error, publication, 's) outcome" where
  "update_publication svc kbid who req inbound s =
     (let now = pvs_now svc; correlation = wrq_correlation_id req in
      case pub_require_owner svc kbid who inbound s of
        (Inl e, s1) \<Rightarrow> (Inl e, s1)
      | (Inr own, s1) \<Rightarrow>
        if wrq_expected_row_version req < 1 then (Inl PubInvalid, s1)
        else (case normalize_write (pvs_ulower svc) req of
          Inl e \<Rightarrow> (Inl e, s1)
        | Inr n \<Rightarrow>
          (case ps_get_by_kb (pvs_store svc) kbid s1 of
            (Inl e, s2) \<Rightarrow> (Inl e, s2)
          | (Inr existing, s2) \<Rightarrow>
            if \<not> published existing then (Inl PubNotFound, s2)
            else if pub_publisher_id existing \<noteq> pr_user_id who
                    \<or> pub_publisher_tenant_id existing \<noteq> pr_tenant_id who then (Inl PubNotOwner, s2)
            else if pub_row_version existing \<noteq> wrq_expected_row_version req then (Inl PubRevisionConflict, s2)
            else (case pvs_current svc kbid s2 of
              (Inl _, s3) \<Rightarrow> (Inl PubUnavailable, s3)
            | (Inr revision, s3) \<Rightarrow>
              (case ps_update (pvs_store svc) (apply_write existing n revision correlation now)
                      (wrq_expected_row_version req) s3 of
                (Inl e, s4) \<Rightarrow> (Inl e, s4)
              | (Inr updated, s4) \<Rightarrow>
                (case (case pvs_subscriptions svc of
                         None \<Rightarrow> (Inr (), s4)
                       | Some iv \<Rightarrow> iv_outside iv (pub_id updated) (pub_audience updated) correlation now s4) of
                  (Inl _, s5) \<Rightarrow> (Inl PubUnavailable, s5)
                | (Inr _, s5) \<Rightarrow>
                    pub_finish svc (publication_audit_event own who ''publication.updated''
                      (Some existing) updated correlation now) updated s5))))))"

definition unpublish ::
    "'s publication_service \<Rightarrow> string \<Rightarrow> principal \<Rightarrow> int \<Rightarrow> string \<Rightarrow> headers \<Rightarrow> 's \<Rightarrow> (publication_error, publication, 's) outcome" where
  "unpublish svc kbid who expected correlation inbound s =
     (let now = pvs_now svc in
      case pub_require_owner svc kbid who inbound s of
        (Inl e, s1) \<Rightarrow> (Inl e, s1)
      | (Inr own, s1) \<Rightarrow>
        if expected < 1 \<or> \<not> valid_correlation correlation then (Inl PubInvalid, s1)
        else (case ps_get_by_kb (pvs_store svc) kbid s1 of
          (Inl e, s2) \<Rightarrow> (Inl e, s2)
        | (Inr existing, s2) \<Rightarrow>
          if pub_publisher_id existing \<noteq> pr_user_id who
             \<or> pub_publisher_tenant_id existing \<noteq> pr_tenant_id who then (Inl PubNotOwner, s2)
          else if pub_row_version existing \<noteq> expected then (Inl PubRevisionConflict, s2)
          else (case (if published existing
                      then ps_unpublish (pvs_store svc) (pub_id existing) expected correlation now s2
                      else (Inr existing, s2)) of
            (Inl e, s3) \<Rightarrow> (Inl e, s3)
          | (Inr result, s3) \<Rightarrow>
            (case (case pvs_subscriptions svc of
                     None \<Rightarrow> (Inr (), s3)
                   | Some iv \<Rightarrow> iv_publication iv (pub_id result) correlation now s3) of
              (Inl _, s4) \<Rightarrow> (Inl PubUnavailable, s4)
            | (Inr _, s4) \<Rightarrow>
                if published existing
                then pub_finish svc (publication_audit_event own who ''publication.unpublished''
                       (Some existing) result correlation now) result s4
                else (Inr result, s4)))))"

definition unpublish_for_deletion ::
    "'s publication_service \<Rightarrow> string \<Rightarrow> principal \<Rightarrow> string \<Rightarrow> headers \<Rightarrow> 's \<Rightarrow> (publication_error, unit, 's) outcome" where
  "unpublish_for_deletion svc kbid who correlation inbound s =
     (case pub_require_owner svc kbid who inbound s of
        (Inl e, s1) \<Rightarrow> (Inl e, s1)
      | (Inr _, s1) \<Rightarrow>
        (case ps_get_by_kb (pvs_store svc) kbid s1 of
          (Inl e, s2) \<Rightarrow> (if e = PubNotFound then (Inr (), s2) else (Inl e, s2))
        | (Inr existing, s2) \<Rightarrow>
          if \<not> published existing then
            (case pvs_subscriptions svc of
               None \<Rightarrow> (Inr (), s2)
             | Some iv \<Rightarrow>
                 (case iv_publication iv (pub_id existing) correlation (pvs_now svc) s2 of
                    (Inl _, s3) \<Rightarrow> (Inl PubFailed, s3)
                  | (Inr _, s3) \<Rightarrow> (Inr (), s3)))
          else (case unpublish svc kbid who (pub_row_version existing) correlation inbound s2 of
                  (Inl e, s3) \<Rightarrow> (Inl e, s3)
                | (Inr _, s3) \<Rightarrow> (Inr (), s3))))"

definition get_for_owner ::
    "'s publication_service \<Rightarrow> string \<Rightarrow> principal \<Rightarrow> headers \<Rightarrow> 's \<Rightarrow> (publication_error, publication, 's) outcome" where
  "get_for_owner svc kbid who inbound s =
     (case pub_require_owner svc kbid who inbound s of
        (Inl e, s1) \<Rightarrow> (Inl e, s1)
      | (Inr _, s1) \<Rightarrow> ps_get_by_kb (pvs_store svc) kbid s1)"

text \<open>The product's wiring in cmd/gateway/main.go.\<close>

definition product_invalidator :: "database invalidator" where
  "product_invalidator =
     \<lparr>iv_publication = subscription_inactivate_publication, iv_outside = subscription_inactivate_outside\<rparr>"

definition product_publication_service ::
    "(string \<Rightarrow> headers \<Rightarrow> upstream_error + knowledge_base) \<Rightarrow> (string \<Rightarrow> string) \<Rightarrow> time \<Rightarrow> database publication_service" where
  "product_publication_service upstream ulower now =
     \<lparr>pvs_store = publication_repository, pvs_owners = resolve (product_resolver upstream),
      pvs_ensure = revision_ensure, pvs_current = revision_current,
      pvs_subscriptions = Some product_invalidator, pvs_auditor = Some audit_record,
      pvs_now = now, pvs_new_id = new_id, pvs_ulower = ulower\<rparr>"

end
