(* ===== verification/PublicationProofs.thy ===== *)
theory PublicationProofs
  imports PublicationService
begin

text \<open>
  What the publication service guarantees, proved over the contracts of its store and of the
  subscription invalidator, with the product's wiring as the instance.
\<close>

section \<open>The life of a publication\<close>

definition pub_evolves :: "publication \<Rightarrow> publication \<Rightarrow> bool" where
  "pub_evolves p q \<longleftrightarrow>
     pub_id q = pub_id p \<and> pub_kb_id q = pub_kb_id p \<and> pub_publisher_id q = pub_publisher_id p
   \<and> pub_publisher_tenant_id q = pub_publisher_tenant_id p \<and> pub_created_at q = pub_created_at p
   \<and> (q = p \<or> pub_row_version p < pub_row_version q)"

lemma pub_evolves_refl [simp]: "pub_evolves p p"
  by (simp add: pub_evolves_def)

lemma pub_evolves_trans: "pub_evolves p q \<Longrightarrow> pub_evolves q r \<Longrightarrow> pub_evolves p r"
  by (auto simp: pub_evolves_def)

lemma pub_evolves_rows [simp]: "pub_evolves p (set_publication c p)" "pub_evolves p (unpublish_row x t p)"
  by (simp_all add: pub_evolves_def)

definition pub_change :: "string \<Rightarrow> publication list \<Rightarrow> publication list \<Rightarrow> bool" where
  "pub_change k = row_change pub_id pub_kb_id pub_evolves k"

lemma pub_change_refl [simp]: "pub_change k xs xs"
  by (simp add: pub_change_def)

lemma publications_unique_keys: "publications_unique xs = table_keys pub_id pub_kb_id xs"
  by (simp add: publications_unique_def table_keys_def)

lemma pub_change_unique: "pub_change k xs ys \<Longrightarrow> publications_unique xs \<Longrightarrow> publications_unique ys"
  unfolding pub_change_def publications_unique_keys by (rule row_change_keys)

lemma pub_change_others:
  "pub_change k xs ys \<Longrightarrow> publications_unique xs \<Longrightarrow> pub_kb_id p \<noteq> k \<Longrightarrow> p \<in> set ys \<longleftrightarrow> p \<in> set xs"
  unfolding pub_change_def publications_unique_keys by (rule row_change_others)

lemma pub_change_evolves: "pub_change k xs ys \<Longrightarrow> table_evolves pub_evolves xs ys"
  unfolding pub_change_def by (auto intro: row_change_evolves)

lemma apply_write_keys [simp]:
  "pub_id (apply_write p n r c t) = pub_id p" "pub_audience (apply_write p n r c t) = wrq_audience n"
  by (simp_all add: apply_write_def)

lemma new_publication_key [simp]: "pub_kb_id (new_publication i k who own n r c now) = k"
  by (simp add: new_publication_def)

text \<open>The subscriptions end at most: \<open>ended xs ys\<close> when some rows of \<open>xs\<close> have been set inactive.\<close>

definition ended :: "subscription list \<Rightarrow> subscription list \<Rightarrow> bool" where
  "ended xs ys \<longleftrightarrow> (\<exists>P x t. ys = update_where P (end_row SubInactive x t) xs)"

lemma ended_refl [simp]: "ended xs xs"
  unfolding ended_def by (intro exI [of _ "\<lambda>_. False"]) (simp add: update_where_none)

section \<open>The service over its dependencies\<close>

text \<open>
  \<open>pubs\<close> and \<open>subs\<close> are the two tables of a state; the store changes the first, the invalidator the
  second, the other dependencies neither.
\<close>

locale publication_service_deps = publication_contract "pvs_store svc" pubs +
  subscription_invalidator "iv_publication iv" "iv_outside iv" subs
  for svc :: "'s publication_service" and iv :: "'s invalidator"
    and pubs :: "'s \<Rightarrow> publication list" and subs :: "'s \<Rightarrow> subscription list" +
  assumes wired: "pvs_subscriptions svc = Some iv"
    and store_subs: "subs (snd (ps_create (pvs_store svc) c s)) = subs s"
      "subs (snd (ps_get_by_kb (pvs_store svc) k s)) = subs s"
      "subs (snd (ps_update (pvs_store svc) c v s)) = subs s"
      "subs (snd (ps_unpublish (pvs_store svc) i v x t s)) = subs s"
    and iv_pubs: "pubs (snd (iv_publication iv i x t s)) = pubs s" "pubs (snd (iv_outside iv i a x t s)) = pubs s"
    and owners_frame: "(pubs (snd (pvs_owners svc k h s)), subs (snd (pvs_owners svc k h s))) = (pubs s, subs s)"
    and ensure_frame: "(pubs (snd (pvs_ensure svc k u ty m x t s)), subs (snd (pvs_ensure svc k u ty m x t s))) = (pubs s, subs s)"
    and current_frame: "(pubs (snd (pvs_current svc k s)), subs (snd (pvs_current svc k s))) = (pubs s, subs s)"
    and id_frame: "(pubs (snd (pvs_new_id svc s)), subs (snd (pvs_new_id svc s))) = (pubs s, subs s)"
    and auditor_frame: "pvs_auditor svc = Some record \<Longrightarrow> (pubs (snd (record e s)), subs (snd (record e s))) = (pubs s, subs s)"
begin

lemma owners_rows: "pvs_owners svc k h s = (r, s1) \<Longrightarrow> pubs s1 = pubs s \<and> subs s1 = subs s"
  using owners_frame [of k h s] by simp

lemma ensure_rows: "pvs_ensure svc k u ty m x t s = (r, s1) \<Longrightarrow> pubs s1 = pubs s \<and> subs s1 = subs s"
  using ensure_frame [of k u ty m x t s] by simp

lemma current_rows: "pvs_current svc k s = (r, s1) \<Longrightarrow> pubs s1 = pubs s \<and> subs s1 = subs s"
  using current_frame [of k s] by simp

lemma id_rows: "pvs_new_id svc s = (r, s1) \<Longrightarrow> pubs s1 = pubs s \<and> subs s1 = subs s"
  using id_frame [of s] by simp

lemma audit_rows: "pub_record_audit svc e s = (r, s1) \<Longrightarrow> pubs s1 = pubs s \<and> subs s1 = subs s"
  using auditor_frame [of _ e s]
  by (auto simp: pub_record_audit_def split: option.splits prod.splits sum.splits)

lemma finish_rows: "pub_finish svc e p s = (r, s1) \<Longrightarrow> pubs s1 = pubs s \<and> subs s1 = subs s"
  by (auto simp: pub_finish_def split: prod.splits sum.splits dest!: audit_rows)

lemma finish_Inr: "pub_finish svc e p s = (Inr q, s1) \<Longrightarrow> q = p \<and> pubs s1 = pubs s \<and> subs s1 = subs s"
  by (auto simp: pub_finish_def split: prod.splits sum.splits dest!: audit_rows)

lemma denied_rows: "pubs (pub_record_denied svc own who h s) = pubs s" "subs (pub_record_denied svc own who h s) = subs s"
  using auditor_frame by (simp_all add: pub_record_denied_def split: option.splits)

lemma require_owner_rows: "pub_require_owner svc k who h s = (r, s1) \<Longrightarrow> pubs s1 = pubs s \<and> subs s1 = subs s"
  by (auto simp: pub_require_owner_def denied_rows split: if_splits prod.splits sum.splits dest!: owners_rows)

lemma require_owner_Inr:
  "pub_require_owner svc k who h s = (Inr own, s1) \<Longrightarrow>
   pvs_owners svc k h s = (Inr own, s1) \<and> pr_user_id who = own_user_id own
   \<and> pr_tenant_id who = own_tenant_id own \<and> \<not> is_personal_notes own"
  by (auto simp: pub_require_owner_def split: if_splits prod.splits sum.splits)

lemma by_kb_rows: "ps_get_by_kb (pvs_store svc) k s = (r, s1) \<Longrightarrow> pubs s1 = pubs s \<and> subs s1 = subs s"
  using get_by_kb_frame [of k s] store_subs(2) [of k s] by simp

lemma by_kb_Inl_rows: "ps_get_by_kb (pvs_store svc) k s = (Inl e, s1) \<Longrightarrow> pubs s1 = pubs s \<and> subs s1 = subs s"
  using by_kb_rows .

lemma by_kb_facts:
  "ps_get_by_kb (pvs_store svc) k s = (Inr p, s1) \<Longrightarrow>
   p \<in> set (pubs s) \<and> pub_kb_id p = k \<and> publication_valid p \<and> pubs s1 = pubs s \<and> subs s1 = subs s"
  using get_by_kb_Inr by_kb_rows by blast

lemma iv_publication_rows: "iv_publication iv i x t s = (r, s1) \<Longrightarrow> pubs s1 = pubs s"
  using iv_pubs(1) [of i x t s] by simp

lemma iv_outside_rows: "iv_outside iv i a x t s = (r, s1) \<Longrightarrow> pubs s1 = pubs s"
  using iv_pubs(2) [of i a x t s] by simp

text \<open>The store's writes are changes of the publication of one knowledge base.\<close>

lemma create_change:
  "ps_create (pvs_store svc) c s = (r, s1) \<Longrightarrow>
   pub_change (pub_kb_id c) (pubs s) (pubs s1) \<and> subs s1 = subs s"
  using store_subs(1) [of c s] create_Inr [of c s _ s1] create_Inl [of c s _ s1]
  by (cases r) (auto simp: pub_change_def intro!: row_change_append)

lemma update_change:
  assumes "ps_update (pvs_store svc) c v s = (r, s1)" "old \<in> set (pubs s)" "pub_id c = pub_id old"
  shows "pub_change (pub_kb_id old) (pubs s) (pubs s1) \<and> subs s1 = subs s"
  using assms(1,3) store_subs(3) [of c v s] update_Inr [of c v s _ s1] update_Inl [of c v s _ s1]
  by (cases r) (auto simp: pub_change_def publication_matches_def
      intro!: row_change_update [where key = pub_kb_id, OF assms(2) refl])

lemma unpublish_change:
  assumes "ps_unpublish (pvs_store svc) (pub_id old) v x t s = (r, s1)" "old \<in> set (pubs s)"
  shows "pub_change (pub_kb_id old) (pubs s) (pubs s1) \<and> subs s1 = subs s"
  using assms(1) store_subs(4) [of "pub_id old" v x t s] unpublish_Inr [of "pub_id old" v x t s _ s1]
    unpublish_Inl [of "pub_id old" v x t s _ s1]
  by (cases r) (auto simp: pub_change_def unpublish_matches_def
      intro!: row_change_update [where key = pub_kb_id, OF assms(2) refl])

text \<open>The operations on the publications; \<open>publish\<close> leaves the subscriptions alone.\<close>

lemma publish_rows:
  assumes "publish svc k who req h s = (r, s1)"
  shows "pub_change k (pubs s) (pubs s1) \<and> subs s1 = subs s"
proof -
  have up: "ps_update (pvs_store svc) ((apply_write old n rv x t)\<lparr>pub_status := st, pub_published_at := t1,
        pub_unpublished_at := u\<rparr>) v s3 = (r, s4) \<Longrightarrow> pubs s3 = pubs s \<Longrightarrow> old \<in> set (pubs s) \<Longrightarrow> pub_kb_id old = k \<Longrightarrow>
      pub_change k (pubs s) (pubs s4) \<and> subs s4 = subs s3" for old n rv x t st t1 u v s3 r s4
    using update_change [of _ v s3 r s4 old] by auto
  have cr: "ps_create (pvs_store svc) (new_publication i k who own n rv x t) s3 = (r, s4) \<Longrightarrow> pubs s3 = pubs s \<Longrightarrow>
      pub_change k (pubs s) (pubs s4) \<and> subs s4 = subs s3" for i own n rv x t s3 r s4
    using create_change [of "new_publication i k who own n rv x t" s3 r s4] by simp
  show ?thesis
    using assms
    by (auto simp: publish_def Let_def split: prod.splits sum.splits option.splits if_splits
        dest!: require_owner_rows ensure_rows by_kb_facts by_kb_Inl_rows id_rows finish_rows dest: up cr)
qed

lemma update_publication_rows:
  assumes "update_publication svc k who req h s = (r, s1)"
  shows "pub_change k (pubs s) (pubs s1)"
proof -
  have up: "ps_update (pvs_store svc) (apply_write old n rv x t) v s3 = (r, s4) \<Longrightarrow> pubs s3 = pubs s \<Longrightarrow>
      old \<in> set (pubs s) \<Longrightarrow> pub_kb_id old = k \<Longrightarrow> pub_change k (pubs s) (pubs s4)" for old n rv x t v s3 r s4
    using update_change [of "apply_write old n rv x t" v s3 r s4 old] by simp
  show ?thesis
    using assms
    by (auto simp: update_publication_def Let_def wired split: prod.splits sum.splits option.splits if_splits
        dest!: require_owner_rows current_rows by_kb_facts by_kb_Inl_rows finish_rows iv_outside_rows dest: up)
qed

lemma unpublish_rows:
  assumes "unpublish svc k who v x h s = (r, s1)"
  shows "pub_change k (pubs s) (pubs s1)"
proof -
  have un: "ps_unpublish (pvs_store svc) (pub_id old) v x t s3 = (r, s4) \<Longrightarrow> pubs s3 = pubs s \<Longrightarrow>
      old \<in> set (pubs s) \<Longrightarrow> pub_kb_id old = k \<Longrightarrow> pub_change k (pubs s) (pubs s4)" for old v x t s3 r s4
    using unpublish_change [of old v x t s3 r s4] by simp
  show ?thesis
    using assms
    by (auto simp: unpublish_def Let_def wired split: prod.splits sum.splits option.splits if_splits
        dest!: require_owner_rows by_kb_facts by_kb_Inl_rows finish_rows iv_publication_rows dest: un)
qed

lemma unpublish_for_deletion_rows:
  assumes "unpublish_for_deletion svc k who x h s = (r, s1)"
  shows "pub_change k (pubs s) (pubs s1)"
proof -
  have un: "unpublish svc k' who v x h s3 = (r, s4) \<Longrightarrow> pubs s3 = pubs s \<Longrightarrow> pub_change k' (pubs s) (pubs s4)"
    for k' v s3 r s4
    using unpublish_rows [of k' who v x h s3 r s4] by simp
  show ?thesis
    using assms
    by (auto simp: unpublish_for_deletion_def wired split: prod.splits sum.splits option.splits if_splits
        dest!: require_owner_rows by_kb_facts by_kb_Inl_rows iv_publication_rows dest: un)
qed

lemma get_for_owner_rows: "get_for_owner svc k who h s = (r, s1) \<Longrightarrow> pubs s1 = pubs s \<and> subs s1 = subs s"
  by (auto simp: get_for_owner_def split: prod.splits sum.splits dest!: require_owner_rows by_kb_rows)

lemma iv_publication_ended:
  "iv_publication iv i x t s = (r, s1) \<Longrightarrow> ended (subs s) (subs s1)"
  using inact_publication_Inr [of i x t s _ s1] inact_publication_Inl [of i x t s _ s1]
  by (cases r) (auto simp: ended_def)

lemma iv_outside_ended:
  "iv_outside iv i a x t s = (r, s1) \<Longrightarrow> subscriptions_unique (subs s) \<Longrightarrow> ended (subs s) (subs s1)"
  using inact_outside_Inr [of i a x t s _ s1] inact_outside_Inl [of i a x t s _ s1]
  by (cases r) (auto simp: ended_def)

lemma update_publication_ended:
  assumes "update_publication svc k who req h s = (r, s1)" "subscriptions_unique (subs s)"
  shows "ended (subs s) (subs s1)"
proof -
  have iv: "iv_outside iv i a x t s3 = (r, s4) \<Longrightarrow> subs s3 = subs s \<Longrightarrow> ended (subs s) (subs s4)" for i a x t s3 r s4
    using iv_outside_ended [of i a x t s3 r s4] assms(2) by simp
  have up: "ps_update (pvs_store svc) c v s3 = (r, s4) \<Longrightarrow> subs s4 = subs s3" for c v s3 r s4
    using store_subs(3) [of c v s3] by simp
  show ?thesis
    using assms
    by (auto simp: update_publication_def Let_def wired split: prod.splits sum.splits option.splits if_splits
        dest!: require_owner_rows current_rows by_kb_facts by_kb_Inl_rows finish_rows up dest: iv)
qed

lemma unpublish_ended:
  assumes "unpublish svc k who v x h s = (r, s1)"
  shows "ended (subs s) (subs s1)"
proof -
  have iv: "iv_publication iv i x t s3 = (r, s4) \<Longrightarrow> subs s3 = subs s \<Longrightarrow> ended (subs s) (subs s4)" for i x t s3 r s4
    using iv_publication_ended [of i x t s3 r s4] by simp
  have un: "ps_unpublish (pvs_store svc) i v x t s3 = (r, s4) \<Longrightarrow> subs s4 = subs s3" for i v x t s3 r s4
    using store_subs(4) [of i v x t s3] by simp
  show ?thesis
    using assms
    by (auto simp: unpublish_def Let_def wired split: prod.splits sum.splits option.splits if_splits
        dest!: require_owner_rows by_kb_facts by_kb_Inl_rows finish_rows un dest: iv)
qed

lemma unpublish_for_deletion_ended:
  assumes "unpublish_for_deletion svc k who x h s = (r, s1)"
  shows "ended (subs s) (subs s1)"
proof -
  have iv: "iv_publication iv i x t s3 = (r, s4) \<Longrightarrow> subs s3 = subs s \<Longrightarrow> ended (subs s) (subs s4)" for i x t s3 r s4
    using iv_publication_ended [of i x t s3 r s4] by simp
  have un: "unpublish svc k' who v x h s3 = (r, s4) \<Longrightarrow> subs s3 = subs s \<Longrightarrow> ended (subs s) (subs s4)"
    for k' v s3 r s4
    using unpublish_ended [of k' who v x h s3 r s4] by simp
  show ?thesis
    using assms
    by (auto simp: unpublish_for_deletion_def wired split: prod.splits sum.splits option.splits if_splits
        dest!: require_owner_rows by_kb_facts by_kb_Inl_rows dest: un iv)
qed

text \<open>What a successful call has established.\<close>

lemma update_Inr_row:
  assumes "ps_update (pvs_store svc) c v s = (Inr p, s1)" "publications_unique (pubs s)"
    and "old \<in> set (pubs s)" "pub_id c = pub_id old"
  shows "p = set_publication c old \<and> p \<in> set (pubs s1) \<and> publication_valid p \<and> pub_row_version p = v + 1
    \<and> subs s1 = subs s"
proof -
  from update_Inr [OF assms(1)] obtain o2 where o: "o2 \<in> set (pubs s)" "publication_matches (pub_id c) v o2"
    "p = set_publication c o2" "publication_valid p"
    "pubs s1 = update_where (publication_matches (pub_id c) v) (set_publication c) (pubs s)"
    by blast
  have "p = set_publication c old \<and> p \<in> set (pubs s1)"
    using o assms(2-4)
    by (intro updated_row [where ident = pub_id and key = pub_kb_id and Q = "\<lambda>q. pub_row_version q = v"])
       (auto simp: publications_unique_keys publication_matches_def [abs_def])
  with o(2-4) store_subs(3) [of c v s] assms(1) show ?thesis
    by (auto simp: publication_matches_def)
qed

lemma unpublish_Inr_row:
  assumes "ps_unpublish (pvs_store svc) (pub_id old) v x t s = (Inr p, s1)" "publications_unique (pubs s)"
    and "old \<in> set (pubs s)"
  shows "p = unpublish_row x t old \<and> p \<in> set (pubs s1) \<and> publication_valid p \<and> subs s1 = subs s"
proof -
  from unpublish_Inr [OF assms(1)] obtain o2 where o: "o2 \<in> set (pubs s)" "unpublish_matches (pub_id old) v o2"
    "p = unpublish_row x t o2" "publication_valid p"
    "pubs s1 = update_where (unpublish_matches (pub_id old) v) (unpublish_row x t) (pubs s)"
    by blast
  have "p = unpublish_row x t old \<and> p \<in> set (pubs s1)"
    using o assms(2,3)
    by (intro updated_row [where ident = pub_id and key = pub_kb_id
          and Q = "\<lambda>q. pub_row_version q = v \<and> pub_status q = StatusPublished"])
       (auto simp: publications_unique_keys unpublish_matches_def [abs_def])
  with o(4) store_subs(4) [of "pub_id old" v x t s] assms(1) show ?thesis
    by auto
qed

lemma publish_Inr:
  assumes "publish svc k who req h s = (Inr p, s1)" "publications_unique (pubs s)"
  shows "(\<exists>own s0. pvs_owners svc k h s = (Inr own, s0) \<and> pr_user_id who = own_user_id own
       \<and> pr_tenant_id who = own_tenant_id own \<and> \<not> is_personal_notes own)
     \<and> p \<in> set (pubs s1) \<and> pub_kb_id p = k \<and> published p \<and> publication_valid p
     \<and> (\<exists>n. normalize_write (pvs_ulower svc) req = Inr n \<and> pub_audience p = wrq_audience n)"
proof -
  have up: "ps_update (pvs_store svc) ((apply_write old n rv x t)\<lparr>pub_status := st, pub_published_at := t1,
        pub_unpublished_at := u\<rparr>) v s3 = (Inr p, s4) \<Longrightarrow> pubs s3 = pubs s \<Longrightarrow> old \<in> set (pubs s) \<Longrightarrow>
      p \<in> set (pubs s4) \<and> pub_kb_id p = pub_kb_id old \<and> published p \<and> publication_valid p
      \<and> pub_audience p = wrq_audience n" for old n rv x t st t1 u v s3 s4
    using assms(2) by (auto dest!: update_Inr_row [where old = old])
  have cr: "ps_create (pvs_store svc) (new_publication i k who own n rv x t) s3 = (Inr p, s4) \<Longrightarrow>
      p \<in> set (pubs s4) \<and> pub_kb_id p = k \<and> published p \<and> publication_valid p
      \<and> pub_audience p = wrq_audience n" for i own n rv x t s3 s4
    using create_Inr [of "new_publication i k who own n rv x t" s3 p s4] by (auto simp: new_publication_def)
  have owner: "pub_require_owner svc k who h s = (Inr own, s2) \<Longrightarrow>
      (\<exists>own s0. pvs_owners svc k h s = (Inr own, s0) \<and> pr_user_id who = own_user_id own
       \<and> pr_tenant_id who = own_tenant_id own \<and> \<not> is_personal_notes own) \<and> pubs s2 = pubs s" for own s2
    using require_owner_Inr require_owner_rows by blast
  show ?thesis
    using assms
    by (auto simp: publish_def Let_def split: prod.splits sum.splits option.splits if_splits
        dest!: owner ensure_rows by_kb_facts by_kb_Inl_rows id_rows finish_Inr dest: up cr)
qed

lemma update_publication_Inr:
  assumes "update_publication svc k who req h s = (Inr p, s1)" "publications_unique (pubs s)"
    and "subscriptions_unique (subs s)"
  shows "pub_publisher_id p = pr_user_id who \<and> pub_publisher_tenant_id p = pr_tenant_id who
     \<and> p \<in> set (pubs s1) \<and> pub_kb_id p = k \<and> published p \<and> publication_valid p
     \<and> pub_row_version p = wrq_expected_row_version req + 1
     \<and> (\<forall>x\<in>set (subs s1). sub_publication_id x = pub_id p \<and> sub_status x = SubActive
          \<and> sub_subscriber_tenant_id x \<noteq> 0 \<longrightarrow> audience_allows (pub_audience p) (sub_subscriber_tenant_id x))"
proof -
  have up: "ps_update (pvs_store svc) (apply_write old n rv x t) v s3 = (Inr p, s4) \<Longrightarrow> pubs s3 = pubs s \<Longrightarrow>
      old \<in> set (pubs s) \<Longrightarrow> p = set_publication (apply_write old n rv x t) old \<and> p \<in> set (pubs s4) \<and> pub_kb_id p = pub_kb_id old \<and> published p \<and> publication_valid p
      \<and> pub_publisher_id p = pub_publisher_id old \<and> pub_publisher_tenant_id p = pub_publisher_tenant_id old
      \<and> pub_row_version p = v + 1 \<and> subs s4 = subs s3" for old n rv x t v s3 s4 p
    using assms(2) by (auto dest!: update_Inr_row [where old = old])
  have iv: "iv_outside iv i a x t s3 = (Inr u, s4) \<Longrightarrow> subs s3 = subs s \<Longrightarrow> pubs s4 = pubs s3 \<and>
      (\<forall>y\<in>set (subs s4). sub_publication_id y = i \<and> sub_status y = SubActive \<and> sub_subscriber_tenant_id y \<noteq> 0
         \<longrightarrow> audience_allows a (sub_subscriber_tenant_id y))" for i a x t s3 u s4
    using inact_outside_only_allowed [of i a x t s3 u s4] iv_outside_rows [of i a x t s3 "Inr u" s4] assms(3) by simp
  show ?thesis
    using assms
    by (auto simp: update_publication_def Let_def wired split: prod.splits sum.splits option.splits if_splits
        dest!: require_owner_rows current_rows by_kb_facts finish_Inr) (auto dest!: up iv)
qed

lemma unpublished_Inr:
  assumes "unpublish svc k who v x h s = (Inr p, s1)" "publications_unique (pubs s)"
  shows "p \<in> set (pubs s1) \<and> pub_kb_id p = k \<and> \<not> published p
     \<and> pub_publisher_id p = pr_user_id who \<and> pub_publisher_tenant_id p = pr_tenant_id who
     \<and> (\<forall>y\<in>set (subs s1). sub_publication_id y = pub_id p \<longrightarrow> sub_status y \<noteq> SubActive)"
proof -
  have un: "ps_unpublish (pvs_store svc) (pub_id old) v x t s3 = (Inr p, s4) \<Longrightarrow> pubs s3 = pubs s \<Longrightarrow>
      old \<in> set (pubs s) \<Longrightarrow> p = unpublish_row x t old \<and> p \<in> set (pubs s4) \<and> subs s4 = subs s3"
    for old v x t s3 s4 p
    using assms(2) by (auto dest!: unpublish_Inr_row)
  have iv: "iv_publication iv i x t s3 = (Inr u, s4) \<Longrightarrow> pubs s4 = pubs s3 \<and>
      (\<forall>y\<in>set (subs s4). sub_publication_id y = i \<longrightarrow> sub_status y \<noteq> SubActive)" for i x t s3 u s4
    using inact_publication_none_active [of i x t s3 u s4] iv_publication_rows [of i x t s3 "Inr u" s4] by auto
  show ?thesis
    using assms
    by (auto simp: unpublish_def Let_def wired split: prod.splits sum.splits option.splits if_splits
        dest!: require_owner_rows by_kb_facts finish_Inr) (auto dest!: un iv)
qed

text \<open>After an unpublish, and until the publication changes again, nobody reads it as published.\<close>

lemma unpublished_not_readable:
  assumes "unpublish svc k who v x h s = (Inr p, s1)" "publications_unique (pubs s)" "pubs s2 = pubs s1"
  shows "\<exists>e s3. ps_get_published_by_kb (pvs_store svc) k s2 = (Inl e, s3)"
proof (cases "ps_get_published_by_kb (pvs_store svc) k s2")
  case (Pair r s3)
  have u: "publications_unique (pubs s1)"
    using unpublish_rows [OF assms(1)] assms(2) by (rule pub_change_unique)
  have "\<not> published q" if "q \<in> set (pubs s1)" "pub_kb_id q = k" for q
    using unpublished_Inr [OF assms(1,2)] that u distinct_map_inj [of pub_kb_id "pubs s1" q p]
    by (auto simp: publications_unique_def)
  with Pair assms(3) show ?thesis by (cases r) (auto dest: by_kb_Inr)
qed

end

section \<open>The product's publication service\<close>

lemma product_pub_sel [simp]:
  "pvs_store (product_publication_service u l t) = publication_repository"
  "pvs_owners (product_publication_service u l t) = resolve (product_resolver u)"
  "pvs_ensure (product_publication_service u l t) = revision_ensure"
  "pvs_current (product_publication_service u l t) = revision_current"
  "pvs_subscriptions (product_publication_service u l t) = Some product_invalidator"
  "pvs_auditor (product_publication_service u l t) = Some audit_record"
  "pvs_new_id (product_publication_service u l t) = new_id"
  "pvs_now (product_publication_service u l t) = t" "pvs_ulower (product_publication_service u l t) = l"
  "iv_publication product_invalidator = subscription_inactivate_publication"
  "iv_outside product_invalidator = subscription_inactivate_outside"
  by (simp_all add: product_publication_service_def product_invalidator_def)

lemma publication_writes_subs [simp]:
  "db_subscriptions (snd (publication_create c db)) = db_subscriptions db"
  "db_subscriptions (snd (publication_update c v db)) = db_subscriptions db"
  "db_subscriptions (snd (publication_unpublish i v x t db)) = db_subscriptions db"
  by (auto simp: publication_create_def publication_update_def publication_unpublish_def exec_def
      update_returning_def put_publications_def split: option.splits)

lemma bulk_end_pubs [simp]: "db_publications (snd (bulk_end P x t db)) = db_publications db"
  by (auto simp: bulk_end_def exec_def)

lemma end_candidates_pubs [simp]: "db_publications (snd (end_candidates a x t cs db)) = db_publications db"
proof (induction a x t cs db rule: end_candidates.induct)
  case (2 a x t i w rest db)
  show ?case
  proof (cases "bulk_end (\<lambda>y. sub_id y = i \<and> sub_status y = SubActive) x t db")
    case (Pair r db1)
    with bulk_end_pubs [of "\<lambda>y. sub_id y = i \<and> sub_status y = SubActive" x t db] 2 show ?thesis
      by (cases r) auto
  qed
qed simp

lemma invalidator_pubs [simp]:
  "db_publications (snd (subscription_inactivate_publication i x t db)) = db_publications db"
  "db_publications (snd (subscription_inactivate_outside i a x t db)) = db_publications db"
proof -
  show "db_publications (snd (subscription_inactivate_publication i x t db)) = db_publications db"
    by (simp add: subscription_inactivate_publication_def)
  have "db_publications (snd (case query SubFailed f db of (Inl e, db1) \<Rightarrow> (Inl e, db1)
      | (Inr cs, db1) \<Rightarrow> end_candidates a x t cs db1)) = db_publications db" for f db
    using snd_query [of SubFailed f db]
    by (cases "query SubFailed f db"; cases "fst (query SubFailed f db)") auto
  then show "db_publications (snd (subscription_inactivate_outside i a x t db)) = db_publications db"
    by (simp add: subscription_inactivate_outside_def transaction_frame)
qed

interpretation psd: publication_service_deps "product_publication_service upstream ulower now"
    product_invalidator db_publications db_subscriptions
  for upstream ulower now
proof (intro publication_service_deps.intro)
  show "publication_contract (pvs_store (product_publication_service upstream ulower now)) db_publications"
    by (simp add: pubc.publication_contract_axioms)
  show "subscription_invalidator (iv_publication product_invalidator) (iv_outside product_invalidator) db_subscriptions"
    by (simp add: subi.subscription_invalidator_axioms)
  show "publication_service_deps_axioms (product_publication_service upstream ulower now)
      product_invalidator db_publications db_subscriptions"
    by unfold_locales auto
qed

end
