(* ===== verification/SubscriptionService.thy ===== *)
theory SubscriptionService
  imports SubscriptionRepository PublicationRepository RevisionRepository AuditRepository
begin

text \<open>
  internal/subscription/service.go: following and leaving publications. \<open>SubFailed\<close> stands for an
  error that is none of the package's own (a database or random-source error, an error of the
  revision store passed on).
\<close>

record 's subscription_service =
  svs_store :: "'s subscription_store"
  svs_pubs :: "string \<Rightarrow> 's \<Rightarrow> (publication_error, publication, 's) outcome"
  svs_current :: "string \<Rightarrow> 's \<Rightarrow> (revision_error, int, 's) outcome"
  svs_now :: time
  svs_new_id :: "'s \<Rightarrow> string option \<times> 's"
  svs_auditor :: "'s recorder option"

record sub_item =
  it_subscription :: subscription
  it_publication :: publication
  it_current_revision :: int
  it_updated :: bool

definition sub_item_of :: "subscription \<Rightarrow> publication \<Rightarrow> int \<Rightarrow> sub_item" where
  "sub_item_of x p current =
     \<lparr>it_subscription = x, it_publication = p, it_current_revision = current,
      it_updated = (sub_last_seen_revision x < current)\<rparr>"

definition valid_actor :: "principal \<Rightarrow> bool" where
  "valid_actor who \<longleftrightarrow> \<not> blank (pr_user_id who) \<and> pr_tenant_id who \<noteq> 0"

definition sub_valid_correlation :: "string \<Rightarrow> bool" where
  "sub_valid_correlation v \<longleftrightarrow> \<not> blank v \<and> length v \<le> 128"

fun sub_status_text :: "subscription_status \<Rightarrow> string" where
  "sub_status_text SubActive = ''active''"
| "sub_status_text SubInactive = ''inactive''"
| "sub_status_text SubUnsubscribed = ''unsubscribed''"
| "sub_status_text (SubStatusOther s) = s"

definition audit_subscription_value :: "subscription \<Rightarrow> json" where
  "audit_subscription_value x = JObj
     [(''last_seen_revision'', JNum (itoa (sub_last_seen_revision x))),
      (''status'', JStr (sub_status_text (sub_status x)))]"

definition subscription_audit_event ::
    "publication \<Rightarrow> principal \<Rightarrow> string \<Rightarrow> subscription option \<Rightarrow> subscription \<Rightarrow> string \<Rightarrow> time \<Rightarrow> audit_event" where
  "subscription_audit_event p who action old new correlation at =
     \<lparr>ev_id = [], ev_tenant_id = pr_tenant_id who, ev_kb_id = pub_kb_id p,
      ev_actor_user_id = pr_user_id who, ev_action = action, ev_target_type = ''kb_subscription'',
      ev_target_id = sub_id new, ev_outcome = OutcomeSuccess, ev_error_code = [],
      ev_correlation_id = correlation,
      ev_old_value = (case old of None \<Rightarrow> None
                      | Some x \<Rightarrow> if sub_id x = [] then None else Some (audit_subscription_value x)),
      ev_new_value = (if sub_id new = [] then None else Some (audit_subscription_value new)),
      ev_created_at = at\<rparr>"

definition sub_record_audit ::
    "'s subscription_service \<Rightarrow> audit_event \<Rightarrow> 's \<Rightarrow> (subscription_error, unit, 's) outcome" where
  "sub_record_audit svc event s =
     (case svs_auditor svc of
        None \<Rightarrow> (Inr (), s)
      | Some record \<Rightarrow>
          (case record event s of
             (Inl _, s1) \<Rightarrow> (Inl SubUnavailable, s1)
           | (Inr _, s1) \<Rightarrow> (Inr (), s1)))"

definition new_subscription ::
    "string \<Rightarrow> string \<Rightarrow> principal \<Rightarrow> int \<Rightarrow> string \<Rightarrow> time \<Rightarrow> subscription" where
  "new_subscription i publication who current correlation now =
     \<lparr>sub_id = i, sub_publication_id = publication, sub_subscriber_id = pr_user_id who,
      sub_subscriber_tenant_id = pr_tenant_id who, sub_status = SubActive,
      sub_notification_enabled = True, sub_last_seen_revision = current, sub_created_at = now,
      sub_updated_at = now, sub_ended_at = None, sub_correlation_id = correlation\<rparr>"

text \<open>
  The write in \<open>Subscribe\<close>: reactivate the existing row, or create one; any other lookup error stays.
\<close>

definition subscribe_write ::
    "'s subscription_service \<Rightarrow> string \<Rightarrow> principal \<Rightarrow> string \<Rightarrow> int \<Rightarrow> subscription_error + subscription \<Rightarrow>
     's \<Rightarrow> (subscription_error, subscription, 's) outcome" where
  "subscribe_write svc publication who correlation current found s =
     (case found of
        Inr existing \<Rightarrow>
          ss_activate (svs_store svc) (sub_id existing) (pr_tenant_id who) current correlation (svs_now svc) s
      | Inl SubNotFound \<Rightarrow>
          (case svs_new_id svc s of
             (None, s1) \<Rightarrow> (Inl SubFailed, s1)
           | (Some i, s1) \<Rightarrow>
               ss_create (svs_store svc) (new_subscription i publication who current correlation (svs_now svc)) s1)
      | Inl e \<Rightarrow> (Inl e, s))"

definition subscribe ::
    "'s subscription_service \<Rightarrow> string \<Rightarrow> principal \<Rightarrow> string \<Rightarrow> 's \<Rightarrow> (subscription_error, sub_item \<times> bool, 's) outcome" where
  "subscribe svc publication who correlation s =
     (let same = (\<lambda>x. subscription_active x \<and> sub_subscriber_tenant_id x = pr_tenant_id who) in
      if \<not> valid_actor who \<or> \<not> sub_valid_correlation correlation \<or> blank publication then (Inl SubInvalid, s)
      else case svs_pubs svc publication s of
        (Inl _, s1) \<Rightarrow> (Inl SubPublication, s1)
      | (Inr p, s1) \<Rightarrow>
        if \<not> published p then (Inl SubPublication, s1)
        else if pub_publisher_id p = pr_user_id who then (Inl SubOwner, s1)
        else if \<not> visible_to p (pr_tenant_id who) then (Inl SubOutsideAudience, s1)
        else (case svs_current svc (pub_kb_id p) s1 of
          (Inl _, s2) \<Rightarrow> (Inl SubUnavailable, s2)
        | (Inr current, s2) \<Rightarrow>
          (case ss_get (svs_store svc) publication (pr_user_id who) s2 of (found, s3) \<Rightarrow>
            if (case found of Inr x \<Rightarrow> same x | Inl _ \<Rightarrow> False)
            then (Inr (sub_item_of (projr found) p current, False), s3)
            else (case subscribe_write svc publication who correlation current found s3 of
              (Inr active, s4) \<Rightarrow>
                (case sub_record_audit svc
                        (subscription_audit_event p who ''subscription.created''
                           (case found of Inr x \<Rightarrow> Some x | Inl _ \<Rightarrow> None) active correlation (svs_now svc)) s4 of
                   (Inl e, s5) \<Rightarrow> (Inl e, s5)
                 | (Inr _, s5) \<Rightarrow> (Inr (sub_item_of active p current, True), s5))
            | (Inl e, s4) \<Rightarrow>
                if e \<noteq> SubInvalid then (Inl e, s4)
                else (case ss_get (svs_store svc) publication (pr_user_id who) s4 of
                  (Inr winner, s5) \<Rightarrow>
                    if same winner then (Inr (sub_item_of winner p current, False), s5) else (Inl e, s5)
                | (Inl _, s5) \<Rightarrow> (Inl e, s5))))))"

definition current_or_published ::
    "'s subscription_service \<Rightarrow> publication \<Rightarrow> 's \<Rightarrow> (subscription_error, int, 's) outcome" where
  "current_or_published svc p s =
     (case svs_current svc (pub_kb_id p) s of
        (Inl _, s1) \<Rightarrow> (if 0 < pub_published_revision p then (Inr (pub_published_revision p), s1) else (Inl SubFailed, s1))
      | (Inr current, s1) \<Rightarrow> (Inr current, s1))"

definition unsubscribe ::
    "'s subscription_service \<Rightarrow> string \<Rightarrow> principal \<Rightarrow> string \<Rightarrow> 's \<Rightarrow> (subscription_error, sub_item \<times> bool, 's) outcome" where
  "unsubscribe svc publication who correlation s =
     (if \<not> valid_actor who \<or> \<not> sub_valid_correlation correlation \<or> publication = [] then (Inl SubInvalid, s)
      else case svs_pubs svc publication s of
        (Inl _, s1) \<Rightarrow> (Inl SubPublication, s1)
      | (Inr p, s1) \<Rightarrow>
        (case ss_get (svs_store svc) publication (pr_user_id who) s1 of
          (Inl e, s2) \<Rightarrow> (Inl e, s2)
        | (Inr existing, s2) \<Rightarrow>
          if sub_subscriber_tenant_id existing \<noteq> pr_tenant_id who then (Inl SubNotFound, s2)
          else (case current_or_published svc p s2 of
            (Inl e, s3) \<Rightarrow> (Inl e, s3)
          | (Inr current, s3) \<Rightarrow>
            if sub_status existing = SubUnsubscribed then (Inr (sub_item_of existing p current, False), s3)
            else (case ss_unsubscribe (svs_store svc) (sub_id existing) correlation (svs_now svc) s3 of
              (Inl e, s4) \<Rightarrow> (Inl e, s4)
            | (Inr ended, s4) \<Rightarrow>
              (case sub_record_audit svc
                      (subscription_audit_event p who ''subscription.ended'' (Some existing) ended correlation (svs_now svc)) s4 of
                 (Inl e, s5) \<Rightarrow> (Inl e, s5)
               | (Inr _, s5) \<Rightarrow> (Inr (sub_item_of ended p current, True), s5))))))"

definition mark_seen ::
    "'s subscription_service \<Rightarrow> string \<Rightarrow> principal \<Rightarrow> string \<Rightarrow> 's \<Rightarrow> (subscription_error, sub_item \<times> bool, 's) outcome" where
  "mark_seen svc publication who correlation s =
     (if \<not> valid_actor who \<or> \<not> sub_valid_correlation correlation \<or> publication = [] then (Inl SubInvalid, s)
      else case svs_pubs svc publication s of
        (Inl _, s1) \<Rightarrow> (Inl SubPublication, s1)
      | (Inr p, s1) \<Rightarrow>
        if \<not> visible_to p (pr_tenant_id who) then (Inl SubPublication, s1)
        else (case ss_get (svs_store svc) publication (pr_user_id who) s1 of
          (Inl _, s2) \<Rightarrow> (Inl SubNotFound, s2)
        | (Inr existing, s2) \<Rightarrow>
          if \<not> subscription_active existing \<or> sub_subscriber_tenant_id existing \<noteq> pr_tenant_id who
          then (Inl SubNotFound, s2)
          else (case svs_current svc (pub_kb_id p) s2 of
            (Inl _, s3) \<Rightarrow> (Inl SubUnavailable, s3)
          | (Inr current, s3) \<Rightarrow>
            if current \<le> sub_last_seen_revision existing then (Inr (sub_item_of existing p current, False), s3)
            else (case ss_mark_seen (svs_store svc) (sub_id existing) current correlation (svs_now svc) s3 of
              (Inl e, s4) \<Rightarrow> (Inl e, s4)
            | (Inr updated, s4) \<Rightarrow> (Inr (sub_item_of updated p current, True), s4)))))"

text \<open>\<open>List\<close>: the active subscriptions of the caller's workspace whose publication is still visible.\<close>

fun list_items ::
    "'s subscription_service \<Rightarrow> principal \<Rightarrow> subscription list \<Rightarrow> 's \<Rightarrow> (subscription_error, sub_item list, 's) outcome" where
  "list_items svc who [] s = (Inr [], s)"
| "list_items svc who (x # xs) s =
     (if \<not> subscription_active x \<or> sub_subscriber_tenant_id x \<noteq> pr_tenant_id who then list_items svc who xs s
      else case svs_pubs svc (sub_publication_id x) s of
        (Inl e, s1) \<Rightarrow> (if e = PubNotFound then list_items svc who xs s1 else (Inl SubUnavailable, s1))
      | (Inr p, s1) \<Rightarrow>
          if \<not> visible_to p (pr_tenant_id who) then list_items svc who xs s1
          else (case svs_current svc (pub_kb_id p) s1 of
            (Inl _, s2) \<Rightarrow> (Inl SubUnavailable, s2)
          | (Inr current, s2) \<Rightarrow>
              (case list_items svc who xs s2 of
                 (Inl e, s3) \<Rightarrow> (Inl e, s3)
               | (Inr items, s3) \<Rightarrow> (Inr (sub_item_of x p current # items), s3))))"

definition subscription_list ::
    "'s subscription_service \<Rightarrow> principal \<Rightarrow> 's \<Rightarrow> (subscription_error, sub_item list, 's) outcome" where
  "subscription_list svc who s =
     (if \<not> valid_actor who then (Inl SubInvalid, s)
      else case ss_list_by_user (svs_store svc) (pr_user_id who) s of
        (Inl e, s1) \<Rightarrow> (Inl e, s1)
      | (Inr xs, s1) \<Rightarrow> list_items svc who xs s1)"

definition effective_subscription ::
    "'s subscription_service \<Rightarrow> string \<Rightarrow> string \<Rightarrow> u64 \<Rightarrow> 's \<Rightarrow> (subscription_error, subscription, 's) outcome" where
  "effective_subscription svc publication user tenant s =
     (if publication = [] \<or> user = [] \<or> tenant = 0 then (Inl SubInvalid, s)
      else case ss_get (svs_store svc) publication user s of
        (Inl e, s1) \<Rightarrow> (Inl e, s1)
      | (Inr x, s1) \<Rightarrow>
          if \<not> subscription_active x \<or> sub_subscriber_tenant_id x \<noteq> tenant then (Inl SubNotFound, s1)
          else (Inr x, s1))"

text \<open>The product's wiring in cmd/gateway/main.go.\<close>

definition product_subscription_service :: "time \<Rightarrow> database subscription_service" where
  "product_subscription_service now =
     \<lparr>svs_store = subscription_repository, svs_pubs = publication_get, svs_current = revision_current,
      svs_now = now, svs_new_id = new_id, svs_auditor = Some audit_record\<rparr>"

end
