(* ===== verification/SubscriptionProofs.thy ===== *)
theory SubscriptionProofs
  imports SubscriptionService
begin

text \<open>
  What the subscription service guarantees, proved over the contracts of its dependencies, with the
  product's wiring as the instance.
\<close>

section \<open>How the table changes\<close>

text \<open>
  \<open>own_change p u xs ys\<close>: \<open>ys\<close> is \<open>xs\<close> with at most one change, which concerns the row of the
  user \<open>u\<close> on the publication \<open>p\<close>.
\<close>

definition sub_evolves :: "subscription \<Rightarrow> subscription \<Rightarrow> bool" where
  "sub_evolves x y \<longleftrightarrow> sub_id y = sub_id x \<and> sub_key y = sub_key x \<and> sub_created_at y = sub_created_at x
     \<and> sub_notification_enabled y = sub_notification_enabled x"

lemma sub_evolves_refl [simp]: "sub_evolves x x"
  by (simp add: sub_evolves_def)

lemma sub_evolves_trans: "sub_evolves x y \<Longrightarrow> sub_evolves y z \<Longrightarrow> sub_evolves x z"
  by (simp add: sub_evolves_def)

lemma sub_evolves_rows [simp]:
  "sub_evolves x (activate_row w r c t x)" "sub_evolves x (end_row st c t x)" "sub_evolves x (seen_row r c t x)"
  by (simp_all add: sub_evolves_def) (simp_all add: activate_row_def end_row_def seen_row_def)

definition own_change :: "string \<Rightarrow> string \<Rightarrow> subscription list \<Rightarrow> subscription list \<Rightarrow> bool" where
  "own_change p u = row_change sub_id sub_key sub_evolves (p, u)"

lemma own_change_refl [simp]: "own_change p u xs xs"
  by (simp add: own_change_def)

lemma subscriptions_unique_keys: "subscriptions_unique xs = table_keys sub_id sub_key xs"
  by (simp add: subscriptions_unique_def table_keys_def)

lemma own_change_unique:
  "own_change p u xs ys \<Longrightarrow> subscriptions_unique xs \<Longrightarrow> subscriptions_unique ys"
  unfolding own_change_def subscriptions_unique_keys by (rule row_change_keys)

lemma own_change_others:
  "own_change p u xs ys \<Longrightarrow> subscriptions_unique xs \<Longrightarrow> sub_key x \<noteq> (p, u) \<Longrightarrow> x \<in> set ys \<longleftrightarrow> x \<in> set xs"
  unfolding own_change_def subscriptions_unique_keys by (rule row_change_others)

lemma own_change_evolves: "own_change p u xs ys \<Longrightarrow> table_evolves sub_evolves xs ys"
  unfolding own_change_def by (auto intro: row_change_evolves)

section \<open>The service over its dependencies\<close>

locale subscription_service_deps = subscription_contract "svs_store svc" subs
  for svc :: "'s subscription_service" and subs :: "'s \<Rightarrow> subscription list" +
  fixes pubs :: "'s \<Rightarrow> publication list"
  assumes pubs_frame: "subs (snd (svs_pubs svc i s)) = subs s"
    and pubs_Inr: "svs_pubs svc i s = (Inr p, s1) \<Longrightarrow> p \<in> set (pubs s) \<and> pub_id p = i"
    and current_frame: "subs (snd (svs_current svc k s)) = subs s"
    and sub_id_frame: "subs (snd (svs_new_id svc s)) = subs s"
    and sub_auditor_frame: "svs_auditor svc = Some record \<Longrightarrow> subs (snd (record e s)) = subs s"
begin

lemma pubs_rows: "svs_pubs svc i s = (r, s1) \<Longrightarrow> subs s1 = subs s"
  using pubs_frame [of i s] by simp

lemma pubs_Inl_rows: "svs_pubs svc i s = (Inl e, s1) \<Longrightarrow> subs s1 = subs s"
  using pubs_rows .

lemma pubs_facts: "svs_pubs svc i s = (Inr p, s1) \<Longrightarrow> p \<in> set (pubs s) \<and> pub_id p = i \<and> subs s1 = subs s"
  using pubs_Inr pubs_rows by blast

lemma current_rows: "svs_current svc k s = (r, s1) \<Longrightarrow> subs s1 = subs s"
  using current_frame [of k s] by simp

lemma id_rows: "svs_new_id svc s = (r, s1) \<Longrightarrow> subs s1 = subs s"
  using sub_id_frame [of s] by simp

lemma get_rows: "ss_get (svs_store svc) i u s = (r, s1) \<Longrightarrow> subs s1 = subs s"
  using get_frame [of i u s] by simp

lemma get_Inl_rows: "ss_get (svs_store svc) i u s = (Inl e, s1) \<Longrightarrow> subs s1 = subs s"
  using get_rows .

lemma get_facts:
  "ss_get (svs_store svc) i u s = (Inr x, s1) \<Longrightarrow>
   x \<in> set (subs s) \<and> sub_key x = (i, u) \<and> subscription_valid x \<and> subs s1 = subs s"
  using get_Inr get_rows by (fastforce simp: sub_key_def)

lemma audit_rows: "sub_record_audit svc e s = (r, s1) \<Longrightarrow> subs s1 = subs s"
  using sub_auditor_frame [of _ e s]
  by (auto simp: sub_record_audit_def split: option.splits prod.splits sum.splits)

lemma current_or_rows: "current_or_published svc p s = (r, s1) \<Longrightarrow> subs s1 = subs s"
  by (auto simp: current_or_published_def split: prod.splits sum.splits if_splits dest!: current_rows)

lemma list_rows: "ss_list_by_user (svs_store svc) u s = (r, s1) \<Longrightarrow> subs s1 = subs s"
  using list_frame [of u s] by simp

text \<open>The three writes are changes of the caller's own row.\<close>

lemma activate_own:
  assumes "ss_activate (svs_store svc) (sub_id old) w r c t s = (res, s1)"
    and "old \<in> set (subs s)" "sub_key old = (p, u)"
  shows "own_change p u (subs s) (subs s1)"
  using assms(2,3) activate_Inr [of "sub_id old" w r c t s _ s1] activate_Inl [of "sub_id old" w r c t s _ s1] assms(1)
  by (cases res) (auto simp: own_change_def intro!: row_change_update [where key = sub_key, OF assms(2,3)])

lemma unsubscribe_own:
  assumes "ss_unsubscribe (svs_store svc) (sub_id old) c t s = (res, s1)"
    and "old \<in> set (subs s)" "sub_key old = (p, u)"
  shows "own_change p u (subs s) (subs s1)"
  using assms(2,3) unsubscribe_Inr [of "sub_id old" c t s _ s1] unsubscribe_Inl [of "sub_id old" c t s _ s1] assms(1)
  by (cases res) (auto simp: own_change_def intro!: row_change_update [where key = sub_key, OF assms(2,3)])

lemma mark_seen_own:
  assumes "ss_mark_seen (svs_store svc) (sub_id old) r c t s = (res, s1)"
    and "old \<in> set (subs s)" "sub_key old = (p, u)"
  shows "own_change p u (subs s) (subs s1)"
  using assms(2,3) mark_seen_Inr [of "sub_id old" r c t s _ s1] mark_seen_Inl [of "sub_id old" r c t s _ s1] assms(1)
  by (cases res) (auto simp: own_change_def intro!: row_change_update [where key = sub_key, OF assms(2,3)])

lemma create_own:
  assumes "ss_create (svs_store svc) x s = (res, s1)" "sub_key x = (p, u)"
  shows "own_change p u (subs s) (subs s1)"
  using assms(2) create_Inr [of x s _ s1] create_Inl [of x s _ s1] assms(1)
  by (cases res) (auto simp: own_change_def intro!: row_change_append)

lemma new_subscription_key [simp]: "sub_key (new_subscription i p who c co now) = (p, pr_user_id who)"
  by (simp add: new_subscription_def sub_key_def)

lemma subscribe_write_own:
  assumes "subscribe_write svc p who correlation current found s = (r, s1)"
    and "\<And>x. found = Inr x \<Longrightarrow> x \<in> set (subs s) \<and> sub_key x = (p, pr_user_id who)"
  shows "own_change p (pr_user_id who) (subs s) (subs s1)"
proof (cases found)
  case (Inl e)
  show ?thesis
  proof (cases "e = SubNotFound")
    case True
    show ?thesis
    proof (cases "svs_new_id svc s")
      case (Pair i s2)
      with id_rows [OF this] Inl True assms(1) show ?thesis
        by (cases i) (auto simp: subscribe_write_def dest: create_own)
    qed
  next
    case False
    with Inl assms(1) show ?thesis by (cases e) (auto simp: subscribe_write_def)
  qed
next
  case (Inr x)
  with assms show ?thesis by (auto simp: subscribe_write_def intro: activate_own)
qed

lemma subscribe_write_Inr:
  assumes "subscribe_write svc p who correlation current found s = (Inr y, s1)"
    and "\<And>x. found = Inr x \<Longrightarrow> x \<in> set (subs s) \<and> sub_key x = (p, pr_user_id who)"
    and "subscriptions_unique (subs s)"
  shows "y \<in> set (subs s1) \<and> sub_key y = (p, pr_user_id who) \<and> subscription_active y
    \<and> sub_subscriber_tenant_id y = pr_tenant_id who \<and> sub_last_seen_revision y = current"
proof (cases found)
  case (Inl e)
  with assms(1) have "e = SubNotFound" by (cases e) (auto simp: subscribe_write_def)
  with assms(1) Inl obtain i s2 where "ss_create (svs_store svc)
      (new_subscription i p who current correlation (svs_now svc)) s2 = (Inr y, s1)"
    by (auto simp: subscribe_write_def split: prod.splits option.splits)
  from create_Inr [OF this] show ?thesis
    by (auto simp: sub_key_def) (simp_all add: new_subscription_def)
next
  case (Inr x)
  with assms(1) have "ss_activate (svs_store svc) (sub_id x) (pr_tenant_id who) current correlation (svs_now svc) s
      = (Inr y, s1)"
    by (simp add: subscribe_write_def)
  from activate_Inr [OF this]
  have "y = activate_row (pr_tenant_id who) current correlation (svs_now svc) x \<and> y \<in> set (subs s1)"
    using assms(2) [OF Inr] assms(3) by (intro updated_row [where key = sub_key and Q = "\<lambda>_. True"]) (auto simp: subscriptions_unique_keys)
  then show ?thesis
    using assms(2) [OF Inr] by (auto simp: subscription_active_def) (simp_all add: activate_row_def)
qed

text \<open>The operations.\<close>

lemma subscribe_rows:
  assumes "subscribe svc p who correlation s = (r, s1)"
  shows "own_change p (pr_user_id who) (subs s) (subs s1)"
proof -
  have step: "subscribe_write svc p who correlation current found s3 = (r, s4) \<Longrightarrow>
      ss_get (svs_store svc) p (pr_user_id who) s2 = (found, s3) \<Longrightarrow> subs s2 = subs s \<Longrightarrow>
      own_change p (pr_user_id who) (subs s) (subs s4) \<and> subs s3 = subs s" for current found s2 s3 r s4
    using subscribe_write_own [of p who correlation current found s3 r s4] get_facts get_rows by metis
  show ?thesis
    using assms
    by (auto simp: subscribe_def Let_def split: prod.splits sum.splits if_splits
        dest!: pubs_rows current_rows audit_rows) (metis step get_rows own_change_refl)+
qed

text \<open>A failed call too changes a row only for a visible publication of somebody else.\<close>

lemma subscribe_publication:
  assumes "subscribe svc p who correlation s = (r, s1)"
  shows "subs s1 = subs s \<or> (\<exists>q\<in>set (pubs s). pub_id q = p \<and> visible_to q (pr_tenant_id who)
    \<and> pub_publisher_id q \<noteq> pr_user_id who)"
proof -
  have g: "ss_get (svs_store svc) i u s2 = (q, s3) \<Longrightarrow> subs s3 = subs s2" for i u s2 q s3
    by (rule get_rows)
  show ?thesis
    using assms
    by (auto simp: subscribe_def Let_def split: prod.splits sum.splits if_splits
        dest!: pubs_facts pubs_Inl_rows current_rows g)
qed

lemma unsubscribe_rows:
  assumes "unsubscribe svc p who correlation s = (r, s1)"
  shows "own_change p (pr_user_id who) (subs s) (subs s1)"
  using assms
  by (auto simp: unsubscribe_def split: prod.splits sum.splits if_splits
      dest!: pubs_rows get_facts current_or_rows audit_rows get_Inl_rows) (metis unsubscribe_own)+

lemma mark_seen_rows:
  assumes "mark_seen svc p who correlation s = (r, s1)"
  shows "own_change p (pr_user_id who) (subs s) (subs s1)"
  using assms
  by (auto simp: mark_seen_def split: prod.splits sum.splits if_splits
      dest!: pubs_rows get_facts current_rows get_Inl_rows) (metis mark_seen_own)+

lemma ended_publication:
  "unsubscribe svc p who correlation s = (r, s1) \<Longrightarrow> subs s1 = subs s \<or> p \<in> pub_id ` set (pubs s)"
  "mark_seen svc p who correlation s = (r, s1) \<Longrightarrow> subs s1 = subs s \<or> p \<in> pub_id ` set (pubs s)"
  by (auto simp: unsubscribe_def mark_seen_def split: prod.splits sum.splits if_splits
      dest!: pubs_facts pubs_Inl_rows)

lemma list_items_rows: "list_items svc who xs s = (r, s1) \<Longrightarrow> subs s1 = subs s"
  by (induction xs arbitrary: s r s1)
     (auto split: if_splits prod.splits sum.splits dest!: pubs_rows current_rows)

lemma subscription_list_rows: "subscription_list svc who s = (r, s1) \<Longrightarrow> subs s1 = subs s"
  by (auto simp: subscription_list_def split: if_splits prod.splits sum.splits dest!: list_rows list_items_rows)

lemma effective_rows: "effective_subscription svc p u w s = (r, s1) \<Longrightarrow> subs s1 = subs s"
  by (auto simp: effective_subscription_def split: if_splits prod.splits sum.splits dest!: get_rows)

text \<open>What a successful call has established.\<close>

lemma subscribe_Inr:
  assumes "subscribe svc p who correlation s = (Inr (it, fresh), s1)" "subscriptions_unique (subs s)"
  shows "it_publication it \<in> set (pubs s) \<and> pub_id (it_publication it) = p
    \<and> visible_to (it_publication it) (pr_tenant_id who) \<and> pub_publisher_id (it_publication it) \<noteq> pr_user_id who
    \<and> it_subscription it \<in> set (subs s1) \<and> sub_key (it_subscription it) = (p, pr_user_id who)
    \<and> subscription_active (it_subscription it) \<and> sub_subscriber_tenant_id (it_subscription it) = pr_tenant_id who"
proof -
  have step: "y \<in> set (subs s4) \<and> sub_key y = (p, pr_user_id who) \<and> subscription_active y
      \<and> sub_subscriber_tenant_id y = pr_tenant_id who"
    if "subscribe_write svc p who correlation current found s3 = (Inr y, s4)"
      "ss_get (svs_store svc) p (pr_user_id who) s2 = (found, s3)" "subs s2 = subs s"
    for current found s2 s3 s4 y
    using subscribe_write_Inr [OF that(1)] get_facts get_rows [OF that(2)] that assms(2)
    by metis
  show ?thesis
    using assms
    by (auto simp: subscribe_def Let_def sub_item_of_def split: prod.splits sum.splits if_splits
        dest!: pubs_facts current_rows audit_rows) (metis step get_facts)+
qed

lemma effective_Inr:
  "effective_subscription svc p u w s = (Inr x, s1) \<Longrightarrow>
   x \<in> set (subs s) \<and> sub_key x = (p, u) \<and> subscription_active x \<and> sub_subscriber_tenant_id x = w \<and> w \<noteq> 0"
  by (auto simp: effective_subscription_def split: if_splits prod.splits sum.splits dest!: get_facts)

lemma effective_NotFound:
  assumes "effective_subscription svc p u w s = (Inl SubNotFound, s1)" "subscriptions_unique (subs s)"
    and "x \<in> set (subs s)" "sub_key x = (p, u)"
  shows "\<not> (subscription_active x \<and> sub_subscriber_tenant_id x = w)"
proof -
  have d: "y = x" if "y \<in> set (subs s)" "sub_key y = (p, u)" for y
    using assms(2-4) that distinct_map_inj [of sub_key "subs s" y x] by (simp add: subscriptions_unique_def)
  show ?thesis
    using assms(1,3,4)
    by (auto simp: effective_subscription_def split: if_splits prod.splits sum.splits
        dest!: get_facts get_NotFound dest: d)
qed

lemma unsubscribed_Inr:
  assumes "unsubscribe svc p who correlation s = (Inr (it, fresh), s1)" "subscriptions_unique (subs s)"
  shows "it_subscription it \<in> set (subs s1) \<and> sub_key (it_subscription it) = (p, pr_user_id who)
    \<and> sub_status (it_subscription it) = SubUnsubscribed"
proof -
  have step: "y \<in> set (subs s4) \<and> sub_key y = (p, pr_user_id who) \<and> sub_status y = SubUnsubscribed"
    if "ss_unsubscribe (svs_store svc) (sub_id x) c t s3 = (Inr y, s4)" "x \<in> set (subs s)"
      "sub_key x = (p, pr_user_id who)" "subs s3 = subs s" for x c t s3 y s4
  proof -
    have "y = end_row SubUnsubscribed c t x \<and> y \<in> set (subs s4)"
      using unsubscribe_Inr [OF that(1)] that(2,4) assms(2)
      by (intro updated_row [where key = sub_key and Q = "\<lambda>_. True"]) (auto simp: subscriptions_unique_keys)
    with that(3) show ?thesis by auto
  qed
  show ?thesis
    using assms
    by (auto simp: unsubscribe_def sub_item_of_def split: prod.splits sum.splits if_splits
        dest!: pubs_facts get_facts current_or_rows audit_rows) (metis step)+
qed

lemma mark_seen_ok:
  assumes "mark_seen svc p who correlation s = (Inr (it, moved), s1)" "subscriptions_unique (subs s)"
  shows "visible_to (it_publication it) (pr_tenant_id who)
    \<and> it_subscription it \<in> set (subs s1) \<and> sub_key (it_subscription it) = (p, pr_user_id who)
    \<and> sub_status (it_subscription it) = SubActive
    \<and> it_current_revision it \<le> sub_last_seen_revision (it_subscription it) \<and> \<not> it_updated it"
proof -
  have step: "y \<in> set (subs s4) \<and> sub_key y = (p, pr_user_id who) \<and> sub_status y = SubActive
      \<and> r \<le> sub_last_seen_revision y"
    if "ss_mark_seen (svs_store svc) (sub_id x) r c t s3 = (Inr y, s4)" "x \<in> set (subs s)"
      "sub_key x = (p, pr_user_id who)" "subscription_active x" "subs s3 = subs s"
    for x r c t s3 y s4
  proof -
    have "y = seen_row r c t x \<and> y \<in> set (subs s4)"
      using mark_seen_Inr [OF that(1)] that(2,5) assms(2)
      by (intro updated_row [where key = sub_key and Q = "\<lambda>z. sub_status z = SubActive"]) (auto simp: subscriptions_unique_keys)
    with that(3,4) show ?thesis by (auto simp: subscription_active_def) (simp add: seen_row_def)
  qed
  show ?thesis
    using assms
    by (auto simp: mark_seen_def sub_item_of_def split: prod.splits sum.splits if_splits
        dest!: pubs_facts get_facts current_rows) (auto simp: subscription_active_def dest: step)
qed

lemma list_items_Inr:
  assumes "list_items svc who xs s = (Inr items, s1)" "it \<in> set items"
  shows "it_subscription it \<in> set xs \<and> subscription_active (it_subscription it)
    \<and> sub_subscriber_tenant_id (it_subscription it) = pr_tenant_id who
    \<and> visible_to (it_publication it) (pr_tenant_id who)
    \<and> pub_id (it_publication it) = sub_publication_id (it_subscription it)
    \<and> it_updated it = (sub_last_seen_revision (it_subscription it) < it_current_revision it)"
  using assms
proof (induction xs arbitrary: s items s1)
  case (Cons x xs)
  show ?case
  proof (cases "subscription_active x \<and> sub_subscriber_tenant_id x = pr_tenant_id who")
    case True
    with Cons show ?thesis
      by (auto simp: sub_item_of_def split: if_splits prod.splits sum.splits dest!: pubs_facts)
         (metis Cons.IH)+
  next
    case False
    with Cons show ?thesis by auto
  qed
qed simp

end

section \<open>The product's subscription service\<close>

interpretation ssd: subscription_service_deps "product_subscription_service now" db_subscriptions db_publications
  for now
proof (intro subscription_service_deps.intro)
  show "subscription_contract (svs_store (product_subscription_service now)) db_subscriptions"
    by (simp add: product_subscription_service_def subc.subscription_contract_axioms)
  show "subscription_service_deps_axioms (product_subscription_service now) db_subscriptions db_publications"
    by unfold_locales
       (auto simp: product_subscription_service_def dest: pubc.get_Inr [simplified])
qed

end
