(* ===== verification/Frames.thy ===== *)
theory Frames
  imports GrantProofs PublicationProofs SubscriptionProofs
begin

text \<open>
  What the services leave alone. A \<open>view\<close> of the state that no dependency of a service changes is
  not changed by the service's operations: one locale per service, interpreted on the tables the
  product's service does not own.
\<close>

section \<open>The grant service\<close>

locale grant_view =
  fixes svc :: "'s grant_service" and view :: "'s \<Rightarrow> 'v"
  assumes grant_store_view: "view (snd (gs_create (gsv_store svc) g s)) = view s"
      "view (snd (gs_get (gsv_store svc) i s)) = view s"
      "view (snd (gs_find_current (gsv_store svc) k ty u s)) = view s"
      "view (snd (gs_list_current (gsv_store svc) k s)) = view s"
      "view (snd (gs_update (gsv_store svc) i v p x c t s)) = view s"
      "view (snd (gs_revoke (gsv_store svc) i v c t s)) = view s"
    and grant_owners_view: "view (snd (gsv_owners svc k h s)) = view s"
    and grant_id_view: "view (snd (gsv_new_id svc s)) = view s"
    and grant_auditor_view: "gsv_auditor svc = Some record \<Longrightarrow> view (snd (record e s)) = view s"
begin

lemma denied_view: "view (record_denied_grant svc own who h s) = view s"
  by (simp add: record_denied_grant_def grant_auditor_view split: option.splits)

lemma deps_view:
  "gsv_owners svc k h s = (r0, s1) \<Longrightarrow> view s1 = view s"
  "gsv_new_id svc s = (r1, s1) \<Longrightarrow> view s1 = view s"
  "gs_create (gsv_store svc) g s = (r2, s1) \<Longrightarrow> view s1 = view s"
  "gs_get (gsv_store svc) i s = (r2, s1) \<Longrightarrow> view s1 = view s"
  "gs_find_current (gsv_store svc) k ty u s = (r2, s1) \<Longrightarrow> view s1 = view s"
  "gs_list_current (gsv_store svc) k s = (r3, s1) \<Longrightarrow> view s1 = view s"
  "gs_update (gsv_store svc) i v p x c t s = (r2, s1) \<Longrightarrow> view s1 = view s"
  "gs_revoke (gsv_store svc) i v c t s = (r2, s1) \<Longrightarrow> view s1 = view s"
  using grant_owners_view [of k h s] grant_id_view [of s] grant_store_view(1) [of g s]
    grant_store_view(2) [of i s] grant_store_view(3) [of k ty u s] grant_store_view(4) [of k s]
    grant_store_view(5) [of i v p x c t s] grant_store_view(6) [of i v c t s]
  by simp_all

lemma audit_view: "grant_record_audit svc e s = (r, s1) \<Longrightarrow> view s1 = view s"
  using grant_auditor_view [of _ e s]
  by (auto simp: grant_record_audit_def split: option.splits prod.splits sum.splits)

lemma owner_view: "require_owner svc k who h s = (r, s1) \<Longrightarrow> view s1 = view s"
  by (auto simp: require_owner_def denied_view split: if_splits prod.splits sum.splits dest: deps_view)

lemmas grant_views = deps_view audit_view owner_view

lemma grant_create_view: "view (snd (grant_create svc k who req h s)) = view s"
  by (cases "grant_create svc k who req h s")
     (auto simp: grant_create_def Let_def split: prod.splits sum.splits option.splits if_splits
      dest!: grant_views)

lemma grant_list_view: "view (snd (grant_list svc k who h s)) = view s"
  by (cases "grant_list svc k who h s")
     (auto simp: grant_list_def split: prod.splits sum.splits dest!: grant_views)

lemma grant_update_view: "view (snd (grant_update svc k i who urq h s)) = view s"
  by (cases "grant_update svc k i who urq h s")
     (auto simp: grant_update_def Let_def split: prod.splits sum.splits option.splits if_splits
      dest!: grant_views)

lemma grant_revoke_view: "view (snd (grant_revoke svc k i who rrq h s)) = view s"
  by (cases "grant_revoke svc k i who rrq h s")
     (auto simp: grant_revoke_def Let_def split: prod.splits sum.splits option.splits if_splits
      dest!: grant_views)

end

section \<open>The subscription service\<close>

locale subscription_view =
  fixes svc :: "'s subscription_service" and view :: "'s \<Rightarrow> 'v"
  assumes sub_store_view: "view (snd (ss_create (svs_store svc) x s)) = view s"
      "view (snd (ss_get (svs_store svc) i u s)) = view s"
      "view (snd (ss_list_by_user (svs_store svc) u s)) = view s"
      "view (snd (ss_activate (svs_store svc) i w r c t s)) = view s"
      "view (snd (ss_unsubscribe (svs_store svc) i c t s)) = view s"
      "view (snd (ss_mark_seen (svs_store svc) i r c t s)) = view s"
    and sub_pubs_view: "view (snd (svs_pubs svc i s)) = view s"
    and sub_current_view: "view (snd (svs_current svc k s)) = view s"
    and sub_id_view: "view (snd (svs_new_id svc s)) = view s"
    and sub_auditor_view: "svs_auditor svc = Some record \<Longrightarrow> view (snd (record e s)) = view s"
begin

lemma sub_deps_view:
  "ss_create (svs_store svc) x s = (q, s1) \<Longrightarrow> view s1 = view s"
  "ss_get (svs_store svc) i u s = (q, s1) \<Longrightarrow> view s1 = view s"
  "ss_list_by_user (svs_store svc) u s = (q1, s1) \<Longrightarrow> view s1 = view s"
  "ss_activate (svs_store svc) i w r c t s = (q, s1) \<Longrightarrow> view s1 = view s"
  "ss_unsubscribe (svs_store svc) i c t s = (q, s1) \<Longrightarrow> view s1 = view s"
  "ss_mark_seen (svs_store svc) i r c t s = (q, s1) \<Longrightarrow> view s1 = view s"
  "svs_pubs svc i s = (q2, s1) \<Longrightarrow> view s1 = view s"
  "svs_current svc k s = (q3, s1) \<Longrightarrow> view s1 = view s"
  "svs_new_id svc s = (q4, s1) \<Longrightarrow> view s1 = view s"
  using sub_store_view(1) [of x s] sub_store_view(2) [of i u s] sub_store_view(3) [of u s]
    sub_store_view(4) [of i w r c t s] sub_store_view(5) [of i c t s] sub_store_view(6) [of i r c t s]
    sub_pubs_view [of i s] sub_current_view [of k s] sub_id_view [of s]
  by simp_all

lemma sub_audit_view: "sub_record_audit svc e s = (r, s1) \<Longrightarrow> view s1 = view s"
  using sub_auditor_view [of _ e s]
  by (auto simp: sub_record_audit_def split: option.splits prod.splits sum.splits)

lemma subscribe_write_view: "subscribe_write svc p who c current found s = (r, s1) \<Longrightarrow> view s1 = view s"
  by (auto simp: subscribe_write_def split: sum.splits subscription_error.splits prod.splits option.splits
      dest!: sub_deps_view)

lemma current_or_view: "current_or_published svc p s = (r, s1) \<Longrightarrow> view s1 = view s"
  by (auto simp: current_or_published_def split: prod.splits sum.splits if_splits dest!: sub_deps_view)

lemmas sub_views = sub_deps_view sub_audit_view subscribe_write_view current_or_view

lemma subscribe_view: "view (snd (subscribe svc p who c s)) = view s"
  by (cases "subscribe svc p who c s")
     (auto simp: subscribe_def Let_def split: prod.splits sum.splits if_splits dest!: sub_views)

lemma unsubscribe_view: "view (snd (unsubscribe svc p who c s)) = view s"
  by (cases "unsubscribe svc p who c s")
     (auto simp: unsubscribe_def split: prod.splits sum.splits if_splits dest!: sub_views)

lemma mark_seen_view: "view (snd (mark_seen svc p who c s)) = view s"
  by (cases "mark_seen svc p who c s")
     (auto simp: mark_seen_def split: prod.splits sum.splits if_splits dest!: sub_views)

lemma list_items_view: "list_items svc who xs s = (r, s1) \<Longrightarrow> view s1 = view s"
  by (induction xs arbitrary: s r s1)
     (auto split: if_splits prod.splits sum.splits dest!: sub_views)

lemma subscription_list_view: "view (snd (subscription_list svc who s)) = view s"
  by (cases "subscription_list svc who s")
     (auto simp: subscription_list_def split: prod.splits sum.splits if_splits dest!: sub_views list_items_view)

lemma effective_view: "view (snd (effective_subscription svc p u w s)) = view s"
  by (cases "effective_subscription svc p u w s")
     (auto simp: effective_subscription_def split: prod.splits sum.splits if_splits dest!: sub_views)

end

section \<open>The publication service\<close>

locale publication_view =
  fixes svc :: "'s publication_service" and iv :: "'s invalidator" and view :: "'s \<Rightarrow> 'v"
  assumes pub_wired: "pvs_subscriptions svc = Some iv"
    and pub_store_view: "view (snd (ps_create (pvs_store svc) p s)) = view s"
      "view (snd (ps_get_by_kb (pvs_store svc) k s)) = view s"
      "view (snd (ps_update (pvs_store svc) p v s)) = view s"
      "view (snd (ps_unpublish (pvs_store svc) i v c t s)) = view s"
    and pub_iv_view: "view (snd (iv_publication iv i c t s)) = view s" "view (snd (iv_outside iv i a c t s)) = view s"
    and pub_owners_view: "view (snd (pvs_owners svc k h s)) = view s"
    and pub_ensure_view: "view (snd (pvs_ensure svc k u ty m c t s)) = view s"
    and pub_current_view: "view (snd (pvs_current svc k s)) = view s"
    and pub_id_view: "view (snd (pvs_new_id svc s)) = view s"
    and pub_auditor_view: "pvs_auditor svc = Some record \<Longrightarrow> view (snd (record e s)) = view s"
begin

lemma pub_deps_view:
  "ps_create (pvs_store svc) p s = (q, s1) \<Longrightarrow> view s1 = view s"
  "ps_get_by_kb (pvs_store svc) k s = (q, s1) \<Longrightarrow> view s1 = view s"
  "ps_update (pvs_store svc) p v s = (q, s1) \<Longrightarrow> view s1 = view s"
  "ps_unpublish (pvs_store svc) i v c t s = (q, s1) \<Longrightarrow> view s1 = view s"
  "iv_publication iv i c t s = (q1, s1) \<Longrightarrow> view s1 = view s"
  "iv_outside iv i a c t s = (q1, s1) \<Longrightarrow> view s1 = view s"
  "pvs_owners svc k h s = (q2, s1) \<Longrightarrow> view s1 = view s"
  "pvs_ensure svc k u ty m c t s = (q3, s1) \<Longrightarrow> view s1 = view s"
  "pvs_current svc k s = (q3, s1) \<Longrightarrow> view s1 = view s"
  "pvs_new_id svc s = (q4, s1) \<Longrightarrow> view s1 = view s"
  using pub_store_view(1) [of p s] pub_store_view(2) [of k s] pub_store_view(3) [of p v s]
    pub_store_view(4) [of i v c t s] pub_iv_view(1) [of i c t s] pub_iv_view(2) [of i a c t s]
    pub_owners_view [of k h s] pub_ensure_view [of k u ty m c t s] pub_current_view [of k s] pub_id_view [of s]
  by simp_all

lemma pub_audit_view: "pub_record_audit svc e s = (r, s1) \<Longrightarrow> view s1 = view s"
  using pub_auditor_view [of _ e s]
  by (auto simp: pub_record_audit_def split: option.splits prod.splits sum.splits)

lemma pub_finish_view: "pub_finish svc e p s = (r, s1) \<Longrightarrow> view s1 = view s"
  by (auto simp: pub_finish_def split: prod.splits sum.splits dest!: pub_audit_view)

lemma pub_denied_view: "view (pub_record_denied svc own who h s) = view s"
  using pub_auditor_view by (simp add: pub_record_denied_def split: option.splits)

lemma pub_owner_view: "pub_require_owner svc k who h s = (r, s1) \<Longrightarrow> view s1 = view s"
  by (auto simp: pub_require_owner_def pub_denied_view split: if_splits prod.splits sum.splits dest: pub_deps_view)

lemmas pub_views = pub_deps_view pub_finish_view pub_owner_view

lemma publish_view: "view (snd (publish svc k who req h s)) = view s"
  by (cases "publish svc k who req h s")
     (auto simp: publish_def Let_def split: prod.splits sum.splits option.splits if_splits dest!: pub_views)

lemma update_publication_view: "view (snd (update_publication svc k who req h s)) = view s"
  by (cases "update_publication svc k who req h s")
     (auto simp: update_publication_def Let_def pub_wired split: prod.splits sum.splits if_splits dest!: pub_views)

lemma unpublish_view: "view (snd (unpublish svc k who v c h s)) = view s"
  by (cases "unpublish svc k who v c h s")
     (auto simp: unpublish_def Let_def pub_wired split: prod.splits sum.splits if_splits dest!: pub_views)

lemma unpublish_for_deletion_view: "view (snd (unpublish_for_deletion svc k who c h s)) = view s"
proof -
  have u: "unpublish svc k who v c h s = (r, s1) \<Longrightarrow> view s1 = view s" for v s r s1
    using unpublish_view [of k who v c h s] by simp
  show ?thesis
    by (cases "unpublish_for_deletion svc k who c h s")
       (auto simp: unpublish_for_deletion_def pub_wired split: prod.splits sum.splits if_splits dest!: pub_views u)
qed

lemma get_for_owner_view: "view (snd (get_for_owner svc k who h s)) = view s"
  by (cases "get_for_owner svc k who h s")
     (auto simp: get_for_owner_def split: prod.splits sum.splits dest!: pub_views)

end

end
