(* ===== verification/System.thy ===== *)
theory System
  imports Frames
begin

text \<open>
  The product's database under any sequence of service calls. A step is one call of one operation,
  with any arguments, at any time, with any behaviour of WeKnora, whatever it returns: a failed
  call, half way through its statements, is a step too.
\<close>

section \<open>The tables a service does not own\<close>

definition not_grants where
  "not_grants db = (db_profiles db, db_publications db, db_subscriptions db, db_revisions db,
     db_activities db, db_sessions db, db_note_revisions db, db_agent_audit db)"

definition not_subscriptions where
  "not_subscriptions db = (db_profiles db, db_grants db, db_publications db, db_revisions db,
     db_activities db, db_sessions db, db_note_revisions db, db_agent_audit db)"

definition not_publications where
  "not_publications db = (db_profiles db, db_grants db, db_sessions db, db_note_revisions db, db_agent_audit db)"

lemma product_grant_sel [simp]:
  "gsv_store (product_grant_service u t) = grant_repository"
  "gsv_owners (product_grant_service u t) = resolve (product_resolver u)"
  "gsv_now (product_grant_service u t) = t" "gsv_new_id (product_grant_service u t) = new_id"
  "gsv_auditor (product_grant_service u t) = Some audit_record"
  by (simp_all add: product_grant_service_def)

lemma product_sub_sel [simp]:
  "svs_store (product_subscription_service t) = subscription_repository"
  "svs_pubs (product_subscription_service t) = publication_get"
  "svs_current (product_subscription_service t) = revision_current"
  "svs_now (product_subscription_service t) = t" "svs_new_id (product_subscription_service t) = new_id"
  "svs_auditor (product_subscription_service t) = Some audit_record"
  by (simp_all add: product_subscription_service_def)

interpretation gv: grant_view "product_grant_service upstream now" not_grants
  for upstream now
proof unfold_locales
  show "not_grants (snd (gs_create (gsv_store (product_grant_service upstream now)) g s)) = not_grants s" for g s
    by (auto simp: repo_create_def exec_def not_grants_def)
  show "not_grants (snd (gs_update (gsv_store (product_grant_service upstream now)) i v p x c t s)) = not_grants s"
    for i v p x c t s
    by (auto simp: repo_update_def cas_grant_def update_returning_def put_grants_def exec_def not_grants_def
        split: option.splits)
  show "not_grants (snd (gs_revoke (gsv_store (product_grant_service upstream now)) i v c t s)) = not_grants s"
    for i v c t s
    by (auto simp: repo_revoke_def cas_grant_def update_returning_def put_grants_def exec_def not_grants_def
        split: option.splits)
qed (auto simp: repo_get_def repo_find_current_def repo_list_current_def not_grants_def)

lemma not_subscriptions_reads [simp]:
  "not_subscriptions (snd (statement db)) = not_subscriptions db"
  "not_subscriptions (snd (new_id db)) = not_subscriptions db"
  "not_subscriptions (snd (audit_record e db)) = not_subscriptions db"
  "not_subscriptions (snd (revision_current k db)) = not_subscriptions db"
  by (simp_all add: not_subscriptions_def)

lemma update_subscription_view [simp]:
  "not_subscriptions (snd (update_subscription P f db)) = not_subscriptions db"
  by (auto simp: update_returning_def put_subscriptions_def exec_def not_subscriptions_def split: option.splits)

lemma subscription_create_view [simp]:
  "not_subscriptions (snd (subscription_create x db)) = not_subscriptions db"
  by (simp add: subscription_create_def exec_def) (simp add: not_subscriptions_def)

interpretation sv: subscription_view "product_subscription_service now" not_subscriptions
  for now
  by unfold_locales
     (auto simp: subscription_activate_def subscription_unsubscribe_def subscription_mark_seen_def)

lemma not_publications_reads [simp]:
  "not_publications (snd (statement db)) = not_publications db"
  "not_publications (snd (new_id db)) = not_publications db"
  "not_publications (snd (audit_record e db)) = not_publications db"
  "not_publications (snd (revision_current k db)) = not_publications db"
  "not_publications (snd (revision_ensure k a ty m c t db)) = not_publications db"
  "not_publications (snd (resolve (product_resolver u) k h db)) = not_publications db"
  "not_publications (rollback db db2) = not_publications db"
  by (simp_all add: not_publications_def)

lemma bulk_end_view [simp]: "not_publications (snd (bulk_end P c t db)) = not_publications db"
  by (simp add: bulk_end_def exec_def) (simp add: not_publications_def)

lemma end_candidates_view [simp]: "not_publications (snd (end_candidates a x t cs db)) = not_publications db"
proof (induction a x t cs db rule: end_candidates.induct)
  case (2 a x t i w rest db)
  show ?case
  proof (cases "bulk_end (\<lambda>y. sub_id y = i \<and> sub_status y = SubActive) x t db")
    case (Pair r db1)
    with bulk_end_view [of "\<lambda>y. sub_id y = i \<and> sub_status y = SubActive" x t db] 2 show ?thesis
      by (cases r) auto
  qed
qed simp

lemma inactivate_outside_view [simp]:
  "not_publications (snd (subscription_inactivate_outside i a x t db)) = not_publications db"
proof -
  have "not_publications (snd (case query SubFailed f db of (Inl e, db1) \<Rightarrow> (Inl e, db1)
      | (Inr cs, db1) \<Rightarrow> end_candidates a x t cs db1)) = not_publications db" for f db
    using snd_query [of SubFailed f db]
    by (cases "query SubFailed f db"; cases "fst (query SubFailed f db)") auto
  then show ?thesis
    by (simp add: subscription_inactivate_outside_def transaction_frame)
qed

lemma publication_writes_view [simp]:
  "not_publications (snd (publication_create p db)) = not_publications db"
  "not_publications (snd (publication_update p v db)) = not_publications db"
  "not_publications (snd (publication_unpublish i v c t db)) = not_publications db"
  by (simp_all add: publication_create_def publication_update_def publication_unpublish_def exec_def
      update_returning_def put_publications_def split: option.splits) (simp_all add: not_publications_def)

interpretation pv: publication_view "product_publication_service upstream ulower now" product_invalidator not_publications
  for upstream ulower now
  by unfold_locales (auto simp: subscription_inactivate_publication_def)

section \<open>Steps\<close>

text \<open>\<open>ulower\<close> is the Unicode lower-casing of the runtime, the same in every step.\<close>

inductive product_step :: "(string \<Rightarrow> string) \<Rightarrow> database \<Rightarrow> database \<Rightarrow> bool" for ulower where
  step_grant_create: "product_step ulower db (snd (grant_create (product_grant_service upstream now) k who crq h db))"
| step_grant_list: "product_step ulower db (snd (grant_list (product_grant_service upstream now) k who h db))"
| step_grant_update: "product_step ulower db (snd (grant_update (product_grant_service upstream now) k i who urq h db))"
| step_grant_revoke: "product_step ulower db (snd (grant_revoke (product_grant_service upstream now) k i who rrq h db))"
| step_publish: "product_step ulower db (snd (publish (product_publication_service upstream ulower now) k who wrq h db))"
| step_update_publication:
    "product_step ulower db (snd (update_publication (product_publication_service upstream ulower now) k who wrq h db))"
| step_unpublish: "product_step ulower db (snd (unpublish (product_publication_service upstream ulower now) k who v c h db))"
| step_unpublish_for_deletion:
    "product_step ulower db (snd (unpublish_for_deletion (product_publication_service upstream ulower now) k who c h db))"
| step_get_for_owner:
    "product_step ulower db (snd (get_for_owner (product_publication_service upstream ulower now) k who h db))"
| step_subscribe: "product_step ulower db (snd (subscribe (product_subscription_service now) p who c db))"
| step_unsubscribe: "product_step ulower db (snd (unsubscribe (product_subscription_service now) p who c db))"
| step_mark_seen: "product_step ulower db (snd (mark_seen (product_subscription_service now) p who c db))"
| step_subscription_list: "product_step ulower db (snd (subscription_list (product_subscription_service now) who db))"
| step_effective: "product_step ulower db (snd (effective_subscription (product_subscription_service now) p u w db))"
| step_revision_ensure: "product_step ulower db (snd (revision_ensure k a ty m c t db))"
| step_revision_increment: "product_step ulower db (snd (revision_increment k a ty m c t db))"

inductive_cases product_stepE: "product_step ulower db db'"

abbreviation product_steps :: "(string \<Rightarrow> string) \<Rightarrow> database \<Rightarrow> database \<Rightarrow> bool" where
  "product_steps ulower \<equiv> (product_step ulower)\<^sup>*\<^sup>*"

text \<open>The migrated database before the first request, with any connection and random source ahead.\<close>

definition initial :: "database \<Rightarrow> bool" where
  "initial db \<longleftrightarrow> db\<lparr>db_faults := [], db_random := []\<rparr> = empty_database"

definition product_inv :: "database \<Rightarrow> bool" where
  "product_inv db \<longleftrightarrow> grants_unique (db_grants db) \<and> publications_unique (db_publications db)
     \<and> subscriptions_unique (db_subscriptions db)
     \<and> sub_publication_id ` set (db_subscriptions db) \<subseteq> pub_id ` set (db_publications db)"

text \<open>How the three tables develop.\<close>

definition product_evolves :: "database \<Rightarrow> database \<Rightarrow> bool" where
  "product_evolves db db' \<longleftrightarrow> table_evolves grant_evolves (db_grants db) (db_grants db')
     \<and> table_evolves pub_evolves (db_publications db) (db_publications db')
     \<and> table_evolves sub_evolves (db_subscriptions db) (db_subscriptions db')"

lemma product_evolves_refl [simp]: "product_evolves db db"
  by (simp add: product_evolves_def table_evolves_refl)

lemma product_evolves_trans: "product_evolves a b \<Longrightarrow> product_evolves b c \<Longrightarrow> product_evolves a c"
  unfolding product_evolves_def by (meson grant_evolves_trans pub_evolves_trans sub_evolves_trans table_evolves_trans)

text \<open>One step: each service changes its own tables, and these only along their relations.\<close>

definition good_change :: "database \<Rightarrow> database \<Rightarrow> bool" where
  "good_change db db' \<longleftrightarrow> (product_inv db \<longrightarrow> product_inv db') \<and> (product_inv db \<longrightarrow> product_evolves db db')"

lemma good_change_same:
  "db_grants db' = db_grants db \<Longrightarrow> db_publications db' = db_publications db \<Longrightarrow>
   db_subscriptions db' = db_subscriptions db \<Longrightarrow> good_change db db'"
  by (simp add: good_change_def product_inv_def product_evolves_def table_evolves_refl)

lemma good_change_grants:
  assumes "grants_unique (db_grants db) \<longrightarrow> grants_unique (db_grants db')"
    and "table_evolves grant_evolves (db_grants db) (db_grants db')" and "not_grants db' = not_grants db"
  shows "good_change db db'"
  using assms by (simp add: good_change_def product_inv_def product_evolves_def not_grants_def table_evolves_refl)

lemma pub_evolves_ids:
  assumes "table_evolves pub_evolves xs ys"
  shows "pub_id ` set xs \<subseteq> pub_id ` set ys"
proof
  fix i assume "i \<in> pub_id ` set xs"
  then obtain p where "p \<in> set xs" "i = pub_id p" by blast
  moreover from table_evolves_mem [OF assms this(1)] obtain q where "q \<in> set ys" "pub_evolves p q" by blast
  ultimately show "i \<in> pub_id ` set ys" by (auto simp: pub_evolves_def intro: rev_image_eqI)
qed

lemma ended_keeps:
  assumes "ended xs ys"
  shows "(subscriptions_unique xs \<longrightarrow> subscriptions_unique ys) \<and> table_evolves sub_evolves xs ys
     \<and> sub_publication_id ` set ys = sub_publication_id ` set xs"
proof -
  from assms obtain P x t where e: "ys = update_where P (end_row SubInactive x t) xs"
    by (auto simp: ended_def)
  have "map sub_publication_id ys = map sub_publication_id xs"
    unfolding e by (rule map_update_where) simp
  then have "sub_publication_id ` set ys = sub_publication_id ` set xs"
    by (metis set_map)
  moreover have "table_evolves sub_evolves xs ys"
    unfolding e by (intro table_evolves_update_where) simp_all
  ultimately show ?thesis
    unfolding e by (auto intro: subscriptions_unique_update)
qed

lemma good_change_publications:
  assumes "pub_change k (db_publications db) (db_publications db')"
    and "subscriptions_unique (db_subscriptions db) \<Longrightarrow> ended (db_subscriptions db) (db_subscriptions db')"
    and "not_publications db' = not_publications db"
  shows "good_change db db'"
  using assms(2,3) pub_change_unique [OF assms(1)] pub_change_evolves [OF assms(1)]
    pub_evolves_ids [OF pub_change_evolves [OF assms(1)]]
    ended_keeps [of "db_subscriptions db" "db_subscriptions db'"]
  by (simp add: good_change_def product_inv_def product_evolves_def not_publications_def table_evolves_refl) blast

lemma good_change_subscriptions:
  assumes "own_change p u (db_subscriptions db) (db_subscriptions db')"
    and "db_subscriptions db' = db_subscriptions db \<or> p \<in> pub_id ` set (db_publications db)"
    and "not_subscriptions db' = not_subscriptions db"
  shows "good_change db db'"
proof -
  have "sub_publication_id ` set (db_subscriptions db') \<subseteq> insert p (sub_publication_id ` set (db_subscriptions db))"
  proof -
    have e: "sub_publication_id = fst \<circ> sub_key"
      by (simp add: fun_eq_iff sub_key_def)
    from assms(1) have "sub_key ` set (db_subscriptions db') \<subseteq> insert (p, u) (sub_key ` set (db_subscriptions db))"
      unfolding own_change_def by (rule row_change_key_set)
    then show ?thesis unfolding e image_comp [symmetric] by force
  qed
  then show ?thesis
    using assms(2,3) own_change_unique [OF assms(1)] own_change_evolves [OF assms(1)]
    by (simp add: good_change_def product_inv_def product_evolves_def not_subscriptions_def table_evolves_refl) auto
qed

section \<open>Every step keeps the invariant\<close>

lemma grant_op_change:
  assumes "(grants_unique (db_grants db) \<longrightarrow> grants_unique (db_grants (snd x)))
      \<and> table_evolves grant_evolves (db_grants db) (db_grants (snd x))"
    and "not_grants (snd x) = not_grants db"
  shows "good_change db (snd x)"
  using assms by (intro good_change_grants) auto

lemma not_publications_same:
  "not_publications db' = not_publications db \<Longrightarrow> db_publications db' = db_publications db \<Longrightarrow>
   db_subscriptions db' = db_subscriptions db \<Longrightarrow> good_change db db'"
  by (intro good_change_same) (simp_all add: not_publications_def)

lemma not_subscriptions_same:
  "not_subscriptions db' = not_subscriptions db \<Longrightarrow> db_subscriptions db' = db_subscriptions db \<Longrightarrow> good_change db db'"
  by (intro good_change_same) (simp_all add: not_subscriptions_def)

lemma prod_eta: "x = (fst x, snd x)"
  by simp

lemmas grant_op_keeps =
  gsd.create_keeps [OF prod_eta] gsd.update_keeps [OF prod_eta] gsd.revoke_keeps [OF prod_eta]

lemma grant_list_keeps:
  "(grants_unique (db_grants db) \<longrightarrow> grants_unique (db_grants (snd (grant_list (product_grant_service u t) k who h db))))
   \<and> table_evolves grant_evolves (db_grants db) (db_grants (snd (grant_list (product_grant_service u t) k who h db)))"
  using gsd.list_rows [OF prod_eta, of u t k who h db] by (simp add: table_evolves_refl)

lemma publication_op_change:
  assumes "pub_change k (db_publications db) (db_publications (snd x))"
    and "subscriptions_unique (db_subscriptions db) \<longrightarrow> ended (db_subscriptions db) (db_subscriptions (snd x))"
    and "not_publications (snd x) = not_publications db"
  shows "good_change db (snd x)"
  using assms by (intro good_change_publications) auto

lemma subscription_op_change:
  assumes "own_change p u (db_subscriptions db) (db_subscriptions (snd x))"
    and "db_subscriptions (snd x) = db_subscriptions db \<or> p \<in> pub_id ` set (db_publications db)"
    and "not_subscriptions (snd x) = not_subscriptions db"
  shows "good_change db (snd x)"
  using assms by (rule good_change_subscriptions)

lemma product_step_good: "product_step ulower db db' \<Longrightarrow> good_change db db'"
proof (induction rule: product_step.induct)
  case (step_subscribe db now p who c)
  have "db_subscriptions (snd (subscribe (product_subscription_service now) p who c db)) = db_subscriptions db
      \<or> p \<in> pub_id ` set (db_publications db)"
    using ssd.subscribe_publication [OF prod_eta, of now p who c db] by auto
  from subscription_op_change [OF ssd.subscribe_rows [OF prod_eta] this sv.subscribe_view] show ?case .
next
  case (step_effective db now p u w)
  show ?case
    by (intro not_subscriptions_same sv.effective_view ssd.effective_rows [OF prod_eta])
next
  case (step_subscription_list db now who)
  show ?case
    by (intro not_subscriptions_same sv.subscription_list_view ssd.subscription_list_rows [OF prod_eta])
next
  case (step_get_for_owner db upstream now k who h)
  show ?case
    using psd.get_for_owner_rows [OF prod_eta, where s = db and k = k and who = who and h = h and upstream = upstream and ulower = ulower and now = now]
    by (intro not_publications_same pv.get_for_owner_view) simp_all
next
  case (step_publish db upstream now k who wrq h)
  show ?case
    using psd.publish_rows [OF prod_eta, where s = db and k = k and who = who and req = wrq and h = h and upstream = upstream and ulower = ulower and now = now]
    by (intro publication_op_change pv.publish_view) auto
next
  case (step_update_publication db upstream now k who wrq h)
  show ?case
    by (rule publication_op_change [OF psd.update_publication_rows [OF prod_eta] _ pv.update_publication_view])
       (auto intro: psd.update_publication_ended [OF prod_eta])
next
  case (step_unpublish db upstream now k who v c h)
  show ?case
    by (rule publication_op_change [OF psd.unpublish_rows [OF prod_eta] _ pv.unpublish_view])
       (auto intro: psd.unpublish_ended [OF prod_eta])
next
  case (step_unpublish_for_deletion db upstream now k who c h)
  show ?case
    by (rule publication_op_change [OF psd.unpublish_for_deletion_rows [OF prod_eta] _ pv.unpublish_for_deletion_view])
       (auto intro: psd.unpublish_for_deletion_ended [OF prod_eta])
next
  case (step_unsubscribe db now p who c)
  show ?case
    by (rule subscription_op_change [OF ssd.unsubscribe_rows [OF prod_eta] ssd.ended_publication(1) [OF prod_eta]
          sv.unsubscribe_view])
next
  case (step_mark_seen db now p who c)
  show ?case
    by (rule subscription_op_change [OF ssd.mark_seen_rows [OF prod_eta] ssd.ended_publication(2) [OF prod_eta]
          sv.mark_seen_view])
next
  case (step_revision_ensure db k a ty m c t)
  show ?case by (rule good_change_same) simp_all
next
  case (step_revision_increment db k a ty m c t)
  show ?case by (rule good_change_same) simp_all
qed (intro grant_op_change grant_op_keeps grant_list_keeps gv.grant_create_view gv.grant_list_view
    gv.grant_update_view gv.grant_revoke_view)+

lemma product_steps_good:
  assumes "product_steps ulower db db'"
  shows "good_change db db'"
  using assms
proof (induction rule: rtranclp_induct)
  case (step db1 db2)
  from product_step_good [OF step(2)] step(3) show ?case
    by (auto simp: good_change_def intro: product_evolves_trans)
qed (simp add: good_change_def)

lemma initial_inv: "initial db \<Longrightarrow> product_inv db"
proof -
  assume "initial db"
  then have "db_grants (db\<lparr>db_faults := [], db_random := []\<rparr>) = []"
    "db_publications (db\<lparr>db_faults := [], db_random := []\<rparr>) = []"
    "db_subscriptions (db\<lparr>db_faults := [], db_random := []\<rparr>) = []"
    by (simp_all add: initial_def empty_database_def)
  then show ?thesis
    by (simp add: product_inv_def grants_unique_def publications_unique_def subscriptions_unique_def)
qed

lemma product_steps_evolve: "product_steps ulower db db' \<Longrightarrow> product_inv db \<Longrightarrow> product_inv db' \<and> product_evolves db db'"
  using product_steps_good by (simp add: good_change_def)

end
