(* ===== verification/Samples.thy ===== *)
theory Samples
  imports System
begin

text \<open>
  Concrete inputs on which the theorems are applied: one knowledge base, its owner \<open>ann\<close> in
  workspace 7, the reader \<open>bob\<close> in workspace 8, and databases whose connection does not fail.
\<close>

definition ann :: principal where "ann = \<lparr>pr_user_id = ''ann'', pr_tenant_id = 7\<rparr>"

definition bob :: principal where "bob = \<lparr>pr_user_id = ''bob'', pr_tenant_id = 8\<rparr>"

definition sample_kb_of :: "string \<Rightarrow> string \<Rightarrow> headers \<Rightarrow> upstream_error + knowledge_base" where
  "sample_kb_of owner k h = (if k = ''kb'' then Inr \<lparr>kb_id = ''kb'', kb_name = ''Base'', kb_type = ''document'',
     kb_description = [], kb_tenant_id = 7, kb_creator_id = owner\<rparr>
   else Inl (UpstreamError ''upstream.not_found'' 404))"

abbreviation sample_kb :: "string \<Rightarrow> headers \<Rightarrow> upstream_error + knowledge_base" where
  "sample_kb \<equiv> sample_kb_of ''ann''"

definition sample_headers :: headers where
  "sample_headers name = (if name = ''X-Request-ID'' then ''req'' else [])"

definition sample_db :: database where
  "sample_db = empty_database\<lparr>db_random := map (replicate 16) [1, 2, 3, 4, 5, 6, 7, 8, 9, 10, 11, 12]\<rparr>"

lemma step_keeps_inv: "product_inv db \<Longrightarrow> product_step ulower db db' \<Longrightarrow> product_inv db'"
  using product_step_good by (simp add: good_change_def)

lemma sample_initial: "initial sample_db"
  by (simp add: initial_def sample_db_def empty_database_def)

lemma is_Inr_prod: "is_Inr (fst x) \<longleftrightarrow> (\<exists>a s. x = (Inr a, s))"
  by (cases x; cases "fst x") auto

lemma ok_outcome: "is_Inr (fst x) \<Longrightarrow> x = (Inr (projr (fst x)), snd x)"
  by (cases x; cases "fst x") auto

section \<open>Grants\<close>

definition sample_grant_request :: create_request where
  "sample_grant_request = \<lparr>crq_subject_type = SubjectUser, crq_subject_id = ''bob'', crq_permission = PermissionViewer,
     crq_expires_at = None, crq_correlation_id = ''c''\<rparr>"

definition sample_grant_update :: update_request where
  "sample_grant_update = \<lparr>urq_expected_revision = 1, urq_permission = PermissionEditor, urq_expires_at = None,
     urq_correlation_id = ''c''\<rparr>"

definition sample_grant_revoke :: revoke_request where
  "sample_grant_revoke = \<lparr>rrq_expected_revision = 1, rrq_correlation_id = ''c''\<rparr>"

definition sample_granted :: "(grant_error, grant, database) outcome" where
  "sample_granted = grant_create (product_grant_service sample_kb 5) ''kb'' ann sample_grant_request sample_headers sample_db"

definition sample_gid :: string where
  "sample_gid = ''01010101-0101-4101-8101-010101010101''"

definition sample_updated :: "(grant_error, grant, database) outcome" where
  "sample_updated = grant_update (product_grant_service sample_kb 6) ''kb'' sample_gid ann sample_grant_update
     sample_headers (snd sample_granted)"

definition sample_revoked :: "(grant_error, grant, database) outcome" where
  "sample_revoked = grant_revoke (product_grant_service sample_kb 6) ''kb'' sample_gid ann sample_grant_revoke
     sample_headers (snd sample_granted)"

lemma sample_db_inv: "product_inv sample_db"
  by (rule initial_inv [OF sample_initial])

lemma sample_granted_ok: "is_Inr (fst sample_granted)" "product_inv (snd sample_granted)"
proof -
  show "is_Inr (fst sample_granted)" by code_simp
  show "product_inv (snd sample_granted)"
    unfolding sample_granted_def by (rule step_keeps_inv [OF sample_db_inv step_grant_create])
qed

lemma sample_updated_ok: "is_Inr (fst sample_updated)"
  by code_simp

lemma sample_revoked_ok: "is_Inr (fst sample_revoked)"
  by code_simp

section \<open>Publications and subscriptions\<close>

definition sample_write :: write_request where
  "sample_write = \<lparr>wrq_title = '' Handbook '', wrq_description = [], wrq_tags = [''B'', '' a '', ''b''],
     wrq_usage_guidance = [], wrq_audience = \<lparr>aud_type = AudienceWorkspaceSet, aud_workspaces = [9, 8]\<rparr>,
     wrq_access_mode = AccessOrganizationPublic, wrq_expected_row_version = 1, wrq_correlation_id = ''c''\<rparr>"

definition sample_published :: "(publication_error, publication, database) outcome" where
  "sample_published = publish (product_publication_service sample_kb id 5) ''kb'' ann sample_write sample_headers sample_db"

definition sample_pid :: string where
  "sample_pid = pub_id (projr (fst sample_published))"

definition sample_subscribed :: "(subscription_error, sub_item \<times> bool, database) outcome" where
  "sample_subscribed = subscribe (product_subscription_service 6) sample_pid bob ''c'' (snd sample_published)"

definition sample_narrowed :: "(publication_error, publication, database) outcome" where
  "sample_narrowed = update_publication (product_publication_service sample_kb id 7) ''kb'' ann
     (sample_write\<lparr>wrq_audience := \<lparr>aud_type = AudienceWorkspaceSet, aud_workspaces = [9]\<rparr>\<rparr>) sample_headers
     (snd sample_subscribed)"

definition sample_unpublished :: "(publication_error, publication, database) outcome" where
  "sample_unpublished = unpublish (product_publication_service sample_kb id 7) ''kb'' ann 1 ''c'' sample_headers
     (snd sample_subscribed)"

lemma sample_published_ok: "is_Inr (fst sample_published)" "product_inv (snd sample_published)"
proof -
  show "is_Inr (fst sample_published)" by code_simp
  show "product_inv (snd sample_published)"
    unfolding sample_published_def by (rule step_keeps_inv [OF sample_db_inv step_publish])
qed

lemma sample_subscribed_ok: "is_Inr (fst sample_subscribed)" "product_inv (snd sample_subscribed)"
proof -
  show "is_Inr (fst sample_subscribed)" by code_simp
  show "product_inv (snd sample_subscribed)"
    unfolding sample_subscribed_def by (rule step_keeps_inv [OF sample_published_ok(2) step_subscribe])
qed

lemma sample_narrowed_ok: "is_Inr (fst sample_narrowed)"
  by code_simp

lemma sample_unpublished_ok: "is_Inr (fst sample_unpublished)"
  by code_simp

end
