(* ===== verification/Lifecycle.thy ===== *)
theory Lifecycle
  imports Samples
begin

text \<open>
  The properties of grants, publications and subscriptions over the life of the product's database.
\<close>

text \<open>A revision a grant has left behind matches no row again.\<close>

lemma spent_revision:
  assumes "product_inv db1" "g \<in> set (db_grants db1)" "v < g_revision g" "product_steps ulower db1 db2"
    and "old \<in> set (db_grants db2)"
  shows "\<not> cas_matches (g_id g) v old"
proof
  assume c: "cas_matches (g_id g) v old"
  from product_steps_evolve [OF assms(4,1)]
  have inv: "distinct (map g_id (db_grants db2))" and ev: "table_evolves grant_evolves (db_grants db1) (db_grants db2)"
    by (simp_all add: product_evolves_def product_inv_def grants_unique_def)
  from table_evolves_mem [OF ev assms(2)] obtain h where h: "h \<in> set (db_grants db2)" "grant_evolves g h" by blast
  with distinct_map_inj [OF inv assms(5) h(1)] c have "old = h"
    by (simp add: cas_matches_def grant_evolves_def)
  with h(2) c assms(3) show False by (auto simp: cas_matches_def grant_evolves_def)
qed

text \<open>C3. Whatever sequence of service calls runs on a fresh database, with whatever failures in
  between, the keys of grants, publications and subscriptions stay unique (no two current grants for
  one subject, one publication per knowledge base, one subscription per user and publication), and
  every subscription refers to an existing publication.\<close>

theorem reachable_keys_unique:
  assumes "initial db0" "product_steps ulower db0 db"
  shows "product_inv db"
  using assms product_steps_evolve initial_inv by blast

theorem reachable_keys_unique_witness: "product_inv (snd sample_granted)"
  by (rule reachable_keys_unique [OF sample_initial, where ulower = id])
     (auto simp: sample_granted_def intro: step_grant_create)

text \<open>C4. Revocation is permanent: after a successful revoke, whatever calls follow, the grant keeps
  exactly its revoked state, and the lookup of effective grants never returns it, for any user at any
  time.\<close>

theorem revoked_for_ever:
  assumes "product_inv db"
    and "grant_revoke (product_grant_service upstream now) k i who req h db = (Inr g, db1)"
    and "product_steps ulower db1 db2"
  shows "g \<in> set (db_grants db2) \<and> g_id g = i \<and> \<not> grant_active g t
     \<and> (repo_effective kb u t db2 = (Inr g', db3) \<longrightarrow> g_id g' \<noteq> i)"
proof -
  from gsd.revoke_Inr_grant [OF assms(2)] obtain old where o: "old \<in> set (db_grants db)"
    "cas_matches i (rrq_expected_revision req) old" "g = revoke_row (rrq_correlation_id req) now old"
    "db_grants db1 = update_where (cas_matches i (rrq_expected_revision req))
       (revoke_row (rrq_correlation_id req) now) (db_grants db)"
    by auto
  have g: "g \<in> set (db_grants db1)" "g_id g = i" "\<not> grant_current g"
    using o by (auto simp: set_update_where cas_matches_def)
  have "product_inv db1"
    using product_step_good [OF step_grant_revoke, of db upstream now k i who req h] assms(1,2)
    by (simp add: good_change_def)
  from product_steps_evolve [OF assms(3) this]
  have inv: "product_inv db2" and ev: "table_evolves grant_evolves (db_grants db1) (db_grants db2)"
    by (simp_all add: product_evolves_def)
  from table_evolves_mem [OF ev g(1)] g(3) have m: "g \<in> set (db_grants db2)"
    by (auto simp: grant_evolves_def)
  have "g_id g' \<noteq> i" if "repo_effective kb u t db2 = (Inr g', db3)"
  proof
    assume "g_id g' = i"
    have d: "distinct (map g_id (db_grants db2))"
      using inv by (simp add: product_inv_def grants_unique_def)
    from eff.effective_Inr [OF that] have e: "g' \<in> set (db_grants db2)" "grant_active g' t" by auto
    from distinct_map_inj [OF d e(1) m] \<open>g_id g' = i\<close> g(2) have "g' = g" by simp
    with e(2) g(3) show False by (simp add: grant_active_def grant_current_def)
  qed
  with m g show ?thesis by (auto simp: grant_active_def grant_current_def)
qed

theorem revoked_for_ever_witness: "projr (fst sample_revoked) \<in> set (db_grants (snd sample_revoked))"
  using revoked_for_ever [OF sample_granted_ok(2) ok_outcome [OF sample_revoked_ok, unfolded sample_revoked_def]
      rtranclp.rtrancl_refl]
  by (auto simp: sample_revoked_def)



text \<open>
  Whether each of the eight operations an owner has on the sharing of a knowledge base succeeds, and
  the database after it.
\<close>

definition sharing_calls where
  "sharing_calls upstream ulower now k i who crq urq rrq wrq v c h db =
     (let gs = product_grant_service upstream now; ps = product_publication_service upstream ulower now in
      [map_prod is_Inr id (grant_create gs k who crq h db), map_prod is_Inr id (grant_update gs k i who urq h db),
       map_prod is_Inr id (grant_revoke gs k i who rrq h db), map_prod is_Inr id (grant_list gs k who h db),
       map_prod is_Inr id (publish ps k who wrq h db), map_prod is_Inr id (update_publication ps k who wrq h db),
       map_prod is_Inr id (unpublish ps k who v c h db), map_prod is_Inr id (get_for_owner ps k who h db)])"

lemma sharing_calls_create:
  "(is_Inr (fst (grant_create (product_grant_service upstream now) k who crq h db)),
    snd (grant_create (product_grant_service upstream now) k who crq h db))
   \<in> set (sharing_calls upstream ulower now k i who crq urq rrq wrq v c h db)"
  by (simp add: sharing_calls_def Let_def map_prod_def case_prod_beta)

text \<open>What both services do when they find that the caller is not an owner who may share.\<close>

lemma sharing_refused:
  assumes "\<And>own s0. resolve (product_resolver upstream) k h db = (Inr own, s0) \<Longrightarrow>
      \<not> (pr_user_id who = own_user_id own \<and> pr_tenant_id who = own_tenant_id own \<and> \<not> is_personal_notes own)"
    and "(ok, db') \<in> set (sharing_calls upstream ulower now k i who crq urq rrq wrq v c h db)"
  shows "\<not> ok \<and> db_grants db' = db_grants db \<and> db_publications db' = db_publications db
    \<and> db_subscriptions db' = db_subscriptions db"
proof -
  have g: "\<exists>e s1. require_owner (product_grant_service upstream now) k who h db = (Inl e, s1)
      \<and> db_grants s1 = db_grants db \<and> db_publications s1 = db_publications db \<and> db_subscriptions s1 = db_subscriptions db"
  proof (cases "require_owner (product_grant_service upstream now) k who h db")
    case (Pair r s1)
    with gsd.require_owner_facts [of upstream now k who h db _ s1] gsd.require_owner_rows [OF Pair]
      gv.owner_view [OF Pair] assms(1) show ?thesis
      by (cases r) (auto simp: not_grants_def)
  qed
  have p: "\<exists>e s1. pub_require_owner (product_publication_service upstream ulower now) k who h db = (Inl e, s1)
      \<and> db_grants s1 = db_grants db \<and> db_publications s1 = db_publications db \<and> db_subscriptions s1 = db_subscriptions db"
  proof (cases "pub_require_owner (product_publication_service upstream ulower now) k who h db")
    case (Pair r s1)
    with psd.require_owner_Inr [of upstream ulower now k who h db _ s1] psd.require_owner_rows [OF Pair]
      pv.pub_owner_view [OF Pair] assms(1) show ?thesis
      by (cases r) (auto simp: not_publications_def)
  qed
  from g p assms(2) show ?thesis
    by (auto simp: sharing_calls_def grant_create_def grant_update_def grant_revoke_def grant_list_def publish_def
        update_publication_def unpublish_def get_for_owner_def Let_def)
qed

text \<open>C1. Only the owner of a knowledge base, as WeKnora records it, can list, give, change or withdraw
  grants, or see, create, change or withdraw its publication: for anybody else every one of the
  operations fails and the three tables stay as they were.\<close>

theorem only_owner_shares:
  assumes "\<forall>kb. upstream (trim_space k) h = Inr kb \<longrightarrow>
      kb_creator_id kb \<noteq> pr_user_id who \<or> kb_tenant_id kb \<noteq> pr_tenant_id who"
    and "(ok, db') \<in> set (sharing_calls upstream ulower now k i who crq urq rrq wrq v c h db)"
  shows "\<not> ok \<and> db_grants db' = db_grants db \<and> db_publications db' = db_publications db
    \<and> db_subscriptions db' = db_subscriptions db"
  using assms(1) by (intro sharing_refused [OF _ assms(2)]) (auto simp: product_resolver_def dest!: resolve_Inr)

theorem only_owner_shares_witness:
  "\<not> is_Inr (fst (grant_create (product_grant_service sample_kb 5) ''kb'' bob sample_grant_request sample_headers sample_db))"
proof -
  have "\<forall>kb. sample_kb (trim_space ''kb'') sample_headers = Inr kb \<longrightarrow>
      kb_creator_id kb \<noteq> pr_user_id bob \<or> kb_tenant_id kb \<noteq> pr_tenant_id bob"
    by (auto simp: sample_kb_of_def bob_def split: if_splits)
  from only_owner_shares [where upstream = sample_kb and k = "''kb''" and h = sample_headers and who = bob, OF this
      sharing_calls_create]
  show ?thesis by blast
qed

text \<open>C2. Personal notes are never shared, not even by their owner: when the product profile of a
  knowledge base says personal notes, every grant and publication operation on it fails and changes
  none of the three tables.\<close>

theorem personal_notes_never_shared:
  assumes "p \<in> set (db_profiles db)" "pf_kb_id p = trim_space k" "distinct (map pf_kb_id (db_profiles db))"
    and "pf_product_mode p = ModePersonalNotes"
    and "(ok, db') \<in> set (sharing_calls upstream ulower now k i who crq urq rrq wrq v c h db)"
  shows "\<not> ok \<and> db_grants db' = db_grants db \<and> db_publications db' = db_publications db
    \<and> db_subscriptions db' = db_subscriptions db"
proof (rule sharing_refused [OF _ assms(5)])
  fix own s0
  assume r: "resolve (product_resolver upstream) k h db = (Inr own, s0)"
  have "find (\<lambda>q. pf_kb_id q = trim_space k) (db_profiles db) = Some p"
    by (rule find_unique [OF assms(1)]) (use assms(2) distinct_map_inj [OF assms(3) _ assms(1)] in simp_all)
  with r assms(4) have "is_personal_notes own"
    by (auto simp: resolve_def Let_def product_resolver_def is_personal_notes_def profile_get_def query_def
        split: if_splits sum.splits prod.splits profile_error.splits)
  then show "\<not> (pr_user_id who = own_user_id own \<and> pr_tenant_id who = own_tenant_id own \<and> \<not> is_personal_notes own)"
    by simp
qed

definition sample_notes :: profile where
  "sample_notes = \<lparr>pf_kb_id = ''kb'', pf_tenant_id = 7, pf_owner_user_id = ''ann'', pf_product_mode = ModePersonalNotes,
     pf_schema_version = 1, pf_access_policy = PolicyOwnerOnly, pf_index_profile = ''notes_plain'',
     pf_index_profile_version = 1, pf_effective_config = ''{}'', pf_created_at = 5, pf_updated_at = 5\<rparr>"

theorem personal_notes_never_shared_witness:
  "\<not> is_Inr (fst (grant_create (product_grant_service sample_kb 5) ''kb'' ann sample_grant_request sample_headers
     (sample_db\<lparr>db_profiles := [sample_notes]\<rparr>)))"
proof -
  have "pf_kb_id sample_notes = trim_space ''kb''" "pf_product_mode sample_notes = ModePersonalNotes"
    by code_simp+
  then show ?thesis
    by (intro personal_notes_never_shared [where p = sample_notes, OF _ _ _ _ sharing_calls_create, THEN conjunct1]) simp_all
qed

text \<open>A grant that was just created stands for the request: the caller is the owner of a base that
  is not personal notes, the grant is in the table, current, for the requested user with the requested
  permission and expiry, and nothing else in the table has changed.\<close>

theorem created_grant:
  assumes "grant_create (product_grant_service upstream now) k who req h db = (Inr g, db1)"
  shows "(\<exists>kb. upstream (trim_space k) h = Inr kb \<and> kb_creator_id kb = pr_user_id who \<and> kb_tenant_id kb = pr_tenant_id who)
     \<and> g \<in> set (db_grants db1) \<and> g_revoked_at g = None \<and> g_kb_id g = k
     \<and> g_subject_type g = SubjectUser \<and> g_subject_id g = crq_subject_id req
     \<and> g_permission g = crq_permission req \<and> g_expires_at g = crq_expires_at req
     \<and> (db_grants db1 = db_grants db \<or> db_grants db1 = db_grants db @ [g])
     \<and> not_grants db1 = not_grants db"
proof -
  have "not_grants db1 = not_grants db"
    using gv.grant_create_view [of upstream now k who req h db] assms by simp
  moreover from gsd.create_Inr_grant [OF assms] obtain own s0 where
    r: "resolve (product_resolver upstream) k h db = (Inr own, s0)" and
    o: "pr_user_id who = own_user_id own" "pr_tenant_id who = own_tenant_id own"
    by auto
  from resolve_Inr [OF r] o have "\<exists>kb. upstream (trim_space k) h = Inr kb \<and> kb_creator_id kb = pr_user_id who
      \<and> kb_tenant_id kb = pr_tenant_id who"
    by (auto simp: product_resolver_def)
  ultimately show ?thesis
    using gsd.create_Inr_grant [OF assms] by (auto simp: grant_current_def)
qed

theorem created_grant_witness:
  "projr (fst sample_granted) \<in> set (db_grants (snd sample_granted)) \<and> g_subject_id (projr (fst sample_granted)) = ''bob''"
  using created_grant [OF ok_outcome [OF sample_granted_ok(1), unfolded sample_granted_def]]
  by (simp add: sample_granted_def) (simp add: sample_grant_request_def)

section \<open>The audit trail\<close>

lemma grant_store_audit [simp]:
  "db_audit (snd (repo_create g db)) = db_audit db" "db_audit (snd (repo_get i db)) = db_audit db"
  "db_audit (snd (repo_find_current k ty u db)) = db_audit db"
  "db_audit (snd (repo_update i v p x c t db)) = db_audit db"
  "db_audit (snd (repo_revoke i v c t db)) = db_audit db"
  by (auto simp: repo_create_def repo_get_def repo_find_current_def repo_update_def repo_revoke_def exec_def
      cas_grant_def update_returning_def put_grants_def split: option.splits)

lemma require_owner_Inr_audit:
  assumes "require_owner (product_grant_service upstream now) k who h db = (Inr own, db1)"
  shows "own_kb_id own = trim_space k \<and> pr_tenant_id who = own_tenant_id own \<and> db_audit db1 = db_audit db"
proof -
  from gsd.require_owner_facts [OF assms] have r: "resolve (product_resolver upstream) k h db = (Inr own, db1)"
    and t: "pr_tenant_id who = own_tenant_id own" by simp_all
  from resolve_tables(9) [of upstream k h db] r t resolve_Inr [OF r] show ?thesis by auto
qed

lemma grant_reads_audit:
  "repo_find_current k ty u db = (r, db1) \<Longrightarrow> db_audit db1 = db_audit db"
  "repo_get i db = (r, db1) \<Longrightarrow> db_audit db1 = db_audit db"
  "new_id db = (n, db1) \<Longrightarrow> db_audit db1 = db_audit db"
  "repo_create g db = (r, db1) \<Longrightarrow> db_audit db1 = db_audit db"
  "repo_update i v p x c t db = (r, db1) \<Longrightarrow> db_audit db1 = db_audit db"
  "repo_revoke i v c t db = (r, db1) \<Longrightarrow> db_audit db1 = db_audit db"
  using grant_store_audit new_id_tables(9) by (metis snd_conv)+

lemma grant_recorded:
  "grant_record_audit (product_grant_service upstream now) e db = (Inr u, db1) \<Longrightarrow>
   \<exists>i. db_audit db1 = db_audit db @ [e\<lparr>ev_id := i\<rparr>]"
  by (auto simp: grant_record_audit_def split: prod.splits sum.splits dest!: audit_record_log)

definition audited :: "database \<Rightarrow> database \<Rightarrow> string \<Rightarrow> principal \<Rightarrow> string \<Rightarrow> string \<Rightarrow> grant \<Rightarrow> bool" where
  "audited db db1 action who kbid correlation g \<longleftrightarrow>
     (\<exists>e. db_audit db1 = db_audit db @ [e] \<and> ev_action e = action \<and> ev_outcome e = OutcomeSuccess
        \<and> ev_actor_user_id e = pr_user_id who \<and> ev_tenant_id e = pr_tenant_id who \<and> ev_kb_id e = kbid
        \<and> ev_target_id e = g_id g \<and> ev_correlation_id e = correlation
        \<and> ev_new_value e = Some (audit_grant_value g))"

lemma audited_event:
  assumes "grant_record_audit (product_grant_service upstream now)
      (grant_audit_event own who action old g correlation at) db4 = (Inr u, db1)"
    and "pr_tenant_id who = own_tenant_id own" "own_kb_id own = kbid" "g_id g \<noteq> []" "db_audit db4 = db_audit db"
  shows "audited db db1 action who kbid correlation g \<and> db_grants db1 = db_grants db4"
  using grant_recorded [OF assms(1)] assms(2-5) gsd.audit_frame [OF assms(1)]
  by (auto simp: audited_def grant_audit_event_def)

lemma grant_ids:
  "repo_create g db = (Inr g', db1) \<Longrightarrow> g' = g \<and> g_id g \<noteq> [] \<and> db_grants db1 = db_grants db @ [g]"
  "repo_update i v p x c t db = (Inr g', db1) \<Longrightarrow> g_id g' = i \<and> i \<noteq> []"
  "repo_revoke i v c t db = (Inr g', db1) \<Longrightarrow> g_id g' = i \<and> i \<noteq> []"
  by (auto simp: repo_update_def repo_revoke_def grant_valid_def cas_matches_def split: if_splits
      dest!: repo_create_cases cas_grant_Inr)

text \<open>What the grant service reports as done is in the audit trail: an update or a revoke, and a
  create that added a row, appends exactly one event with the actor, the base, the grant as its target
  and its new value; a create that answered with an existing grant appends none.\<close>

theorem grant_changes_audited:
  "(grant_create (product_grant_service upstream now) k who crq h db = (Inr g, db1) \<longrightarrow>
      (db_grants db1 = db_grants db \<and> db_audit db1 = db_audit db)
      \<or> (db_grants db1 = db_grants db @ [g] \<and> audited db db1 ''grant.create'' who (trim_space k) (crq_correlation_id crq) g))
   \<and> (grant_update (product_grant_service upstream now) k i who urq h db = (Inr g, db1) \<longrightarrow>
      audited db db1 ''grant.update'' who (trim_space k) (urq_correlation_id urq) g)
   \<and> (grant_revoke (product_grant_service upstream now) k i who rrq h db = (Inr g, db1) \<longrightarrow>
      audited db db1 ''grant.revoke'' who (trim_space k) (rrq_correlation_id rrq) g)"
proof -
  let ?svc = "product_grant_service upstream now"
  have find: "repo_find_current k ty u db2 = (r, db3) \<Longrightarrow> db_audit db3 = db_audit db2 \<and> db_grants db3 = db_grants db2"
    for k ty u db2 r db3
    using grant_reads_audit(1) gc.find_frame [of k ty u db2] by auto
  have ids: "new_id db2 = (r, db3) \<Longrightarrow> db_audit db3 = db_audit db2 \<and> db_grants db3 = db_grants db2" for db2 r db3
    using new_id_tables [of db2] by simp
  have owner: "require_owner ?svc k' who h db = (Inr own, db2) \<Longrightarrow> own_kb_id own = trim_space k'
      \<and> pr_tenant_id who = own_tenant_id own \<and> db_audit db2 = db_audit db \<and> db_grants db2 = db_grants db"
    for k' own db2
    using require_owner_Inr_audit gsd.require_owner_facts by blast
  have create: "repo_create g' db2 = (Inr x, db3) \<Longrightarrow> x = g' \<and> g_id x \<noteq> [] \<and> db_audit db3 = db_audit db2
      \<and> db_grants db3 = db_grants db2 @ [x]" for g' db2 x db3
    using grant_ids(1) grant_reads_audit(4) by blast
  have create_Inl: "repo_create g' db2 = (Inl e, db3) \<Longrightarrow> db_audit db3 = db_audit db2
      \<and> db_grants db3 = db_grants db2" for g' db2 e db3
    using grant_reads_audit(4) repo_create_cases [of g' db2 "Inl e" db3] by auto
  have c: "grant_create ?svc k who crq h db = (Inr g, db1) \<Longrightarrow>
      (db_grants db1 = db_grants db \<and> db_audit db1 = db_audit db)
      \<or> (db_grants db1 = db_grants db @ [g] \<and> audited db db1 ''grant.create'' who (trim_space k) (crq_correlation_id crq) g)"
    by (auto simp: grant_create_def Let_def split: prod.splits sum.splits if_splits option.splits
        dest!: owner find ids create create_Inl) (drule audited_event, assumption+, simp)+
  have get: "repo_get i db2 = (r, db3) \<Longrightarrow> db_audit db3 = db_audit db2" for db2 r db3
    by (rule grant_reads_audit)
  have upd: "repo_update i v p x c t db2 = (Inr g', db3) \<Longrightarrow> g_id g' \<noteq> [] \<and> db_audit db3 = db_audit db2"
    for v p x c t db2 g' db3
    using grant_ids(2) grant_reads_audit(5) by blast
  have rev: "repo_revoke i v c t db2 = (Inr g', db3) \<Longrightarrow> g_id g' \<noteq> [] \<and> db_audit db3 = db_audit db2"
    for v c t db2 g' db3
    using grant_ids(3) grant_reads_audit(6) by blast
  have u: "grant_update ?svc k i who urq h db = (Inr g, db1) \<Longrightarrow>
      audited db db1 ''grant.update'' who (trim_space k) (urq_correlation_id urq) g"
    by (auto simp: grant_update_def Let_def split: prod.splits sum.splits if_splits dest!: owner get upd)
       (drule audited_event, assumption+, blast)
  have r: "grant_revoke ?svc k i who rrq h db = (Inr g, db1) \<Longrightarrow>
      audited db db1 ''grant.revoke'' who (trim_space k) (rrq_correlation_id rrq) g"
    by (auto simp: grant_revoke_def Let_def split: prod.splits sum.splits if_splits dest!: owner get rev)
       (drule audited_event, assumption+, blast)
  from c u r show ?thesis by blast
qed

theorem grant_changes_audited_witness:
  "audited sample_db (snd sample_granted) ''grant.create'' ann (trim_space ''kb'') ''c'' (projr (fst sample_granted))"
proof -
  have "db_grants (snd sample_granted) \<noteq> db_grants sample_db" by code_simp
  moreover have "crq_correlation_id sample_grant_request = ''c''" by (simp add: sample_grant_request_def)
  ultimately show ?thesis
    using grant_changes_audited [THEN conjunct1, rule_format,
        OF ok_outcome [OF sample_granted_ok(1), unfolded sample_granted_def]]
    by (simp add: sample_granted_def)
qed

text \<open>C15. An expired grant that nobody revoked keeps its subject from getting a new one: a valid create
  request of the owner for that subject is answered with a conflict, although the listing, which skips
  expired grants, does not show the grant that conflicts.\<close>

theorem expired_grant_conflicts:
  assumes "db_faults db = []" "require_owner (product_grant_service upstream now) k who h db = (Inr own, db)"
    and "validate_create_request req own now = None"
    and "grants_unique (db_grants db)" "g \<in> set (db_grants db)" "grant_valid g" "g_revoked_at g = None"
    and "grant_subject g = (k, SubjectUser, crq_subject_id req)" "\<not> grant_active g now"
  shows "fst (grant_create (product_grant_service upstream now) k who req h db) = Inl GrantConflict
     \<and> (grant_list (product_grant_service upstream now) k who h db = (Inr gs, db2) \<longrightarrow> g \<notin> set gs)"
proof -
  have ty: "crq_subject_type req = SubjectUser"
    and ex: "\<forall>e. crq_expires_at req = Some e \<longrightarrow> now < e"
    using assms(3) by (auto simp: validate_create_request_def split: if_splits)
  obtain e where e: "g_expires_at g = Some e" "\<not> now < e"
    using assms(7,9) by (auto simp: grant_active_def split: option.splits)
  have "find (\<lambda>g. g_kb_id g = k \<and> g_subject_type g = SubjectUser \<and> g_subject_id g = crq_subject_id req
      \<and> g_revoked_at g = None) (db_grants db) = Some g"
  proof (rule find_unique [OF assms(5)])
    fix y
    assume y: "y \<in> set (db_grants db)" "g_kb_id y = k \<and> g_subject_type y = SubjectUser
        \<and> g_subject_id y = crq_subject_id req \<and> g_revoked_at y = None"
    have d: "distinct (map grant_subject (filter grant_current (db_grants db)))"
      using assms(4) by (simp add: grants_unique_def)
    from y have "y \<in> set (filter grant_current (db_grants db))" "grant_subject y = grant_subject g"
      using assms(8) by (simp_all add: grant_current_def grant_subject_def)
    moreover have "g \<in> set (filter grant_current (db_grants db))"
      using assms(5,7) by (simp add: grant_current_def)
    ultimately show "y = g" using distinct_map_inj [OF d] by blast
  qed (use assms(7,8) in \<open>simp add: grant_subject_def\<close>)
  then have f: "repo_find_current k SubjectUser (crq_subject_id req) db = (Inr g, db)"
    using assms(1,6) by (simp add: repo_find_current_def query_ready scan_grant_def)
  have n: "\<not> same_grant_request g req"
    using e ex by (auto simp: same_grant_request_def)
  have "fst (grant_create (product_grant_service upstream now) k who req h db) = Inl GrantConflict"
    using assms(2,3) f n ty by (simp add: grant_create_def Let_def)
  moreover have "g \<notin> set gs" if "grant_list (product_grant_service upstream now) k who h db = (Inr gs, db2)"
    using that assms(9) by (auto simp: grant_list_def split: prod.splits sum.splits)
  ultimately show ?thesis by blast
qed

definition sample_expired :: grant where
  "sample_expired = (candidate_grant sample_gid ''kb'' ann sample_grant_request 5)\<lparr>g_expires_at := Some 8\<rparr>"

theorem expired_grant_conflicts_witness:
  "fst (grant_create (product_grant_service sample_kb 9) ''kb'' ann sample_grant_request sample_headers
     (sample_db\<lparr>db_grants := [sample_expired]\<rparr>)) = Inl GrantConflict"
proof -
  let ?db = "sample_db\<lparr>db_grants := [sample_expired]\<rparr>"
  let ?own = "\<lparr>own_kb_id = ''kb'', own_user_id = ''ann'', own_tenant_id = 7, own_product_mode = ModeOther [],
     own_source = OwnUpstream\<rparr>"
  have r: "require_owner (product_grant_service sample_kb 9) ''kb'' ann sample_headers ?db = (Inr ?own, ?db)"
    by code_simp
  have "validate_create_request sample_grant_request ?own 9 = None" "grant_valid sample_expired"
    "grants_unique [sample_expired]" "\<not> grant_active sample_expired 9" "g_revoked_at sample_expired = None"
    "grant_subject sample_expired = (''kb'', SubjectUser, crq_subject_id sample_grant_request)"
    by code_simp+
  with expired_grant_conflicts [OF _ r] show ?thesis by (simp add: sample_db_def empty_database_def)
qed

text \<open>A create whose audit insert fails is reported as failed, but its row stays; the caller's retry
  of the same request is then answered with success and leaves no audit event: the trail never mentions
  a grant that is in force. (The connection fails on the fourth statement, the audit insert.)\<close>

theorem unaudited_after_retry:
  "let svc = product_grant_service sample_kb 5;
       first = grant_create svc ''kb'' ann sample_grant_request sample_headers
         (sample_db\<lparr>db_faults := [False, False, False, True]\<rparr>);
       second = grant_create svc ''kb'' ann sample_grant_request sample_headers (snd first)
   in fst first = Inl GrantAuditUnavailable \<and> is_Inr (fst second)
      \<and> map g_subject_id (db_grants (snd second)) = [''bob''] \<and> db_audit (snd second) = []"
  by code_simp

section \<open>Publications and subscriptions\<close>

text \<open>C13. Withdrawing a publication ends what was built on it: after a successful unpublish the
  caller's publication is no longer published, no subscription to it is active any more, and as long as
  the publications stay as they are no reader finds a published one for the knowledge base.\<close>

theorem unpublish_withdraws:
  assumes "product_inv db"
    and "unpublish (product_publication_service upstream ulower now) k who v c h db = (Inr p, db1)"
  shows "p \<in> set (db_publications db1) \<and> pub_kb_id p = k \<and> \<not> published p \<and> pub_publisher_id p = pr_user_id who
     \<and> (\<forall>x\<in>set (db_subscriptions db1). sub_publication_id x = pub_id p \<longrightarrow> \<not> subscription_active x)
     \<and> (db_publications db2 = db_publications db1 \<longrightarrow> \<not> is_Inr (fst (publication_get_published_by_kb k db2)))"
proof -
  from assms(1) have u: "publications_unique (db_publications db)"
    by (simp add: product_inv_def)
  show ?thesis
    using psd.unpublished_Inr [OF assms(2) u] psd.unpublished_not_readable [OF assms(2) u, of db2]
    by (auto simp: subscription_active_def)
qed

theorem unpublish_withdraws_witness: "\<not> published (projr (fst sample_unpublished))"
  using unpublish_withdraws [OF sample_subscribed_ok(2) ok_outcome [OF sample_unpublished_ok, unfolded sample_unpublished_def]]
  by (simp add: sample_unpublished_def)

text \<open>After a successful change of a publication every active subscription to it is of a
  workspace that the new audience admits, the row version has grown by one from the version the caller
  named, and the stored publication is well formed and still the caller's.\<close>

theorem audience_change_ends_others:
  assumes "product_inv db" "\<forall>x\<in>set (db_subscriptions db1). sub_subscriber_tenant_id x \<noteq> 0"
    and "update_publication (product_publication_service upstream ulower now) k who req h db = (Inr p, db1)"
  shows "p \<in> set (db_publications db1) \<and> pub_kb_id p = k \<and> published p \<and> publication_valid p
     \<and> pub_publisher_id p = pr_user_id who \<and> pub_row_version p = wrq_expected_row_version req + 1
     \<and> (\<forall>x\<in>set (db_subscriptions db1). sub_publication_id x = pub_id p \<and> subscription_active x \<longrightarrow>
          visible_to p (sub_subscriber_tenant_id x))"
proof -
  from assms(1) have "publications_unique (db_publications db)" "subscriptions_unique (db_subscriptions db)"
    by (simp_all add: product_inv_def)
  from psd.update_publication_Inr [OF assms(3) this] assms(2) show ?thesis
    by (auto simp: subscription_active_def visible_to_def)
qed

theorem audience_change_ends_others_witness: "pub_row_version (projr (fst sample_narrowed)) = 2"
proof -
  have "list_all (\<lambda>x. sub_subscriber_tenant_id x \<noteq> 0) (db_subscriptions (snd sample_narrowed))" by code_simp
  then have "\<forall>x\<in>set (db_subscriptions (snd sample_narrowed)). sub_subscriber_tenant_id x \<noteq> 0" by (simp add: list_all_iff)
  from audience_change_ends_others [OF sample_subscribed_ok(2) this [unfolded sample_narrowed_def]
      ok_outcome [OF sample_narrowed_ok, unfolded sample_narrowed_def]]
  show ?thesis by (simp add: sample_narrowed_def) (simp add: sample_write_def)
qed



text \<open>A user who follows a publication has an active subscription: it is for a publication that
  is published, visible to the user's workspace and somebody else's, and as long as the subscriptions
  stay as they are the effective lookup does not answer that there is none.\<close>

theorem subscribe_effective:
  assumes "product_inv db" "subscribe (product_subscription_service now) p who c db = (Inr (it, fresh), db1)"
    and "db_subscriptions db2 = db_subscriptions db1"
  shows "it_publication it \<in> set (db_publications db) \<and> pub_id (it_publication it) = p
     \<and> visible_to (it_publication it) (pr_tenant_id who) \<and> pub_publisher_id (it_publication it) \<noteq> pr_user_id who
     \<and> it_subscription it \<in> set (db_subscriptions db1) \<and> subscription_active (it_subscription it)
     \<and> fst (effective_subscription (product_subscription_service now2) p (pr_user_id who) (pr_tenant_id who) db2)
         \<noteq> Inl SubNotFound"
proof -
  from assms(1) have u: "subscriptions_unique (db_subscriptions db)"
    by (simp add: product_inv_def)
  note s = ssd.subscribe_Inr [OF assms(2) u]
  have u1: "subscriptions_unique (db_subscriptions db2)"
    using own_change_unique [OF ssd.subscribe_rows [OF assms(2)] u] assms(3) by simp
  have "fst (effective_subscription (product_subscription_service now2) p (pr_user_id who) (pr_tenant_id who) db2)
         \<noteq> Inl SubNotFound"
  proof
    assume "fst (effective_subscription (product_subscription_service now2) p (pr_user_id who) (pr_tenant_id who) db2)
         = Inl SubNotFound"
    then obtain db3 where e: "effective_subscription (product_subscription_service now2) p (pr_user_id who)
        (pr_tenant_id who) db2 = (Inl SubNotFound, db3)"
      by (metis prod.collapse)
    from ssd.effective_NotFound [OF e u1, of "it_subscription it"] s assms(3) show False by simp
  qed
  with s show ?thesis by blast
qed

theorem subscribe_effective_witness:
  "fst (effective_subscription (product_subscription_service 9) sample_pid (pr_user_id bob) (pr_tenant_id bob)
     (snd sample_subscribed)) \<noteq> Inl SubNotFound"
  using subscribe_effective [OF sample_published_ok(2), where it = "fst (projr (fst sample_subscribed))"
      and fresh = "snd (projr (fst sample_subscribed))" and p = sample_pid and who = bob and c = "''c''" and now = 6
      and ?db1.0 = "snd sample_subscribed" and ?db2.0 = "snd sample_subscribed" and ?now2.0 = 9]
    ok_outcome [OF sample_subscribed_ok(1)]
  by (simp add: sample_subscribed_def [symmetric])

text \<open>Subscriptions are private to their user: following, leaving and marking as seen by one user,
  successful or not, leave every subscription of every other user, and the user's own on other
  publications, exactly as it was.\<close>

theorem subscriptions_private:
  assumes "product_inv db" "sub_key x \<noteq> (p, pr_user_id who)"
    and "db1 \<in> {snd (subscribe (product_subscription_service now) p who c db),
                snd (unsubscribe (product_subscription_service now) p who c db),
                snd (mark_seen (product_subscription_service now) p who c db)}"
  shows "x \<in> set (db_subscriptions db1) \<longleftrightarrow> x \<in> set (db_subscriptions db)"
proof -
  have "own_change p (pr_user_id who) (db_subscriptions db) (db_subscriptions db1)"
    using assms(3) ssd.subscribe_rows [OF prod_eta] ssd.unsubscribe_rows [OF prod_eta] ssd.mark_seen_rows [OF prod_eta]
    by blast
  with assms(1,2) show ?thesis
    by (intro own_change_others) (simp_all add: product_inv_def)
qed

theorem subscriptions_private_witness:
  "let x = it_subscription (fst (projr (fst sample_subscribed))) in
   x \<in> set (db_subscriptions (snd (unsubscribe (product_subscription_service 9) sample_pid ann ''c'' (snd sample_subscribed))))"
proof -
  let ?x = "it_subscription (fst (projr (fst sample_subscribed)))"
  have "subscribe (product_subscription_service 6) sample_pid bob ''c'' (snd sample_published)
      = (Inr (fst (projr (fst sample_subscribed)), snd (projr (fst sample_subscribed))), snd sample_subscribed)"
    using ok_outcome [OF sample_subscribed_ok(1)] by (simp add: sample_subscribed_def)
  from ssd.subscribe_Inr [OF this] sample_published_ok(2)
  have "sub_key ?x \<noteq> (sample_pid, pr_user_id ann)" "?x \<in> set (db_subscriptions (snd sample_subscribed))"
    by (auto simp: product_inv_def ann_def bob_def)
  with subscriptions_private [OF sample_subscribed_ok(2) this(1)] show ?thesis by (auto simp: Let_def)
qed

end
