(* ===== verification/Authorization.thy ===== *)
theory Authorization
  imports Lifecycle
begin

text \<open>
  internal/authorization: the role of a principal on a knowledge base, and which actions a role
  allows. The decision is a function of four sources: the resolved owner, the effective grant, the
  publication and the subscription. \<open>access_role\<close> states the same as a rule over the tables, and
  the locale proves that the code computes it.
\<close>

section \<open>Roles and actions\<close>

datatype authz_error = AzInvalid | AzNotFound | AzDenied | AzUnavailable

datatype role = RoleNone | RoleViewer | RoleEditor | RoleOwner

datatype action = ActionDiscover | ActionRead | ActionEditContent | ActionConfigure | ActionManageGrants
  | ActionDelete | ActionOther string

fun action_valid :: "action \<Rightarrow> bool" where
  "action_valid (ActionOther _) = False"
| "action_valid _ = True"

datatype access_source = SourceNone | SourceOwner | SourceUserGrant | SourceSubscription | SourceOrganizationPublic

record decision =
  dc_kb_id :: string
  dc_role :: role
  dc_source :: access_source
  dc_source_tenant :: u64
  dc_grant_id :: string
  dc_grant_revision :: int
  dc_publication_id :: string
  dc_subscription_id :: string
  dc_product_mode :: product_mode

fun role_allows :: "role \<Rightarrow> action \<Rightarrow> bool" where
  "role_allows RoleOwner a = True"
| "role_allows RoleEditor a = (a = ActionDiscover \<or> a = ActionRead \<or> a = ActionEditContent)"
| "role_allows RoleViewer a = (a = ActionDiscover \<or> a = ActionRead)"
| "role_allows RoleNone a = False"

definition allows :: "decision \<Rightarrow> action \<Rightarrow> bool" where
  "allows d a = (if \<not> action_valid a then False else role_allows (dc_role d) a)"

section \<open>The service\<close>

text \<open>
  \<open>NewService\<close> takes the publication and the subscription reader together or not at all; \<open>az_now\<close>
  is what the clock shows during the call.
\<close>

record 's authz_service =
  az_owners :: "string \<Rightarrow> headers \<Rightarrow> 's \<Rightarrow> (own_error, ownership, 's) outcome"
  az_grants :: "string \<Rightarrow> string \<Rightarrow> time \<Rightarrow> 's \<Rightarrow> (grant_error, grant, 's) outcome"
  az_published :: "((string \<Rightarrow> 's \<Rightarrow> (publication_error, publication, 's) outcome)
     \<times> (string \<Rightarrow> string \<Rightarrow> u64 \<Rightarrow> 's \<Rightarrow> (subscription_error, subscription, 's) outcome)) option"
  az_now :: time

definition base_decision :: "string \<Rightarrow> ownership \<Rightarrow> decision" where
  "base_decision k own = \<lparr>dc_kb_id = k, dc_role = RoleNone, dc_source = SourceNone,
     dc_source_tenant = own_tenant_id own, dc_grant_id = [], dc_grant_revision = 0,
     dc_publication_id = [], dc_subscription_id = [], dc_product_mode = own_product_mode own\<rparr>"

text \<open>The part of \<open>Decide\<close> after the grants: the publication of the knowledge base and the subscription.\<close>

definition decide_published ::
    "'s authz_service \<Rightarrow> decision \<Rightarrow> string \<Rightarrow> principal \<Rightarrow> 's \<Rightarrow> (authz_error, decision, 's) outcome" where
  "decide_published svc base k who s =
     (case az_published svc of
        None \<Rightarrow> (Inr base, s)
      | Some (publications, subscriptions) \<Rightarrow>
          (case publications k s of
             (Inl PubNotFound, s1) \<Rightarrow> (Inr base, s1)
           | (Inl _, s1) \<Rightarrow> (Inl AzUnavailable, s1)
           | (Inr pub, s1) \<Rightarrow>
               if \<not> visible_to pub (pr_tenant_id who) then (Inr base, s1)
               else let base = base\<lparr>dc_publication_id := pub_id pub\<rparr> in
                 if pub_access_mode pub = AccessOrganizationPublic then
                   (Inr (base\<lparr>dc_role := RoleViewer, dc_source := SourceOrganizationPublic\<rparr>), s1)
                 else case subscriptions (pub_id pub) (pr_user_id who) (pr_tenant_id who) s1 of
                     (Inl SubNotFound, s2) \<Rightarrow> (Inr base, s2)
                   | (Inl _, s2) \<Rightarrow> (Inl AzUnavailable, s2)
                   | (Inr x, s2) \<Rightarrow>
                       (Inr (base\<lparr>dc_role := RoleViewer, dc_source := SourceSubscription,
                                  dc_subscription_id := sub_id x\<rparr>), s2)))"

definition decide ::
    "'s authz_service \<Rightarrow> string \<Rightarrow> principal \<Rightarrow> headers \<Rightarrow> 's \<Rightarrow> (authz_error, decision, 's) outcome" where
  "decide svc k who inbound s =
     (if blank k \<or> blank (pr_user_id who) \<or> pr_tenant_id who = 0 then (Inl AzInvalid, s)
      else case az_owners svc k inbound s of
        (Inl e, s1) \<Rightarrow> (Inl (if e = OwnNotFound \<or> e = OwnAdoptionRequired then AzNotFound else AzUnavailable), s1)
      | (Inr own, s1) \<Rightarrow>
          let base = base_decision k own in
          if pr_user_id who = own_user_id own \<and> pr_tenant_id who = own_tenant_id own then
            (Inr (base\<lparr>dc_role := RoleOwner, dc_source := SourceOwner\<rparr>), s1)
          else if is_personal_notes own then (Inr base, s1)
          else if pr_tenant_id who = own_tenant_id own then
            (case az_grants svc k (pr_user_id who) (az_now svc) s1 of
               (Inr g, s2) \<Rightarrow>
                 let granted = base\<lparr>dc_source := SourceUserGrant, dc_grant_id := g_id g,
                                     dc_grant_revision := g_revision g\<rparr> in
                 (case g_permission g of
                    PermissionViewer \<Rightarrow> (Inr (granted\<lparr>dc_role := RoleViewer\<rparr>), s2)
                  | PermissionEditor \<Rightarrow> (Inr (granted\<lparr>dc_role := RoleEditor\<rparr>), s2)
                  | PermissionOther _ \<Rightarrow> (Inl AzUnavailable, s2))
             | (Inl GrantNotFound, s2) \<Rightarrow> decide_published svc base k who s2
             | (Inl _, s2) \<Rightarrow> (Inl AzUnavailable, s2))
          else decide_published svc base k who s1)"

text \<open>
  \<open>Authorize\<close>. A refusal returns the decision with the error; the callers use it only without one.
\<close>

definition authorize_action ::
    "'s authz_service \<Rightarrow> string \<Rightarrow> principal \<Rightarrow> action \<Rightarrow> headers \<Rightarrow> 's \<Rightarrow> (authz_error, decision, 's) outcome" where
  "authorize_action svc k who a inbound s =
     (if \<not> action_valid a then (Inl AzInvalid, s)
      else case decide svc k who inbound s of
        (Inl e, s1) \<Rightarrow> (Inl e, s1)
      | (Inr d, s1) \<Rightarrow> (if allows d a then Inr d else Inl AzDenied, s1))"

lemma authorize_Inr:
  "authorize_action svc k who a h s = (Inr d, s1) \<Longrightarrow> decide svc k who h s = (Inr d, s1) \<and> allows d a"
  by (auto simp: authorize_action_def split: if_splits prod.splits sum.splits)

section \<open>Roles are ordered\<close>

text \<open>A role that is at least another allows at least its actions.\<close>

instantiation role :: linorder
begin

fun role_rank :: "role \<Rightarrow> nat" where
  "role_rank RoleNone = 0" | "role_rank RoleViewer = 1" | "role_rank RoleEditor = 2" | "role_rank RoleOwner = 3"

definition less_eq_role :: "role \<Rightarrow> role \<Rightarrow> bool" where
  "less_eq_role a b \<longleftrightarrow> role_rank a \<le> role_rank b"

definition less_role :: "role \<Rightarrow> role \<Rightarrow> bool" where
  "less_role a b \<longleftrightarrow> role_rank a < role_rank b"

instance
proof
  fix x y :: role
  show "x \<le> y \<Longrightarrow> y \<le> x \<Longrightarrow> x = y"
    by (cases x; cases y) (auto simp: less_eq_role_def)
qed (auto simp: less_eq_role_def less_role_def)

end

lemma role_allows_mono: "r \<le> r2 \<Longrightarrow> role_allows r a \<Longrightarrow> role_allows r2 a"
  by (cases r; cases r2) (auto simp: less_eq_role_def)

lemma role_allows_iff:
  "action_valid a \<Longrightarrow> role_allows r a \<longleftrightarrow>
   (if a = ActionDiscover \<or> a = ActionRead then RoleViewer else if a = ActionEditContent then RoleEditor else RoleOwner) \<le> r"
  by (cases a; cases r) (auto simp: less_eq_role_def)


section \<open>The access rule\<close>

text \<open>
  The rule the decision implements, over the rows of the three tables: the owner; for anybody else
  nothing on Personal Notes; then an active grant of a user of the owner's workspace; then a
  publication the workspace sees, public in the organisation or followed by the user.
\<close>

definition granted :: "permission \<Rightarrow> string \<Rightarrow> string \<Rightarrow> time \<Rightarrow> grant list \<Rightarrow> bool" where
  "granted perm k u t gs \<longleftrightarrow> (\<exists>g\<in>set gs. g_kb_id g = k \<and> g_subject_type g = SubjectUser \<and> g_subject_id g = u
     \<and> grant_active g t \<and> g_permission g = perm)"

definition subscribed :: "publication \<Rightarrow> string \<Rightarrow> u64 \<Rightarrow> subscription list \<Rightarrow> bool" where
  "subscribed p u w xs \<longleftrightarrow> (\<exists>x\<in>set xs. sub_key x = (pub_id p, u) \<and> subscription_active x \<and> sub_subscriber_tenant_id x = w)"

definition readable_published :: "string \<Rightarrow> string \<Rightarrow> u64 \<Rightarrow> publication list \<Rightarrow> subscription list \<Rightarrow> bool" where
  "readable_published k u w ps xs \<longleftrightarrow> (\<exists>p\<in>set ps. pub_kb_id p = k \<and> visible_to p w
     \<and> (pub_access_mode p = AccessOrganizationPublic \<or> subscribed p u w xs))"

definition access_role ::
    "ownership \<Rightarrow> string \<Rightarrow> principal \<Rightarrow> time \<Rightarrow> grant list \<Rightarrow> publication list \<Rightarrow> subscription list \<Rightarrow> role" where
  "access_role own k who t gs ps xs =
     (let u = pr_user_id who; w = pr_tenant_id who in
      if u = own_user_id own \<and> w = own_tenant_id own then RoleOwner
      else if is_personal_notes own then RoleNone
      else if w = own_tenant_id own \<and> granted PermissionEditor k u t gs then RoleEditor
      else if w = own_tenant_id own \<and> granted PermissionViewer k u t gs then RoleViewer
      else if readable_published k u w ps xs then RoleViewer
      else RoleNone)"

text \<open>
  The repositories prefer an editor grant and find the only publication and subscription of their
  keys; this is where the unique keys of the tables are needed.
\<close>

locale effective_subscriptions =
  fixes eff_sub :: "string \<Rightarrow> string \<Rightarrow> u64 \<Rightarrow> 's \<Rightarrow> (subscription_error, subscription, 's) outcome"
    and subs :: "'s \<Rightarrow> subscription list"
  assumes eff_sub_frame: "subs (snd (eff_sub p u w s)) = subs s"
    and eff_sub_Inr: "eff_sub p u w s = (Inr x, s1) \<Longrightarrow>
      x \<in> set (subs s) \<and> sub_key x = (p, u) \<and> subscription_active x \<and> sub_subscriber_tenant_id x = w"
    and eff_sub_NotFound: "eff_sub p u w s = (Inl SubNotFound, s1) \<Longrightarrow> subscriptions_unique (subs s) \<Longrightarrow>
      x \<in> set (subs s) \<Longrightarrow> sub_key x = (p, u) \<Longrightarrow> \<not> (subscription_active x \<and> sub_subscriber_tenant_id x = w)"

sublocale subscription_service_deps \<subseteq> effective_subscriptions "effective_subscription svc" subs
proof
  show "subs (snd (effective_subscription svc p u w s)) = subs s" for p u w s
    by (rule effective_rows [OF prod_eta])
  show "effective_subscription svc p u w s = (Inr x, s1) \<Longrightarrow>
      x \<in> set (subs s) \<and> sub_key x = (p, u) \<and> subscription_active x \<and> sub_subscriber_tenant_id x = w" for p u w s x s1
    by (auto dest: effective_Inr)
  show "effective_subscription svc p u w s = (Inl SubNotFound, s1) \<Longrightarrow> subscriptions_unique (subs s) \<Longrightarrow>
      x \<in> set (subs s) \<Longrightarrow> sub_key x = (p, u) \<Longrightarrow> \<not> (subscription_active x \<and> sub_subscriber_tenant_id x = w)" for p u w s x s1
    by (rule effective_NotFound)
qed

locale authz_deps = effective_grants grants gs + publication_reader publications ps
    + effective_subscriptions subscriptions xs
  for grants :: "string \<Rightarrow> string \<Rightarrow> time \<Rightarrow> 's \<Rightarrow> (grant_error, grant, 's) outcome" and gs
    and publications :: "string \<Rightarrow> 's \<Rightarrow> (publication_error, publication, 's) outcome" and ps
    and subscriptions :: "string \<Rightarrow> string \<Rightarrow> u64 \<Rightarrow> 's \<Rightarrow> (subscription_error, subscription, 's) outcome" and xs +
  fixes svc :: "'s authz_service"
  assumes svc_grants: "az_grants svc = grants"
    and svc_published: "az_published svc = Some (publications, subscriptions)"
    and owners_frame: "gs (snd (az_owners svc k h s)) = gs s" "ps (snd (az_owners svc k h s)) = ps s"
      "xs (snd (az_owners svc k h s)) = xs s"
    and grants_frame: "ps (snd (grants k u t s)) = ps s" "xs (snd (grants k u t s)) = xs s"
    and publications_frame: "xs (snd (publications k s)) = xs s"
    and grant_editor_first: "grants k u t s = (Inr g, s1) \<Longrightarrow> g_permission g \<noteq> PermissionEditor \<Longrightarrow>
      \<not> granted PermissionEditor k u t (gs s)"
begin

text \<open>What the last part of the decision reports is the rule on publications.\<close>

lemma published_role:
  assumes "decide_published svc base k who s = (Inr d, s1)" "dc_role base = RoleNone"
    and "publications_unique (ps s)" "subscriptions_unique (xs s)"
  shows "dc_role d = (if readable_published k (pr_user_id who) (pr_tenant_id who) (ps s) (xs s) then RoleViewer else RoleNone)"
proof (cases "publications k s")
  case (Pair r s2)
  have f: "xs s2 = xs s" using publications_frame [of k s] Pair by simp
  show ?thesis
  proof (cases r)
    case (Inl e)
    with Pair assms(1) svc_published have "e = PubNotFound" "d = base"
      by (auto simp: decide_published_def split: publication_error.splits)
    with by_kb_NotFound [of k s s2] Pair Inl assms(2) show ?thesis
      by (auto simp: readable_published_def visible_to_def)
  next
    case (Inr p)
    with Pair have p: "p \<in> set (ps s)" "pub_kb_id p = k" by (auto dest: by_kb_Inr)
    have only: "q = p" if "q \<in> set (ps s)" "pub_kb_id q = k" for q
      using assms(3) p that distinct_map_inj [of pub_kb_id "ps s" q p]
      by (simp add: publications_unique_def)
    have r: "readable_published k u w (ps s) (xs s) \<longleftrightarrow> visible_to p w
        \<and> (pub_access_mode p = AccessOrganizationPublic \<or> subscribed p u w (xs s))" for u w
      unfolding readable_published_def using p only by blast
    let ?u = "pr_user_id who" and ?w = "pr_tenant_id who"
    obtain q s3 where q: "subscriptions (pub_id p) ?u ?w s2 = (q, s3)" by fastforce
    have yes: "subscribed p ?u ?w (xs s)" if "q = Inr x" for x
      using eff_sub_Inr [OF q [unfolded that]] f by (auto simp: subscribed_def)
    have no: "\<not> subscribed p ?u ?w (xs s)" if "q = Inl SubNotFound"
      using eff_sub_NotFound [OF q [unfolded that]] assms(4) f by (auto simp: subscribed_def)
    note d = assms(1) [unfolded decide_published_def svc_published, simplified, unfolded Pair Inr, simplified]
    show ?thesis
    proof (cases "visible_to p ?w \<and> pub_access_mode p \<noteq> AccessOrganizationPublic")
      case True
      then show ?thesis
        using d q yes no assms(2) unfolding r
        by (cases q) (auto split: subscription_error.splits)
    qed (use d assms(2) in \<open>auto simp: r Let_def\<close>)
  qed
qed

lemma decide_role:
  assumes "decide svc k who h s = (Inr d, s1)"
    and "publications_unique (ps s)" "subscriptions_unique (xs s)"
  shows "\<exists>own s0. az_owners svc k h s = (Inr own, s0)
     \<and> dc_role d = access_role own k who (az_now svc) (gs s) (ps s) (xs s)"
proof -
  from assms(1) obtain own s0 where o: "az_owners svc k h s = (Inr own, s0)"
    by (auto simp: decide_def split: if_splits prod.splits sum.splits)
  have f: "gs s0 = gs s" "ps s0 = ps s" "xs s0 = xs s" using owners_frame [of k h s] o by simp_all
  note d = assms(1) [unfolded decide_def o, simplified, unfolded Let_def]
  let ?u = "pr_user_id who" and ?w = "pr_tenant_id who"
  obtain r s2 where g: "grants k ?u (az_now svc) s0 = (r, s2)" by fastforce
  have f2: "ps s2 = ps s" "xs s2 = xs s"
    using grants_frame [of k ?u "az_now svc" s0] f g by simp_all
  have pub: "dc_role d = (if readable_published k ?u ?w (ps s) (xs s) then RoleViewer else RoleNone)"
    if "decide_published svc (base_decision k own) k who t = (Inr d, s1)" "ps t = ps s" "xs t = xs s" for t
    using published_role [OF that(1)] that(2,3) assms(2,3) by (simp add: base_decision_def)
  have none: "\<not> granted perm k ?u (az_now svc) (gs s)" if "r = Inl GrantNotFound" for perm
    using effective_NotFound [of k ?u "az_now svc" s0 s2] g that f(1) by (auto simp: granted_def)
  have some: "granted (g_permission x) k ?u (az_now svc) (gs s)" if "r = Inr x" for x
    using effective_Inr [of k ?u "az_now svc" s0 x s2] g that f(1) by (auto simp: granted_def)
  have first: "\<not> granted PermissionEditor k ?u (az_now svc) (gs s)" if "r = Inr x" "g_permission x = PermissionViewer" for x
    using grant_editor_first [of k ?u "az_now svc" s0 x s2] g that f(1) by simp
  have "dc_role d = access_role own k who (az_now svc) (gs s) (ps s) (xs s)"
    using d g svc_grants some none first pub [of s0] pub [of s2] f f2
    by (cases r)
       (auto simp: access_role_def Let_def base_decision_def split: if_splits permission.splits grant_error.splits)
  with o show ?thesis by blast
qed

end

section \<open>The product's authorization\<close>

definition product_authorization ::
    "(string \<Rightarrow> headers \<Rightarrow> upstream_error + knowledge_base) \<Rightarrow> time \<Rightarrow> database authz_service" where
  "product_authorization upstream now =
     \<lparr>az_owners = resolve (product_resolver upstream), az_grants = repo_effective,
      az_published = Some (publication_get_published_by_kb, effective_subscription (product_subscription_service now)),
      az_now = now\<rparr>"

lemma product_authorization_sel [simp]:
  "az_owners (product_authorization upstream now) = resolve (product_resolver upstream)"
  "az_grants (product_authorization upstream now) = repo_effective"
  "az_published (product_authorization upstream now) =
     Some (publication_get_published_by_kb, effective_subscription (product_subscription_service now))"
  "az_now (product_authorization upstream now) = now"
  by (simp_all add: product_authorization_def)

lemma effective_editor_first:
  assumes "repo_effective k u t db = (Inr g, db1)" "g_permission g \<noteq> PermissionEditor"
  shows "\<not> granted PermissionEditor k u t (db_grants db)"
proof
  assume "granted PermissionEditor k u t (db_grants db)"
  then obtain e where "e \<in> set (db_grants db)" "g_kb_id e = k" "g_subject_type e = SubjectUser" "g_subject_id e = u"
    "grant_active e t" "g_permission e = PermissionEditor" by (auto simp: granted_def)
  moreover from assms(1) have "effective_row k u t (db_grants db) = Some g"
    by (auto simp: repo_effective_def scan_grant_Inr dest: query_Inr)
  ultimately show False
    using assms(2)
    by (auto simp: effective_row_def Let_def grant_active_def find_None dest: find_in_set split: option.splits)
qed

interpretation az: authz_deps repo_effective db_grants publication_get_published_by_kb db_publications
    "effective_subscription (product_subscription_service now)" db_subscriptions "product_authorization upstream now"
  for upstream now
proof unfold_locales
  show "\<not> granted PermissionEditor k u t (db_grants s)"
    if "repo_effective k u t s = (Inr g, s1)" "g_permission g \<noteq> PermissionEditor" for k u t s g s1
    by (rule effective_editor_first [OF that])
qed (simp_all add: repo_effective_def)

end
