(* ===== verification/GatePaths.thy ===== *)
theory GatePaths
  imports Authorization Json
begin

text \<open>
  internal/access/gate.go: what the access gate reads off a method and a path, and the identifiers it
  collects in a query and in a JSON body.
\<close>

section \<open>Paths\<close>

definition split_path :: "string \<Rightarrow> string list" where
  "split_path v = (let t = trim_slashes v in if t = [] then [] else split_slash t)"

text \<open>\<open>segments[0] != "api" || segments[1] != "v1"\<close> with at least \<open>n\<close> segments.\<close>

definition api_path :: "nat \<Rightarrow> string list \<Rightarrow> bool" where
  "api_path n segs \<longleftrightarrow> n \<le> length segs \<and> segs ! 0 = ''api'' \<and> segs ! 1 = ''v1''"

definition one :: "string \<Rightarrow> string list" where
  "one v = (if v = [] then [] else [v])"

definition is_knowledge_collection_path :: "string \<Rightarrow> bool" where
  "is_knowledge_collection_path seg \<longleftrightarrow>
     seg \<in> set [''batch'', ''search'', ''move'', ''tags'', ''batch-reparse'', ''batch-delete'', ''folder'']"

definition is_agent_collection_path :: "string \<Rightarrow> bool" where
  "is_agent_collection_path seg \<longleftrightarrow> seg \<in> set [''placeholders'', ''type-presets'', ''mcp-oauth-resolutions'', ''tool-approvals'']"

definition is_knowledge_batch_path :: "string \<Rightarrow> bool" where
  "is_knowledge_batch_path p \<longleftrightarrow> has_prefix p ''/api/v1/knowledge/batch'' \<or> has_prefix p ''/api/v1/knowledge/tags''
     \<or> has_prefix p ''/api/v1/knowledge/folder'' \<or> has_prefix p ''/api/v1/knowledge/move''"

definition is_session_batch_path :: "string \<Rightarrow> bool" where
  "is_session_batch_path p \<longleftrightarrow> has_prefix p ''/api/v1/sessions/batch''"

definition is_conversation_stream_path :: "string \<Rightarrow> bool" where
  "is_conversation_stream_path p \<longleftrightarrow>
     (let t = trim_suffix_slash p in has_prefix t ''/api/v1/knowledge-chat/'' \<or> has_prefix t ''/api/v1/agent-chat/'')"

definition is_unified_retrieval_path :: "string \<Rightarrow> string \<Rightarrow> bool" where
  "is_unified_retrieval_path p meth \<longleftrightarrow>
     meth = ''POST'' \<and> (let t = trim_suffix_slash p in t = ''/api/v1/knowledge-search''
        \<or> has_prefix t ''/api/v1/knowledge-chat/'' \<or> has_prefix t ''/api/v1/agent-chat/'')"

definition is_agent_mutation_path :: "string \<Rightarrow> string \<Rightarrow> bool" where
  "is_agent_mutation_path meth p \<longleftrightarrow>
     (let segs = split_path p in
      if \<not> api_path 3 segs \<or> segs ! 2 \<noteq> ''agents'' then False
      else if meth = ''POST'' \<and> length segs = 3 then True
      else if (meth = ''PUT'' \<or> meth = ''DELETE'') \<and> length segs = 4 then \<not> is_agent_collection_path (segs ! 3)
      else if meth = ''POST'' \<and> length segs = 5 \<and> segs ! 4 = ''copy'' then \<not> is_agent_collection_path (segs ! 3)
      else False)"

definition is_original_source_download :: "string \<Rightarrow> bool" where
  "is_original_source_download p \<longleftrightarrow> has_suffix (trim_suffix_slash p) ''/download''"

definition session_ids_from_path :: "string \<Rightarrow> string list" where
  "session_ids_from_path p =
     (let segs = split_path p in
      if \<not> api_path 4 segs then []
      else if segs ! 2 \<in> set [''knowledge-chat'', ''agent-chat'', ''messages''] then one (segs ! 3)
      else if segs ! 2 = ''sessions'' then
        (if segs ! 3 = ''continue-stream'' \<and> 5 \<le> length segs then one (segs ! 4)
         else if segs ! 3 \<noteq> ''batch'' then one (segs ! 3) else [])
      else [])"

definition is_filterable_list_path :: "string \<Rightarrow> bool" where
  "is_filterable_list_path p \<longleftrightarrow>
     (let t = trim_suffix_slash p in
      t \<in> set [''/api/v1/knowledge-bases'', ''/api/v1/agents'', ''/api/v1/knowledge/search'',
               ''/api/v1/shared-knowledge-bases'', ''/api/v1/shared-agents'', ''/api/v1/user/favorites'']
      \<or> has_suffix t ''/move-targets'' \<or> has_suffix t ''/shared-knowledge-bases'' \<or> has_suffix t ''/shared-agents''
      \<or> has_suffix t ''/shares'' \<or> has_suffix t ''/agent-shares'')"

definition is_unscoped_derived_task_path :: "string \<Rightarrow> bool" where
  "is_unscoped_derived_task_path p \<longleftrightarrow>
     (let segs = split_path p in
      if \<not> api_path 6 segs then False
      else segs ! 2 = ''knowledge'' \<and> segs ! 3 = ''move'' \<and> segs ! 4 = ''progress''
        \<or> segs ! 2 = ''knowledge-bases'' \<and> segs ! 3 = ''copy'' \<and> segs ! 4 = ''progress''
        \<or> segs ! 2 = ''faq'' \<and> segs ! 3 = ''import'' \<and> segs ! 4 = ''progress'')"

definition operation_for :: "string \<Rightarrow> string \<Rightarrow> operation" where
  "operation_for meth p =
     (if contains p ''/shares'' \<or> has_prefix p ''/api/v1/shared-knowledge-bases'' then OpShare
      else if contains p ''/publish'' \<or> contains p ''/catalog'' then OpPublish
      else if meth = ''GET'' \<or> meth = ''HEAD'' then OpRead
      else OpWrite)"

definition revision_event :: "action \<Rightarrow> string \<Rightarrow> string" where
  "revision_event a p =
     (case a of
        ActionEditContent \<Rightarrow> ''kb.content_updated''
      | ActionDelete \<Rightarrow> ''kb.deleted''
      | ActionConfigure \<Rightarrow>
          (let segs = split_path p in
           if api_path 4 segs \<and> (segs ! 2 = ''knowledge-bases'' \<or> segs ! 2 = ''initialization'')
           then ''kb.content_updated'' else [])
      | _ \<Rightarrow> [])"

definition high_value_action :: "action \<Rightarrow> bool" where
  "high_value_action a \<longleftrightarrow> a \<in> set [ActionEditContent, ActionConfigure, ActionManageGrants, ActionDelete]"

definition is_subset :: "string list \<Rightarrow> string list \<Rightarrow> bool" where
  "is_subset requested allowed = list_all (\<lambda>i. i \<in> set allowed) requested"

section \<open>Identifiers in JSON\<close>

fun string_values :: "json \<Rightarrow> string list" where
  "string_values (JStr s) = one s"
| "string_values (JArr xs) = filter (\<lambda>s. s \<noteq> []) (concat (map (\<lambda>x. case x of JStr s \<Rightarrow> [s] | _ \<Rightarrow> []) xs))"
| "string_values _ = []"

record request_scope =
  rs_kb_ids :: "string list"
  rs_knowledge_ids :: "string list"
  rs_agent_ids :: "string list"
  rs_session_ids :: "string list"

definition empty_scope :: request_scope where
  "empty_scope = \<lparr>rs_kb_ids = [], rs_knowledge_ids = [], rs_agent_ids = [], rs_session_ids = []\<rparr>"

text \<open>The two parts of \<open>collectScope\<close> on an object: its own \<open>type\<close> and \<open>id\<close>, and one member.\<close>

definition collect_resource :: "(string \<times> json) list \<Rightarrow> request_scope \<Rightarrow> request_scope" where
  "collect_resource ms sc =
     (let ty = obj_string ''type'' ms; i = obj_string ''id'' ms in
      if i = [] then sc
      else if ty = ''kb'' \<or> ty = ''knowledge_base'' then sc\<lparr>rs_kb_ids := rs_kb_ids sc @ [i]\<rparr>
      else if ty = ''agent'' then sc\<lparr>rs_agent_ids := rs_agent_ids sc @ [i]\<rparr>
      else sc)"

definition collect_member :: "bool \<Rightarrow> bool \<Rightarrow> string \<Rightarrow> json \<Rightarrow> request_scope \<Rightarrow> request_scope" where
  "collect_member generic_knowledge generic_session key item sc =
     (if key \<in> set [''knowledge_base_id'', ''kb_id'', ''source_id'', ''target_id'', ''knowledge_base_ids'', ''knowledge_bases'']
      then sc\<lparr>rs_kb_ids := rs_kb_ids sc @ string_values item\<rparr>
      else if key = ''knowledge_id'' \<or> key = ''knowledge_ids'' then
        sc\<lparr>rs_knowledge_ids := rs_knowledge_ids sc @ string_values item\<rparr>
      else if key = ''agent_id'' then sc\<lparr>rs_agent_ids := rs_agent_ids sc @ string_values item\<rparr>
      else if key = ''session_id'' \<or> key = ''session_ids'' then
        sc\<lparr>rs_session_ids := rs_session_ids sc @ string_values item\<rparr>
      else if key = ''ids'' then
        sc\<lparr>rs_knowledge_ids := rs_knowledge_ids sc @ (if generic_knowledge then string_values item else []),
           rs_session_ids := rs_session_ids sc @ (if generic_session then string_values item else [])\<rparr>
      else sc)"

fun collect_scope :: "bool \<Rightarrow> bool \<Rightarrow> json \<Rightarrow> request_scope \<Rightarrow> request_scope" where
  "collect_scope gk gs (JArr xs) sc = fold (\<lambda>item sc. collect_scope gk gs item sc) xs sc"
| "collect_scope gk gs (JObj ms) sc =
     fold (\<lambda>m sc. collect_scope gk gs (snd m) (collect_member gk gs (fst m) (snd m) sc)) ms (collect_resource ms sc)"
| "collect_scope gk gs _ sc = sc"

text \<open>The references of a list item in a response.\<close>

fun reference_member :: "string \<Rightarrow> json \<Rightarrow> string list \<Rightarrow> string list" where
  "reference_member key item refs =
     (let refs = (if key \<in> set [''knowledge_base_id'', ''kb_id'', ''knowledge_bases'', ''knowledge_base_ids'']
                  then refs @ string_values item else refs)
      in if key = ''knowledge_base'' then
           (case item of
              JObj nested \<Rightarrow> (case obj_get ''id'' nested of None \<Rightarrow> refs | Some v \<Rightarrow> refs @ string_values v)
            | _ \<Rightarrow> refs)
         else refs)"

fun collect_references :: "json \<Rightarrow> string list \<Rightarrow> string list" where
  "collect_references (JArr xs) refs = fold (\<lambda>item refs. collect_references item refs) xs refs"
| "collect_references (JObj ms) refs =
     fold (\<lambda>m refs. collect_references (snd m) (reference_member (fst m) (snd m) refs)) ms refs"
| "collect_references _ refs = refs"

definition member_values :: "string \<Rightarrow> (string \<times> json) list \<Rightarrow> string list" where
  "member_values key ms = (case obj_get key ms of None \<Rightarrow> [] | Some v \<Rightarrow> string_values v)"

definition list_item_kb_references :: "string \<Rightarrow> (string \<times> json) list \<Rightarrow> string list" where
  "list_item_kb_references p ms =
     (let t = trim_suffix_slash p;
          r1 = (if t = ''/api/v1/knowledge-bases'' \<or> has_suffix t ''/move-targets'' then member_values ''id'' ms else []);
          ty = obj_string ''resource_type'' ms;
          r2 = (if t = ''/api/v1/user/favorites'' \<and> (ty = ''kb'' \<or> ty = ''knowledge_base'')
                then member_values ''resource_id'' ms else [])
      in unique (collect_references (JObj ms) (r1 @ r2)))"

definition list_item_references_forbidden_kb :: "string \<Rightarrow> (string \<times> json) list \<Rightarrow> string list \<Rightarrow> bool" where
  "list_item_references_forbidden_kb p ms forbidden =
     (let t = trim_suffix_slash p; ty = obj_string ''resource_type'' ms in
      if t = ''/api/v1/knowledge-bases'' then obj_string ''id'' ms \<in> set forbidden
      else if t = ''/api/v1/user/favorites'' \<and> (ty = ''kb'' \<or> ty = ''knowledge_base'') then
        obj_string ''resource_id'' ms \<in> set forbidden
      else list_ex (\<lambda>i. i \<in> set forbidden) (collect_references (JObj ms) []))"


section \<open>What the traversals collect\<close>

text \<open>The objects inside a JSON value, at any depth.\<close>

fun json_objects :: "json \<Rightarrow> (string \<times> json) list list" where
  "json_objects (JArr xs) = concat (map json_objects xs)"
| "json_objects (JObj ms) = ms # concat (map (\<lambda>m. json_objects (snd m)) ms)"
| "json_objects _ = []"

lemma fold_union:
  assumes "\<And>x s. x \<in> set xs \<Longrightarrow> f (g x s) = f s \<union> C x"
  shows "f (fold g xs s) = f s \<union> (\<Union>x\<in>set xs. C x)"
  using assms by (induction xs arbitrary: s) auto

text \<open>
  One list of identifiers, seen as the set \<open>ids\<close>: every object contributes its own identifier and
  those of its members.
\<close>

locale collector =
  fixes ids :: "request_scope \<Rightarrow> string set"
    and own :: "(string \<times> json) list \<Rightarrow> string set"
    and part :: "bool \<Rightarrow> bool \<Rightarrow> string \<Rightarrow> json \<Rightarrow> string set"
  assumes own_ids: "ids (collect_resource ms sc) = ids sc \<union> own ms"
    and member_ids: "ids (collect_member gk gs k v sc) = ids sc \<union> part gk gs k v"
begin

lemma collected:
  "ids (collect_scope gk gs j sc) = ids sc
     \<union> (\<Union>ms\<in>set (json_objects j). own ms \<union> (\<Union>m\<in>set ms. part gk gs (fst m) (snd m)))"
proof (induction gk gs j sc rule: collect_scope.induct)
  case (1 gk gs xs sc)
  show ?case
    unfolding collect_scope.simps by (subst fold_union [where f = ids], erule "1.IH") simp
next
  case (2 gk gs ms sc)
  have "ids (fold (\<lambda>m sc. collect_scope gk gs (snd m) (collect_member gk gs (fst m) (snd m) sc)) ms s) = ids s
      \<union> (\<Union>m\<in>set ms. part gk gs (fst m) (snd m) \<union> (\<Union>ms\<in>set (json_objects (snd m)). own ms
          \<union> (\<Union>m\<in>set ms. part gk gs (fst m) (snd m))))" for s
    by (rule fold_union) (simp add: 2 member_ids Un_assoc)
  then show ?case by (simp add: own_ids) blast
qed simp_all

end

definition kb_keys :: "string list" where
  "kb_keys = [''knowledge_base_id'', ''kb_id'', ''source_id'', ''target_id'', ''knowledge_base_ids'', ''knowledge_bases'']"

definition own_resource :: "string list \<Rightarrow> (string \<times> json) list \<Rightarrow> string set" where
  "own_resource types ms =
     (if obj_string ''type'' ms \<in> set types \<and> obj_string ''id'' ms \<noteq> [] then {obj_string ''id'' ms} else {})"

definition keyed :: "string list \<Rightarrow> string \<Rightarrow> json \<Rightarrow> string set" where
  "keyed keys k v = (if k \<in> set keys then set (string_values v) else {})"

interpretation ckb: collector "\<lambda>sc. set (rs_kb_ids sc)" "own_resource [''kb'', ''knowledge_base'']" "\<lambda>gk gs. keyed kb_keys"
  by unfold_locales (auto simp: collect_resource_def collect_member_def own_resource_def keyed_def kb_keys_def Let_def)

interpretation cagent: collector "\<lambda>sc. set (rs_agent_ids sc)" "own_resource [''agent'']" "\<lambda>gk gs. keyed [''agent_id'']"
  by unfold_locales (auto simp: collect_resource_def collect_member_def own_resource_def keyed_def Let_def)

interpretation cknowledge: collector "\<lambda>sc. set (rs_knowledge_ids sc)" "\<lambda>ms. {}"
    "\<lambda>gk gs. keyed ([''knowledge_id'', ''knowledge_ids''] @ (if gk then [''ids''] else []))"
  by unfold_locales (auto simp: collect_resource_def collect_member_def keyed_def Let_def)

interpretation csession: collector "\<lambda>sc. set (rs_session_ids sc)" "\<lambda>ms. {}"
    "\<lambda>gk gs. keyed ([''session_id'', ''session_ids''] @ (if gs then [''ids''] else []))"
  by unfold_locales (auto simp: collect_resource_def collect_member_def keyed_def Let_def)

text \<open>The references of an item: the same keys but for the two of a copy, and the nested record.\<close>

definition referenced :: "json \<Rightarrow> string set" where
  "referenced j = (\<Union>ms\<in>set (json_objects j). \<Union>m\<in>set ms.
     keyed [''knowledge_base_id'', ''kb_id'', ''knowledge_bases'', ''knowledge_base_ids''] (fst m) (snd m)
     \<union> (if fst m = ''knowledge_base'' then (case snd m of JObj nested \<Rightarrow> set (member_values ''id'' nested) | _ \<Rightarrow> {}) else {}))"

lemma reference_member_set:
  "set (reference_member k v refs) = set refs
     \<union> keyed [''knowledge_base_id'', ''kb_id'', ''knowledge_bases'', ''knowledge_base_ids''] k v
     \<union> (if k = ''knowledge_base'' then (case v of JObj nested \<Rightarrow> set (member_values ''id'' nested) | _ \<Rightarrow> {}) else {})"
  by (cases v) (auto simp: keyed_def member_values_def split: option.splits)

lemma set_collect_references: "set (collect_references j refs) = set refs \<union> referenced j"
proof (induction j refs rule: collect_references.induct)
  case (1 xs refs)
  then show ?case
    unfolding collect_references.simps
    by (subst fold_union [where f = set], assumption) (auto simp: referenced_def)
next
  case (2 ms refs)
  have "set (fold (\<lambda>m refs. collect_references (snd m) (reference_member (fst m) (snd m) refs)) ms r) = set r
      \<union> (\<Union>m\<in>set ms. keyed [''knowledge_base_id'', ''kb_id'', ''knowledge_bases'', ''knowledge_base_ids''] (fst m) (snd m)
     \<union> (if fst m = ''knowledge_base'' then (case snd m of JObj nested \<Rightarrow> set (member_values ''id'' nested) | _ \<Rightarrow> {}) else {})
     \<union> referenced (snd m))" for r
    by (rule fold_union) (simp add: 2 reference_member_set Un_assoc del: reference_member.simps)
  then show ?case by (simp add: referenced_def del: reference_member.simps) blast
qed (simp_all add: referenced_def)

end
