(* ===== verification/Listing.thy ===== *)
theory Listing
  imports Authorization
begin

text \<open>
  internal/library, internal/catalog and internal/agentscope: which knowledge bases a user is shown,
  page by page, and which of them an agent request may use. The list of WeKnora is a parameter.
\<close>

section \<open>Pages\<close>

text \<open>
  \<open>paginate\<close> of the library, and the same lines at the end of the catalog's \<open>List\<close>: the bounds of
  the slice, with the division that guards the product against overflow.
\<close>

definition page_start :: "int \<Rightarrow> int \<Rightarrow> int \<Rightarrow> int" where
  "page_start n page sz = (if page - 1 \<le> n div sz then (page - 1) * sz else n)"

definition page_end :: "int \<Rightarrow> int \<Rightarrow> int \<Rightarrow> int" where
  "page_end n page sz = min (page_start n page sz + sz) n"

definition page_slice :: "'a list \<Rightarrow> int \<Rightarrow> int \<Rightarrow> 'a list" where
  "page_slice xs page sz =
     (let n = int (length xs); start = page_start n page sz in
      take (nat (page_end n page sz - start)) (drop (nat start) xs))"

record 'a listing_page =
  pg_items :: "'a list"
  pg_total :: int
  pg_page :: int
  pg_page_size :: int

definition paginate :: "'a list \<Rightarrow> int \<Rightarrow> int \<Rightarrow> 'a listing_page" where
  "paginate xs page sz = \<lparr>pg_items = page_slice xs page sz, pg_total = int (length xs), pg_page = page, pg_page_size = sz\<rparr>"

definition max_page_size :: int where "max_page_size = 100"

section \<open>The authorized library\<close>

datatype library_error = LibInvalid | LibUnavailable

datatype view = ViewOwned | ViewShared | ViewSubscribed | ViewAll | ViewOther string

fun view_known :: "view \<Rightarrow> bool" where
  "view_known (ViewOther _) = False"
| "view_known _ = True"

record library_item =
  li_id :: string
  li_name :: string
  li_description :: string
  li_type :: string
  li_creator_id :: string
  li_role :: role
  li_product_mode :: product_mode
  li_source :: access_source
  li_publication_id :: string
  li_current_revision :: int
  li_last_seen_revision :: int
  li_updated :: bool

record 's library_service =
  lb_upstream :: "headers \<Rightarrow> upstream_error + knowledge_base list"
  lb_decide :: "string \<Rightarrow> principal \<Rightarrow> headers \<Rightarrow> 's \<Rightarrow> (authz_error, decision, 's) outcome"
  lb_subscriptions :: "(principal \<Rightarrow> 's \<Rightarrow> (subscription_error, sub_item list, 's) outcome) option"

definition followed_item :: "sub_item \<Rightarrow> library_item" where
  "followed_item f =
     \<lparr>li_id = pub_kb_id (it_publication f), li_name = pub_title (it_publication f),
      li_description = pub_description (it_publication f), li_type = [],
      li_creator_id = pub_publisher_id (it_publication f), li_role = RoleViewer, li_product_mode = ModeRAG,
      li_source = SourceSubscription, li_publication_id = pub_id (it_publication f),
      li_current_revision = it_current_revision f,
      li_last_seen_revision = sub_last_seen_revision (it_subscription f), li_updated = it_updated f\<rparr>"

text \<open>\<open>None\<close> stands for the nil lister, which \<open>List\<close> has refused before.\<close>

definition subscription_items ::
    "'s library_service \<Rightarrow> principal \<Rightarrow> 's \<Rightarrow> (library_error, library_item list, 's) outcome" where
  "subscription_items svc who s =
     (case lb_subscriptions svc of
        None \<Rightarrow> (Inl LibUnavailable, s)
      | Some lister \<Rightarrow>
          (case lister who s of
             (Inl _, s1) \<Rightarrow> (Inl LibUnavailable, s1)
           | (Inr items, s1) \<Rightarrow> (Inr (map followed_item items), s1)))"

definition in_view :: "view \<Rightarrow> decision \<Rightarrow> bool" where
  "in_view view d \<longleftrightarrow>
     \<not> (view = ViewOwned \<and> dc_role d \<noteq> RoleOwner
        \<or> view = ViewShared \<and> dc_source d \<noteq> SourceUserGrant
        \<or> view = ViewAll \<and> dc_source d \<noteq> SourceOwner \<and> dc_source d \<noteq> SourceUserGrant)"

definition owned_item :: "knowledge_base \<Rightarrow> decision \<Rightarrow> library_item" where
  "owned_item kb d =
     \<lparr>li_id = kb_id kb, li_name = kb_name kb, li_description = kb_description kb, li_type = kb_type kb,
      li_creator_id = kb_creator_id kb, li_role = dc_role d, li_product_mode = dc_product_mode d,
      li_source = dc_source d, li_publication_id = [], li_current_revision = 0, li_last_seen_revision = 0,
      li_updated = False\<rparr>"

fun authorized_items ::
    "'s library_service \<Rightarrow> view \<Rightarrow> principal \<Rightarrow> headers \<Rightarrow> knowledge_base list \<Rightarrow> 's \<Rightarrow>
     (library_error, library_item list, 's) outcome" where
  "authorized_items svc view who inbound [] s = (Inr [], s)"
| "authorized_items svc view who inbound (kb # kbs) s =
     (case lb_decide svc (kb_id kb) who inbound s of
        (Inl AzNotFound, s1) \<Rightarrow> authorized_items svc view who inbound kbs s1
      | (Inl _, s1) \<Rightarrow> (Inl LibUnavailable, s1)
      | (Inr d, s1) \<Rightarrow>
          if \<not> in_view view d then authorized_items svc view who inbound kbs s1
          else (case authorized_items svc view who inbound kbs s1 of
                  (Inl e, s2) \<Rightarrow> (Inl e, s2)
                | (Inr items, s2) \<Rightarrow> (Inr (owned_item kb d # items), s2)))"

text \<open>The loop that adds the subscribed items whose ID is not listed yet.\<close>

fun add_unseen :: "string list \<Rightarrow> library_item list \<Rightarrow> library_item list" where
  "add_unseen seen [] = []"
| "add_unseen seen (it # its) =
     (if li_id it \<notin> set seen then it # add_unseen (li_id it # seen) its else add_unseen seen its)"

definition library_list ::
    "'s library_service \<Rightarrow> view \<Rightarrow> int \<Rightarrow> int \<Rightarrow> principal \<Rightarrow> headers \<Rightarrow> 's \<Rightarrow>
     (library_error, library_item listing_page, 's) outcome" where
  "library_list svc view page sz who inbound s =
     (if \<not> view_known view \<or> page < 1 \<or> sz < 1 \<or> sz > max_page_size
         \<or> blank (pr_user_id who) \<or> pr_tenant_id who = 0 then (Inl LibInvalid, s)
      else if (view = ViewSubscribed \<or> view = ViewAll) \<and> lb_subscriptions svc = None then (Inl LibUnavailable, s)
      else if view = ViewSubscribed then
        (case subscription_items svc who s of
           (Inl e, s1) \<Rightarrow> (Inl e, s1)
         | (Inr items, s1) \<Rightarrow> (Inr (paginate items page sz), s1))
      else (case lb_upstream svc inbound of
        Inl _ \<Rightarrow> (Inl LibUnavailable, s)
      | Inr kbs \<Rightarrow>
          (case authorized_items svc view who inbound kbs s of
             (Inl e, s1) \<Rightarrow> (Inl e, s1)
           | (Inr authorized, s1) \<Rightarrow>
               if view = ViewAll then
                 (case subscription_items svc who s1 of
                    (Inl e, s2) \<Rightarrow> (Inl e, s2)
                  | (Inr follows, s2) \<Rightarrow>
                      (Inr (paginate (authorized @ add_unseen (map li_id authorized) follows) page sz), s2))
               else (Inr (paginate authorized page sz), s1))))"

section \<open>The catalog\<close>

datatype catalog_error = CatInvalid | CatNotFound | CatUnavailable

record catalog_filter =
  cf_query :: string
  cf_tag :: string
  cf_owner :: string
  cf_access_mode :: "access_mode option"  \<comment> \<open>the empty mode is \<open>None\<close>\<close>
  cf_updated_after :: "time option"
  cf_page :: int
  cf_page_size :: int

record catalog_item =
  ci_publication :: publication
  ci_current_revision :: int
  ci_subscribed :: bool
  ci_last_seen_revision :: int
  ci_updated :: bool
  ci_can_read :: bool
  ci_can_subscribe :: bool

record 's catalog_service =
  ct_get :: "string \<Rightarrow> 's \<Rightarrow> (publication_error, publication, 's) outcome"
  ct_list_published :: "'s \<Rightarrow> (publication_error, publication list, 's) outcome"
  ct_effective :: "string \<Rightarrow> string \<Rightarrow> u64 \<Rightarrow> 's \<Rightarrow> (subscription_error, subscription, 's) outcome"
  ct_current :: "string \<Rightarrow> 's \<Rightarrow> (revision_error, int, 's) outcome"

definition catalog_valid_filter :: "catalog_filter \<Rightarrow> bool" where
  "catalog_valid_filter f \<longleftrightarrow>
     cf_page f > 0 \<and> cf_page_size f > 0 \<and> cf_page_size f \<le> max_page_size
   \<and> rune_count (cf_query f) \<le> 160 \<and> rune_count (cf_tag f) \<le> 40 \<and> length (cf_owner f) \<le> 512
   \<and> (case cf_access_mode f of None \<Rightarrow> True | Some m \<Rightarrow> access_mode_valid m)"

fun join_space :: "string list \<Rightarrow> string" where
  "join_space [] = []"
| "join_space [x] = x"
| "join_space (x # y # ys) = x @ CHR '' '' # join_space (y # ys)"

definition catalog_matches :: "(string \<Rightarrow> string) \<Rightarrow> publication \<Rightarrow> catalog_filter \<Rightarrow> bool" where
  "catalog_matches ulower p f =
     (if cf_owner f \<noteq> [] \<and> pub_publisher_id p \<noteq> cf_owner f then False
      else if (case cf_access_mode f of None \<Rightarrow> False | Some m \<Rightarrow> pub_access_mode p \<noteq> m) then False
      else if (case cf_updated_after f of None \<Rightarrow> False | Some t \<Rightarrow> \<not> t < pub_updated_at p) then False
      else if cf_tag f \<noteq> [] \<and> to_lower ulower (trim_space (cf_tag f)) \<notin> set (pub_tags p) then False
      else if cf_query f \<noteq> [] \<and>
        \<not> contains (to_lower ulower (pub_title p @ CHR 0x0A # pub_description p @ CHR 0x0A
             # pub_usage_guidance p @ CHR 0x0A # join_space (pub_tags p)))
           (to_lower ulower (trim_space (cf_query f))) then False
      else True)"

definition catalog_visible :: "principal \<Rightarrow> publication \<Rightarrow> bool" where
  "catalog_visible who p \<longleftrightarrow> pub_publisher_id p = pr_user_id who \<or> visible_to p (pr_tenant_id who)"

definition decorate ::
    "'s catalog_service \<Rightarrow> principal \<Rightarrow> publication \<Rightarrow> 's \<Rightarrow> (catalog_error, catalog_item, 's) outcome" where
  "decorate svc who p s =
     (case ct_current svc (pub_kb_id p) s of
        (Inl _, s1) \<Rightarrow> (Inl CatUnavailable, s1)
      | (Inr current, s1) \<Rightarrow>
          let own = pub_publisher_id p = pr_user_id who;
              item = \<lparr>ci_publication = p, ci_current_revision = current, ci_subscribed = False,
                ci_last_seen_revision = 0, ci_updated = False,
                ci_can_read = (own \<or> pub_access_mode p = AccessOrganizationPublic),
                ci_can_subscribe = \<not> own\<rparr> in
          (case ct_effective svc (pub_id p) (pr_user_id who) (pr_tenant_id who) s1 of
             (Inr x, s2) \<Rightarrow>
               (Inr (item\<lparr>ci_subscribed := True, ci_last_seen_revision := sub_last_seen_revision x,
                          ci_updated := sub_last_seen_revision x < current, ci_can_read := True,
                          ci_can_subscribe := False\<rparr>), s2)
           | (Inl SubNotFound, s2) \<Rightarrow> (Inr item, s2)
           | (Inl _, s2) \<Rightarrow> (Inl CatUnavailable, s2)))"

fun catalog_items ::
    "(string \<Rightarrow> string) \<Rightarrow> 's catalog_service \<Rightarrow> principal \<Rightarrow> catalog_filter \<Rightarrow> publication list \<Rightarrow> 's \<Rightarrow>
     (catalog_error, catalog_item list, 's) outcome" where
  "catalog_items ulower svc who f [] s = (Inr [], s)"
| "catalog_items ulower svc who f (p # ps) s =
     (if \<not> catalog_visible who p \<or> \<not> catalog_matches ulower p f then catalog_items ulower svc who f ps s
      else case decorate svc who p s of
        (Inl e, s1) \<Rightarrow> (Inl e, s1)
      | (Inr item, s1) \<Rightarrow>
          (case catalog_items ulower svc who f ps s1 of
             (Inl e, s2) \<Rightarrow> (Inl e, s2)
           | (Inr items, s2) \<Rightarrow> (Inr (item # items), s2)))"

definition catalog_list ::
    "(string \<Rightarrow> string) \<Rightarrow> 's catalog_service \<Rightarrow> principal \<Rightarrow> catalog_filter \<Rightarrow> 's \<Rightarrow>
     (catalog_error, catalog_item listing_page, 's) outcome" where
  "catalog_list ulower svc who f s =
     (if \<not> valid_actor who \<or> \<not> catalog_valid_filter f then (Inl CatInvalid, s)
      else case ct_list_published svc s of
        (Inl _, s1) \<Rightarrow> (Inl CatUnavailable, s1)
      | (Inr ps, s1) \<Rightarrow>
          (case catalog_items ulower svc who f ps s1 of
             (Inl e, s2) \<Rightarrow> (Inl e, s2)
           | (Inr items, s2) \<Rightarrow> (Inr (paginate items (cf_page f) (cf_page_size f)), s2)))"

definition catalog_get ::
    "'s catalog_service \<Rightarrow> principal \<Rightarrow> string \<Rightarrow> 's \<Rightarrow> (catalog_error, catalog_item, 's) outcome" where
  "catalog_get svc who i s =
     (if \<not> valid_actor who \<or> blank i then (Inl CatInvalid, s)
      else case ct_get svc i s of
        (Inl e, s1) \<Rightarrow> (Inl (if e = PubNotFound then CatNotFound else CatUnavailable), s1)
      | (Inr p, s1) \<Rightarrow>
          if \<not> published p \<or> \<not> catalog_visible who p then (Inl CatNotFound, s1)
          else decorate svc who p s1)"

section \<open>The scope of an agent request\<close>

datatype scope_error = ScopeInvalid | ScopeDenied | ScopeTooLarge | ScopeUnavailable

datatype selection = SelectionDefault | SelectionExplicit | SelectionOther string

record scope_entry =
  se_kb_id :: string
  se_role :: role
  se_source :: access_source
  se_product_mode :: product_mode

record scope_result =
  sr_selection :: selection
  sr_kb_ids :: "string list"
  sr_entries :: "scope_entry list"

definition max_knowledge_bases :: int where "max_knowledge_bases = 64"

record 's scope_resolver =
  sv_library :: "view \<Rightarrow> int \<Rightarrow> int \<Rightarrow> principal \<Rightarrow> headers \<Rightarrow> 's \<Rightarrow> (library_error, library_item listing_page, 's) outcome"
  sv_authorize :: "string \<Rightarrow> principal \<Rightarrow> action \<Rightarrow> headers \<Rightarrow> 's \<Rightarrow> (authz_error, decision, 's) outcome"

text \<open>\<open>sort.Slice\<close> by the ID; it is stable here, which the code does not need to say which of two
  entries with one ID comes first.\<close>

definition scope_result_of :: "selection \<Rightarrow> scope_entry list \<Rightarrow> scope_result" where
  "scope_result_of sel entries =
     (let sorted = sort_key se_kb_id entries in
      \<lparr>sr_selection = sel, sr_kb_ids = map se_kb_id sorted, sr_entries = sorted\<rparr>)"

definition default_entries :: "library_item list \<Rightarrow> scope_entry list" where
  "default_entries items =
     map (\<lambda>it. \<lparr>se_kb_id = li_id it, se_role = li_role it, se_source = li_source it, se_product_mode = li_product_mode it\<rparr>)
       (filter (\<lambda>it. li_source it \<noteq> SourceOrganizationPublic) items)"

definition resolve_default ::
    "'s scope_resolver \<Rightarrow> principal \<Rightarrow> headers \<Rightarrow> 's \<Rightarrow> (scope_error, scope_result, 's) outcome" where
  "resolve_default svc who inbound s =
     (case sv_library svc ViewAll 1 max_knowledge_bases who inbound s of
        (Inl _, s1) \<Rightarrow> (Inl ScopeUnavailable, s1)
      | (Inr page, s1) \<Rightarrow>
          if pg_total page > max_knowledge_bases then (Inl ScopeTooLarge, s1)
          else (Inr (scope_result_of SelectionDefault (default_entries (pg_items page))), s1))"

text \<open>The loop of \<open>normalizeIDs\<close>.\<close>

fun trimmed_ids :: "string list \<Rightarrow> string list \<Rightarrow> string list option" where
  "trimmed_ids seen [] = Some []"
| "trimmed_ids seen (v # vs) =
     (let w = trim_space v in
      if w = [] \<or> length w > 128 then None
      else if w \<notin> set seen then map_option (Cons w) (trimmed_ids (w # seen) vs)
      else trimmed_ids seen vs)"

definition normalize_ids :: "string list \<Rightarrow> scope_error + string list" where
  "normalize_ids values =
     (if int (length values) > max_knowledge_bases then Inl ScopeTooLarge
      else if values = [] then Inl ScopeInvalid
      else case trimmed_ids [] values of None \<Rightarrow> Inl ScopeInvalid | Some ids \<Rightarrow> Inr (sort ids))"

fun explicit_entries ::
    "'s scope_resolver \<Rightarrow> principal \<Rightarrow> headers \<Rightarrow> string list \<Rightarrow> 's \<Rightarrow> (scope_error, scope_entry list, 's) outcome" where
  "explicit_entries svc who inbound [] s = (Inr [], s)"
| "explicit_entries svc who inbound (i # is) s =
     (case sv_authorize svc i who ActionRead inbound s of
        (Inl e, s1) \<Rightarrow> (Inl (if e = AzDenied \<or> e = AzNotFound then ScopeDenied else ScopeUnavailable), s1)
      | (Inr d, s1) \<Rightarrow>
          (case explicit_entries svc who inbound is s1 of
             (Inl e, s2) \<Rightarrow> (Inl e, s2)
           | (Inr es, s2) \<Rightarrow>
               (Inr (\<lparr>se_kb_id = i, se_role = dc_role d, se_source = dc_source d, se_product_mode = dc_product_mode d\<rparr> # es), s2)))"

definition resolve_explicit ::
    "'s scope_resolver \<Rightarrow> string list \<Rightarrow> principal \<Rightarrow> headers \<Rightarrow> 's \<Rightarrow> (scope_error, scope_result, 's) outcome" where
  "resolve_explicit svc ids who inbound s =
     (case normalize_ids ids of
        Inl e \<Rightarrow> (Inl e, s)
      | Inr ids \<Rightarrow>
          (case explicit_entries svc who inbound ids s of
             (Inl e, s1) \<Rightarrow> (Inl e, s1)
           | (Inr es, s1) \<Rightarrow> (Inr (scope_result_of SelectionExplicit es), s1)))"

definition resolve_scope ::
    "'s scope_resolver \<Rightarrow> selection \<Rightarrow> string list \<Rightarrow> principal \<Rightarrow> headers \<Rightarrow> 's \<Rightarrow> (scope_error, scope_result, 's) outcome" where
  "resolve_scope svc sel ids who inbound s =
     (if blank (pr_user_id who) \<or> pr_tenant_id who = 0 then (Inl ScopeInvalid, s)
      else case sel of
        SelectionDefault \<Rightarrow> if ids \<noteq> [] then (Inl ScopeInvalid, s) else resolve_default svc who inbound s
      | SelectionExplicit \<Rightarrow> resolve_explicit svc ids who inbound s
      | SelectionOther _ \<Rightarrow> (Inl ScopeInvalid, s))"

section \<open>The product's wiring\<close>

definition product_library ::
    "(headers \<Rightarrow> upstream_error + knowledge_base list) \<Rightarrow> (string \<Rightarrow> headers \<Rightarrow> upstream_error + knowledge_base) \<Rightarrow> time \<Rightarrow> database library_service" where
  "product_library list upstream now = \<lparr>lb_upstream = list, lb_decide = decide (product_authorization upstream now),
     lb_subscriptions = Some (subscription_list (product_subscription_service now))\<rparr>"

definition product_catalog :: "time \<Rightarrow> database catalog_service" where
  "product_catalog now = \<lparr>ct_get = publication_get, ct_list_published = publication_list_published,
     ct_effective = effective_subscription (product_subscription_service now), ct_current = revision_current\<rparr>"

definition product_scopes ::
    "(headers \<Rightarrow> upstream_error + knowledge_base list) \<Rightarrow> (string \<Rightarrow> headers \<Rightarrow> upstream_error + knowledge_base) \<Rightarrow> time \<Rightarrow> database scope_resolver" where
  "product_scopes list upstream now = \<lparr>sv_library = library_list (product_library list upstream now),
     sv_authorize = authorize_action (product_authorization upstream now)\<rparr>"

lemma product_listing_sel [simp]:
  "lb_upstream (product_library ls upstream now) = ls"
  "lb_decide (product_library ls upstream now) = decide (product_authorization upstream now)"
  "lb_subscriptions (product_library ls upstream now) = Some (subscription_list (product_subscription_service now))"
  "ct_get (product_catalog now) = publication_get"
  "ct_list_published (product_catalog now) = publication_list_published"
  "ct_effective (product_catalog now) = effective_subscription (product_subscription_service now)"
  "ct_current (product_catalog now) = revision_current"
  "sv_library (product_scopes ls upstream now) = library_list (product_library ls upstream now)"
  "sv_authorize (product_scopes ls upstream now) = authorize_action (product_authorization upstream now)"
  by (simp_all add: product_library_def product_catalog_def product_scopes_def)

end
