(* ===== verification/AccessRules.thy ===== *)
theory AccessRules
  imports Authorization
begin

text \<open>
  The properties of the authorization decisions on the product's database.
\<close>

section \<open>The decision and the rule\<close>

text \<open>C16. Refinement: whenever the product decides, the role it reports is the role of the access
  rule over the grants, publications and subscriptions of the database, for the resolved owner.\<close>

theorem decide_implements_rule:
  assumes "product_inv db" and "decide (product_authorization upstream now) k who h db = (Inr d, db1)"
  shows "\<exists>own db0. resolve (product_resolver upstream) k h db = (Inr own, db0)
     \<and> dc_role d = access_role own k who now (db_grants db) (db_publications db) (db_subscriptions db)"
  using az.decide_role [OF assms(2)] assms(1) by (simp add: product_inv_def)

definition carl :: principal where "carl = \<lparr>pr_user_id = ''bob'', pr_tenant_id = 7\<rparr>"

definition sample_decided :: "(authz_error, decision, database) outcome" where
  "sample_decided = decide (product_authorization sample_kb 6) ''kb'' carl sample_headers (snd sample_granted)"

lemma sample_decided_ok: "is_Inr (fst sample_decided)"
  by code_simp

theorem decide_implements_rule_witness:
  "\<exists>own db0. resolve (product_resolver sample_kb) ''kb'' sample_headers (snd sample_granted) = (Inr own, db0)
     \<and> dc_role (projr (fst sample_decided)) = access_role own ''kb'' carl 6 (db_grants (snd sample_granted))
         (db_publications (snd sample_granted)) (db_subscriptions (snd sample_granted))"
  using decide_implements_rule [OF sample_granted_ok(2) ok_outcome [OF sample_decided_ok, unfolded sample_decided_def]]
  by (auto simp: sample_decided_def)

lemma decide_published_answers:
  assumes "db_faults db = []" "list_all publication_valid (db_publications db)"
    and "list_all subscription_valid (db_subscriptions db)" "u \<noteq> []" "pr_user_id who = u" "pr_tenant_id who \<noteq> 0"
  shows "\<exists>d. decide_published (product_authorization upstream now) base k who db = (Inr d, db)"
proof -
  define po where "po = find (\<lambda>p. pub_kb_id p = k \<and> pub_status p = StatusPublished) (db_publications db)"
  have p: "publication_get_published_by_kb k db = (scan_publication po, db)"
    by (simp add: publication_get_published_by_kb_def query_ready [OF assms(1)] po_def)
  have pv: "publication_valid x" if "po = Some x" for x
    using that assms(2) by (auto simp: po_def list_all_iff dest!: find_in_set)
  have s: "\<exists>so. subscription_get i u db = (scan_subscription so, db) \<and> (\<forall>x. so = Some x \<longrightarrow> subscription_valid x)" for i
    using assms(3) by (force simp: subscription_get_def query_ready [OF assms(1)] list_all_iff dest!: find_in_set)
  have e: "\<exists>r. effective_subscription (product_subscription_service now) (pub_id x) u (pr_tenant_id who) db = (r, db)
      \<and> (r = Inl SubNotFound \<or> is_Inr r)" if "publication_valid x" for x
    using s [of "pub_id x"] assms(4,6) that
    by (auto simp: effective_subscription_def publication_valid_def scan_subscription_def split: option.splits)
  show ?thesis
  proof (cases po)
    case None
    with p show ?thesis by (simp add: decide_published_def scan_publication_def)
  next
    case (Some x)
    with pv e [of x] p assms(5) show ?thesis
      by (auto simp: decide_published_def Let_def scan_publication_def is_Inr_iff)
  qed
qed

text \<open>C17. The decision is made: on a connection that does not fail, over well-formed rows, a resolved
  owner and a complete principal always get an answer, and deciding changes nothing.\<close>

theorem decide_answers:
  assumes "db_faults db = []" "resolve (product_resolver upstream) k h db = (Inr own, db)"
    and "list_all grant_valid (db_grants db)" "list_all publication_valid (db_publications db)"
    and "list_all subscription_valid (db_subscriptions db)"
    and "\<not> blank k" "\<not> blank (pr_user_id who)" "pr_tenant_id who \<noteq> 0"
  shows "\<exists>d. decide (product_authorization upstream now) k who h db = (Inr d, db)"
proof -
  have u: "pr_user_id who \<noteq> []" using assms(7) by auto
  obtain d where d: "decide_published (product_authorization upstream now) (base_decision k own) k who db = (Inr d, db)"
    using decide_published_answers [OF assms(1,4,5) u refl assms(8)] by blast
  define g where "g = effective_row k (pr_user_id who) now (db_grants db)"
  have e: "repo_effective k (pr_user_id who) now db = (scan_grant g, db)"
    by (simp add: repo_effective_def query_ready [OF assms(1)] g_def)
  have v: "grant_valid x" if "g = Some x" for x
    using effective_row_Some [OF that [unfolded g_def]] assms(3) by (simp add: list_all_iff)
  show ?thesis
    using assms(2,6-8) d e v
    by (cases g) (auto simp: decide_def Let_def scan_grant_def grant_valid_def permission_valid_def)
qed

lemma resolve_ready: "db_faults db = [] \<Longrightarrow> snd (resolve (product_resolver u) k h db) = db"
  using resolve_state [OF prod_eta, of "product_resolver u" k h db]
  by (auto simp: product_resolver_def profile_get_def query_ready split: if_splits)

theorem decide_answers_witness:
  "\<exists>d. decide (product_authorization sample_kb 6) ''kb'' carl sample_headers (snd sample_granted) = (Inr d, snd sample_granted)"
proof -
  have f: "db_faults (snd sample_granted) = []" by code_simp
  have "is_Inr (fst (resolve (product_resolver sample_kb) ''kb'' sample_headers (snd sample_granted)))" by code_simp
  then obtain own where r: "resolve (product_resolver sample_kb) ''kb'' sample_headers (snd sample_granted) = (Inr own, snd sample_granted)"
    using resolve_ready [OF f, of sample_kb "''kb''" sample_headers] by (auto simp: is_Inr_prod)
  show ?thesis
    by (rule decide_answers [OF f r]) (code_simp+)
qed

section \<open>What a role can and cannot do\<close>

text \<open>C18. Who is not the owner never configures, shares or deletes; who is of another workspace, or
  holds no grant, never edits; on Personal Notes nobody but the owner does anything.\<close>

theorem authorize_limits:
  assumes "product_inv db" and "authorize_action (product_authorization upstream now) k who a h db = (Inr d, db1)"
  shows "\<exists>own db0. resolve (product_resolver upstream) k h db = (Inr own, db0)
     \<and> (pr_user_id who = own_user_id own \<and> pr_tenant_id who = own_tenant_id own
        \<or> \<not> is_personal_notes own \<and> a \<in> {ActionDiscover, ActionRead, ActionEditContent}
          \<and> (a = ActionEditContent \<longrightarrow> pr_tenant_id who = own_tenant_id own
               \<and> granted PermissionEditor k (pr_user_id who) now (db_grants db)))"
proof -
  from authorize_Inr [OF assms(2)]
  have d: "decide (product_authorization upstream now) k who h db = (Inr d, db1)" "allows d a" by auto
  from az.decide_role [OF d(1)] assms(1) obtain own db0 where
    "resolve (product_resolver upstream) k h db = (Inr own, db0)"
    "dc_role d = access_role own k who now (db_grants db) (db_publications db) (db_subscriptions db)"
    by (auto simp: product_inv_def)
  with d(2) show ?thesis by (auto simp: allows_def access_role_def Let_def split: if_splits)
qed

theorem authorize_limits_witness:
  "\<exists>own db0. resolve (product_resolver sample_kb) ''kb'' sample_headers (snd sample_updated) = (Inr own, db0)
     \<and> granted PermissionEditor ''kb'' ''bob'' 7 (db_grants (snd sample_updated))"
proof -
  let ?a = "authorize_action (product_authorization sample_kb 7) ''kb'' carl ActionEditContent sample_headers (snd sample_updated)"
  have ok: "is_Inr (fst ?a)" by code_simp
  have inv: "product_inv (snd sample_updated)"
    unfolding sample_updated_def by (rule step_keeps_inv [OF sample_granted_ok(2) step_grant_update])
  have who: "own_user_id own \<noteq> pr_user_id carl"
    if "resolve (product_resolver sample_kb) ''kb'' sample_headers (snd sample_updated) = (Inr own, db0)" for own db0
    using resolve_Inr [OF that] by (auto simp: product_resolver_def sample_kb_of_def carl_def split: if_splits)
  show ?thesis
    using authorize_limits [OF inv ok_outcome [OF ok]] who by (fastforce simp: carl_def)
qed

text \<open>C19. Revocation withdraws the access at once: after a successful revoke of a user's grant the
  decision for that user rests on ownership or on a publication only.\<close>

theorem revoke_withdraws_access:
  assumes "product_inv db"
    and "grant_revoke (product_grant_service upstream now) k i who req h db = (Inr g, db1)"
    and "g_subject_type g = SubjectUser"
    and "decide (product_authorization upstream2 now2) (g_kb_id g) \<lparr>pr_user_id = g_subject_id g, pr_tenant_id = w\<rparr> h2 db1 = (Inr d, db2)"
  shows "dc_role d = RoleOwner \<or> dc_role d = RoleNone
     \<or> dc_role d = RoleViewer
       \<and> readable_published (g_kb_id g) (g_subject_id g) w (db_publications db1) (db_subscriptions db1)"
proof -
  from gsd.revoke_Inr_grant [OF assms(2)] obtain old where o: "old \<in> set (db_grants db)"
    "cas_matches i (rrq_expected_revision req) old" "g = revoke_row (rrq_correlation_id req) now old"
    "db_grants db1 = update_where (cas_matches i (rrq_expected_revision req))
       (revoke_row (rrq_correlation_id req) now) (db_grants db)"
    by auto
  have inv: "product_inv db1"
    using product_step_good [OF step_grant_revoke, of db upstream now k i who req h] assms(1,2)
    by (simp add: good_change_def)
  have uq: "x = old" if "x \<in> set (db_grants db)" "grant_subject x = grant_subject old" "grant_current x" for x
    using assms(1) o(1,2) that distinct_map_inj [of grant_subject "filter grant_current (db_grants db)" x old]
    by (simp add: product_inv_def grants_unique_def cas_matches_def grant_current_def)
  have "\<not> grant_active x now2" if "x \<in> set (db_grants db1)" "grant_subject x = grant_subject g" for x
    using that o uq [of x]
    by (auto simp: set_update_where grant_active_def grant_current_def cas_matches_def grant_subject_def revoke_row_def)
  then have none: "\<not> granted p (g_kb_id g) (g_subject_id g) now2 (db_grants db1)" for p
    using assms(3) by (auto simp: granted_def grant_subject_def)
  from az.decide_role [OF assms(4)] inv obtain own where
    "dc_role d = access_role own (g_kb_id g) \<lparr>pr_user_id = g_subject_id g, pr_tenant_id = w\<rparr> now2
       (db_grants db1) (db_publications db1) (db_subscriptions db1)"
    by (auto simp: product_inv_def)
  then show ?thesis by (simp add: access_role_def Let_def none)
qed

theorem revoke_withdraws_access_witness:
  "dc_role (projr (fst (decide (product_authorization sample_kb 7) ''kb'' carl sample_headers (snd sample_revoked)))) = RoleNone"
proof -
  let ?d = "decide (product_authorization sample_kb 7) ''kb'' carl sample_headers (snd sample_revoked)"
  have ok: "is_Inr (fst ?d)" by code_simp
  have g: "g_subject_type (projr (fst sample_revoked)) = SubjectUser" "g_kb_id (projr (fst sample_revoked)) = ''kb''"
    "g_subject_id (projr (fst sample_revoked)) = ''bob''" by code_simp+
  have "dc_role (projr (fst ?d)) \<noteq> RoleOwner" by code_simp
  moreover have "db_publications (snd sample_revoked) = []" by code_simp
  ultimately show ?thesis
    using revoke_withdraws_access [OF sample_granted_ok(2) ok_outcome [OF sample_revoked_ok, unfolded sample_revoked_def],
        where w = 7, folded sample_revoked_def, unfolded g, folded carl_def, OF refl ok_outcome [OF ok]]
    by (auto simp: readable_published_def)
qed

end
