(* ===== verification/Reads.thy ===== *)
theory Reads
  imports AccessRules Listing
begin

text \<open>
  The operations that only read. What they leave of the database is everything but the script of the
  connection, so the answers of one request are all answers about the same tables.
\<close>

definition tables :: "database \<Rightarrow> database" where
  "tables db = db\<lparr>db_faults := []\<rparr>"

lemma tables_sel:
  "db_grants (tables a) = db_grants a" "db_publications (tables a) = db_publications a"
  "db_subscriptions (tables a) = db_subscriptions a" "db_profiles (tables a) = db_profiles a"
  "db_sessions (tables a) = db_sessions a" "db_revisions (tables a) = db_revisions a"
  "db_audit (tables a) = db_audit a"
  by (simp_all add: tables_def)

lemma tables_eqD:
  assumes "tables a = tables b"
  shows "db_grants a = db_grants b \<and> db_publications a = db_publications b
   \<and> db_subscriptions a = db_subscriptions b \<and> db_profiles a = db_profiles b \<and> db_sessions a = db_sessions b
   \<and> db_revisions a = db_revisions b \<and> db_audit a = db_audit b"
  unfolding tables_sel [of a, symmetric] tables_sel [of b, symmetric] assms by simp

lemma tables_inv: "tables a = tables b \<Longrightarrow> product_inv a = product_inv b"
  using tables_eqD [of a b] by (simp add: product_inv_def)

lemma tables_statement [simp]: "tables (snd (statement db)) = tables db"
  by (simp add: tables_def statement_def split: list.splits)

lemma tables_reads [simp]:
  "tables (snd (profile_get k db)) = tables db"
  "tables (snd (repo_effective k u t db)) = tables db"
  "tables (snd (publication_get i db)) = tables db"
  "tables (snd (publication_get_published_by_kb k db)) = tables db"
  "tables (snd (publication_list_published db)) = tables db"
  "tables (snd (subscription_get i u db)) = tables db"
  "tables (snd (subscription_list_by_user u db)) = tables db"
  "tables (snd (revision_current k db)) = tables db"
  by (simp_all add: profile_get_def repo_effective_def publication_get_def publication_get_published_by_kb_def
      publication_list_published_def subscription_get_def subscription_list_by_user_def revision_current_def)

lemma tables_resolve [simp]: "tables (snd (resolve (product_resolver u) k h db)) = tables db"
proof -
  obtain r db1 where e: "resolve (product_resolver u) k h db = (r, db1)" by fastforce
  from resolve_state [OF e] have "db1 = db \<or> db1 = snd (profile_get (trim_space k) db)"
    by (force simp: product_resolver_def)
  then show ?thesis by (auto simp: e)
qed

lemma tables_outcome: "f db = (r, db1) \<Longrightarrow> tables (snd (f db)) = tables db \<Longrightarrow> tables db1 = tables db"
  by simp

lemmas read_outcomes = tables_outcome [OF _ tables_reads(1)] tables_outcome [OF _ tables_reads(2)]
  tables_outcome [OF _ tables_reads(3)] tables_outcome [OF _ tables_reads(4)] tables_outcome [OF _ tables_reads(5)]
  tables_outcome [OF _ tables_reads(6)] tables_outcome [OF _ tables_reads(7)] tables_outcome [OF _ tables_reads(8)]
  tables_outcome [OF _ tables_resolve]

lemma tables_effective:
  "effective_subscription (product_subscription_service now) p u w db = (r, db1) \<Longrightarrow> tables db1 = tables db"
  by (auto simp: effective_subscription_def split: if_splits prod.splits sum.splits dest!: read_outcomes)

lemma tables_decide_published:
  "decide_published (product_authorization upstream now) base k who db = (r, db1) \<Longrightarrow> tables db1 = tables db"
  by (auto simp: decide_published_def Let_def split: prod.splits sum.splits publication_error.splits
      subscription_error.splits if_splits dest!: read_outcomes tables_effective)

lemma tables_decide:
  "decide (product_authorization upstream now) k who h db = (r, db1) \<Longrightarrow> tables db1 = tables db"
  by (auto simp: decide_def Let_def split: prod.splits sum.splits grant_error.splits permission.splits if_splits
      dest!: read_outcomes tables_decide_published)

lemma tables_authorize:
  "authorize_action (product_authorization upstream now) k who a h db = (r, db1) \<Longrightarrow> tables db1 = tables db"
  by (auto simp: authorize_action_def split: prod.splits sum.splits if_splits dest!: tables_decide)

lemma tables_list_items:
  "list_items (product_subscription_service now) who xs db = (r, db1) \<Longrightarrow> tables db1 = tables db"
proof (induction xs arbitrary: db r db1)
  case (Cons a as)
  from Cons.prems show ?case
    by (auto split: prod.splits sum.splits if_splits dest!: Cons.IH read_outcomes)
qed simp

lemma tables_subscription_list:
  "subscription_list (product_subscription_service now) who db = (r, db1) \<Longrightarrow> tables db1 = tables db"
  by (auto simp: subscription_list_def split: prod.splits sum.splits if_splits
      dest!: read_outcomes tables_list_items)

lemma tables_authorized_items:
  "authorized_items (product_library ls upstream now) v who h kbs db = (r, db1) \<Longrightarrow> tables db1 = tables db"
proof (induction kbs arbitrary: db r db1)
  case (Cons a as)
  from Cons.prems show ?case
    by (auto split: prod.splits sum.splits if_splits authz_error.splits dest!: Cons.IH tables_decide)
qed simp

lemma tables_library:
  "library_list (product_library ls upstream now) v p n who h db = (r, db1) \<Longrightarrow> tables db1 = tables db"
  by (auto simp: library_list_def subscription_items_def split: prod.splits sum.splits if_splits option.splits
      dest!: tables_authorized_items) (auto dest!: tables_subscription_list)

lemma tables_explicit_entries:
  "explicit_entries (product_scopes ls upstream now) who h is db = (r, db1) \<Longrightarrow> tables db1 = tables db"
proof (induction "is" arbitrary: db r db1)
  case (Cons a as)
  from Cons.prems show ?case
    by (auto split: prod.splits sum.splits if_splits dest!: Cons.IH tables_authorize)
qed simp

lemma tables_scope:
  "resolve_scope (product_scopes ls upstream now) sel ids who h db = (r, db1) \<Longrightarrow> tables db1 = tables db"
  by (auto simp: resolve_scope_def resolve_default_def resolve_explicit_def
      split: prod.splits sum.splits if_splits selection.splits dest!: tables_explicit_entries)
     (auto dest!: tables_library)

lemma tables_decorate: "decorate (product_catalog now) who p db = (r, db1) \<Longrightarrow> tables db1 = tables db"
  by (auto simp: decorate_def Let_def split: prod.splits sum.splits subscription_error.splits
      dest!: read_outcomes tables_effective)

lemma tables_catalog_items:
  "catalog_items ulower (product_catalog now) who f ps db = (r, db1) \<Longrightarrow> tables db1 = tables db"
proof (induction ps arbitrary: db r db1)
  case (Cons a as)
  from Cons.prems show ?case
    by (auto split: prod.splits sum.splits if_splits dest!: Cons.IH tables_decorate)
qed simp

end
