(* ===== verification/SessionScopes.thy ===== *)
theory SessionScopes
  imports Reads
begin

text \<open>
  internal/sessionscope: the knowledge bases each chat session has used, on
  \<open>mindcreek.session_kb_scopes\<close> (migration 000007). The set of a session only grows.
\<close>

datatype session_error = SessionInvalid | SessionFailed

text \<open>\<open>validateID\<close>: the trimmed length is checked, the value itself is stored.\<close>

definition session_id_valid :: "string \<Rightarrow> nat \<Rightarrow> bool" where
  "session_id_valid v n \<longleftrightarrow> (let t = trim_space v in t \<noteq> [] \<and> length t \<le> n)"

definition session_key :: "session_scope \<Rightarrow> string \<times> string" where
  "session_key r = (ss_session_id r, ss_kb_id r)"

definition session_list_kbs :: "string \<Rightarrow> database \<Rightarrow> (session_error, string list, database) outcome" where
  "session_list_kbs sid db =
     (if \<not> session_id_valid sid 128 then (Inl SessionInvalid, db)
      else query SessionFailed
        (\<lambda>db. Inr (map ss_kb_id (sort_key ss_kb_id (filter (\<lambda>r. ss_session_id r = sid) (db_sessions db))))) db)"

text \<open>\<open>INSERT ... ON CONFLICT ... DO UPDATE SET last_seen_at = GREATEST(...)\<close>.\<close>

definition upsert_session :: "string \<Rightarrow> time \<Rightarrow> string \<Rightarrow> database \<Rightarrow> (session_error, unit, database) outcome" where
  "upsert_session sid at kbid = exec SessionFailed
     (\<lambda>db. if \<not> varchar 128 sid \<or> \<not> varchar 36 kbid then (Inl SessionFailed, db)
          else if (sid, kbid) \<in> set (map session_key (db_sessions db)) then
            (Inr (), db\<lparr>db_sessions := update_where (\<lambda>r. session_key r = (sid, kbid))
               (\<lambda>r. r\<lparr>ss_last_seen_at := max (ss_last_seen_at r) at\<rparr>) (db_sessions db)\<rparr>)
          else (Inr (), db\<lparr>db_sessions := db_sessions db @
            [\<lparr>ss_session_id = sid, ss_kb_id = kbid, ss_first_recorded_at = at, ss_last_seen_at = at\<rparr>]\<rparr>))"

text \<open>The loop over the Go map of the IDs, in the order of the list.\<close>

fun upsert_sessions :: "string \<Rightarrow> time \<Rightarrow> string list \<Rightarrow> database \<Rightarrow> (session_error, unit, database) outcome" where
  "upsert_sessions sid at [] db = (Inr (), db)"
| "upsert_sessions sid at (k # ks) db =
     (case upsert_session sid at k db of
        (Inl e, db1) \<Rightarrow> (Inl e, db1)
      | (Inr _, db1) \<Rightarrow> upsert_sessions sid at ks db1)"

definition session_record_kbs :: "string \<Rightarrow> string list \<Rightarrow> time \<Rightarrow> database \<Rightarrow> (session_error, unit, database) outcome" where
  "session_record_kbs sid kbs at db =
     (if \<not> session_id_valid sid 128 \<or> is_zero_time at then (Inl SessionInvalid, db)
      else if \<not> list_all (\<lambda>k. session_id_valid k 36) kbs then (Inl SessionInvalid, db)
      else if kbs = [] then (Inr (), db)
      else transaction SessionFailed (upsert_sessions sid at (remdups kbs)) db)"

definition session_kbs :: "string \<Rightarrow> database \<Rightarrow> string set" where
  "session_kbs sid db = {k. (sid, k) \<in> set (map session_key (db_sessions db))}"

lemma session_list_kbs_Inr:
  "session_list_kbs sid db = (Inr ks, db1) \<Longrightarrow> set ks = session_kbs sid db \<and> tables db1 = tables db"
  by (auto simp: session_list_kbs_def session_kbs_def session_key_def query_def split: if_splits)

lemma session_key_seen: "session_key ` set (update_where P (\<lambda>r. r\<lparr>ss_last_seen_at := f r\<rparr>) rows) = session_key ` set rows"
proof -
  have "map session_key (update_where P (\<lambda>r. r\<lparr>ss_last_seen_at := f r\<rparr>) rows) = map session_key rows"
    by (rule map_update_where) (simp add: session_key_def)
  then show ?thesis by (metis set_map)
qed

lemma upsert_session_Inr:
  assumes "upsert_session sid at k db = (Inr u, db1)"
  shows "db1 = (snd (statement db))\<lparr>db_sessions := db_sessions db1\<rparr>
    \<and> session_key ` set (db_sessions db1) = insert (sid, k) (session_key ` set (db_sessions db))"
proof (cases "(sid, k) \<in> session_key ` set (db_sessions db)")
  case True
  with exec_Inr [OF assms [unfolded upsert_session_def]]
  have e: "db1 = (snd (statement db))\<lparr>db_sessions := update_where (\<lambda>r. session_key r = (sid, k))
      (\<lambda>r. r\<lparr>ss_last_seen_at := max (ss_last_seen_at r) at\<rparr>) (db_sessions db)\<rparr>"
    by (simp split: if_splits)
  then have "db_sessions db1 = update_where (\<lambda>r. session_key r = (sid, k))
      (\<lambda>r. r\<lparr>ss_last_seen_at := max (ss_last_seen_at r) at\<rparr>) (db_sessions db)"
    by simp
  then have "session_key ` set (db_sessions db1) = session_key ` set (db_sessions db)"
    by (simp only: session_key_seen)
  with True e show ?thesis by (simp add: insert_absorb)
next
  case False
  with exec_Inr [OF assms [unfolded upsert_session_def]]
  have "db1 = (snd (statement db))\<lparr>db_sessions := db_sessions db @
      [\<lparr>ss_session_id = sid, ss_kb_id = k, ss_first_recorded_at = at, ss_last_seen_at = at\<rparr>]\<rparr>"
    by (auto split: if_splits)
  then show ?thesis by (simp add: session_key_def [of "\<lparr>ss_session_id = sid, ss_kb_id = k, ss_first_recorded_at = at, ss_last_seen_at = at\<rparr>"])
qed

lemma upsert_sessions_Inr:
  "upsert_sessions sid at ks db = (Inr u, db1) \<Longrightarrow>
   session_key ` set (db_sessions db1) = {sid} \<times> set ks \<union> session_key ` set (db_sessions db)
   \<and> db1\<lparr>db_sessions := [], db_faults := []\<rparr> = db\<lparr>db_sessions := [], db_faults := []\<rparr>"
proof (induction ks arbitrary: db)
  case (Cons k ks)
  from Cons.prems obtain db2 where u: "upsert_session sid at k db = (Inr (), db2)" "upsert_sessions sid at ks db2 = (Inr u, db1)"
    by (auto split: prod.splits sum.splits)
  note r = upsert_session_Inr [OF u(1)]
  have "db2\<lparr>db_sessions := [], db_faults := []\<rparr> = db\<lparr>db_sessions := [], db_faults := []\<rparr>"
    by (subst r [THEN conjunct1]) (simp add: statement_def split: list.splits)
  with Cons.IH [OF u(2)] r show ?case by auto
qed simp

lemma session_record_Inr:
  assumes "session_record_kbs sid kbs at db = (Inr u, db1)"
  shows "session_kbs sid db1 = set kbs \<union> session_kbs sid db \<and> (s \<noteq> sid \<longrightarrow> session_kbs s db1 = session_kbs s db)
     \<and> db1\<lparr>db_sessions := [], db_faults := []\<rparr> = db\<lparr>db_sessions := [], db_faults := []\<rparr>"
proof (cases "kbs = []")
  case True
  with assms show ?thesis by (auto simp: session_record_kbs_def split: if_splits)
next
  case False
  with assms have "transaction SessionFailed (upsert_sessions sid at (remdups kbs)) db = (Inr u, db1)"
    by (auto simp: session_record_kbs_def split: if_splits)
  from transaction_Inr [OF this] obtain db2 where t: "upsert_sessions sid at (remdups kbs) (snd (statement db)) = (Inr u, db2)"
    "db1 = snd (statement db2)" by blast
  have f: "(snd (statement db))\<lparr>db_sessions := [], db_faults := []\<rparr> = db\<lparr>db_sessions := [], db_faults := []\<rparr>" for db
    by (simp add: statement_def split: list.splits)
  from upsert_sessions_Inr [OF t(1)] show ?thesis
    by (auto simp: session_kbs_def t(2) f)
qed

lemma session_record_Inl:
  "session_record_kbs sid kbs at db = (Inl e, db1) \<Longrightarrow> db_sessions db1 = db_sessions db"
  by (auto simp: session_record_kbs_def split: if_splits dest!: transaction_Inl)

end
