(* ===== verification/Routes.thy ===== *)
theory Routes
  imports Authorization "HOL-Library.Multiset"
begin

text \<open>
  internal/policy and internal/routeaction: the classification of a request path before it reaches
  WeKnora, and the action a method and path stand for. Both policies are read from a JSON file whose
  patterns are RE2 expressions: the decoded document is an argument, and the engine is the pair of
  parameters \<open>compiles\<close> (whether \<open>regexp.Compile\<close> takes a pattern) and \<open>re_match\<close>.
\<close>

section \<open>Request paths\<close>

text \<open>
  What the gateway reads of an HTTP request line: \<open>URL.Path\<close>, already decoded, and
  \<open>URL.EscapedPath()\<close>, the path as it was sent.
\<close>

definition path_encoding_ok :: "(string \<Rightarrow> string) \<Rightarrow> string \<Rightarrow> bool" where
  "path_encoding_ok ulower escaped \<longleftrightarrow>
     (let e = to_lower ulower escaped in \<not> (contains e ''%2f'' \<or> contains e ''%5c'' \<or> contains e ''%00''))"

definition normalize_request_path :: "(string \<Rightarrow> string) \<Rightarrow> string \<Rightarrow> string \<Rightarrow> string option" where
  "normalize_request_path ulower escaped p =
     (if \<not> path_encoding_ok ulower escaped then None
      else if p = [] \<or> \<not> has_prefix p ''/'' \<or> contains p [CHR 0x5C] \<or> CHR 0x00 \<in> set p then None
      else let cleaned = path_clean p in
        if p \<noteq> cleaned \<and> p \<noteq> cleaned @ ''/'' then None else Some p)"

section \<open>Patterns\<close>

definition ident_start :: "char \<Rightarrow> bool" where
  "ident_start c \<longleftrightarrow> CHR ''A'' \<le> c \<and> c \<le> CHR ''Z'' \<or> CHR ''a'' \<le> c \<and> c \<le> CHR ''z'' \<or> c = CHR ''_''"

definition ident_char :: "char \<Rightarrow> bool" where
  "ident_char c \<longleftrightarrow> ident_start c \<or> CHR ''0'' \<le> c \<and> c \<le> CHR ''9''"

text \<open>
  \<open>ReplaceAllString\<close> of a slash, the marker and an identifier, from left to right.
\<close>

function expand_marker :: "char \<Rightarrow> string \<Rightarrow> string \<Rightarrow> string" where
  "expand_marker m repl s =
     (case s of
        a # b # c # r \<Rightarrow>
          if a = CHR ''/'' \<and> b = m \<and> ident_start c then repl @ expand_marker m repl (dropWhile ident_char r)
          else a # expand_marker m repl (b # c # r)
      | _ \<Rightarrow> s)"
  by pat_completeness auto

termination
proof (relation "measure (\<lambda>(m, repl, s). length s)")
  fix s a y b z c and r :: string
  have "length (dropWhile ident_char r) \<le> length r" by (rule length_dropWhile_le)
  then show "s = a # y \<Longrightarrow> y = b # z \<Longrightarrow> z = c # r \<Longrightarrow>
      ((m, repl, dropWhile ident_char r), m, repl, s) \<in> measure (\<lambda>(m, repl, s). length s)" for m :: char and repl :: string
    by simp
qed simp_all

declare expand_marker.simps [simp del]

definition expand_gin_parameters :: "string \<Rightarrow> string" where
  "expand_gin_parameters pattern =
     expand_marker (CHR ''*'') ''/.*'' (expand_marker (CHR '':'') ''/[^/]+'' pattern)"

section \<open>Classification\<close>

datatype classification = Disabled | KBPolicyControlled | PassThrough | ClassificationOther string

record route_rule =
  rt_id :: string
  rt_classification :: classification
  rt_path_regex :: string

record file_policy =
  fp_schema_version :: int
  fp_upstream_tag :: string
  fp_upstream_commit :: string
  fp_expected_route_count :: int
  fp_rules :: "route_rule list"

definition supported_commit :: string where
  "supported_commit = ''1edcd54b43606d9079bb36650efe3f68707a79ea''"

fun classification_known :: "classification \<Rightarrow> bool" where
  "classification_known (ClassificationOther _) = False"
| "classification_known _ = True"

text \<open>The loop of \<open>Load\<close>: every rule is checked, and compiled with its parameters expanded.\<close>

fun compile_rules :: "(string \<Rightarrow> bool) \<Rightarrow> string list \<Rightarrow> route_rule list \<Rightarrow> route_rule list option" where
  "compile_rules compiles ids [] = Some []"
| "compile_rules compiles ids (rule # rules) =
     (if rt_id rule = [] \<or> rt_id rule \<in> set ids then None
      else if \<not> classification_known (rt_classification rule) then None
      else if \<not> compiles (expand_gin_parameters (rt_path_regex rule)) then None
      else map_option (Cons rule) (compile_rules compiles (rt_id rule # ids) rules))"

text \<open>\<open>document\<close> is the decoded file, \<open>None\<close> when it cannot be read or decoded.\<close>

definition load_policy :: "(string \<Rightarrow> bool) \<Rightarrow> file_policy option \<Rightarrow> string \<Rightarrow> route_rule list option" where
  "load_policy compiles document upstream_version =
     (case document of
        None \<Rightarrow> None
      | Some d \<Rightarrow>
          if fp_schema_version d \<noteq> 1 \<or> fp_upstream_tag d \<noteq> upstream_version
             \<or> fp_upstream_commit d \<noteq> supported_commit \<or> fp_expected_route_count d \<noteq> 429 then None
          else if fp_rules d = [] then None
          else compile_rules compiles [] (fp_rules d))"

definition rule_matches :: "(string \<Rightarrow> string \<Rightarrow> bool) \<Rightarrow> string \<Rightarrow> route_rule \<Rightarrow> bool" where
  "rule_matches re_match p rule = re_match (expand_gin_parameters (rt_path_regex rule)) p"

fun match_route :: "(string \<Rightarrow> string \<Rightarrow> bool) \<Rightarrow> route_rule list \<Rightarrow> string \<Rightarrow> (classification \<times> string) option" where
  "match_route re_match [] p = None"
| "match_route re_match (rule # rules) p =
     (if rule_matches re_match p rule then Some (rt_classification rule, rt_id rule)
      else match_route re_match rules p)"

section \<open>Actions\<close>

record action_rule =
  ar_id :: string
  ar_action :: action
  ar_method_regex :: string
  ar_path_regex :: string

record action_document =
  ad_schema_version :: int
  ad_upstream_tag :: string
  ad_upstream_commit :: string
  ad_expected_kb_route_count :: int
  ad_rules :: "action_rule list"

fun compile_action_rules :: "(string \<Rightarrow> bool) \<Rightarrow> string list \<Rightarrow> action_rule list \<Rightarrow> action_rule list option" where
  "compile_action_rules compiles ids [] = Some []"
| "compile_action_rules compiles ids (item # items) =
     (if ar_id item = [] \<or> ar_id item \<in> set ids \<or> \<not> action_valid (ar_action item) then None
      else if \<not> compiles (ar_method_regex item) then None
      else if \<not> compiles (expand_gin_parameters (ar_path_regex item)) then None
      else map_option (Cons item) (compile_action_rules compiles (ar_id item # ids) items))"

definition load_actions :: "(string \<Rightarrow> bool) \<Rightarrow> action_document option \<Rightarrow> string \<Rightarrow> action_rule list option" where
  "load_actions compiles document upstream_version =
     (case document of
        None \<Rightarrow> None
      | Some d \<Rightarrow>
          if ad_schema_version d \<noteq> 1 \<or> ad_upstream_tag d \<noteq> upstream_version
             \<or> ad_upstream_commit d \<noteq> supported_commit \<or> ad_expected_kb_route_count d \<noteq> 170 then None
          else if ad_rules d = [] then None
          else compile_action_rules compiles [] (ad_rules d))"

definition action_rule_matches :: "(string \<Rightarrow> string \<Rightarrow> bool) \<Rightarrow> string \<Rightarrow> string \<Rightarrow> action_rule \<Rightarrow> bool" where
  "action_rule_matches re_match meth p item \<longleftrightarrow>
     re_match (ar_method_regex item) meth \<and> re_match (expand_gin_parameters (ar_path_regex item)) p"

text \<open>The loop keeps the last match and counts them; only a single match is an answer.\<close>

fun count_matches ::
    "(string \<Rightarrow> string \<Rightarrow> bool) \<Rightarrow> string \<Rightarrow> string \<Rightarrow> action \<times> nat \<Rightarrow> action_rule list \<Rightarrow> action \<times> nat" where
  "count_matches re_match meth p acc [] = acc"
| "count_matches re_match meth p (result, matches) (item # items) =
     count_matches re_match meth p
       (if action_rule_matches re_match meth p item then (ar_action item, Suc matches) else (result, matches)) items"

definition match_action :: "(string \<Rightarrow> string \<Rightarrow> bool) \<Rightarrow> action_rule list \<Rightarrow> string \<Rightarrow> string \<Rightarrow> action option" where
  "match_action re_match rules meth p =
     (case count_matches re_match meth p (ActionOther [], 0) rules of
        (result, matches) \<Rightarrow> if matches = 1 then Some result else None)"


section \<open>What the matchers compute\<close>

lemma match_route_find:
  "match_route re_match rules p = map_option (\<lambda>r. (rt_classification r, rt_id r)) (find (rule_matches re_match p) rules)"
  by (induction rules) simp_all

lemma compile_rules_Some:
  "compile_rules compiles ids rules = Some rs \<Longrightarrow>
   rs = rules \<and> distinct (map rt_id rules) \<and> set (map rt_id rules) \<inter> set ids = {}
   \<and> (\<forall>r\<in>set rules. classification_known (rt_classification r) \<and> rt_id r \<noteq> [])"
  by (induction rules arbitrary: ids rs) (fastforce split: if_splits)+

lemma load_policy_Some:
  "load_policy compiles document v = Some rs \<Longrightarrow>
   rs \<noteq> [] \<and> distinct (map rt_id rs) \<and> (\<forall>r\<in>set rs. classification_known (rt_classification r))"
  by (auto simp: load_policy_def split: option.splits if_splits dest: compile_rules_Some)

lemma compile_action_rules_Some:
  "compile_action_rules compiles ids rules = Some rs \<Longrightarrow>
   rs = rules \<and> distinct (map ar_id rules) \<and> set (map ar_id rules) \<inter> set ids = {}
   \<and> (\<forall>r\<in>set rules. action_valid (ar_action r))"
  by (induction rules arbitrary: ids rs) (fastforce split: if_splits)+

lemma count_matches_filter:
  "count_matches re_match meth p (a, n) rules =
     (let hits = filter (action_rule_matches re_match meth p) rules in
      (if hits = [] then a else ar_action (last hits), n + length hits))"
  by (induction rules arbitrary: a n) (simp_all add: Let_def)

lemma match_action_filter:
  "match_action re_match rules meth p =
     (case filter (action_rule_matches re_match meth p) rules of [r] \<Rightarrow> Some (ar_action r) | _ \<Rightarrow> None)"
  by (simp add: match_action_def count_matches_filter Let_def split: list.splits)

lemma load_actions_Some:
  "load_actions compiles document v = Some rs \<Longrightarrow> rs \<noteq> [] \<and> (\<forall>r\<in>set rs. action_valid (ar_action r))"
  by (auto simp: load_actions_def split: option.splits if_splits dest: compile_action_rules_Some)

lemma match_action_valid:
  "load_actions compiles document v = Some rs \<Longrightarrow> match_action re_match rs meth p = Some a \<Longrightarrow> action_valid a"
  by (fastforce simp: match_action_filter filter_eq_Cons_iff split: list.splits dest: load_actions_Some)

section \<open>The action matcher as an interface\<close>

text \<open>What the access gate relies on (\<open>access.ActionMatcher\<close>), and the matcher of a loaded document.\<close>

locale action_matcher =
  fixes matcher :: "string \<Rightarrow> string \<Rightarrow> action option"
  assumes matched_valid: "matcher meth p = Some a \<Longrightarrow> action_valid a"

definition loaded_matcher ::
    "(string \<Rightarrow> bool) \<Rightarrow> (string \<Rightarrow> string \<Rightarrow> bool) \<Rightarrow> action_document option \<Rightarrow> string \<Rightarrow> string \<Rightarrow> string \<Rightarrow> action option" where
  "loaded_matcher compiles re_match document v meth p =
     (case load_actions compiles document v of None \<Rightarrow> None | Some rs \<Rightarrow> match_action re_match rs meth p)"

interpretation lm: action_matcher "loaded_matcher compiles re_match document v" for compiles re_match document v
  by unfold_locales (auto simp: loaded_matcher_def split: option.splits dest: match_action_valid)

section \<open>Canonical paths\<close>

lemma clean_elements_names:
  "x \<in> set (clean_elements True stk xs) \<Longrightarrow> x \<in> set stk \<or> x \<in> set xs \<and> x \<noteq> [] \<and> x \<noteq> ''.'' \<and> x \<noteq> ''..''"
  by (induction "True" stk xs rule: clean_elements.induct) (auto split: if_splits list.splits)

lemma path_clean_segments:
  assumes "has_prefix p ''/''"
  shows "\<exists>names. path_clean p = CHR ''/'' # join_slash names
     \<and> (\<forall>x\<in>set names. x \<noteq> [] \<and> x \<noteq> ''.'' \<and> x \<noteq> ''..'' \<and> CHR ''/'' \<notin> set x)"
proof -
  let ?n = "clean_elements True [] (split_slash p)"
  from assms have "p \<noteq> [] \<and> hd p = CHR ''/''" by (cases p) (auto simp: has_prefix_def)
  then have "path_clean p = CHR ''/'' # join_slash ?n" by (simp add: path_clean_def)
  moreover have "x \<noteq> [] \<and> x \<noteq> ''.'' \<and> x \<noteq> ''..'' \<and> CHR ''/'' \<notin> set x" if "x \<in> set ?n" for x
    using clean_elements_names [OF that] split_slash_no_slash [of x p] by auto
  ultimately show ?thesis by blast
qed

lemma split_slash_append: "split_slash (x @ ''/'') = split_slash x @ [[]]"
  using split_slash_nonempty by (induction x) (auto split: list.splits)

text \<open>C23. A path the gateway classifies is canonical: it is absolute, none of its segments is a dot
  or a double dot, and none is empty but a last one after a trailing slash. The single exception is
  the path of two slashes, which passes the check.\<close>

theorem normalized_path_canonical:
  assumes "normalize_request_path ulower escaped p = Some q"
  shows "q = p \<and> (p = ''//'' \<or> p = ''/'' \<or> (\<exists>names. names \<noteq> [] \<and> (\<forall>x\<in>set names. x \<noteq> [] \<and> x \<noteq> ''.'' \<and> x \<noteq> ''..'')
     \<and> (split_slash p = [] # names \<or> split_slash p = [] # names @ [[]])))"
proof -
  from assms have q: "q = p" "has_prefix p ''/''" "p = path_clean p \<or> p = path_clean p @ ''/''"
    by (auto simp: normalize_request_path_def Let_def split: if_splits)
  from path_clean_segments [OF q(2)] obtain names where n: "path_clean p = CHR ''/'' # join_slash names"
    "\<forall>x\<in>set names. x \<noteq> [] \<and> x \<noteq> ''.'' \<and> x \<noteq> ''..'' \<and> CHR ''/'' \<notin> set x" by blast
  show ?thesis
  proof (cases "names = []")
    case True
    with q n show ?thesis by auto
  next
    case False
    with n(2) have "split_slash (CHR ''/'' # join_slash names) = [] # names"
      by (simp add: split_join_slash)
    with q n False show ?thesis
      by (metis split_slash_append append_Cons)
  qed
qed

theorem normalized_path_canonical_witness:
  "\<exists>names. names \<noteq> [] \<and> (\<forall>x\<in>set names. x \<noteq> [] \<and> x \<noteq> ''.'' \<and> x \<noteq> ''..'')
     \<and> (split_slash ''/api/v1/'' = [] # names \<or> split_slash ''/api/v1/'' = [] # names @ [[]])"
proof -
  have "normalize_request_path id ''/api/v1/'' ''/api/v1/'' = Some ''/api/v1/''" by code_simp
  from normalized_path_canonical [OF this] show ?thesis by simp
qed

text \<open>The action policy does not depend on the order of its rules: any two policies with the same
  rules classify every request alike, as the action of the only matching rule, and not at all when
  several match.\<close>

theorem action_match_order_free:
  assumes "mset rules = mset rules2"
  shows "match_action re_match rules meth p = match_action re_match rules2 meth p
     \<and> (match_action re_match rules meth p = Some a \<longleftrightarrow>
        (\<exists>r. filter_mset (action_rule_matches re_match meth p) (mset rules) = {#r#} \<and> ar_action r = a))"
proof -
  have h: "match_action re_match rs meth p = Some a \<longleftrightarrow>
      (\<exists>r. filter_mset (action_rule_matches re_match meth p) (mset rs) = {#r#} \<and> ar_action r = a)" for rs a
    by (auto simp: match_action_filter mset_filter [symmetric] simp del: mset_filter split: list.splits)
  have "match_action re_match rules meth p = match_action re_match rules2 meth p"
    using h [of rules] h [of rules2] assms by (metis option.exhaust)
  with h show ?thesis by blast
qed

theorem action_match_order_free_witness:
  "match_action (=) [\<lparr>ar_id = ''a'', ar_action = ActionRead, ar_method_regex = ''GET'', ar_path_regex = ''/a''\<rparr>,
      \<lparr>ar_id = ''b'', ar_action = ActionDelete, ar_method_regex = ''PUT'', ar_path_regex = ''/a''\<rparr>] ''GET'' ''/a''
   = match_action (=) [\<lparr>ar_id = ''b'', ar_action = ActionDelete, ar_method_regex = ''PUT'', ar_path_regex = ''/a''\<rparr>,
      \<lparr>ar_id = ''a'', ar_action = ActionRead, ar_method_regex = ''GET'', ar_path_regex = ''/a''\<rparr>] ''GET'' ''/a''"
  by (rule action_match_order_free [THEN conjunct1]) simp

end
