(* ===== verification/Gate.thy ===== *)
theory Gate
  imports GatePaths Listing SessionScopes Routes
begin

text \<open>
  internal/access/gate.go: the gate every request on WeKnora's knowledge-base routes passes, and the
  filter of the responses. The resolver of resources and agents is the WeKnora adapter, a set of
  parameters; so are the JSON decoder of the runtime and the decoding of a search response into its
  struct. A check that passes is \<open>Inr\<close>, the answer to the client otherwise is \<open>Inl\<close>.
\<close>

section \<open>Requests\<close>

datatype request_body = NoBody | Body string | BodyFails

record gate_request =
  rq_method :: string
  rq_path :: string
  rq_query :: "(string \<times> string) list"
  rq_headers :: headers
  rq_body :: request_body

record phase3_request =
  p3_identity :: principal
  p3_kb_ids :: "string list"
  p3_action :: action
  p3_path :: string
  p3_correlation_id :: string

record agent_scope =
  as_selection_mode :: string
  as_kb_ids :: "string list"

record 's gate =
  gt_profile :: "string \<Rightarrow> 's \<Rightarrow> (profile_error, profile, 's) outcome"
  gt_forbidden :: "string \<Rightarrow> 's \<Rightarrow> (profile_error, string list, 's) outcome"
  gt_kb_for_knowledge :: "string \<Rightarrow> headers \<Rightarrow> upstream_error + string"
  gt_kb_for_chunk :: "string \<Rightarrow> headers \<Rightarrow> upstream_error + string"
  gt_validate_session :: "string \<Rightarrow> headers \<Rightarrow> upstream_error + unit"
  gt_agent_kbs :: "string \<Rightarrow> headers \<Rightarrow> upstream_error + agent_scope"
  gt_actions :: "string \<Rightarrow> string \<Rightarrow> action option"
  gt_decisions :: "((string \<Rightarrow> principal \<Rightarrow> headers \<Rightarrow> 's \<Rightarrow> (authz_error, decision, 's) outcome)
     \<times> (string \<Rightarrow> principal \<Rightarrow> action \<Rightarrow> headers \<Rightarrow> 's \<Rightarrow> (authz_error, decision, 's) outcome)) option"
  gt_sessions :: "((string \<Rightarrow> 's \<Rightarrow> (session_error, string list, 's) outcome)
     \<times> (string \<Rightarrow> string list \<Rightarrow> time \<Rightarrow> 's \<Rightarrow> (session_error, unit, 's) outcome)) option"
  gt_auditor :: "'s recorder option"
  gt_revisions :: "(string \<Rightarrow> string \<Rightarrow> string \<Rightarrow> string \<Rightarrow> string \<Rightarrow> time \<Rightarrow> 's \<Rightarrow> (revision_error, int, 's) outcome) option"
  gt_publications :: "(string \<Rightarrow> principal \<Rightarrow> string \<Rightarrow> headers \<Rightarrow> 's \<Rightarrow> (publication_error, unit, 's) outcome) option"
  gt_scopes :: "(selection \<Rightarrow> string list \<Rightarrow> principal \<Rightarrow> headers \<Rightarrow> 's \<Rightarrow> (scope_error, scope_result, 's) outcome) option"
  gt_agent_auditor :: "'s agent_recorder option"
  gt_parse :: "string \<Rightarrow> json option"
  gt_parse_search :: "string \<Rightarrow> (bool \<times> string list) option"
  gt_lower :: "string \<Rightarrow> string"
  gt_now :: time
  gt_duration :: int  \<comment> \<open>\<open>time.Since(started)\<close>\<close>

definition max_authorization_body_bytes :: int where "max_authorization_body_bytes = 54525952"

definition max_filtered_response_bytes :: int where "max_filtered_response_bytes = 16777216"

section \<open>Errors\<close>

definition not_found_error :: api_error where "not_found_error = ApiError ''resource.not_found'' 404"

fun translate_resolver_error :: "upstream_error \<Rightarrow> api_error" where
  "translate_resolver_error (UpstreamError code status) =
     (if code \<in> set [''upstream.not_found'', ''upstream.forbidden'', ''upstream.unauthorized''] then not_found_error
      else ApiError ''security.resource_resolution_failed'' 502)"
| "translate_resolver_error TransportError = ApiError ''security.resource_resolution_failed'' 502"

definition resolved :: "upstream_error + 'a \<Rightarrow> api_error + 'a" where
  "resolved r = (case r of Inl e \<Rightarrow> Inl (translate_resolver_error e) | Inr x \<Rightarrow> Inr x)"

fun translate_scope_error :: "scope_error \<Rightarrow> audit_outcome \<times> string \<times> api_error" where
  "translate_scope_error ScopeDenied = (OutcomeDenied, ''agent.scope_denied'', not_found_error)"
| "translate_scope_error ScopeInvalid = (OutcomeDenied, ''agent.scope_invalid'', ApiError ''agent.scope_invalid'' 400)"
| "translate_scope_error ScopeTooLarge = (OutcomeDenied, ''agent.scope_too_large'', ApiError ''agent.scope_too_large'' 422)"
| "translate_scope_error ScopeUnavailable =
     (OutcomeFailure, ''agent.scope_unavailable'', ApiError ''agent.scope_unavailable'' 503)"

section \<open>Bodies\<close>

definition json_content :: "'s gate \<Rightarrow> gate_request \<Rightarrow> bool" where
  "json_content g rq \<longleftrightarrow> rq_body rq \<noteq> NoBody
     \<and> has_prefix (to_lower (gt_lower g) (rq_headers rq ''Content-Type'')) ''application/json''"

definition read_body :: "gate_request \<Rightarrow> api_error + string" where
  "read_body rq =
     (case rq_body rq of
        NoBody \<Rightarrow> Inr []
      | BodyFails \<Rightarrow> Inl (ApiError ''request.body_too_large'' 413)
      | Body b \<Rightarrow> if int (length b) > max_authorization_body_bytes then Inl (ApiError ''request.body_too_large'' 413) else Inr b)"

definition read_json_object :: "'s gate \<Rightarrow> gate_request \<Rightarrow> api_error + (string \<times> json) list" where
  "read_json_object g rq =
     (if \<not> json_content g rq then Inl (ApiError ''request.invalid_json'' 400)
      else case read_body rq of
        Inl e \<Rightarrow> Inl e
      | Inr b \<Rightarrow>
          (case (if blank b then None else gt_parse g b) of
             Some (JObj ms) \<Rightarrow> Inr ms
           | _ \<Rightarrow> Inl (ApiError ''request.invalid_json'' 400)))"

text \<open>\<open>json.Marshal\<close> of a Go map prints the keys in order.\<close>

fun sort_members :: "json \<Rightarrow> json" where
  "sort_members (JArr xs) = JArr (map sort_members xs)"
| "sort_members (JObj ms) = JObj (sort_key fst (map (\<lambda>m. (fst m, sort_members (snd m))) ms))"
| "sort_members j = j"

definition marshal_object :: "(string \<times> json) list \<Rightarrow> string" where
  "marshal_object ms = json_marshal (sort_members (JObj ms))"

definition replace_body :: "gate_request \<Rightarrow> string \<Rightarrow> gate_request" where
  "replace_body rq b = rq\<lparr>rq_body := Body b,
     rq_headers := (rq_headers rq)(''Content-Length'' := itoa (int (length b)))\<rparr>"

definition query_values :: "string \<Rightarrow> gate_request \<Rightarrow> string list" where
  "query_values k rq = map snd (filter (\<lambda>p. fst p = k) (rq_query rq))"

definition query_scope :: "gate_request \<Rightarrow> request_scope" where
  "query_scope rq =
     \<lparr>rs_kb_ids = query_values ''knowledge_base_id'' rq @ query_values ''knowledge_base_ids'' rq,
      rs_knowledge_ids = query_values ''knowledge_id'' rq @ query_values ''knowledge_ids'' rq
        @ (if is_knowledge_batch_path (rq_path rq) then query_values ''ids'' rq else []),
      rs_agent_ids = (case query_values ''agent_id'' rq of [] \<Rightarrow> [] | v # _ \<Rightarrow> one v),
      rs_session_ids = []\<rparr>"

definition resolve_request_scope :: "'s gate \<Rightarrow> gate_request \<Rightarrow> api_error + request_scope" where
  "resolve_request_scope g rq =
     (if \<not> json_content g rq then Inr (query_scope rq)
      else case read_body rq of
        Inl e \<Rightarrow> Inl e
      | Inr b \<Rightarrow>
          if blank b then Inr (query_scope rq)
          else (case gt_parse g b of
            None \<Rightarrow> Inl (ApiError ''request.invalid_json'' 400)
          | Some document \<Rightarrow>
              Inr (collect_scope (is_knowledge_batch_path (rq_path rq)) (is_session_batch_path (rq_path rq)) document
                (query_scope rq))))"

section \<open>The knowledge bases of a path\<close>

definition resolve_path_kb_ids :: "'s gate \<Rightarrow> gate_request \<Rightarrow> api_error + string list" where
  "resolve_path_kb_ids g rq =
     (let segs = split_path (rq_path rq); n = length segs; h = rq_headers rq;
          knowledge = (\<lambda>i. map_sum id one (resolved (gt_kb_for_knowledge g i h)));
          agent = (\<lambda>i. map_sum id as_kb_ids (resolved (gt_agent_kbs g i h))) in
      if \<not> api_path 3 segs then Inr []
      else let resource = segs ! 2 in
        if resource = ''knowledge-bases'' then
          (if 4 \<le> n \<and> segs ! 3 \<noteq> ''copy'' then Inr [segs ! 3] else Inr [])
        else if resource = ''knowledgebase'' then (if 4 \<le> n then Inr [segs ! 3] else Inr [])
        else if resource = ''knowledge'' then
          (if 5 \<le> n \<and> (segs ! 3 = ''manual'' \<or> segs ! 3 = ''image'') then knowledge (segs ! 4)
           else if 4 \<le> n \<and> \<not> is_knowledge_collection_path (segs ! 3) then knowledge (segs ! 3)
           else Inr [])
        else if resource = ''chunks'' then
          (if 5 \<le> n \<and> segs ! 3 = ''by-id'' then map_sum id one (resolved (gt_kb_for_chunk g (segs ! 4) h))
           else if 4 \<le> n then knowledge (segs ! 3)
           else Inr [])
        else if resource = ''agents'' then
          (if 4 \<le> n \<and> \<not> is_agent_collection_path (segs ! 3) \<and> \<not> is_agent_mutation_path (rq_method rq) (rq_path rq)
           then agent (segs ! 3) else Inr [])
        else if resource = ''user'' then
          (if 6 \<le> n \<and> segs ! 3 = ''favorites'' then
             (if segs ! 4 = ''kb'' \<or> segs ! 4 = ''knowledge_base'' then Inr (one (segs ! 5))
              else if segs ! 4 = ''agent'' then agent (segs ! 5)
              else Inr [])
           else Inr [])
        else if resource = ''initialization'' then
          (if 5 \<le> n \<and> (segs ! 3 = ''config'' \<or> segs ! 3 = ''initialize'') then Inr (one (segs ! 4)) else Inr [])
        else Inr [])"

fun knowledge_kbs :: "'s gate \<Rightarrow> headers \<Rightarrow> string list \<Rightarrow> api_error + string list" where
  "knowledge_kbs g h [] = Inr []"
| "knowledge_kbs g h (i # is) =
     (case resolved (gt_kb_for_knowledge g i h) of
        Inl e \<Rightarrow> Inl e
      | Inr k \<Rightarrow> map_sum id (Cons k) (knowledge_kbs g h is))"

fun agents_kbs :: "'s gate \<Rightarrow> headers \<Rightarrow> string list \<Rightarrow> api_error + string list" where
  "agents_kbs g h [] = Inr []"
| "agents_kbs g h (i # is) =
     (case resolved (gt_agent_kbs g i h) of
        Inl e \<Rightarrow> Inl e
      | Inr a \<Rightarrow> map_sum id (\<lambda>ks. as_kb_ids a @ ks) (agents_kbs g h is))"

section \<open>Audit\<close>

fun action_text :: "action \<Rightarrow> string" where
  "action_text ActionDiscover = ''discover''"
| "action_text ActionRead = ''read''"
| "action_text ActionEditContent = ''edit_content''"
| "action_text ActionConfigure = ''configure''"
| "action_text ActionManageGrants = ''manage_grants''"
| "action_text ActionDelete = ''delete''"
| "action_text (ActionOther s) = s"

definition record_denied :: "'s gate \<Rightarrow> string \<Rightarrow> principal \<Rightarrow> action \<Rightarrow> headers \<Rightarrow> 's \<Rightarrow> 's" where
  "record_denied g k who a h s =
     (case gt_auditor g of
        None \<Rightarrow> s
      | Some record \<Rightarrow>
          if \<not> high_value_action a \<or> request_id h = [] then s
          else snd (record
            \<lparr>ev_id = [], ev_tenant_id = pr_tenant_id who, ev_kb_id = k, ev_actor_user_id = pr_user_id who,
             ev_action = ''authorization.denied.'' @ action_text a, ev_target_type = ''knowledge_base'', ev_target_id = k,
             ev_outcome = OutcomeDenied, ev_error_code = ''resource.not_found'', ev_correlation_id = request_id h,
             ev_old_value = None, ev_new_value = None, ev_created_at = gt_now g\<rparr> s))"

definition record_agent_scope ::
    "'s gate \<Rightarrow> gate_request \<Rightarrow> principal \<Rightarrow> string list \<Rightarrow> audit_outcome \<Rightarrow> string \<Rightarrow> 's \<Rightarrow> (audit_error, unit, 's) outcome" where
  "record_agent_scope g rq who ids outcome code s =
     (case gt_agent_auditor g of
        None \<Rightarrow> (Inr (), s)
      | Some record \<Rightarrow> record
          \<lparr>ag_id = [], ag_tenant_id = pr_tenant_id who, ag_actor_user_id = pr_user_id who, ag_client_kind = ClientWeb,
           ag_operation = ''agent.scope.resolve'', ag_kb_ids = unique ids, ag_outcome = outcome, ag_error_code = code,
           ag_correlation_id = request_id (rq_headers rq), ag_duration = gt_duration g, ag_created_at = gt_now g\<rparr> s)"

end
