(* ===== verification/GateService.thy ===== *)
theory GateService
  imports Gate
begin

text \<open>
  internal/access/gate.go, continued: \<open>AuthorizeRequest\<close> and \<open>FilterResponse\<close>.
\<close>

section \<open>One knowledge base\<close>

fun optional_text :: "nat \<Rightarrow> json option \<Rightarrow> bool" where
  "optional_text n None = True"
| "optional_text n (Some JNull) = True"
| "optional_text n (Some (JStr d)) = (rune_count d \<le> n)"
| "optional_text n (Some _) = False"

definition is_limited_editor_configuration :: "'s gate \<Rightarrow> gate_request \<Rightarrow> bool" where
  "is_limited_editor_configuration g rq \<longleftrightarrow>
     (let segs = split_path (rq_path rq) in
      if rq_method rq \<noteq> ''PUT'' then False
      else if length segs \<noteq> 4 \<or> \<not> api_path 3 segs \<or> segs ! 2 \<noteq> ''knowledge-bases'' then False
      else case rq_body rq of
        Body b \<Rightarrow>
          if b = [] \<or> int (length b) > 65536 then False
          else (case gt_parse g b of
            Some (JObj members) \<Rightarrow>
              members \<noteq> [] \<and> list_all (\<lambda>m. fst m = ''name'' \<or> fst m = ''description'') members
              \<and> (case obj_get ''name'' members of
                   Some (JStr name) \<Rightarrow> \<not> blank name \<and> rune_count name \<le> 120
                 | _ \<Rightarrow> False)
              \<and> optional_text 1000 (obj_get ''description'' members)
          | _ \<Rightarrow> False)
      | _ \<Rightarrow> False)"

text \<open>Before the decisions exist (phase 1): only Personal Notes are protected.\<close>

definition authorize_kb :: "'s gate \<Rightarrow> string \<Rightarrow> principal \<Rightarrow> operation \<Rightarrow> 's \<Rightarrow> (api_error, unit, 's) outcome" where
  "authorize_kb g k who op s =
     (case gt_profile g k s of
        (Inl ProfileNotFound, s1) \<Rightarrow> (Inr (), s1)
      | (Inl _, s1) \<Rightarrow> (Inl (ApiError ''security.profile_unavailable'' 503), s1)
      | (Inr p, s1) \<Rightarrow>
          ((case notes_authorize p who op of
              None \<Rightarrow> Inr ()
            | Some (PolicyDenied e) \<Rightarrow> Inl e
            | Some UnknownOperation \<Rightarrow> Inl (ApiError ''security.authorization_failed'' 500)), s1))"

definition authorize_kb_action ::
    "'s gate \<Rightarrow> string \<Rightarrow> principal \<Rightarrow> action \<Rightarrow> gate_request \<Rightarrow> 's \<Rightarrow> (api_error, unit, 's) outcome" where
  "authorize_kb_action g k who a rq s =
     (case gt_decisions g of
        None \<Rightarrow> authorize_kb g k who (operation_for (rq_method rq) (rq_path rq)) s
      | Some (decide_kb, authorize) \<Rightarrow>
        (let h = rq_headers rq;
             refuse = (\<lambda>e s. if e = AzDenied \<or> e = AzNotFound then (Inl not_found_error, record_denied g k who a h s)
                             else if e = AzInvalid then (Inl (ApiError ''security.authorization_invalid'' 400), s)
                             else (Inl (ApiError ''security.authorization_unavailable'' 503), s)) in
         case authorize k who a h s of
           (Inr d, s1) \<Rightarrow>
             if is_original_source_download (rq_path rq)
                \<and> (dc_source d = SourceSubscription \<or> dc_source d = SourceOrganizationPublic)
             then (Inl not_found_error, record_denied g k who a h s1)
             else (Inr (), s1)
         | (Inl e, s1) \<Rightarrow>
             if e = AzDenied \<and> a = ActionConfigure \<and> is_limited_editor_configuration g rq then
               (case decide_kb k who h s1 of
                  (Inr d, s2) \<Rightarrow> if dc_role d = RoleEditor then (Inr (), s2) else refuse e s2
                | (Inl e2, s2) \<Rightarrow> refuse e2 s2)
             else refuse e s1))"

fun authorize_kbs ::
    "'s gate \<Rightarrow> principal \<Rightarrow> action \<Rightarrow> gate_request \<Rightarrow> string list \<Rightarrow> 's \<Rightarrow> (api_error, unit, 's) outcome" where
  "authorize_kbs g who a rq [] s = (Inr (), s)"
| "authorize_kbs g who a rq (k # ks) s =
     (case authorize_kb_action g k who a rq s of
        (Inl e, s1) \<Rightarrow> (Inl e, s1)
      | (Inr _, s1) \<Rightarrow> authorize_kbs g who a rq ks s1)"

section \<open>The scope of a retrieval\<close>

definition requested_selection :: "'s gate \<Rightarrow> gate_request \<Rightarrow> string list \<Rightarrow> string list \<Rightarrow>
    api_error + (selection \<times> string list \<times> bool) option" where
  "requested_selection g rq agents requested =
     (case agents of
        [] \<Rightarrow> Inr (Some (if requested = [] then SelectionDefault else SelectionExplicit, requested, False))
      | agent # others \<Rightarrow>
          if others \<noteq> [] then Inl (ApiError ''agent.scope_invalid'' 400)
          else (case resolved (gt_agent_kbs g agent (rq_headers rq)) of
            Inl e \<Rightarrow> Inl e
          | Inr ag \<Rightarrow>
              if requested = [] then
                (if as_selection_mode ag = ''all'' then Inr (Some (SelectionDefault, requested, False))
                 else if as_selection_mode ag = ''none'' then
                   Inr (Some (SelectionExplicit, requested, is_conversation_stream_path (rq_path rq)))
                 else Inr (Some (SelectionExplicit, unique (as_kb_ids ag), False)))
              else if as_selection_mode ag \<noteq> ''all'' \<and> \<not> is_subset requested (as_kb_ids ag) then Inr None
              else Inr (Some (SelectionExplicit, requested, False))))"

definition string_array :: "string list \<Rightarrow> json" where
  "string_array xs = JArr (map JStr xs)"

definition pure_chat_document :: "(string \<times> json) list \<Rightarrow> (string \<times> json) list" where
  "pure_chat_document ms =
     obj_set ''mcp_service_ids'' (JArr []) (obj_set ''web_search_enabled'' (JBool False)
       (obj_set ''mentioned_items'' (JArr []) (obj_set ''tag_ids'' (JArr []) (obj_set ''knowledge_ids'' (JArr [])
         (obj_set ''knowledge_base_ids'' (JArr []) (obj_del ''knowledge_base_id'' ms))))))"

definition scoped_document :: "string list \<Rightarrow> (string \<times> json) list \<Rightarrow> (string \<times> json) list" where
  "scoped_document kbs ms =
     obj_set ''mcp_service_ids'' (JArr []) (obj_set ''web_search_enabled'' (JBool False)
       (obj_del ''knowledge_base_id'' (obj_set ''knowledge_base_ids'' (string_array kbs) ms)))"

text \<open>The success record, on which the request depends.\<close>

definition forward_scoped ::
    "'s gate \<Rightarrow> gate_request \<Rightarrow> principal \<Rightarrow> string list \<Rightarrow> (string \<times> json) list \<Rightarrow> request_scope \<Rightarrow> 's \<Rightarrow>
     (api_error, request_scope \<times> gate_request, 's) outcome" where
  "forward_scoped g rq who kbs document scope s =
     (let rq2 = replace_body rq (marshal_object document) in
      case record_agent_scope g rq2 who kbs OutcomeSuccess [] s of
        (Inl _, s1) \<Rightarrow> (Inl (ApiError ''audit.unavailable'' 503), s1)
      | (Inr _, s1) \<Rightarrow> (Inr (scope, rq2), s1))"

definition resolve_authorized_retrieval_scope ::
    "'s gate \<Rightarrow> gate_request \<Rightarrow> principal \<Rightarrow>
     (selection \<Rightarrow> string list \<Rightarrow> principal \<Rightarrow> headers \<Rightarrow> 's \<Rightarrow> (scope_error, scope_result, 's) outcome) \<Rightarrow> 's \<Rightarrow>
     (api_error, request_scope \<times> gate_request, 's) outcome" where
  "resolve_authorized_retrieval_scope g rq who scopes s =
     (case read_json_object g rq of
        Inl e \<Rightarrow> (Inl e, s)
      | Inr document \<Rightarrow>
        let discovered = collect_scope False False (JObj document) empty_scope;
            found = empty_scope\<lparr>rs_session_ids := rs_session_ids discovered\<rparr> in
        (case knowledge_kbs g (rq_headers rq) (unique (rs_knowledge_ids discovered)) of
           Inl e \<Rightarrow> (Inl e, s)
         | Inr known \<Rightarrow>
           let requested = unique (rs_kb_ids discovered @ known) in
           (case requested_selection g rq (unique (rs_agent_ids discovered)) requested of
              Inl e \<Rightarrow> (Inl e, s)
            | Inr None \<Rightarrow>
                (Inl not_found_error, snd (record_agent_scope g rq who requested OutcomeDenied ''agent.scope_denied'' s))
            | Inr (Some (sel, ids, pure_chat)) \<Rightarrow>
                if pure_chat then forward_scoped g rq who [] (pure_chat_document document) found s
                else (case scopes sel ids who (rq_headers rq) s of
                  (Inl e, s1) \<Rightarrow>
                    (case translate_scope_error e of
                       (outcome, code, answer) \<Rightarrow> (Inl answer, snd (record_agent_scope g rq who ids outcome code s1)))
                | (Inr r, s1) \<Rightarrow>
                    if sr_kb_ids r = [] then
                      (Inl (ApiError ''agent.scope_empty'' 422),
                       snd (record_agent_scope g rq who [] OutcomeDenied ''agent.scope_empty'' s1))
                    else forward_scoped g rq who (sr_kb_ids r) (scoped_document (sr_kb_ids r) document)
                      (found\<lparr>rs_kb_ids := sr_kb_ids r\<rparr>) s1))))"

section \<open>AuthorizeRequest\<close>

text \<open>The sessions of a request: each is validated, and the knowledge bases it has used are collected.\<close>

fun session_scopes :: "'s gate \<Rightarrow> headers \<Rightarrow> string list \<Rightarrow> 's \<Rightarrow> (api_error, string list, 's) outcome" where
  "session_scopes g h [] s = (Inr [], s)"
| "session_scopes g h (i # is) s =
     (case resolved (gt_validate_session g i h) of
        Inl e \<Rightarrow> (Inl e, s)
      | Inr _ \<Rightarrow>
          (case (case gt_sessions g of None \<Rightarrow> (Inr [], s) | Some (lister, _) \<Rightarrow> lister i s) of
             (Inl _, s1) \<Rightarrow> (Inl (ApiError ''security.session_scope_unavailable'' 503), s1)
           | (Inr stored, s1) \<Rightarrow>
               (case session_scopes g h is s1 of
                  (Inl e, s2) \<Rightarrow> (Inl e, s2)
                | (Inr ks, s2) \<Rightarrow> (Inr (stored @ ks), s2))))"

text \<open>
  Everything the request names: the knowledge bases, the sessions, and the request with the body the
  retrieval scope has put in.
\<close>

definition collect_request ::
    "'s gate \<Rightarrow> gate_request \<Rightarrow> principal \<Rightarrow> 's \<Rightarrow> (api_error, string list \<times> string list \<times> gate_request, 's) outcome" where
  "collect_request g rq who s =
     (case resolve_path_kb_ids g rq of
        Inl e \<Rightarrow> (Inl e, s)
      | Inr path_kbs \<Rightarrow>
        (case (case gt_scopes g of
                 Some scopes \<Rightarrow>
                   if is_unified_retrieval_path (rq_path rq) (rq_method rq)
                   then resolve_authorized_retrieval_scope g rq who scopes s
                   else (map_sum id (\<lambda>sc. (sc, rq)) (resolve_request_scope g rq), s)
               | None \<Rightarrow> (map_sum id (\<lambda>sc. (sc, rq)) (resolve_request_scope g rq), s)) of
           (Inl e, s1) \<Rightarrow> (Inl e, s1)
         | (Inr (scope, rq1), s1) \<Rightarrow>
           if gt_decisions g \<noteq> None \<and> trim_suffix_slash (rq_path rq) = ''/api/v1/messages/search''
              \<and> rs_session_ids scope = [] then (Inl not_found_error, s1)
           else let h = rq_headers rq1 in
             (case knowledge_kbs g h (unique (rs_knowledge_ids scope)) of
                Inl e \<Rightarrow> (Inl e, s1)
              | Inr known \<Rightarrow>
                (case agents_kbs g h (unique (rs_agent_ids scope)) of
                   Inl e \<Rightarrow> (Inl e, s1)
                 | Inr bound \<Rightarrow>
                   let sessions = unique (session_ids_from_path (rq_path rq) @ rs_session_ids scope) in
                   (case session_scopes g h sessions s1 of
                      (Inl e, s2) \<Rightarrow> (Inl e, s2)
                    | (Inr stored, s2) \<Rightarrow>
                        (Inr (unique (path_kbs @ rs_kb_ids scope @ known @ bound @ stored), sessions, rq1), s2))))))"

fun unpublish_all :: "'s gate \<Rightarrow> (string \<Rightarrow> principal \<Rightarrow> string \<Rightarrow> headers \<Rightarrow> 's \<Rightarrow> (publication_error, unit, 's) outcome) \<Rightarrow>
    principal \<Rightarrow> headers \<Rightarrow> string list \<Rightarrow> 's \<Rightarrow> (api_error, unit, 's) outcome" where
  "unpublish_all g unpublish_kb who h [] s = (Inr (), s)"
| "unpublish_all g unpublish_kb who h (k # ks) s =
     (case unpublish_kb k who (request_id h) h s of
        (Inl _, s1) \<Rightarrow> (Inl (ApiError ''publication.unavailable'' 503), s1)
      | (Inr _, s1) \<Rightarrow> unpublish_all g unpublish_kb who h ks s1)"

fun record_sessions :: "'s gate \<Rightarrow> string list \<Rightarrow> string list \<Rightarrow> 's \<Rightarrow> (api_error, unit, 's) outcome" where
  "record_sessions g kbs [] s = (Inr (), s)"
| "record_sessions g kbs (i # is) s =
     (case gt_sessions g of
        None \<Rightarrow> (Inr (), s)
      | Some (_, recorder) \<Rightarrow>
          (case recorder i kbs (gt_now g) s of
             (Inl _, s1) \<Rightarrow> (Inl (ApiError ''security.session_scope_unavailable'' 503), s1)
           | (Inr _, s1) \<Rightarrow> record_sessions g kbs is s1))"

text \<open>
  The answer is the request to forward and the context value for the response filter. The action
  without decisions is the empty string.
\<close>

definition request_action :: "'s gate \<Rightarrow> gate_request \<Rightarrow> action option" where
  "request_action g rq =
     (case gt_decisions g of None \<Rightarrow> Some (ActionOther []) | Some _ \<Rightarrow> gt_actions g (rq_method rq) (rq_path rq))"

definition withdraw_deleted ::
    "'s gate \<Rightarrow> principal \<Rightarrow> action \<Rightarrow> headers \<Rightarrow> string list \<Rightarrow> 's \<Rightarrow> (api_error, unit, 's) outcome" where
  "withdraw_deleted g who a h kbs s =
     (case gt_publications g of
        None \<Rightarrow> (Inr (), s)
      | Some unpublish_kb \<Rightarrow>
          if a \<noteq> ActionDelete then (Inr (), s)
          else if request_id h = [] then (Inl (ApiError ''publication.unavailable'' 503), s)
          else unpublish_all g unpublish_kb who h kbs s)"

definition authorize_request ::
    "'s gate \<Rightarrow> gate_request \<Rightarrow> principal \<Rightarrow> 's \<Rightarrow> (api_error, gate_request \<times> phase3_request option, 's) outcome" where
  "authorize_request g rq who s =
     (if is_unscoped_derived_task_path (rq_path rq) then (Inl not_found_error, s)
      else case request_action g rq of
        None \<Rightarrow> (Inl (ApiError ''security.action_unclassified'' 503), s)
      | Some a \<Rightarrow>
        (case collect_request g rq who s of
           (Inl e, s1) \<Rightarrow> (Inl e, s1)
         | (Inr (kbs, sessions, rq1), s1) \<Rightarrow>
           let kb_action = (if is_agent_mutation_path (rq_method rq) (rq_path rq) then ActionRead else a) in
           (case authorize_kbs g who kb_action rq1 kbs s1 of
              (Inl e, s2) \<Rightarrow> (Inl e, s2)
            | (Inr _, s2) \<Rightarrow>
              (case withdraw_deleted g who a (rq_headers rq1) kbs s2 of
                 (Inl e, s3) \<Rightarrow> (Inl e, s3)
               | (Inr _, s3) \<Rightarrow>
                 (case (if kbs = [] then (Inr (), s3) else record_sessions g kbs sessions s3) of
                    (Inl e, s4) \<Rightarrow> (Inl e, s4)
                  | (Inr _, s4) \<Rightarrow>
                      (Inr (rq1, if gt_revisions g = None \<or> kbs = [] then None
                         else Some \<lparr>p3_identity = who, p3_kb_ids = kbs, p3_action = a, p3_path = rq_path rq,
                                    p3_correlation_id = request_id (rq_headers rq1)\<rparr>), s4))))))"


section \<open>FilterResponse\<close>

record gate_response =
  rp_method :: string
  rp_path :: string
  rp_headers :: headers  \<comment> \<open>of the request\<close>
  rp_status :: int
  rp_body :: request_body
  rp_content_length :: string
  rp_identity :: "principal option"
  rp_meta :: "phase3_request option"

definition set_response_body :: "gate_response \<Rightarrow> string \<Rightarrow> gate_response" where
  "set_response_body rp b = rp\<lparr>rp_body := Body b, rp_content_length := itoa (int (length b))\<rparr>"

fun record_revisions :: "'s gate \<Rightarrow> (string \<Rightarrow> string \<Rightarrow> string \<Rightarrow> string \<Rightarrow> string \<Rightarrow> time \<Rightarrow> 's \<Rightarrow> (revision_error, int, 's) outcome) \<Rightarrow>
    phase3_request \<Rightarrow> string \<Rightarrow> string list \<Rightarrow> 's \<Rightarrow> (api_error, unit, 's) outcome" where
  "record_revisions g increment meta event [] s = (Inr (), s)"
| "record_revisions g increment meta event (k # ks) s =
     (case increment k (pr_user_id (p3_identity meta)) event [] (p3_correlation_id meta) (gt_now g) s of
        (Inl _, s1) \<Rightarrow> (Inl (ApiError ''activity.unavailable'' 503), s1)
      | (Inr _, s1) \<Rightarrow> record_revisions g increment meta event ks s1)"

definition record_activity :: "'s gate \<Rightarrow> gate_response \<Rightarrow> 's \<Rightarrow> (api_error, unit, 's) outcome" where
  "record_activity g rp s =
     (case gt_revisions g of
        None \<Rightarrow> (Inr (), s)
      | Some increment \<Rightarrow>
          if rp_status rp < 200 \<or> 300 \<le> rp_status rp then (Inr (), s)
          else (case rp_meta rp of
            None \<Rightarrow> (Inr (), s)
          | Some meta \<Rightarrow>
              let event = revision_event (p3_action meta) (p3_path meta) in
              if event = [] then (Inr (), s)
              else if p3_correlation_id meta = [] then (Inl (ApiError ''activity.unavailable'' 503), s)
              else record_revisions g increment meta event (p3_kb_ids meta) s))"

definition read_response :: "gate_response \<Rightarrow> api_error + string" where
  "read_response rp =
     (case rp_body rp of
        NoBody \<Rightarrow> Inr []
      | BodyFails \<Rightarrow> Inl (ApiError ''upstream.invalid_response'' 502)
      | Body b \<Rightarrow> if int (length b) > max_filtered_response_bytes then Inl (ApiError ''upstream.invalid_response'' 502) else Inr b)"

definition validate_scoped_search_response :: "'s gate \<Rightarrow> gate_response \<Rightarrow> api_error + gate_response" where
  "validate_scoped_search_response g rp =
     (let kbs = (case rp_meta rp of None \<Rightarrow> [] | Some meta \<Rightarrow> p3_kb_ids meta) in
      if kbs = [] then Inl (ApiError ''upstream.scope_unverifiable'' 502)
      else case read_response rp of
        Inl e \<Rightarrow> Inl e
      | Inr b \<Rightarrow>
          (case gt_parse_search g b of
             Some (True, hits) \<Rightarrow>
               if list_ex (\<lambda>k. k = [] \<or> k \<notin> set kbs) hits then Inl (ApiError ''upstream.scope_violation'' 502)
               else Inr (set_response_body rp b)
           | _ \<Rightarrow> Inl (ApiError ''upstream.invalid_response'' 502)))"

text \<open>The list in an envelope, and the function that puts a filtered list back.\<close>

definition filterable_items :: "(string \<times> json) list \<Rightarrow> (json list \<times> (json list \<Rightarrow> (string \<times> json) list)) option" where
  "filterable_items env =
     (case obj_get ''data'' env of
        Some (JArr items) \<Rightarrow>
          Some (items, \<lambda>kept.
            let env = obj_set ''data'' (JArr kept) env in
            if obj_get ''total'' env = None then env else obj_set ''total'' (JNum (itoa (int (length kept)))) env)
      | Some (JObj container) \<Rightarrow>
          (case obj_get ''shares'' container of
             Some (JArr items) \<Rightarrow>
               Some (items, \<lambda>kept. obj_set ''data'' (JObj (obj_set ''total'' (JNum (itoa (int (length kept))))
                  (obj_set ''shares'' (JArr kept) container))) env)
           | _ \<Rightarrow> None)
      | _ \<Rightarrow> None)"

text \<open>Whether an item stays: every knowledge base it refers to is decided, in order.\<close>

fun item_allowed ::
    "(string \<Rightarrow> principal \<Rightarrow> headers \<Rightarrow> 's \<Rightarrow> (authz_error, decision, 's) outcome) \<Rightarrow> principal \<Rightarrow> headers \<Rightarrow> string list \<Rightarrow> 's \<Rightarrow>
     (api_error, bool, 's) outcome" where
  "item_allowed decide_kb who h [] s = (Inr True, s)"
| "item_allowed decide_kb who h (k # ks) s =
     (case decide_kb k who h s of
        (Inl AzNotFound, s1) \<Rightarrow> (Inr False, s1)
      | (Inl _, s1) \<Rightarrow> (Inl (ApiError ''security.authorization_unavailable'' 503), s1)
      | (Inr d, s1) \<Rightarrow> if dc_role d = RoleNone then (Inr False, s1) else item_allowed decide_kb who h ks s1)"

fun filter_items ::
    "(string \<Rightarrow> principal \<Rightarrow> headers \<Rightarrow> 's \<Rightarrow> (authz_error, decision, 's) outcome) \<Rightarrow> principal \<Rightarrow> headers \<Rightarrow> string \<Rightarrow> json list \<Rightarrow> 's \<Rightarrow>
     (api_error, json list, 's) outcome" where
  "filter_items decide_kb who h p [] s = (Inr [], s)"
| "filter_items decide_kb who h p (item # items) s =
     (case item of
        JObj ms \<Rightarrow>
          (case item_allowed decide_kb who h (list_item_kb_references p ms) s of
             (Inl e, s1) \<Rightarrow> (Inl e, s1)
           | (Inr ok, s1) \<Rightarrow>
               (case filter_items decide_kb who h p items s1 of
                  (Inl e, s2) \<Rightarrow> (Inl e, s2)
                | (Inr kept, s2) \<Rightarrow> (Inr (if ok then item # kept else kept), s2)))
      | _ \<Rightarrow> filter_items decide_kb who h p items s)"

text \<open>The filter before the decisions: items that refer to a forbidden Note Space are dropped.\<close>

definition keep_unforbidden :: "string \<Rightarrow> string list \<Rightarrow> json list \<Rightarrow> json list" where
  "keep_unforbidden p forbidden items =
     filter (\<lambda>item. case item of JObj ms \<Rightarrow> \<not> list_item_references_forbidden_kb p ms forbidden | _ \<Rightarrow> False) items"

definition open_list :: "'s gate \<Rightarrow> gate_response \<Rightarrow> api_error + (json list \<times> (json list \<Rightarrow> (string \<times> json) list))" where
  "open_list g rp =
     (case read_response rp of
        Inl e \<Rightarrow> Inl e
      | Inr b \<Rightarrow>
          (case gt_parse g b of
             Some (JObj env) \<Rightarrow>
               (case filterable_items env of
                  None \<Rightarrow> Inl (ApiError ''upstream.invalid_response'' 502)
                | Some (items, put) \<Rightarrow> Inr (items, put))
           | _ \<Rightarrow> Inl (ApiError ''upstream.invalid_response'' 502)))"

definition filter_list :: "'s gate \<Rightarrow> gate_response \<Rightarrow> principal \<Rightarrow> 's \<Rightarrow> (api_error, gate_response, 's) outcome" where
  "filter_list g rp who s =
     (case gt_decisions g of
        Some (decide_kb, _) \<Rightarrow>
          (case open_list g rp of
             Inl e \<Rightarrow> (Inl e, s)
           | Inr (items, put) \<Rightarrow>
               (case filter_items decide_kb who (rp_headers rp) (rp_path rp) items s of
                  (Inl e, s1) \<Rightarrow> (Inl e, s1)
                | (Inr kept, s1) \<Rightarrow> (Inr (set_response_body rp (marshal_object (put kept))), s1)))
      | None \<Rightarrow>
          (case gt_forbidden g (pr_user_id who) s of
             (Inl _, s1) \<Rightarrow> (Inl (ApiError ''security.profile_unavailable'' 503), s1)
           | (Inr forbidden, s1) \<Rightarrow>
               if forbidden = [] then (Inr rp, s1)
               else (case open_list g rp of
                 Inl e \<Rightarrow> (Inl e, s1)
               | Inr (items, put) \<Rightarrow>
                   (Inr (set_response_body rp (marshal_object (put (keep_unforbidden (rp_path rp) forbidden items)))), s1))))"

definition filter_response :: "'s gate \<Rightarrow> gate_response \<Rightarrow> 's \<Rightarrow> (api_error, gate_response, 's) outcome" where
  "filter_response g rp s =
     (case record_activity g rp s of
        (Inl e, s1) \<Rightarrow> (Inl e, s1)
      | (Inr _, s1) \<Rightarrow>
        (case (if gt_scopes g \<noteq> None \<and> rp_method rp = ''POST'' \<and> trim_suffix_slash (rp_path rp) = ''/api/v1/knowledge-search''
                  \<and> rp_status rp = 200 then validate_scoped_search_response g rp else Inr rp) of
           Inl e \<Rightarrow> (Inl e, s1)
         | Inr rp1 \<Rightarrow>
             if rp_method rp1 \<noteq> ''GET'' \<or> \<not> is_filterable_list_path (rp_path rp1) \<or> rp_status rp1 \<noteq> 200 then (Inr rp1, s1)
             else (case rp_identity rp1 of
               None \<Rightarrow> (Inl (ApiError ''auth.principal_invalid'' 502), s1)
             | Some who \<Rightarrow> filter_list g rp1 who s1)))"

section \<open>The product's gate\<close>

text \<open>
  \<open>NewPhase4Gate\<close> of cmd/gateway/main.go. What is not the product's own is one record of parameters:
  the WeKnora adapter, the loaded action policy and the functions of the Go runtime.
\<close>

record environment =
  env_upstream :: "string \<Rightarrow> headers \<Rightarrow> upstream_error + knowledge_base"
  env_list :: "headers \<Rightarrow> upstream_error + knowledge_base list"
  env_kb_for_knowledge :: "string \<Rightarrow> headers \<Rightarrow> upstream_error + string"
  env_kb_for_chunk :: "string \<Rightarrow> headers \<Rightarrow> upstream_error + string"
  env_validate_session :: "string \<Rightarrow> headers \<Rightarrow> upstream_error + unit"
  env_agent_kbs :: "string \<Rightarrow> headers \<Rightarrow> upstream_error + agent_scope"
  env_actions :: "string \<Rightarrow> string \<Rightarrow> action option"
  env_parse :: "string \<Rightarrow> json option"
  env_parse_search :: "string \<Rightarrow> (bool \<times> string list) option"
  env_lower :: "string \<Rightarrow> string"
  env_now :: time
  env_duration :: int

definition product_gate :: "environment \<Rightarrow> database gate" where
  "product_gate env =
     \<lparr>gt_profile = profile_get, gt_forbidden = forbidden_personal_note_ids,
      gt_kb_for_knowledge = env_kb_for_knowledge env, gt_kb_for_chunk = env_kb_for_chunk env,
      gt_validate_session = env_validate_session env, gt_agent_kbs = env_agent_kbs env,
      gt_actions = env_actions env,
      gt_decisions = Some (decide (product_authorization (env_upstream env) (env_now env)),
        authorize_action (product_authorization (env_upstream env) (env_now env))),
      gt_sessions = Some (session_list_kbs, session_record_kbs),
      gt_auditor = Some audit_record, gt_revisions = Some revision_increment,
      gt_publications = Some (unpublish_for_deletion
        (product_publication_service (env_upstream env) (env_lower env) (env_now env))),
      gt_scopes = Some (resolve_scope (product_scopes (env_list env) (env_upstream env) (env_now env))),
      gt_agent_auditor = Some agent_audit_record,
      gt_parse = env_parse env, gt_parse_search = env_parse_search env, gt_lower = env_lower env,
      gt_now = env_now env, gt_duration = env_duration env\<rparr>"

end
