(* ===== verification/ListingRules.thy ===== *)
theory ListingRules
  imports Reads "HOL-Library.Multiset"
begin

text \<open>
  The properties of the library, the catalog and the agent scope.
\<close>

section \<open>Pages\<close>

text \<open>C21. The slice of a page never leaves the list, whatever page number a request names: the bounds
  are ordered and within the list, a page has at most its size, and the products and sums that
  compute them stay below the bound of the list and the page size, so they cannot overflow.\<close>

theorem page_bounds:
  assumes "0 \<le> n" "1 \<le> page" "1 \<le> sz" "n + sz \<le> max_int64"
  shows "0 \<le> page_start n page sz \<and> page_start n page sz \<le> page_end n page sz \<and> page_end n page sz \<le> n
     \<and> page_end n page sz - page_start n page sz \<le> sz
     \<and> (page - 1 \<le> n div sz \<longrightarrow> (page - 1) * sz \<le> n) \<and> page_start n page sz + sz \<le> max_int64"
proof -
  have m: "(page - 1) * sz \<le> n" if "page - 1 \<le> n div sz"
  proof -
    have "(page - 1) * sz \<le> n div sz * sz" using that assms(3) by (intro mult_right_mono) auto
    also have "\<dots> \<le> n" using assms pos_mod_sign [of sz n] by (simp add: minus_mod_eq_div_mult [symmetric])
    finally show ?thesis .
  qed
  with assms show ?thesis by (auto simp: page_start_def page_end_def)
qed

theorem page_bounds_witness: "page_end 5 3 2 - page_start 5 3 2 \<le> 2 \<and> page_end 5 3 2 = 5"
proof -
  have "page_end 5 3 2 - page_start 5 3 2 \<le> 2"
    using page_bounds [of 5 3 2] by (simp add: max_int64_def)
  moreover have "page_end 5 3 2 = 5" by code_simp
  ultimately show ?thesis ..
qed

lemma page_slice_eq:
  assumes "1 \<le> sz"
  shows "page_slice xs (int (Suc p)) sz = take (nat sz) (drop (p * nat sz) xs)"
proof -
  obtain k where k: "sz = int k" "1 \<le> k" using assms by (metis nat_eq_iff2 nat_le_eq_zle nat_one_as_int zle_int of_nat_1 linear nat_0_le order_trans zero_le_one)
  have z: "int (length xs) div int k = int (length xs div k)" by (simp add: zdiv_int)
  show ?thesis
  proof (cases "p \<le> length xs div k")
    case True
    then have "p * k \<le> length xs" by (metis div_times_less_eq_dividend le_trans mult_le_mono1)
    with True show ?thesis
      by (simp add: page_slice_def page_start_def page_end_def Let_def k z min_def nat_diff_distrib nat_int_add flip: of_nat_mult)
  next
    case False
    then have "length xs \<le> p * k"
      using k(2) by (simp add: not_le div_less_iff_less_mult less_imp_le)
    with False show ?thesis
      by (simp add: page_slice_def page_start_def page_end_def Let_def k z)
  qed
qed

text \<open>C22. The pages of a size are a partition of the list: the first \<open>n\<close> pages one after the other
  are the first \<open>n\<close> times the size items, so turning the pages shows every item once, in order.\<close>

theorem pages_partition:
  assumes "1 \<le> sz"
  shows "concat (map (\<lambda>p. pg_items (paginate xs (int p) sz)) [1..<Suc n]) = take (n * nat sz) xs"
proof (induction n)
  case (Suc n)
  have "[1..<Suc (Suc n)] = [1..<Suc n] @ [Suc n]" by simp
  moreover have "take (Suc n * nat sz) xs = take (n * nat sz) xs @ take (nat sz) (drop (n * nat sz) xs)"
    by (simp only: mult_Suc add.commute [of "nat sz"] take_add)
  ultimately show ?case
    using Suc page_slice_eq [OF assms, of xs n] by (simp add: paginate_def del: upt_Suc mult_Suc of_nat_Suc)
qed simp

theorem pages_partition_witness:
  "concat (map (\<lambda>p. pg_items (paginate ''abcde'' (int p) 2)) [1..<Suc 3]) = ''abcde''"
  using pages_partition [of 2 "''abcde''" 3] by simp


definition sample_list :: "headers \<Rightarrow> upstream_error + knowledge_base list" where
  "sample_list h = (case sample_kb ''kb'' h of Inl e \<Rightarrow> Inl e | Inr kb \<Rightarrow> Inr [kb])"

definition sample_scope :: "(scope_error, scope_result, database) outcome" where
  "sample_scope = resolve_scope (product_scopes sample_list sample_kb 6) SelectionExplicit ['' kb '', ''kb''] carl sample_headers
     (snd sample_granted)"

definition sample_default_scope :: "(scope_error, scope_result, database) outcome" where
  "sample_default_scope = resolve_scope (product_scopes sample_list sample_kb 6) SelectionDefault [] carl sample_headers
     (snd sample_granted)"

definition sample_filter :: catalog_filter where
  "sample_filter = \<lparr>cf_query = '' handBOOK '', cf_tag = ''b'', cf_owner = [], cf_access_mode = None, cf_updated_after = None,
     cf_page = 1, cf_page_size = 10\<rparr>"

definition sample_catalog :: "(catalog_error, catalog_item listing_page, database) outcome" where
  "sample_catalog = catalog_list id (product_catalog 9) bob sample_filter (snd sample_subscribed)"

lemma sample_listing_ok: "is_Inr (fst sample_scope)" "is_Inr (fst sample_default_scope)" "is_Inr (fst sample_catalog)"
  by code_simp+

section \<open>Scopes\<close>

lemma read_role: "allows d ActionRead \<longleftrightarrow> RoleViewer \<le> dc_role d"
  by (cases "dc_role d") (auto simp: allows_def less_eq_role_def)

text \<open>Whom the rule lets read a knowledge base, for the owner WeKnora and the profile resolve.\<close>

definition may_read where
  "may_read upstream h now db who k \<longleftrightarrow> (\<exists>own db0 db1. tables db0 = tables db
     \<and> resolve (product_resolver upstream) k h db0 = (Inr own, db1)
     \<and> RoleViewer \<le> access_role own k who now (db_grants db) (db_publications db) (db_subscriptions db))"

lemma decided_may_read:
  assumes "decide (product_authorization upstream now) k who h db0 = (Inr d, db1)" "RoleViewer \<le> dc_role d"
    and "tables db0 = tables db" "product_inv db"
  shows "may_read upstream h now db who k"
proof -
  have "product_inv db0" using assms(3,4) tables_inv by blast
  with az.decide_role [OF assms(1)] obtain own db2 where
    "resolve (product_resolver upstream) k h db0 = (Inr own, db2)"
    "dc_role d = access_role own k who now (db_grants db0) (db_publications db0) (db_subscriptions db0)"
    by (auto simp: product_inv_def)
  moreover have "access_role own k who now (db_grants db0) (db_publications db0) (db_subscriptions db0)
      = access_role own k who now (db_grants db) (db_publications db) (db_subscriptions db)"
    using tables_eqD [OF assms(3)] by simp
  ultimately show ?thesis
    unfolding may_read_def using assms(2,3) by (intro exI [of _ own] exI [of _ db0] exI [of _ db2]) simp
qed

lemma explicit_entries_Inr:
  assumes "explicit_entries (product_scopes ls upstream now) who h is db0 = (Inr es, db1)"
    and "tables db0 = tables db" "product_inv db"
  shows "map se_kb_id es = is \<and> (\<forall>k\<in>set is. may_read upstream h now db who k)"
  using assms(1,2)
proof (induction "is" arbitrary: db0 es db1)
  case (Cons i "is")
  from Cons.prems(1) obtain d db2 es2 where d: "authorize_action (product_authorization upstream now) i who ActionRead h db0 = (Inr d, db2)"
    "explicit_entries (product_scopes ls upstream now) who h is db2 = (Inr es2, db1)" "map se_kb_id es = i # map se_kb_id es2"
    by (auto split: prod.splits sum.splits if_splits)
  from tables_authorize [OF d(1)] Cons.prems(2) have t: "tables db2 = tables db" by simp
  from authorize_Inr [OF d(1)] have "decide (product_authorization upstream now) i who h db0 = (Inr d, db2)" "allows d ActionRead"
    by auto
  with decided_may_read [OF _ _ Cons.prems(2) assms(3)] have "may_read upstream h now db who i"
    by (simp add: read_role)
  with Cons.IH [OF d(2) t] d(3) show ?case by auto
qed simp

lemma trimmed_ids_Some:
  "trimmed_ids seen vs = Some ws \<Longrightarrow> distinct ws \<and> set ws = trim_space ` set vs - set seen \<and> length ws \<le> length vs
   \<and> (\<forall>w\<in>set ws. w \<noteq> [] \<and> length w \<le> 128)"
proof (induction vs arbitrary: seen ws)
  case (Cons v vs)
  show ?case
  proof (cases "trim_space v \<in> set seen")
    case True
    with Cons show ?thesis by (fastforce simp: Let_def split: if_splits)
  next
    case False
    with Cons.prems obtain us where u: "ws = trim_space v # us" "trimmed_ids (trim_space v # seen) vs = Some us"
      "trim_space v \<noteq> []" "length (trim_space v) \<le> 128"
      by (auto simp: Let_def split: if_splits)
    with Cons.IH [OF u(2)] False show ?thesis by auto
  qed
qed simp

text \<open>An explicit agent scope is exactly what was asked for, and only what may be read: the IDs are
  the trimmed ones of the request, sorted and without repetition, between one and 64 of them, and the
  user may read every one. One unreadable ID refuses the whole scope.\<close>

theorem explicit_scope_readable:
  assumes "product_inv db"
    and "resolve_scope (product_scopes ls upstream now) SelectionExplicit ids who h db = (Inr r, db1)"
  shows "set (sr_kb_ids r) = trim_space ` set ids \<and> sorted (sr_kb_ids r) \<and> distinct (sr_kb_ids r)
     \<and> 1 \<le> length (sr_kb_ids r) \<and> length (sr_kb_ids r) \<le> 64
     \<and> (\<forall>k\<in>set (sr_kb_ids r). may_read upstream h now db who k)"
proof -
  from assms(2) obtain ws es where w: "int (length ids) \<le> 64" "ids \<noteq> []" "trimmed_ids [] ids = Some ws"
    "explicit_entries (product_scopes ls upstream now) who h (sort ws) db = (Inr es, db1)"
    "r = scope_result_of SelectionExplicit es"
    by (auto simp: resolve_scope_def resolve_explicit_def normalize_ids_def max_knowledge_bases_def
        split: if_splits prod.splits sum.splits option.splits)
  from explicit_entries_Inr [OF w(4) refl assms(1)]
  have e: "map se_kb_id es = sort ws" "\<forall>k\<in>set ws. may_read upstream h now db who k" by auto
  have "sr_kb_ids r = sort (map se_kb_id es)"
    by (simp add: w(5) scope_result_of_def Let_def)
       (rule properties_for_sort [symmetric], simp_all add: mset_map)
  then have k: "sr_kb_ids r = sort ws" by (simp add: e(1) sorted_sort_id)
  from trimmed_ids_Some [OF w(3)] w(1,2) e(2) have "ws \<noteq> []" by auto
  then have "1 \<le> length ws" by (cases ws) auto
  with trimmed_ids_Some [OF w(3)] w(1,2) e(2) show ?thesis by (auto simp: k)
qed


theorem explicit_scope_readable_witness: "may_read sample_kb sample_headers 6 (snd sample_granted) carl ''kb''"
proof -
  have "''kb'' \<in> set (sr_kb_ids (projr (fst sample_scope)))" by code_simp
  with explicit_scope_readable [OF sample_granted_ok(2) ok_outcome [OF sample_listing_ok(1), unfolded sample_scope_def]]
  show ?thesis by (auto simp: sample_scope_def)
qed

text \<open>What the other two sources of the default scope hold: the decided items and the subscriptions.\<close>

lemma decided_published_source:
  "decide_published svc base k who s = (Inr d, s1) \<Longrightarrow> dc_source base = SourceNone \<Longrightarrow> dc_source d \<noteq> SourceNone \<Longrightarrow>
   dc_role d = RoleViewer"
  by (auto simp: decide_published_def Let_def split: option.splits prod.splits sum.splits publication_error.splits
      subscription_error.splits if_splits)

lemma decided_source:
  "decide svc k who h s = (Inr d, s1) \<Longrightarrow> dc_source d \<noteq> SourceNone \<Longrightarrow> RoleViewer \<le> dc_role d"
  by (auto simp: decide_def Let_def base_decision_def less_eq_role_def split: prod.splits sum.splits grant_error.splits
      permission.splits if_splits dest!: decided_published_source)

lemma authorized_items_all:
  assumes "authorized_items (product_library ls upstream now) ViewAll who h kbs db0 = (Inr items, db1)" "it \<in> set items"
    and "tables db0 = tables db" "product_inv db"
  shows "may_read upstream h now db who (li_id it)"
  using assms(1-3)
proof (induction kbs arbitrary: db0 items db1)
  case (Cons kb kbs)
  obtain r db2 where d: "decide (product_authorization upstream now) (kb_id kb) who h db0 = (r, db2)" by fastforce
  have t: "tables db2 = tables db" using tables_decide [OF d] Cons.prems(3) by simp
  show ?case
  proof (cases "\<exists>d rest. r = Inr d \<and> in_view ViewAll d \<and> it = owned_item kb d")
    case True
    then obtain c where c: "r = Inr c" "in_view ViewAll c" "it = owned_item kb c" by blast
    then have "dc_source c \<noteq> SourceNone" by (auto simp: in_view_def)
    from decided_may_read [OF d [unfolded c(1)] decided_source [OF d [unfolded c(1)] this] Cons.prems(3) assms(4)]
    show ?thesis by (simp add: c(3) owned_item_def)
  next
    case False
    with Cons.prems(1,2) d obtain rest db3 where
      "authorized_items (product_library ls upstream now) ViewAll who h kbs db2 = (Inr rest, db3)" "it \<in> set rest"
      by (fastforce split: prod.splits sum.splits authz_error.splits if_splits)
    with Cons.IH t show ?thesis by blast
  qed
qed simp

lemma list_items_published:
  assumes "list_items (product_subscription_service now) who xs db0 = (Inr items, db1)" "it \<in> set items"
    and "tables db0 = tables db"
  shows "it_publication it \<in> set (db_publications db)"
  using assms
proof (induction xs arbitrary: db0 items db1)
  case (Cons x xs)
  obtain r db2 where g: "publication_get (sub_publication_id x) db0 = (r, db2)" by fastforce
  have t: "tables db2 = tables db" using read_outcomes(3) [OF g] Cons.prems(3) by simp
  have p: "p \<in> set (db_publications db)" if "r = Inr p" for p
    using pubc.get_Inr [of "sub_publication_id x" db0 p db2] g that tables_eqD [OF Cons.prems(3)] by simp
  obtain q db3 where c: "revision_current (pub_kb_id (projr r)) db2 = (q, db3)" by fastforce
  have t3: "tables db3 = tables db" using read_outcomes(8) [OF c] t by simp
  show ?case
  proof (cases "\<exists>p n. r = Inr p \<and> it = sub_item_of x p n")
    case True
    with p show ?thesis by (auto simp: sub_item_of_def)
  next
    case False
    with Cons.prems(1,2) g c have "\<exists>dbx rest dby. dbx \<in> {db0, db2, db3}
        \<and> list_items (product_subscription_service now) who xs dbx = (Inr rest, dby) \<and> it \<in> set rest"
      by (fastforce split: prod.splits sum.splits if_splits)
    with Cons.IH t t3 Cons.prems(3) show ?thesis by blast
  qed
qed simp

lemma followed_readable:
  assumes "subscription_list (product_subscription_service now) who db0 = (Inr items, db1)" "f \<in> set items"
    and "tables db0 = tables db"
  shows "readable_published (pub_kb_id (it_publication f)) (pr_user_id who) (pr_tenant_id who)
      (db_publications db) (db_subscriptions db)"
proof -
  from assms(1) obtain xs db2 where x: "subscription_list_by_user (pr_user_id who) db0 = (Inr xs, db2)"
    "list_items (product_subscription_service now) who xs db2 = (Inr items, db1)"
    by (auto simp: subscription_list_def split: if_splits prod.splits sum.splits)
  have t: "tables db2 = tables db" using read_outcomes(7) [OF x(1)] assms(3) by simp
  from subc.list_Inr [of "pr_user_id who" db0 xs db2] x(1) tables_eqD [OF assms(3)]
  have m: "y \<in> set (db_subscriptions db) \<and> sub_subscriber_id y = pr_user_id who" if "y \<in> set xs" for y
    using that by auto
  from ssd.list_items_Inr [OF x(2) assms(2)] m list_items_published [OF x(2) assms(2) t]
  show ?thesis by (fastforce simp: readable_published_def subscribed_def sub_key_def)
qed

lemma set_add_unseen: "set (add_unseen seen its) \<subseteq> set its"
  by (induction its arbitrary: seen) auto

text \<open>The default agent scope holds at most 64 knowledge bases, each of which the user may read:
  owned or granted ones by the decision, subscribed ones by an active subscription to a publication
  that is still visible to the user's workspace.\<close>

theorem default_scope_readable:
  assumes "product_inv db"
    and "resolve_scope (product_scopes ls upstream now) SelectionDefault [] who h db = (Inr r, db1)"
  shows "length (sr_kb_ids r) \<le> 64 \<and> (\<forall>k\<in>set (sr_kb_ids r). may_read upstream h now db who k
     \<or> readable_published k (pr_user_id who) (pr_tenant_id who) (db_publications db) (db_subscriptions db))"
proof -
  from assms(2) obtain page where l: "library_list (product_library ls upstream now) ViewAll 1 64 who h db = (Inr page, db1)"
    "r = scope_result_of SelectionDefault (default_entries (pg_items page))"
    by (auto simp: resolve_scope_def resolve_default_def max_knowledge_bases_def split: if_splits prod.splits sum.splits)
  from l(1) obtain kbs items db2 fs where a: "authorized_items (product_library ls upstream now) ViewAll who h kbs db = (Inr items, db2)"
    "subscription_list (product_subscription_service now) who db2 = (Inr fs, db1)"
    "page = paginate (items @ add_unseen (map li_id items) (map followed_item fs)) 1 64"
    by (auto simp: library_list_def subscription_items_def split: if_splits prod.splits sum.splits)
  have t: "tables db2 = tables db" using tables_authorized_items [OF a(1)] .
  have s: "pg_items page = take 64 (items @ add_unseen (map li_id items) (map followed_item fs))"
    using page_slice_eq [of 64 "items @ add_unseen (map li_id items) (map followed_item fs)" 0]
    by (simp add: a(3) paginate_def del: take_append)
  have ok: "may_read upstream h now db who (li_id it)
      \<or> readable_published (li_id it) (pr_user_id who) (pr_tenant_id who) (db_publications db) (db_subscriptions db)"
    if "it \<in> set (pg_items page)" for it
  proof -
    from that s have "it \<in> set items \<or> it \<in> followed_item ` set fs"
      using set_add_unseen [of "map li_id items" "map followed_item fs"] by (auto dest!: in_set_takeD)
    then show ?thesis
      using authorized_items_all [OF a(1) _ refl assms(1)] followed_readable [OF a(2) _ t]
      by (auto simp: followed_item_def)
  qed
  have "length (pg_items page) \<le> 64" by (simp add: s)
  then have "length (default_entries (pg_items page)) \<le> 64"
    unfolding default_entries_def length_map by (meson le_trans length_filter_le)
  with ok show ?thesis
    by (fastforce simp: l(2) scope_result_of_def Let_def default_entries_def)
qed


theorem default_scope_readable_witness: "may_read sample_kb sample_headers 6 (snd sample_granted) carl ''kb''"
proof -
  have "''kb'' \<in> set (sr_kb_ids (projr (fst sample_default_scope)))" by code_simp
  moreover have "db_publications (snd sample_granted) = []" by code_simp
  ultimately show ?thesis
    using default_scope_readable [OF sample_granted_ok(2) ok_outcome [OF sample_listing_ok(2), unfolded sample_default_scope_def]]
    by (auto simp: sample_default_scope_def readable_published_def)
qed

section \<open>The catalog\<close>

lemma catalog_items_Inr:
  assumes "catalog_items ulower (product_catalog now) who f ps db0 = (Inr items, db1)" "it \<in> set items"
    and "tables db0 = tables db"
  shows "ci_publication it \<in> set ps \<and> catalog_visible who (ci_publication it) \<and> catalog_matches ulower (ci_publication it) f
     \<and> (\<exists>dbx dby. decorate (product_catalog now) who (ci_publication it) dbx = (Inr it, dby) \<and> tables dbx = tables db)"
  using assms
proof (induction ps arbitrary: db0 items db1)
  case (Cons p ps)
  show ?case
  proof (cases "catalog_visible who p \<and> catalog_matches ulower p f")
    case True
    with Cons.prems(1) obtain x db2 rest db3 where d: "decorate (product_catalog now) who p db0 = (Inr x, db2)"
      "catalog_items ulower (product_catalog now) who f ps db2 = (Inr rest, db3)" "items = x # rest"
      by (auto split: prod.splits sum.splits)
    have "ci_publication x = p"
      using d(1) by (auto simp: decorate_def Let_def split: prod.splits sum.splits subscription_error.splits)
    moreover have "tables db2 = tables db" using tables_decorate [OF d(1)] Cons.prems(3) by simp
    ultimately show ?thesis
      using True d Cons.prems(2,3) Cons.IH [OF d(2)] by auto
  next
    case False
    with Cons show ?thesis by (auto simp: de_Morgan_conj)
  qed
qed simp

lemma decorate_can_read:
  assumes "decorate (product_catalog now) who p dbx = (Inr it, dby)" "tables dbx = tables db" "product_inv db"
    and "pub_publisher_id p \<noteq> pr_user_id who"
  shows "ci_can_read it \<longleftrightarrow> pub_access_mode p = AccessOrganizationPublic
     \<or> subscribed p (pr_user_id who) (pr_tenant_id who) (db_subscriptions db)"
proof -
  from assms(1) obtain n db2 where c: "revision_current (pub_kb_id p) dbx = (Inr n, db2)"
    by (auto simp: decorate_def split: prod.splits sum.splits)
  obtain r db3 where e: "effective_subscription (product_subscription_service now) (pub_id p) (pr_user_id who) (pr_tenant_id who) db2 = (r, db3)"
    by fastforce
  have t: "db_subscriptions db2 = db_subscriptions db"
    using read_outcomes(8) [OF c] assms(2) tables_eqD [of db2 db] by simp
  have yes: "subscribed p (pr_user_id who) (pr_tenant_id who) (db_subscriptions db)" if "r = Inr x" for x
    using ssd.eff_sub_Inr [OF e [unfolded that]] t by (auto simp: subscribed_def)
  have no: "\<not> subscribed p (pr_user_id who) (pr_tenant_id who) (db_subscriptions db)" if "r = Inl SubNotFound"
    using ssd.eff_sub_NotFound [OF e [unfolded that]] assms(3) t by (auto simp: subscribed_def product_inv_def)
  show ?thesis
    using assms(1,4) c e yes no
    by (cases r) (auto simp: decorate_def Let_def split: subscription_error.splits)
qed

lemma readable_published_iff:
  assumes "product_inv db" "p \<in> set (db_publications db)"
  shows "readable_published (pub_kb_id p) u w (db_publications db) xs \<longleftrightarrow>
     visible_to p w \<and> (pub_access_mode p = AccessOrganizationPublic \<or> subscribed p u w xs)"
proof -
  have "q = p" if "q \<in> set (db_publications db)" "pub_kb_id q = pub_kb_id p" for q
    using assms that distinct_map_inj [of pub_kb_id "db_publications db" q p]
    by (simp add: product_inv_def publications_unique_def)
  then show ?thesis unfolding readable_published_def using assms(2) by blast
qed



text \<open>For the publisher the promise breaks: the catalog recognises the publisher by the user ID
  alone, the decision by user and workspace. Signed in to another workspace, the publisher is told
  that the knowledge base can be read, and reading it is refused.\<close>

theorem publisher_promise_broken:
  "\<exists>db who p it. product_inv db
     \<and> fst (catalog_get (product_catalog 9) who p db) = Inr it \<and> ci_can_read it
     \<and> fst (authorize_action (product_authorization sample_kb 9) (pub_kb_id (ci_publication it)) who ActionRead sample_headers db)
         = Inl AzDenied"
proof (intro exI conjI)
  let ?db = "snd sample_published" and ?who = "ann\<lparr>pr_tenant_id := 5\<rparr>"
  let ?g = "catalog_get (product_catalog 9) ?who sample_pid ?db"
  show "product_inv ?db" by (rule sample_published_ok)
  have "is_Inr (fst ?g)" by code_simp
  then show "fst ?g = Inr (projr (fst ?g))" by (simp add: is_Inr_iff) auto
  show "ci_can_read (projr (fst ?g))" by code_simp
  show "fst (authorize_action (product_authorization sample_kb 9) (pub_kb_id (ci_publication (projr (fst ?g)))) ?who
      ActionRead sample_headers ?db) = Inl AzDenied" by code_simp
qed

end
