(* ===== verification/GateProofs.thy ===== *)
theory GateProofs
  imports GateService ListingRules "HOL-Library.Sublist"
begin

text \<open>
  What the gate relies on in its decision service, as a locale, what follows for its loops, and the
  interpretation on the product's authorization.
\<close>

section \<open>The decision service as an interface\<close>

text \<open>
  \<open>view\<close> is the part of the state the decisions depend on and leave alone; \<open>holds v h who k r\<close> says
  that the access rule gives \<open>who\<close> the role \<open>r\<close> on \<open>k\<close> in it.
\<close>

locale decision_contract =
  fixes decide_kb :: "string \<Rightarrow> principal \<Rightarrow> headers \<Rightarrow> 's \<Rightarrow> (authz_error, decision, 's) outcome"
    and authorize :: "string \<Rightarrow> principal \<Rightarrow> action \<Rightarrow> headers \<Rightarrow> 's \<Rightarrow> (authz_error, decision, 's) outcome"
    and view :: "'s \<Rightarrow> 'v" and good :: "'v \<Rightarrow> bool"
    and holds :: "'v \<Rightarrow> headers \<Rightarrow> principal \<Rightarrow> string \<Rightarrow> role \<Rightarrow> bool"
  assumes decide_view: "decide_kb k who h s = (r, s1) \<Longrightarrow> view s1 = view s"
    and authorize_view: "authorize k who a h s = (r, s1) \<Longrightarrow> view s1 = view s"
    and decide_holds: "decide_kb k who h s = (Inr d, s1) \<Longrightarrow> good (view s) \<Longrightarrow> holds (view s) h who k (dc_role d)"
    and authorize_holds: "authorize k who a h s = (Inr d, s1) \<Longrightarrow> good (view s) \<Longrightarrow>
      holds (view s) h who k (dc_role d) \<and> allows d a"
begin

definition admitted where
  "admitted g rq v who a k \<longleftrightarrow> (\<exists>r. holds v (rq_headers rq) who k r
     \<and> (role_allows r a \<or> a = ActionConfigure \<and> r = RoleEditor \<and> is_limited_editor_configuration g rq))"

lemma authorize_kb_action_Inr:
  assumes "gt_decisions g = Some (decide_kb, authorize)" "authorize_kb_action g k who a rq s = (Inr u, s1)" "good (view s)"
  shows "view s1 = view s \<and> admitted g rq (view s) who a k"
proof (cases "authorize k who a (rq_headers rq) s")
  case (Pair r s2)
  have v: "view s2 = view s" by (rule authorize_view [OF Pair])
  show ?thesis
  proof (cases r)
    case (Inr d)
    with authorize_holds [OF Pair [unfolded Inr] assms(3)] assms(1,2) Pair v show ?thesis
      by (auto simp: authorize_kb_action_def Let_def admitted_def allows_def split: if_splits)
  next
    case (Inl e)
    obtain q s3 where d: "decide_kb k who (rq_headers rq) s2 = (q, s3)" by fastforce
    have v3: "view s3 = view s" using decide_view [OF d] v by simp
    from assms(1,2) Pair Inl d obtain c where c: "a = ActionConfigure" "is_limited_editor_configuration g rq"
      "q = Inr c" "dc_role c = RoleEditor" "s1 = s3"
      by (auto simp: authorize_kb_action_def Let_def split: if_splits sum.splits)
    from decide_holds [OF d [unfolded c(3)]] assms(3) v have "holds (view s) (rq_headers rq) who k RoleEditor"
      by (simp add: c(4))
    with c v3 show ?thesis by (auto simp: admitted_def)
  qed
qed

lemma authorize_kbs_Inr:
  assumes "gt_decisions g = Some (decide_kb, authorize)" "authorize_kbs g who a rq ks s = (Inr u, s1)" "good (view s)"
  shows "view s1 = view s \<and> (\<forall>k\<in>set ks. admitted g rq (view s) who a k)"
  using assms(2,3)
proof (induction ks arbitrary: s)
  case (Cons k ks)
  from Cons.prems(1) obtain s2 where k: "authorize_kb_action g k who a rq s = (Inr (), s2)"
    "authorize_kbs g who a rq ks s2 = (Inr u, s1)" by (auto split: prod.splits sum.splits)
  from authorize_kb_action_Inr [OF assms(1) k(1) Cons.prems(2)] Cons.IH [OF k(2)] Cons.prems(2) show ?case by auto
qed simp

text \<open>The response filter: what stays refers only to knowledge bases on which the reader has a role.\<close>

lemma item_allowed_Inr:
  assumes "item_allowed decide_kb who h ks s = (Inr ok, s1)" "good (view s)"
  shows "view s1 = view s \<and> (ok \<longrightarrow> (\<forall>k\<in>set ks. \<exists>r. holds (view s) h who k r \<and> r \<noteq> RoleNone))"
  using assms
proof (induction ks arbitrary: s)
  case (Cons k ks)
  obtain q s2 where d: "decide_kb k who h s = (q, s2)" by fastforce
  have v: "view s2 = view s" by (rule decide_view [OF d])
  show ?case
  proof (cases "\<exists>c. q = Inr c \<and> dc_role c \<noteq> RoleNone")
    case True
    then obtain c where c: "q = Inr c" "dc_role c \<noteq> RoleNone" by blast
    with Cons.prems(1) d have "item_allowed decide_kb who h ks s2 = (Inr ok, s1)" by simp
    from Cons.IH [OF this] v Cons.prems(2) decide_holds [OF d [unfolded c(1)] Cons.prems(2)] c(2) show ?thesis by auto
  next
    case False
    with Cons.prems(1) d v show ?thesis by (auto split: sum.splits authz_error.splits)
  qed
qed simp

lemma filter_items_Inr:
  assumes "filter_items decide_kb who h p items s = (Inr kept, s1)" "good (view s)"
  shows "view s1 = view s \<and> subseq kept items \<and> (\<forall>item\<in>set kept. \<exists>ms. item = JObj ms
     \<and> (\<forall>k\<in>set (list_item_kb_references p ms). \<exists>r. holds (view s) h who k r \<and> r \<noteq> RoleNone))"
  using assms
proof (induction items arbitrary: s kept)
  case (Cons item items)
  show ?case
  proof (cases "\<exists>ms. item = JObj ms")
    case True
    then obtain ms where ms: "item = JObj ms" by blast
    with Cons.prems(1) obtain ok s2 rest where d: "item_allowed decide_kb who h (list_item_kb_references p ms) s = (Inr ok, s2)"
      "filter_items decide_kb who h p items s2 = (Inr rest, s1)" "kept = (if ok then item # rest else rest)"
      by (auto split: prod.splits sum.splits)
    from item_allowed_Inr [OF d(1) Cons.prems(2)] have i: "view s2 = view s"
      "ok \<longrightarrow> (\<forall>k\<in>set (list_item_kb_references p ms). \<exists>r. holds (view s) h who k r \<and> r \<noteq> RoleNone)" by auto
    from Cons.IH [OF d(2)] i(1) Cons.prems(2) have "view s1 = view s" "subseq rest items"
      "\<forall>item\<in>set rest. \<exists>ms. item = JObj ms
         \<and> (\<forall>k\<in>set (list_item_kb_references p ms). \<exists>r. holds (view s) h who k r \<and> r \<noteq> RoleNone)" by auto
    with i(2) d(3) ms show ?thesis by (auto intro: subseq_Cons')
  next
    case False
    with Cons.prems(1) have "filter_items decide_kb who h p items s = (Inr kept, s1)" by (cases item) auto
    from Cons.IH [OF this Cons.prems(2)] show ?thesis by (auto intro: list_emb_Cons)
  qed
qed simp

end

section \<open>The product's decisions\<close>

definition access_view :: "database \<Rightarrow> profile list \<times> grant list \<times> publication list \<times> subscription list" where
  "access_view db = (db_profiles db, db_grants db, db_publications db, db_subscriptions db)"

lemma access_view_tables: "tables a = tables b \<Longrightarrow> access_view a = access_view b"
  using tables_eqD [of a b] by (simp add: access_view_def)

definition rows_good where
  "rows_good v \<longleftrightarrow> (case v of (ps, gs, pubs, xs) \<Rightarrow> grants_unique gs \<and> publications_unique pubs \<and> subscriptions_unique xs
     \<and> sub_publication_id ` set xs \<subseteq> pub_id ` set pubs)"

lemma rows_good_inv [simp]: "rows_good (access_view db) = product_inv db"
  by (simp add: rows_good_def access_view_def product_inv_def)

definition holds_role where
  "holds_role upstream now v h who k r \<longleftrightarrow> (\<exists>own db0 db1. access_view db0 = v
     \<and> resolve (product_resolver upstream) k h db0 = (Inr own, db1)
     \<and> r = access_role own k who now (fst (snd v)) (fst (snd (snd v))) (snd (snd (snd v))))"

lemma decided_role:
  assumes "decide (product_authorization upstream now) k who h db = (Inr d, db1)" "product_inv db"
  shows "holds_role upstream now (access_view db) h who k (dc_role d)"
proof -
  from az.decide_role [OF assms(1)] assms(2) obtain own db0 where
    "resolve (product_resolver upstream) k h db = (Inr own, db0)"
    "dc_role d = access_role own k who now (db_grants db) (db_publications db) (db_subscriptions db)"
    by (auto simp: product_inv_def)
  then show ?thesis
    unfolding holds_role_def by (intro exI [of _ own] exI [of _ db] exI [of _ db0]) (simp add: access_view_def)
qed

interpretation dc: decision_contract "decide (product_authorization upstream now)"
    "authorize_action (product_authorization upstream now)" access_view rows_good "holds_role upstream now"
  for upstream now
proof unfold_locales
  show "access_view s1 = access_view s" if "decide (product_authorization upstream now) k who h s = (r, s1)" for k who h s r s1
    by (rule access_view_tables [OF tables_decide [OF that]])
  show "access_view s1 = access_view s" if "authorize_action (product_authorization upstream now) k who a h s = (r, s1)"
    for k who a h s r s1
    by (rule access_view_tables [OF tables_authorize [OF that]])
qed (auto dest: decided_role authorize_Inr)

end
