(* ===== verification/GateSamples.thy ===== *)
theory GateSamples
  imports GateService ListingRules
begin

text \<open>
  A concrete environment of the gate, with one knowledge item \<open>doc\<close> and one agent \<open>agent\<close> over the
  sample knowledge base, and the requests on which the gate's properties are applied.
\<close>

definition sample_body :: "(string \<times> json) list" where
  "sample_body = [(''query'', JStr ''q''), (''knowledge_base_id'', JStr ''kb''), (''web_search_enabled'', JBool True)]"

definition sample_items :: "json list" where
  "sample_items = [JObj [(''id'', JStr ''kb'')], JObj [(''id'', JStr ''other'')], JNull]"

definition sample_parse :: "string \<Rightarrow> json option" where
  "sample_parse b = (if b = ''chat'' then Some (JObj sample_body)
     else if b = ''list'' then Some (JObj [(''data'', JArr sample_items), (''total'', JNum ''3'')]) else None)"

definition sample_env :: environment where
  "sample_env =
     \<lparr>env_upstream = sample_kb, env_list = sample_list,
      env_kb_for_knowledge = (\<lambda>i h. if i = ''doc'' then Inr ''kb'' else Inl (UpstreamError ''upstream.not_found'' 404)),
      env_kb_for_chunk = (\<lambda>i h. Inl TransportError), env_validate_session = (\<lambda>i h. Inr ()),
      env_agent_kbs = (\<lambda>i h. Inr \<lparr>as_selection_mode = ''selected'', as_kb_ids = [''kb'']\<rparr>),
      env_actions = (\<lambda>m p. Some (if m = ''PUT'' then ActionEditContent else ActionRead)),
      env_parse = sample_parse, env_parse_search = (\<lambda>b. if b = ''hits'' then Some (True, [''kb'']) else None),
      env_lower = id, env_now = 6, env_duration = 1\<rparr>"

definition sample_get :: gate_request where
  "sample_get = \<lparr>rq_method = ''GET'', rq_path = ''/api/v1/knowledge/doc'', rq_query = [], rq_headers = sample_headers,
     rq_body = NoBody\<rparr>"

definition sample_chat :: gate_request where
  "sample_chat = \<lparr>rq_method = ''POST'', rq_path = ''/api/v1/knowledge-chat/chat-1'', rq_query = [],
     rq_headers = sample_headers(''Content-Type'' := ''application/json''), rq_body = Body ''chat''\<rparr>"

definition sample_forwarded :: "(api_error, gate_request \<times> phase3_request option, database) outcome" where
  "sample_forwarded = authorize_request (product_gate sample_env) sample_get carl (snd sample_granted)"

definition sample_chatted :: "(api_error, gate_request \<times> phase3_request option, database) outcome" where
  "sample_chatted = authorize_request (product_gate sample_env) sample_chat carl (snd sample_granted)"

lemma sample_forwarded_ok: "is_Inr (fst sample_forwarded)"
  by code_simp

lemma sample_chatted_ok: "is_Inr (fst sample_chatted)"
  by code_simp

end
