(* ===== verification/GateRules.thy ===== *)
theory GateRules
  imports GateProofs GateSamples
begin

text \<open>
  The properties of the access gate on the product's database.
\<close>

lemma product_gate_sel [simp]:
  "gt_kb_for_knowledge (product_gate env) = env_kb_for_knowledge env"
  "gt_kb_for_chunk (product_gate env) = env_kb_for_chunk env"
  "gt_validate_session (product_gate env) = env_validate_session env"
  "gt_agent_kbs (product_gate env) = env_agent_kbs env"
  "gt_actions (product_gate env) = env_actions env"
  "gt_decisions (product_gate env) = Some (decide (product_authorization (env_upstream env) (env_now env)),
     authorize_action (product_authorization (env_upstream env) (env_now env)))"
  "gt_sessions (product_gate env) = Some (session_list_kbs, session_record_kbs)"
  "gt_auditor (product_gate env) = Some audit_record"
  "gt_revisions (product_gate env) = Some revision_increment"
  "gt_publications (product_gate env) = Some (unpublish_for_deletion
     (product_publication_service (env_upstream env) (env_lower env) (env_now env)))"
  "gt_scopes (product_gate env) = Some (resolve_scope (product_scopes (env_list env) (env_upstream env) (env_now env)))"
  "gt_agent_auditor (product_gate env) = Some agent_audit_record"
  "gt_parse (product_gate env) = env_parse env" "gt_parse_search (product_gate env) = env_parse_search env"
  "gt_lower (product_gate env) = env_lower env" "gt_now (product_gate env) = env_now env"
  "gt_duration (product_gate env) = env_duration env"
  by (simp_all add: product_gate_def)

text \<open>
  Who may do what on a knowledge base: the role of the access rule allows the action, or it is an
  editor's change of nothing but the name and the description.
\<close>

definition may_do where
  "may_do env rq v who a k \<longleftrightarrow> (\<exists>r. holds_role (env_upstream env) (env_now env) v (rq_headers rq) who k r
     \<and> (role_allows r a \<or> a = ActionConfigure \<and> r = RoleEditor \<and> is_limited_editor_configuration (product_gate env) rq))"

lemma authorize_kbs_product:
  assumes "authorize_kbs (product_gate env) who a rq ks db = (Inr u, db1)" "product_inv db"
  shows "access_view db1 = access_view db \<and> tables db1 = tables db \<and> (\<forall>k\<in>set ks. may_do env rq (access_view db) who a k)"
proof -
  have "tables db1 = tables db"
    using assms(1)
  proof (induction ks arbitrary: db)
    case (Cons k ks)
    from Cons.prems obtain db2 where k: "authorize_kb_action (product_gate env) k who a rq db = (Inr (), db2)"
      "authorize_kbs (product_gate env) who a rq ks db2 = (Inr u, db1)" by (auto split: prod.splits sum.splits)
    from k(1) have "tables db2 = tables db"
      by (auto simp: authorize_kb_action_def Let_def split: if_splits prod.splits sum.splits
          dest!: tables_decide tables_authorize)
    with Cons.IH [OF k(2)] show ?case by simp
  qed simp
  moreover have "access_view db1 = access_view db \<and> (\<forall>k\<in>set ks. may_do env rq (access_view db) who a k)"
    using dc.authorize_kbs_Inr [OF _ assms(1)] assms(2) by (simp add: dc.admitted_def may_do_def)
  ultimately show ?thesis by blast
qed

lemma resolved_Inr [simp]: "resolved r = Inr x \<longleftrightarrow> r = Inr x"
  by (simp add: resolved_def split: sum.splits)

lemma map_sum_Inr [simp]: "map_sum f g r = Inr y \<longleftrightarrow> (\<exists>x. r = Inr x \<and> y = g x)"
  by (cases r) auto

lemma knowledge_kbs_Inr:
  "knowledge_kbs g h is = Inr ks \<Longrightarrow> i \<in> set is \<Longrightarrow> \<exists>k\<in>set ks. gt_kb_for_knowledge g i h = Inr k"
  by (induction "is" arbitrary: ks) (auto split: sum.splits)

lemma agents_kbs_Inr:
  "agents_kbs g h is = Inr ks \<Longrightarrow> i \<in> set is \<Longrightarrow> \<exists>ag. gt_agent_kbs g i h = Inr ag \<and> set (as_kb_ids ag) \<subseteq> set ks"
  by (induction "is" arbitrary: ks) (fastforce split: sum.splits)+

lemma session_scopes_Inr:
  "session_scopes (product_gate env) h is db = (Inr ks, db1) \<Longrightarrow>
   tables db1 = tables db \<and> (\<forall>i\<in>set is. session_kbs i db \<subseteq> set ks)"
proof (induction "is" arbitrary: db ks)
  case (Cons i "is")
  from Cons.prems obtain stored db2 rest where l: "session_list_kbs i db = (Inr stored, db2)"
    "session_scopes (product_gate env) h is db2 = (Inr rest, db1)" "ks = stored @ rest"
    by (auto split: sum.splits prod.splits)
  note f = session_list_kbs_Inr [OF l(1)]
  have "session_kbs j db2 = session_kbs j db" for j
    using tables_eqD [of db2 db] f by (simp add: session_kbs_def)
  with Cons.IH [OF l(2)] f l(3) show ?case by auto
qed simp

text \<open>The knowledge bases a request names, by what the adapter and the sessions table resolve.\<close>

definition named_kbs where
  "named_kbs env h path scope sessions db =
     set path \<union> set (rs_kb_ids scope)
   \<union> {k. \<exists>i\<in>set (rs_knowledge_ids scope). i \<noteq> [] \<and> env_kb_for_knowledge env i h = Inr k}
   \<union> {k. \<exists>i\<in>set (rs_agent_ids scope). i \<noteq> [] \<and> (\<exists>ag. env_agent_kbs env i h = Inr ag \<and> k \<in> set (as_kb_ids ag))}
   \<union> {k. \<exists>i\<in>set sessions. i \<noteq> [] \<and> k \<in> session_kbs i db}"

text \<open>The part of \<open>collect_request\<close> after the scope.\<close>

lemma collected_names:
  assumes "knowledge_kbs (product_gate env) h (unique (rs_knowledge_ids scope)) = Inr known"
    and "agents_kbs (product_gate env) h (unique (rs_agent_ids scope)) = Inr bound"
    and "session_scopes (product_gate env) h (unique sessions) db = (Inr stored, db1)"
    and "k \<in> named_kbs env h path scope sessions db" "k \<noteq> []"
  shows "k \<in> set (unique (path @ rs_kb_ids scope @ known @ bound @ stored))"
proof -
  have "k \<in> set known" if "i \<in> set (rs_knowledge_ids scope)" "i \<noteq> []" "env_kb_for_knowledge env i h = Inr k" for i
    using knowledge_kbs_Inr [OF assms(1), of i] that by auto
  moreover have "k \<in> set bound" if "i \<in> set (rs_agent_ids scope)" "i \<noteq> []" "env_agent_kbs env i h = Inr ag"
    "k \<in> set (as_kb_ids ag)" for i ag
    using agents_kbs_Inr [OF assms(2), of i] that by auto
  moreover have "k \<in> set stored" if "i \<in> set sessions" "i \<noteq> []" "k \<in> session_kbs i db" for i
    using session_scopes_Inr [OF assms(3)] that by auto
  ultimately show ?thesis using assms(4,5) by (auto simp: named_kbs_def)
qed

lemma authorize_request_Inr:
  assumes "authorize_request (product_gate env) rq who db = (Inr (rq1, meta), db1)"
  shows "\<exists>a kbs sessions db2 db3 db4. env_actions env (rq_method rq) (rq_path rq) = Some a
     \<and> collect_request (product_gate env) rq who db = (Inr (kbs, sessions, rq1), db2)
     \<and> authorize_kbs (product_gate env) who (if is_agent_mutation_path (rq_method rq) (rq_path rq) then ActionRead else a)
         rq1 kbs db2 = (Inr (), db3)
     \<and> withdraw_deleted (product_gate env) who a (rq_headers rq1) kbs db3 = (Inr (), db4)
     \<and> (if kbs = [] then db1 = db4 else record_sessions (product_gate env) kbs sessions db4 = (Inr (), db1))
     \<and> meta = (if kbs = [] then None
         else Some \<lparr>p3_identity = who, p3_kb_ids = kbs, p3_action = a, p3_path = rq_path rq,
                    p3_correlation_id = request_id (rq_headers rq1)\<rparr>)"
proof -
  let ?g = "product_gate env"
  note d = authorize_request_def request_action_def Let_def
  from assms obtain a where a: "\<not> is_unscoped_derived_task_path (rq_path rq)" "env_actions env (rq_method rq) (rq_path rq) = Some a"
    by (auto simp: d split: if_splits option.splits)
  obtain c db2 where c: "collect_request ?g rq who db = (c, db2)" by fastforce
  from assms a c obtain kbs sessions rq' where c': "c = Inr (kbs, sessions, rq')"
    by (cases c) (auto simp: d)
  obtain r3 db3 where k: "authorize_kbs ?g who (if is_agent_mutation_path (rq_method rq) (rq_path rq) then ActionRead else a)
      rq' kbs db2 = (r3, db3)" by fastforce
  from assms a c c' k have k': "r3 = Inr ()" by (cases r3) (simp_all add: d)
  obtain r4 db4 where w: "withdraw_deleted ?g who a (rq_headers rq') kbs db3 = (r4, db4)" by fastforce
  from assms a c c' k k' w have w': "r4 = Inr ()" by (cases r4) (simp_all add: d)
  obtain r5 db5 where s: "(if kbs = [] then (Inr (), db4) else record_sessions ?g kbs sessions db4) = (r5, db5)" by fastforce
  from assms a c c' k k' w w' s have s': "r5 = Inr ()" by (cases r5) (simp_all add: d)
  from assms a c c' k k' w w' s s' have e: "rq1 = rq'" "db1 = db5" "meta = (if kbs = [] then None
         else Some \<lparr>p3_identity = who, p3_kb_ids = kbs, p3_action = a, p3_path = rq_path rq,
                    p3_correlation_id = request_id (rq_headers rq1)\<rparr>)"
    by (auto simp: d)
  show ?thesis
    using a c c' k k' w w' s s' e
    by (intro exI [of _ a] exI [of _ kbs] exI [of _ sessions] exI [of _ db2] exI [of _ db3] exI [of _ db4])
       (simp split: if_splits)
qed



end
