(* ===== verification/GateScope.thy ===== *)
theory GateScope
  imports GateRules
begin

text \<open>
  The properties of the gate that concern what it writes: the body it forwards for a retrieval, the
  agent trail, the session scopes, and the lists it filters.
\<close>

section \<open>Retrievals\<close>

lemma agent_audit_record_log:
  assumes "agent_audit_record e db = (Inr u, db1)"
  shows "\<exists>i. db_agent_audit db1 = db_agent_audit db @ [e\<lparr>ag_id := i, ag_kb_ids := sort (ag_kb_ids e)\<rparr>]"
proof -
  have i: "db_agent_audit b = db_agent_audit a @ [e\<lparr>ag_kb_ids := sort (ag_kb_ids e)\<rparr>]"
    if "insert_agent_audit e a = (Inr u, b)" for e a b
    using that by (auto simp: insert_agent_audit_def exec_def split: if_splits)
  have n: "db_agent_audit (snd (new_id db)) = db_agent_audit db" by simp
  show ?thesis
  proof (cases "ag_id e = []")
    case True
    obtain r db2 where d: "new_id db = (r, db2)" by fastforce
    from True assms d obtain j where "insert_agent_audit (e\<lparr>ag_id := j\<rparr>) db2 = (Inr u, db1)"
      by (auto simp: agent_audit_record_def split: option.splits)
    from i [OF this] n d show ?thesis by (auto intro: exI [of _ j])
  next
    case False
    with assms have "insert_agent_audit e db = (Inr u, db1)" by (simp add: agent_audit_record_def)
    moreover have "e = e\<lparr>ag_id := ag_id e\<rparr>" by simp
    ultimately show ?thesis using i by metis
  qed
qed

text \<open>The event of a forwarded retrieval.\<close>

definition scope_event :: "environment \<Rightarrow> gate_request \<Rightarrow> principal \<Rightarrow> string list \<Rightarrow> string \<Rightarrow> agent_event" where
  "scope_event env rq who kbs i =
     \<lparr>ag_id = i, ag_tenant_id = pr_tenant_id who, ag_actor_user_id = pr_user_id who, ag_client_kind = ClientWeb,
      ag_operation = ''agent.scope.resolve'', ag_kb_ids = sort (unique kbs), ag_outcome = OutcomeSuccess, ag_error_code = [],
      ag_correlation_id = request_id (rq_headers rq), ag_duration = env_duration env, ag_created_at = env_now env\<rparr>"

definition no_agent_trail :: "database \<Rightarrow> database" where
  "no_agent_trail db = db\<lparr>db_agent_audit := [], db_faults := [], db_random := []\<rparr>"

lemma no_agent_trail_record [simp]: "no_agent_trail (snd (agent_audit_record e db)) = no_agent_trail db"
proof -
  have n: "no_agent_trail (snd (new_id db)) = no_agent_trail db" for db
    by (simp add: no_agent_trail_def new_id_def split: list.splits)
  have i: "no_agent_trail (snd (insert_agent_audit e db)) = no_agent_trail db" for e db
    by (simp add: no_agent_trail_def insert_agent_audit_def exec_def statement_def split: list.splits)
  show ?thesis using agent_audit_record_state [of e db] n i by metis
qed

lemma no_agent_trail_tables: "tables a = tables b \<Longrightarrow> no_agent_trail a = no_agent_trail b"
  by (drule arg_cong [of _ _ no_agent_trail]) (simp add: no_agent_trail_def tables_def)

lemma no_agent_trail_eqD:
  assumes "no_agent_trail a = no_agent_trail b"
  shows "access_view a = access_view b" "product_inv a = product_inv b" "db_sessions a = db_sessions b"
proof -
  have s: "db_profiles a = db_profiles (no_agent_trail a)" "db_grants a = db_grants (no_agent_trail a)"
    "db_publications a = db_publications (no_agent_trail a)" "db_subscriptions a = db_subscriptions (no_agent_trail a)"
    "db_sessions a = db_sessions (no_agent_trail a)" "db_revisions a = db_revisions (no_agent_trail a)"
    "db_audit a = db_audit (no_agent_trail a)" for a
    by (simp_all add: no_agent_trail_def)
  show "db_sessions a = db_sessions b" by (subst (1 2) s) (simp add: assms)
  have "db_profiles a = db_profiles b" "db_grants a = db_grants b" "db_publications a = db_publications b"
    "db_subscriptions a = db_subscriptions b"
    unfolding s [of a] s [of b] by (simp_all add: assms)
  then show v: "access_view a = access_view b" by (simp add: access_view_def)
  then show "product_inv a = product_inv b" by (metis rows_good_inv)
qed

lemma forward_scoped_Inr:
  assumes "forward_scoped (product_gate env) rq who kbs document scope db = (Inr (sc, rq1), db1)"
  shows "sc = scope \<and> rq1 = replace_body rq (marshal_object document) \<and> no_agent_trail db1 = no_agent_trail db
    \<and> (\<exists>i. db_agent_audit db1 = db_agent_audit db @ [scope_event env rq1 who kbs i])"
proof -
  let ?rq = "replace_body rq (marshal_object document)"
  let ?e = "(scope_event env ?rq who kbs [])\<lparr>ag_kb_ids := unique kbs\<rparr>"
  have e: "record_agent_scope (product_gate env) ?rq who kbs OutcomeSuccess [] db = agent_audit_record ?e db"
    by (simp add: record_agent_scope_def scope_event_def)
  obtain r db2 where r: "agent_audit_record ?e db = (r, db2)" by fastforce
  with e assms have o: "r = Inr ()" "sc = scope" "rq1 = ?rq" "db1 = db2"
    by (auto simp: forward_scoped_def Let_def split: sum.splits)
  from agent_audit_record_log [OF r [unfolded o(1)]] no_agent_trail_record [of ?e db, unfolded r] o show ?thesis
    by (auto simp: scope_event_def)
qed

lemma retrieval_Inr:
  assumes "resolve_authorized_retrieval_scope (product_gate env) rq who
      (resolve_scope (product_scopes (env_list env) (env_upstream env) (env_now env))) db = (Inr (sc, rq1), db1)"
  shows "\<exists>document kbs. read_json_object (product_gate env) rq = Inr document
     \<and> rq1 = replace_body rq (marshal_object (if kbs = [] then pure_chat_document document else scoped_document kbs document))
     \<and> (kbs = [] \<longrightarrow> is_conversation_stream_path (rq_path rq))
     \<and> sc = empty_scope\<lparr>rs_kb_ids := kbs, rs_session_ids := rs_session_ids (collect_scope False False (JObj document) empty_scope)\<rparr>
     \<and> no_agent_trail db1 = no_agent_trail db
     \<and> (\<exists>i. db_agent_audit db1 = db_agent_audit db @ [scope_event env rq1 who kbs i])"
proof -
  let ?g = "product_gate env"
  note d = resolve_authorized_retrieval_scope_def Let_def
  from assms obtain document where doc: "read_json_object ?g rq = Inr document"
    by (auto simp: d split: sum.splits)
  let ?f = "collect_scope False False (JObj document) empty_scope"
  from assms doc obtain known where known: "knowledge_kbs ?g (rq_headers rq) (unique (rs_knowledge_ids ?f)) = Inr known"
    by (cases "knowledge_kbs ?g (rq_headers rq) (unique (rs_knowledge_ids ?f))") (auto simp: d)
  let ?q = "requested_selection ?g rq (unique (rs_agent_ids ?f)) (unique (rs_kb_ids ?f @ known))"
  from assms doc known obtain sel ids pure where q: "?q = Inr (Some (sel, ids, pure))"
    by (cases ?q) (auto simp: d split: option.splits)
  show ?thesis
  proof (cases pure)
    case True
    with assms doc known q have "forward_scoped ?g rq who [] (pure_chat_document document)
        (empty_scope\<lparr>rs_session_ids := rs_session_ids ?f\<rparr>) db = (Inr (sc, rq1), db1)" by (simp add: d)
    from forward_scoped_Inr [OF this] have f: "sc = empty_scope\<lparr>rs_session_ids := rs_session_ids ?f\<rparr>"
      "rq1 = replace_body rq (marshal_object (pure_chat_document document))" "no_agent_trail db1 = no_agent_trail db"
      "\<exists>i. db_agent_audit db1 = db_agent_audit db @ [scope_event env rq1 who [] i]" by auto
    moreover from q True have "is_conversation_stream_path (rq_path rq)"
      by (auto simp: requested_selection_def split: list.splits sum.splits if_splits)
    ultimately show ?thesis
      using doc by (intro exI [of _ document] exI [of _ "[]"]) (simp add: empty_scope_def)
  next
    case False
    obtain r db2 where r: "resolve_scope (product_scopes (env_list env) (env_upstream env) (env_now env)) sel ids who
        (rq_headers rq) db = (r, db2)" by fastforce
    from assms doc known q False r obtain res where res: "r = Inr res" by (cases r) (auto simp: d split: prod.splits)
    with assms doc known q False r have n: "sr_kb_ids res \<noteq> []" by (auto simp: d)
    with assms doc known q False r res have "forward_scoped ?g rq who (sr_kb_ids res) (scoped_document (sr_kb_ids res) document)
        (empty_scope\<lparr>rs_session_ids := rs_session_ids ?f, rs_kb_ids := sr_kb_ids res\<rparr>) db2 = (Inr (sc, rq1), db1)" by (simp add: d)
    from forward_scoped_Inr [OF this] have f: "sc = empty_scope\<lparr>rs_session_ids := rs_session_ids ?f, rs_kb_ids := sr_kb_ids res\<rparr>"
      "rq1 = replace_body rq (marshal_object (scoped_document (sr_kb_ids res) document))" "no_agent_trail db1 = no_agent_trail db2"
      "\<exists>i. db_agent_audit db1 = db_agent_audit db2 @ [scope_event env rq1 who (sr_kb_ids res) i]" by auto
    moreover note t = tables_scope [OF r]
    have "db_agent_audit db2 = db_agent_audit (tables db2)" by (simp add: tables_def)
    then have "db_agent_audit db2 = db_agent_audit db" by (simp only: t) (simp add: tables_def)
    moreover note no_agent_trail_tables [OF t]
    ultimately show ?thesis
      using doc n by (intro exI [of _ document] exI [of _ "sr_kb_ids res"]) (simp add: empty_scope_def)
  qed
qed

text \<open>A denial of a scope with too many knowledge bases never reaches the trail: its event is invalid.\<close>

lemma oversize_denial_unaudited:
  assumes "64 < length (unique ids)"
  shows "db_agent_audit (snd (record_agent_scope (product_gate env) rq who ids outcome code db)) = db_agent_audit db"
proof -
  have "db_agent_audit (snd (insert_agent_audit e db)) = db_agent_audit db" if "64 < length (ag_kb_ids e)" for e db
    using that by (simp add: insert_agent_audit_def agent_event_valid_def max_audit_scope_def)
  then show ?thesis
    using assms by (simp add: record_agent_scope_def agent_audit_record_def split: prod.splits option.splits)
      (metis new_id_tables(10) snd_conv)
qed

section \<open>Sessions\<close>

lemma collect_request_Inr:
  assumes "collect_request (product_gate env) rq who db = (Inr (kbs, sessions, rq1), db2)"
  shows "\<exists>path scope. resolve_path_kb_ids (product_gate env) rq = Inr path
     \<and> (if is_unified_retrieval_path (rq_path rq) (rq_method rq)
        then \<exists>db0. resolve_authorized_retrieval_scope (product_gate env) rq who
               (resolve_scope (product_scopes (env_list env) (env_upstream env) (env_now env))) db = (Inr (scope, rq1), db0)
             \<and> db_agent_audit db2 = db_agent_audit db0
        else resolve_request_scope (product_gate env) rq = Inr scope \<and> rq1 = rq)
     \<and> no_agent_trail db2 = no_agent_trail db
     \<and> set path \<union> set (rs_kb_ids scope) \<subseteq> insert [] (set kbs)
     \<and> sessions = unique (session_ids_from_path (rq_path rq) @ rs_session_ids scope)
     \<and> (\<forall>i\<in>set sessions. session_kbs i db \<subseteq> insert [] (set kbs))"
proof -
  let ?g = "product_gate env"
  let ?first = "if is_unified_retrieval_path (rq_path rq) (rq_method rq)
    then resolve_authorized_retrieval_scope ?g rq who
      (resolve_scope (product_scopes (env_list env) (env_upstream env) (env_now env))) db
    else (map_sum id (\<lambda>sc. (sc, rq)) (resolve_request_scope ?g rq), db)"
  note d = collect_request_def Let_def
  from assms obtain path where path: "resolve_path_kb_ids ?g rq = Inr path" by (auto simp: d split: sum.splits)
  obtain r db0 where r: "?first = (r, db0)" by fastforce
  from assms path r obtain scope rq' where r': "r = Inr (scope, rq')" by (cases r) (auto simp: d)
  let ?ss = "unique (session_ids_from_path (rq_path rq) @ rs_session_ids scope)"
  have e: "(if trim_suffix_slash (rq_path rq) = ''/api/v1/messages/search'' \<and> rs_session_ids scope = [] then (Inl not_found_error, db0)
      else case knowledge_kbs ?g (rq_headers rq') (unique (rs_knowledge_ids scope)) of Inl e \<Rightarrow> (Inl e, db0)
      | Inr known \<Rightarrow> (case agents_kbs ?g (rq_headers rq') (unique (rs_agent_ids scope)) of Inl e \<Rightarrow> (Inl e, db0)
      | Inr bound \<Rightarrow> (case session_scopes ?g (rq_headers rq') ?ss db0 of (Inl e, s2) \<Rightarrow> (Inl e, s2)
      | (Inr stored, s2) \<Rightarrow> (Inr (unique (path @ rs_kb_ids scope @ known @ bound @ stored), ?ss, rq'), s2))))
      = (Inr (kbs, sessions, rq1), db2)"
    using assms path r unfolding d r' by simp
  obtain q db3 where q: "session_scopes ?g (rq_headers rq') ?ss db0 = (q, db3)" by fastforce
  from e obtain known bound where kb: "knowledge_kbs ?g (rq_headers rq') (unique (rs_knowledge_ids scope)) = Inr known"
    "agents_kbs ?g (rq_headers rq') (unique (rs_agent_ids scope)) = Inr bound"
    by (cases "knowledge_kbs ?g (rq_headers rq') (unique (rs_knowledge_ids scope))";
        cases "agents_kbs ?g (rq_headers rq') (unique (rs_agent_ids scope))") (simp_all split: if_splits)
  from e kb q obtain stored where c: "session_scopes ?g (rq_headers rq') ?ss db0 = (Inr stored, db2)"
    "kbs = unique (path @ rs_kb_ids scope @ known @ bound @ stored)" "sessions = ?ss" "rq1 = rq'"
    by (cases q) (simp_all split: if_splits)
  have t: "tables db2 = tables db0" and k: "\<forall>i\<in>set ?ss. session_kbs i db0 \<subseteq> set stored"
    using session_scopes_Inr [OF c(1)] by auto
  have n: "no_agent_trail db0 = no_agent_trail db"
  proof (cases "is_unified_retrieval_path (rq_path rq) (rq_method rq)")
    case True
    with r r' show ?thesis using retrieval_Inr [of env rq who db scope rq' db0] by fastforce
  next
    case False
    with r show ?thesis by simp
  qed
  have "session_kbs i db0 = session_kbs i db" for i
    using no_agent_trail_eqD(3) [OF n] by (simp add: session_kbs_def)
  moreover have "db_agent_audit db2 = db_agent_audit (tables db2)" by (simp add: tables_def)
  then have "db_agent_audit db2 = db_agent_audit db0" by (simp only: t) (simp add: tables_def)
  then have "if is_unified_retrieval_path (rq_path rq) (rq_method rq)
        then \<exists>db0. resolve_authorized_retrieval_scope ?g rq who
               (resolve_scope (product_scopes (env_list env) (env_upstream env) (env_now env))) db = (Inr (scope, rq1), db0)
             \<and> db_agent_audit db2 = db_agent_audit db0
        else resolve_request_scope ?g rq = Inr scope \<and> rq1 = rq"
    using r r' c(4) by (cases "is_unified_retrieval_path (rq_path rq) (rq_method rq)") auto
  moreover have "no_agent_trail db2 = no_agent_trail db" using no_agent_trail_tables [OF t] n by simp
  moreover have "set path \<union> set (rs_kb_ids scope) \<subseteq> insert [] (set kbs)" "set stored \<subseteq> insert [] (set kbs)"
    by (auto simp: c(2))
  ultimately show ?thesis
    using path k c(3) by (intro exI [of _ path] exI [of _ scope]) fastforce
qed

lemma withdraw_deleted_frame:
  "withdraw_deleted (product_gate env) who a h kbs db = (r, db1) \<Longrightarrow> not_publications db1 = not_publications db"
proof -
  have u: "unpublish_for_deletion (product_publication_service (env_upstream env) (env_lower env) (env_now env)) k who c h s = (q, s1)
      \<Longrightarrow> not_publications s1 = not_publications s" for k c s q s1
    using pv.unpublish_for_deletion_view [of "env_upstream env" "env_lower env" "env_now env" k who c h s] by simp
  have "unpublish_all (product_gate env)
      (unpublish_for_deletion (product_publication_service (env_upstream env) (env_lower env) (env_now env))) who h ks s = (q, s1)
      \<Longrightarrow> not_publications s1 = not_publications s" for ks s q s1
    by (induction ks arbitrary: s) (auto split: prod.splits sum.splits dest!: u)
  then show "withdraw_deleted (product_gate env) who a h kbs db = (r, db1) \<Longrightarrow> ?thesis"
    by (auto simp: withdraw_deleted_def split: if_splits)
qed

lemma record_sessions_Inr:
  "record_sessions (product_gate env) kbs ss db = (Inr u, db1) \<Longrightarrow>
   session_kbs i db1 = (if i \<in> set ss then set kbs \<union> session_kbs i db else session_kbs i db)
   \<and> db1\<lparr>db_sessions := [], db_faults := []\<rparr> = db\<lparr>db_sessions := [], db_faults := []\<rparr>"
proof (induction ss arbitrary: db)
  case (Cons x ss)
  from Cons.prems obtain db2 where r: "session_record_kbs x kbs (env_now env) db = (Inr (), db2)"
    "record_sessions (product_gate env) kbs ss db2 = (Inr u, db1)" by (auto split: prod.splits sum.splits)
  from Cons.IH [OF r(2)] session_record_Inr [OF r(1), of i] show ?case by auto
qed simp

text \<open>The knowledge-base action of a request: binding knowledge to an agent only reads it.\<close>

definition kb_action_of :: "gate_request \<Rightarrow> action \<Rightarrow> action" where
  "kb_action_of rq a = (if is_agent_mutation_path (rq_method rq) (rq_path rq) then ActionRead else a)"

lemma authorized_request:
  assumes "product_inv db" "authorize_request (product_gate env) rq who db = (Inr (rq1, meta), db1)"
  obtains a kbs sessions db2 where "env_actions env (rq_method rq) (rq_path rq) = Some a"
    "collect_request (product_gate env) rq who db = (Inr (kbs, sessions, rq1), db2)"
    "\<forall>k\<in>set kbs. may_do env rq1 (access_view db) who (kb_action_of rq a) k"
    "db_agent_audit db1 = db_agent_audit db2"
    "\<And>i. session_kbs i db1 = (if i \<in> set sessions then set kbs \<union> session_kbs i db else session_kbs i db)"
    "map_option p3_kb_ids meta = (if kbs = [] then None else Some kbs)"
proof -
  from authorize_request_Inr [OF assms(2)] obtain a kbs sessions db2 db3 db4 where r:
    "env_actions env (rq_method rq) (rq_path rq) = Some a"
    "collect_request (product_gate env) rq who db = (Inr (kbs, sessions, rq1), db2)"
    "authorize_kbs (product_gate env) who (kb_action_of rq a) rq1 kbs db2 = (Inr (), db3)"
    "withdraw_deleted (product_gate env) who a (rq_headers rq1) kbs db3 = (Inr (), db4)"
    "if kbs = [] then db1 = db4 else record_sessions (product_gate env) kbs sessions db4 = (Inr (), db1)"
    "map_option p3_kb_ids meta = (if kbs = [] then None else Some kbs)"
    unfolding kb_action_of_def by (metis option.map(1,2) phase3_request.select_convs(2))
  from collect_request_Inr [OF r(2)] have n: "no_agent_trail db2 = no_agent_trail db" by blast
  note v = no_agent_trail_eqD [OF n]
  from authorize_kbs_product [OF r(3)] v assms(1) have k: "tables db3 = tables db2"
    "\<forall>k\<in>set kbs. may_do env rq1 (access_view db) who (kb_action_of rq a) k" by auto
  have t: "db_agent_audit db3 = db_agent_audit (tables db3)" "db_sessions db3 = db_sessions (tables db3)"
    by (simp_all add: tables_def)
  then have "db_agent_audit db3 = db_agent_audit db2" "db_sessions db3 = db_sessions db2"
    by (simp_all only: k) (simp_all add: tables_def)
  with withdraw_deleted_frame [OF r(4)] v(3) have w: "db_agent_audit db4 = db_agent_audit db2" "db_sessions db4 = db_sessions db"
    by (simp_all add: not_publications_def)
  have s: "session_kbs i db1 = (if i \<in> set sessions then set kbs \<union> session_kbs i db else session_kbs i db)
      \<and> db_agent_audit db1 = db_agent_audit db4" for i
  proof (cases "kbs = []")
    case True
    with r(5) w(2) show ?thesis by (simp add: session_kbs_def)
  next
    case False
    with r(5) have "record_sessions (product_gate env) kbs sessions db4 = (Inr (), db1)" by simp
    from record_sessions_Inr [OF this, of i] have
      "session_kbs i db1 = (if i \<in> set sessions then set kbs \<union> session_kbs i db4 else session_kbs i db4)"
      "db_agent_audit (db1\<lparr>db_sessions := [], db_faults := []\<rparr>) = db_agent_audit (db4\<lparr>db_sessions := [], db_faults := []\<rparr>)"
      by simp_all
    with w(2) show ?thesis by (simp add: session_kbs_def)
  qed
  show ?thesis
    by (rule that [OF r(1,2) k(2) _ _ r(6)]) (use s w(1) in simp_all)
qed

text \<open>C26. A chat session accumulates the knowledge bases it has used, and all of them are checked again:
  after a request the gate forwards, the recorded scope of each of its sessions is exactly the set of
  knowledge bases just authorised for the caller, everything recorded before among them, and no other
  session has changed.\<close>

theorem session_scope_authorized:
  assumes "product_inv db" "authorize_request (product_gate env) rq who db = (Inr (rq1, meta), db1)"
  shows "\<exists>a kbs sessions. env_actions env (rq_method rq) (rq_path rq) = Some a
     \<and> (\<forall>k\<in>set kbs. may_do env rq1 (access_view db) who (kb_action_of rq a) k)
     \<and> set (session_ids_from_path (rq_path rq)) \<subseteq> insert [] (set sessions)
     \<and> (\<forall>i. insert [] (session_kbs i db1) = insert [] (if i \<in> set sessions then set kbs else session_kbs i db))
     \<and> (\<forall>i. session_kbs i db \<subseteq> session_kbs i db1)
     \<and> map_option p3_kb_ids meta = (if kbs = [] then None else Some kbs)"
proof -
  obtain a kbs sessions db2 where r: "env_actions env (rq_method rq) (rq_path rq) = Some a"
    "collect_request (product_gate env) rq who db = (Inr (kbs, sessions, rq1), db2)"
    "\<forall>k\<in>set kbs. may_do env rq1 (access_view db) who (kb_action_of rq a) k"
    "\<And>i. session_kbs i db1 = (if i \<in> set sessions then set kbs \<union> session_kbs i db else session_kbs i db)"
    "map_option p3_kb_ids meta = (if kbs = [] then None else Some kbs)"
    using authorized_request [OF assms] by metis
  from collect_request_Inr [OF r(2)] have "set (session_ids_from_path (rq_path rq)) \<subseteq> insert [] (set sessions)"
    "\<forall>i\<in>set sessions. session_kbs i db \<subseteq> insert [] (set kbs)" by auto
  with r show ?thesis by (intro exI [of _ a] exI [of _ kbs] exI [of _ sessions]) auto
qed

lemma sample_chatted_outcome:
  "authorize_request (product_gate sample_env) sample_chat carl (snd sample_granted)
     = (Inr (fst (projr (fst sample_chatted)), snd (projr (fst sample_chatted))), snd sample_chatted)"
  using ok_outcome [OF sample_chatted_ok] by (simp add: sample_chatted_def)

lemma sample_chatted_meta: "map_option p3_kb_ids (snd (projr (fst sample_chatted))) = Some [''kb'']"
  by code_simp

theorem session_scope_authorized_witness:
  "may_do sample_env (fst (projr (fst sample_chatted))) (access_view (snd sample_granted)) carl ActionRead ''kb''
     \<and> insert [] (session_kbs ''chat-1'' (snd sample_chatted)) = {[], ''kb''}"
proof -
  have p: "session_ids_from_path (rq_path sample_chat) = [''chat-1'']"
    "env_actions sample_env (rq_method sample_chat) (rq_path sample_chat) = Some ActionRead" by code_simp+
  have "kb_action_of sample_chat ActionRead = ActionRead" by (simp add: kb_action_of_def)
  with session_scope_authorized [OF sample_granted_ok(2) sample_chatted_outcome] obtain kbs sessions where s:
    "\<forall>k\<in>set kbs. may_do sample_env (fst (projr (fst sample_chatted))) (access_view (snd sample_granted)) carl ActionRead k"
    "''chat-1'' \<in> set sessions" "\<And>i. insert [] (session_kbs i (snd sample_chatted))
       = insert [] (if i \<in> set sessions then set kbs else session_kbs i (snd sample_granted))"
    "Some [''kb''] = (if kbs = [] then None else Some kbs)"
    unfolding p sample_chatted_meta by auto
  then have "kbs = [''kb'']" by (simp split: if_splits)
  with s(1,2) s(3) [of "''chat-1''"] show ?thesis by simp
qed

text \<open>C25. What a retrieval may search is decided by the gate, not by the client: the forwarded body
  asks for exactly the knowledge bases \<open>kbs\<close> on each of which the caller may read, with no other
  identifier left for one, no web search and no MCP service; only a chat whose agent selects nothing
  is forwarded with an empty scope; and the retrieval is in the agent trail, under the caller and with
  that scope.\<close>

theorem retrieval_scope_forwarded:
  assumes "product_inv db" "authorize_request (product_gate env) rq who db = (Inr (rq1, meta), db1)"
    and "is_unified_retrieval_path (rq_path rq) (rq_method rq)"
  shows "\<exists>a kbs forwarded i. env_actions env (rq_method rq) (rq_path rq) = Some a
     \<and> rq_body rq1 = Body (marshal_object forwarded)
     \<and> obj_get ''knowledge_base_ids'' forwarded = Some (string_array kbs) \<and> obj_get ''knowledge_base_id'' forwarded = None
     \<and> obj_get ''web_search_enabled'' forwarded = Some (JBool False)
     \<and> obj_get ''mcp_service_ids'' forwarded = Some (JArr [])
     \<and> (kbs = [] \<longrightarrow> is_conversation_stream_path (rq_path rq))
     \<and> (\<forall>k\<in>set kbs. k \<noteq> [] \<longrightarrow> may_do env rq1 (access_view db) who (kb_action_of rq a) k)
     \<and> db_agent_audit db1 = db_agent_audit db @ [scope_event env rq1 who kbs i]"
proof -
  obtain a kbs sessions db2 where r: "env_actions env (rq_method rq) (rq_path rq) = Some a"
    "collect_request (product_gate env) rq who db = (Inr (kbs, sessions, rq1), db2)"
    "\<forall>k\<in>set kbs. may_do env rq1 (access_view db) who (kb_action_of rq a) k"
    "db_agent_audit db1 = db_agent_audit db2"
    using authorized_request [OF assms(1,2)] by metis
  from collect_request_Inr [OF r(2)] assms(3) obtain scope db0 where c:
    "resolve_authorized_retrieval_scope (product_gate env) rq who
       (resolve_scope (product_scopes (env_list env) (env_upstream env) (env_now env))) db = (Inr (scope, rq1), db0)"
    "db_agent_audit db2 = db_agent_audit db0" "set (rs_kb_ids scope) \<subseteq> insert [] (set kbs)" by auto
  from retrieval_Inr [OF c(1)] obtain document ids where e:
    "rq1 = replace_body rq (marshal_object (if ids = [] then pure_chat_document document else scoped_document ids document))"
    "ids = [] \<longrightarrow> is_conversation_stream_path (rq_path rq)"
    "scope = empty_scope\<lparr>rs_kb_ids := ids, rs_session_ids := rs_session_ids (collect_scope False False (JObj document) empty_scope)\<rparr>"
    "\<exists>i. db_agent_audit db0 = db_agent_audit db @ [scope_event env rq1 who ids i]" by blast
  from e(4) obtain i where "db_agent_audit db0 = db_agent_audit db @ [scope_event env rq1 who ids i]" ..
  moreover have "rs_kb_ids scope = ids" by (simp only: e(3)) simp
  ultimately have d: "rq1 = replace_body rq (marshal_object (if ids = [] then pure_chat_document document else scoped_document ids document))"
    "ids = [] \<longrightarrow> is_conversation_stream_path (rq_path rq)" "rs_kb_ids scope = ids"
    "db_agent_audit db0 = db_agent_audit db @ [scope_event env rq1 who ids i]" using e(1,2) by blast+
  let ?f = "if ids = [] then pure_chat_document document else scoped_document ids document"
  have "obj_get ''knowledge_base_ids'' ?f = Some (string_array ids)" "obj_get ''knowledge_base_id'' ?f = None"
    "obj_get ''web_search_enabled'' ?f = Some (JBool False)" "obj_get ''mcp_service_ids'' ?f = Some (JArr [])"
    by (simp_all add: pure_chat_document_def scoped_document_def string_array_def go_simps)
  moreover have "rq_body rq1 = Body (marshal_object ?f)" by (simp add: d(1) replace_body_def del: if_split)
  moreover have "set ids \<subseteq> insert [] (set kbs)" using c(3) d(3) by simp
  moreover have "db_agent_audit db1 = db_agent_audit db @ [scope_event env rq1 who ids i]" by (simp only: r(4) c(2) d(4))
  ultimately show ?thesis
    using r(1,3) d(2) by (intro exI [of _ a] exI [of _ ids] exI [of _ ?f] exI [of _ i]) auto
qed

theorem retrieval_scope_forwarded_witness:
  "\<exists>kbs forwarded i. rq_body (fst (projr (fst sample_chatted))) = Body (marshal_object forwarded)
     \<and> obj_get ''knowledge_base_ids'' forwarded = Some (string_array kbs) \<and> obj_get ''web_search_enabled'' forwarded = Some (JBool False)
     \<and> db_agent_audit (snd sample_chatted) = db_agent_audit (snd sample_granted)
         @ [scope_event sample_env (fst (projr (fst sample_chatted))) carl kbs i]"
proof -
  have "is_unified_retrieval_path (rq_path sample_chat) (rq_method sample_chat)" by code_simp
  from retrieval_scope_forwarded [OF sample_granted_ok(2) sample_chatted_outcome this] show ?thesis by blast
qed

section \<open>What a request names\<close>

text \<open>Nothing hides in a body: the identifiers the gate finds in a request are those of the query and
  those of every object of the JSON body, at any depth, under any of the recognised keys or as a typed
  resource, and no others.\<close>

theorem body_names_collected:
  assumes "resolve_request_scope g rq = Inr scope" "json_content g rq" "rq_body rq = Body b" "\<not> blank b"
  shows "\<exists>j. gt_parse g b = Some j
     \<and> set (rs_kb_ids scope) = set (query_values ''knowledge_base_id'' rq) \<union> set (query_values ''knowledge_base_ids'' rq)
         \<union> (\<Union>ms\<in>set (json_objects j). own_resource [''kb'', ''knowledge_base''] ms
              \<union> (\<Union>m\<in>set ms. keyed kb_keys (fst m) (snd m)))
     \<and> set (rs_session_ids scope) = (\<Union>ms\<in>set (json_objects j). \<Union>m\<in>set ms.
         keyed ([''session_id'', ''session_ids''] @ (if is_session_batch_path (rq_path rq) then [''ids''] else [])) (fst m) (snd m))"
proof -
  from assms have b: "read_body rq = Inr b" by (auto simp: resolve_request_scope_def read_body_def split: if_splits)
  with assms obtain j where j: "gt_parse g b = Some j"
    "scope = collect_scope (is_knowledge_batch_path (rq_path rq)) (is_session_batch_path (rq_path rq)) j (query_scope rq)"
    by (auto simp: resolve_request_scope_def split: option.splits)
  show ?thesis
    by (intro exI [of _ j]) (simp add: j ckb.collected csession.collected query_scope_def)
qed

theorem body_names_collected_witness:
  "\<exists>scope. resolve_request_scope (product_gate sample_env) sample_chat = Inr scope \<and> set (rs_kb_ids scope) = {''kb''}"
proof -
  have b: "is_Inr (resolve_request_scope (product_gate sample_env) sample_chat)"
    "json_content (product_gate sample_env) sample_chat" "rq_body sample_chat = Body ''chat''" "\<not> blank ''chat''"
    "gt_parse (product_gate sample_env) ''chat'' = Some (JObj sample_body)" "query_values ''knowledge_base_id'' sample_chat = []"
    "query_values ''knowledge_base_ids'' sample_chat = []" by code_simp+
  then obtain scope where s: "resolve_request_scope (product_gate sample_env) sample_chat = Inr scope"
    by (cases "resolve_request_scope (product_gate sample_env) sample_chat") auto
  from body_names_collected [OF s b(2-4)] have "set (rs_kb_ids scope) = {''kb''}"
    unfolding b(5-7) by (auto simp: sample_body_def own_resource_def keyed_def kb_keys_def obj_string_def obj_get_def one_def)
  with s show ?thesis by blast
qed

section \<open>Lists\<close>

lemma record_revisions_view:
  "record_revisions g revision_increment meta event ks db = (r, db1) \<Longrightarrow> access_view db1 = access_view db"
proof (induction ks arbitrary: db)
  case (Cons k ks)
  have i: "revision_increment k a ev sm c t db = (q, db2) \<Longrightarrow> access_view db2 = access_view db" for a ev sm c t q db2
    using revision_increment_tables [of k a ev sm c t db] by (simp add: access_view_def)
  from Cons.prems show ?case by (auto split: prod.splits sum.splits dest!: Cons.IH i)
qed simp

lemma record_activity_view: "record_activity (product_gate env) rp db = (r, db1) \<Longrightarrow> access_view db1 = access_view db"
  by (auto simp: record_activity_def Let_def split: if_splits option.splits dest!: record_revisions_view)


definition sample_filtered :: "(api_error, gate_response, database) outcome" where
  "sample_filtered = filter_response (product_gate sample_env)
     \<lparr>rp_method = ''GET'', rp_path = ''/api/v1/knowledge-bases/'', rp_headers = sample_headers, rp_status = 200,
      rp_body = Body ''list'', rp_content_length = [], rp_identity = Some carl, rp_meta = None\<rparr> (snd sample_granted)"


end
