(* ===== verification/Notes.thy ===== *)
theory Notes
  imports Ownership Database
begin

text \<open>
  internal/note/service.go, the pure part: the data of the notes service and of WeKnora's manual
  knowledge (internal/weknora/client.go), the normalisation of a write, and the file names of an
  import. A Go \<open>int\<close> that only is compared or stored is an \<open>int\<close>; the total and the page number of a
  listing, on which the quota loop computes, keep their 64 bits.
\<close>

section \<open>WeKnora's manual knowledge\<close>

record manual_metadata =
  md_content :: string
  md_format :: string
  md_status :: string
  md_version :: int
  md_updated_at :: string

record manual_note =
  mk_id :: string
  mk_kb_id :: string
  mk_type :: string
  mk_title :: string
  mk_parse_status :: string
  mk_error_message :: string
  mk_metadata :: manual_metadata
  mk_created_at :: time
  mk_updated_at :: time

record manual_input =
  mi_title :: string
  mi_content :: string
  mi_status :: string
  mi_channel :: string

record manual_page =
  mp_items :: "manual_note list"
  mp_total :: u64
  mp_page :: u64
  mp_page_size :: u64

abbreviation note_content :: "manual_note \<Rightarrow> string" where
  "note_content n \<equiv> md_content (mk_metadata n)"

abbreviation note_version :: "manual_note \<Rightarrow> int" where
  "note_version n \<equiv> md_version (mk_metadata n)"

text \<open>The checks of the client on the decoded answers; the decoded answer itself is WeKnora's.\<close>

definition valid_manual_knowledge :: "manual_note \<Rightarrow> string \<Rightarrow> bool" where
  "valid_manual_knowledge n kb \<longleftrightarrow>
     mk_id n \<noteq> [] \<and> mk_kb_id n = kb \<and> mk_type n = ''manual'' \<and> md_format (mk_metadata n) = ''markdown''"

definition checked_page :: "string \<Rightarrow> bool \<times> manual_page \<Rightarrow> upstream_error + manual_page" where
  "checked_page kb response =
     (case response of (ok, p) \<Rightarrow>
        if \<not> ok \<or> sint (mp_page p) < 1 \<or> sint (mp_page_size p) < 1 \<or> sint (mp_total p) < 0 then
          Inl (UpstreamError ''upstream.invalid_response'' 502)
        else if \<not> list_all (\<lambda>n. valid_manual_knowledge n kb) (mp_items p) then
          Inl (UpstreamError ''upstream.invalid_response'' 502)
        else Inr p)"

definition checked_note :: "string \<Rightarrow> bool \<times> manual_note \<Rightarrow> upstream_error + manual_note" where
  "checked_note kb response =
     (case response of (ok, n) \<Rightarrow>
        if \<not> ok \<or> \<not> valid_manual_knowledge n kb then Inl (UpstreamError ''upstream.invalid_response'' 502) else Inr n)"

definition checked_done :: "bool \<Rightarrow> upstream_error + unit" where
  "checked_done ok = (if \<not> ok then Inl (UpstreamError ''upstream.invalid_response'' 502) else Inr ())"

definition decoded :: "('a \<Rightarrow> upstream_error + 'b) \<Rightarrow> (upstream_error, 'a, 's) outcome \<Rightarrow> (upstream_error, 'b, 's) outcome" where
  "decoded check r = (case r of (Inl e, s) \<Rightarrow> (Inl e, s) | (Inr x, s) \<Rightarrow> (check x, s))"

section \<open>The notes service's data\<close>

definition max_note_page :: int where "max_note_page = 10"

definition max_note_count :: int where "max_note_count = 500"

definition max_corpus_bytes :: int where "max_corpus_bytes = 2097152"

datatype note_error = NoteError api_error | NoteFailed policy_error

record write_input =
  wi_title :: string
  wi_content :: string
  wi_status :: string
  wi_expected_version :: "int option"

record restore_input =
  ri_expected_version :: int
  ri_target_version :: int

record user_note =
  nt_id :: string
  nt_kb_id :: string
  nt_title :: string
  nt_content :: string
  nt_status :: string
  nt_version :: int
  nt_parse_status :: string
  nt_error_message :: string
  nt_created_at :: time
  nt_updated_at :: time

record note_summary =
  sm_id :: string
  sm_title :: string
  sm_status :: string
  sm_version :: int
  sm_content_size :: int
  sm_parse_status :: string
  sm_updated_at :: time

record note_page =
  np_items :: "note_summary list"
  np_total :: u64
  np_page :: u64
  np_page_size :: u64

definition note_invalid :: note_error where
  "note_invalid = NoteError (ApiError ''note.invalid_request'' 400)"

definition note_from_upstream :: "manual_note \<Rightarrow> user_note" where
  "note_from_upstream n =
     \<lparr>nt_id = mk_id n, nt_kb_id = mk_kb_id n, nt_title = mk_title n, nt_content = note_content n,
      nt_status = md_status (mk_metadata n), nt_version = note_version n, nt_parse_status = mk_parse_status n,
      nt_error_message = mk_error_message n, nt_created_at = mk_created_at n, nt_updated_at = mk_updated_at n\<rparr>"

definition note_summary_of :: "manual_note \<Rightarrow> note_summary" where
  "note_summary_of n =
     \<lparr>sm_id = mk_id n, sm_title = mk_title n, sm_status = md_status (mk_metadata n), sm_version = note_version n,
      sm_content_size = int (length (note_content n)), sm_parse_status = mk_parse_status n, sm_updated_at = mk_updated_at n\<rparr>"

definition manual_input_of :: "write_input \<Rightarrow> manual_input" where
  "manual_input_of w =
     \<lparr>mi_title = wi_title w, mi_content = wi_content w, mi_status = wi_status w, mi_channel = ''web''\<rparr>"

fun translate_note_upstream :: "upstream_error \<Rightarrow> note_error" where
  "translate_note_upstream TransportError = NoteError (ApiError ''note.upstream_failed'' 502)"
| "translate_note_upstream (UpstreamError code status) =
     NoteError (ApiError (if code = ''upstream.not_found'' then ''note.not_found'' else ''note.upstream_failed'') status)"

definition revision_state_error :: note_error where
  "revision_state_error = NoteError (ApiError ''note.revision_state_unavailable'' 503)"

section \<open>Writes\<close>

text \<open>\<open>strings.ReplaceAll(s, "\\r\\n", "\\n")\<close>.\<close>

fun replace_crlf :: "string \<Rightarrow> string" where
  "replace_crlf [] = []"
| "replace_crlf [a] = [a]"
| "replace_crlf (a # b # s) =
     (if a = CHR 0x0D \<and> b = CHR 0x0A then CHR 0x0A # replace_crlf s else a # replace_crlf (b # s))"

lemma length_replace_crlf: "length (replace_crlf s) \<le> length s"
  by (induction s rule: replace_crlf.induct) auto

definition normalize_note :: "(string \<Rightarrow> string) \<Rightarrow> write_input \<Rightarrow> note_error + write_input" where
  "normalize_note ulower w =
     (let title = trim_space (wi_title w); content = replace_crlf (wi_content w);
          lowered = to_lower ulower (trim_space (wi_status w));
          status = (if lowered = [] then ''publish'' else lowered) in
      if title = [] \<or> blank content \<or> (status \<noteq> ''draft'' \<and> status \<noteq> ''publish'') then Inl note_invalid
      else if \<not> utf8_valid title \<or> \<not> utf8_valid content then Inl (NoteError (ApiError ''note.invalid_utf8'' 400))
      else if int (length content) > max_note_bytes then Inl (NoteError (ApiError ''note.size_quota_exceeded'' 413))
      else Inr (w\<lparr>wi_title := title, wi_content := content, wi_status := status\<rparr>))"

text \<open>\<open>filepath.Base\<close> and \<open>filepath.Ext\<close>.\<close>

definition file_base :: "string \<Rightarrow> string" where
  "file_base p =
     (if p = [] then ''.''
      else let stem = rev (dropWhile (\<lambda>c. c = CHR ''/'') (rev p));
               name = rev (takeWhile (\<lambda>c. c \<noteq> CHR ''/'') (rev stem))
           in if name = [] then ''/'' else name)"

definition file_ext :: "string \<Rightarrow> string" where
  "file_ext p =
     (let tail = takeWhile (\<lambda>c. c \<noteq> CHR ''.'' \<and> c \<noteq> CHR ''/'') (rev p); rest = drop (length tail) (rev p)
      in if rest \<noteq> [] \<and> hd rest = CHR ''.'' then CHR ''.'' # rev tail else [])"

text \<open>\<open>strings.TrimSuffix\<close>.\<close>

definition trim_suffix :: "string \<Rightarrow> string \<Rightarrow> string" where
  "trim_suffix s suffix = (if has_suffix s suffix then take (length s - length suffix) s else s)"

text \<open>The input an import makes of a file.\<close>

definition import_input :: "(string \<Rightarrow> string) \<Rightarrow> string \<Rightarrow> string \<Rightarrow> note_error + write_input" where
  "import_input ulower filename content =
     (let base = file_base (trim_space filename); ext = to_lower ulower (file_ext base) in
      if base = ''.'' \<or> base = [] \<or> (ext \<noteq> ''.md'' \<and> ext \<noteq> ''.txt'') then
        Inl (NoteError (ApiError ''note.file_type_unsupported'' 415))
      else if \<not> utf8_valid content then Inl (NoteError (ApiError ''note.invalid_utf8'' 400))
      else Inr \<lparr>wi_title = trim_space (trim_suffix base (file_ext base)), wi_content = content,
                wi_status = ''publish'', wi_expected_version = None\<rparr>)"

lemma normalize_note_Inr:
  assumes "normalize_note ulower w = Inr n"
  shows "\<not> blank (wi_title n) \<and> \<not> blank (wi_content n) \<and> wi_status n \<in> {''draft'', ''publish''}
    \<and> utf8_valid (wi_title n) \<and> utf8_valid (wi_content n) \<and> int (length (wi_content n)) \<le> max_note_bytes
    \<and> wi_content n = replace_crlf (wi_content w) \<and> wi_title n = trim_space (wi_title w)"
  using assms by (auto simp: normalize_note_def Let_def trim_space_idem split: if_splits)

text \<open>What normalisation has accepted, it accepts again: the title, the status and the limits are final.\<close>

lemma normalize_note_again:
  assumes "normalize_note ulower w = Inr n"
  shows "normalize_note ulower (n\<lparr>wi_content := c\<rparr>) =
    (if blank (replace_crlf c) then Inl note_invalid
     else if \<not> utf8_valid (replace_crlf c) then Inl (NoteError (ApiError ''note.invalid_utf8'' 400))
     else if int (length (replace_crlf c)) > max_note_bytes then Inl (NoteError (ApiError ''note.size_quota_exceeded'' 413))
     else Inr (n\<lparr>wi_content := replace_crlf c\<rparr>))"
proof -
  have s: "trim_space ''draft'' = ''draft''" "to_lower ulower ''draft'' = ''draft''"
    "trim_space ''publish'' = ''publish''" "to_lower ulower ''publish'' = ''publish''"
    by (code_simp | simp add: to_lower_def is_ascii_def lower_char_def)+
  from normalize_note_Inr [OF assms] have "trim_space (wi_title n) = wi_title n" by (simp add: trim_space_idem)
  with normalize_note_Inr [OF assms] s show ?thesis
    by (auto simp: normalize_note_def Let_def)
qed

end
