(* ===== verification/NoteRepository.thy ===== *)
theory NoteRepository
  imports Notes ProfileRepository
begin

text \<open>
  internal/note/revision_repository.go over the table \<open>note_revisions\<close> (migration 000004): one row per
  knowledge base, note and version, never updated. SHA-256 in hexadecimal is the parameter
  \<open>sha256hex\<close>; its 64 digits fill the \<open>char(64)\<close> column.
\<close>

definition nr_key :: "note_revision \<Rightarrow> string \<times> string \<times> int" where
  "nr_key r = (nr_kb_id r, nr_note_id r, nr_version r)"

definition max_int32 :: int where "max_int32 = 2147483647"

definition note_row_ok :: "note_revision \<Rightarrow> bool" where
  "note_row_ok r \<longleftrightarrow>
     varchar 128 (nr_kb_id r) \<and> varchar 128 (nr_note_id r) \<and> 0 < nr_version r \<and> nr_version r \<le> max_int32
   \<and> varchar 200 (nr_title r) \<and> pg_text (nr_content r) \<and> int (length (nr_content r)) \<le> 65536
   \<and> nr_status r \<in> set [''draft'', ''publish'']
   \<and> nr_operation r \<in> set [''create'', ''edit'', ''import'', ''restore'', ''snapshot'']
   \<and> (case nr_restored_from r of None \<Rightarrow> True | Some v \<Rightarrow> 0 < v \<and> v \<le> max_int32)
   \<and> varchar 64 (nr_sha256 r) \<and> varchar 128 (nr_actor_user_id r)"

text \<open>\<open>INSERT ... ON CONFLICT DO NOTHING\<close>: whether a row was inserted.\<close>

definition insert_note_revision :: "note_revision \<Rightarrow> database \<Rightarrow> (note_revision_error, bool, database) outcome" where
  "insert_note_revision r =
     exec NoteRevisionFailed (\<lambda>db.
       if \<not> note_row_ok r then (Inl NoteRevisionFailed, db)
       else if nr_key r \<in> set (map nr_key (db_note_revisions db)) then (Inr False, db)
       else if nr_kb_id r \<notin> set (map pf_kb_id (db_profiles db)) then (Inl NoteRevisionFailed, db)
       else (Inr True, db\<lparr>db_note_revisions := db_note_revisions db @ [r]\<rparr>))"

definition note_revision_get ::
    "string \<Rightarrow> string \<Rightarrow> int \<Rightarrow> database \<Rightarrow> (note_revision_error, note_revision, database) outcome" where
  "note_revision_get kb i v =
     query NoteRevisionFailed (\<lambda>db.
       case find (\<lambda>r. nr_key r = (kb, i, v)) (db_note_revisions db) of
         None \<Rightarrow> Inl NoteRevisionNotFound
       | Some r \<Rightarrow> Inr r)"

text \<open>The list leaves the contents out.\<close>

definition note_revision_list ::
    "string \<Rightarrow> string \<Rightarrow> database \<Rightarrow> (note_revision_error, note_revision list, database) outcome" where
  "note_revision_list kb i =
     query NoteRevisionFailed (\<lambda>db.
       Inr (map (\<lambda>r. r\<lparr>nr_content := []\<rparr>)
         (rev (sort_key nr_version (filter (\<lambda>r. nr_kb_id r = kb \<and> nr_note_id r = i) (db_note_revisions db))))))"

definition note_revision_row :: "(string \<Rightarrow> string) \<Rightarrow> time \<Rightarrow> note_revision \<Rightarrow> note_revision" where
  "note_revision_row sha256hex now c =
     c\<lparr>nr_sha256 := revision_hash sha256hex (nr_title c) (nr_content c) (nr_status c),
       nr_recorded_at := (if is_zero_time (nr_recorded_at c) then now else nr_recorded_at c)\<rparr>"

definition note_revision_record ::
    "(string \<Rightarrow> string) \<Rightarrow> time \<Rightarrow> note_revision \<Rightarrow> database \<Rightarrow> (note_revision_error, note_revision, database) outcome" where
  "note_revision_record sha256hex now c db =
     (if \<not> note_revision_valid c then (Inl NoteRevisionFailed, db)
      else let r = note_revision_row sha256hex now c in
        (case insert_note_revision r db of
           (Inl e, db1) \<Rightarrow> (Inl e, db1)
         | (Inr True, db1) \<Rightarrow> (Inr r, db1)
         | (Inr False, db1) \<Rightarrow>
             (case note_revision_get (nr_kb_id c) (nr_note_id c) (nr_version c) db1 of
                (Inl e, db2) \<Rightarrow> (Inl e, db2)
              | (Inr existing, db2) \<Rightarrow>
                  if nr_sha256 existing \<noteq> nr_sha256 r then (Inl NoteRevisionConflict, db2) else (Inr existing, db2))))"

section \<open>An append-only history\<close>

definition history_unique :: "note_revision list \<Rightarrow> bool" where
  "history_unique rows \<longleftrightarrow> distinct (map nr_key rows)"

lemma nr_key_row [simp]: "nr_key (note_revision_row sha now c) = nr_key c"
  by (simp add: nr_key_def note_revision_row_def)

definition but_notes :: "database \<Rightarrow> database" where
  "but_notes db = db\<lparr>db_note_revisions := [], db_faults := []\<rparr>"

lemma but_notes_statement [simp]: "but_notes (snd (statement db)) = but_notes db"
  by (simp add: but_notes_def statement_def split: list.splits)

lemma insert_note_revision_rows:
  "insert_note_revision r db = (q, db1) \<Longrightarrow>
   but_notes db1 = but_notes db \<and> (case q of
     Inr True \<Rightarrow> db_note_revisions db1 = db_note_revisions db @ [r] \<and> nr_key r \<notin> nr_key ` set (db_note_revisions db)
   | Inr False \<Rightarrow> db_note_revisions db1 = db_note_revisions db \<and> nr_key r \<in> nr_key ` set (db_note_revisions db)
   | Inl _ \<Rightarrow> db_note_revisions db1 = db_note_revisions db)"
proof -
  have b: "but_notes (db\<lparr>db_note_revisions := rs\<rparr>) = but_notes db" for rs db by (simp add: but_notes_def)
  show "insert_note_revision r db = (q, db1) \<Longrightarrow> ?thesis"
    by (auto simp: insert_note_revision_def exec_def b split: if_splits)
qed

lemma find_SomeD: "find P xs = Some x \<Longrightarrow> x \<in> set xs \<and> P x"
  by (induction xs) (auto split: if_splits)

lemma note_revision_get_state:
  "note_revision_get kb i v db = (q, db1) \<Longrightarrow>
   but_notes db1 = but_notes db \<and> db_note_revisions db1 = db_note_revisions db
   \<and> (\<forall>r. q = Inr r \<longrightarrow> r \<in> set (db_note_revisions db) \<and> nr_key r = (kb, i, v))"
  by (auto simp: note_revision_get_def query_def split: if_splits option.splits dest!: find_SomeD)

text \<open>
  What a record does to the history: it is kept, with at most the recorded row at its end; the answer
  is the row of its version, with the hash of the candidate.
\<close>

lemma note_revision_record_history:
  assumes "note_revision_record sha now c db = (q, db1)"
  shows "but_notes db1 = but_notes db
    \<and> (db_note_revisions db1 = db_note_revisions db
       \<or> (db_note_revisions db1 = db_note_revisions db @ [note_revision_row sha now c]
          \<and> nr_key c \<notin> nr_key ` set (db_note_revisions db)))
    \<and> (\<forall>r. q = Inr r \<longrightarrow> r \<in> set (db_note_revisions db1) \<and> nr_key r = nr_key c
         \<and> nr_sha256 r = revision_hash sha (nr_title c) (nr_content c) (nr_status c))"
proof (cases "note_revision_valid c")
  case True
  let ?r = "note_revision_row sha now c"
  obtain q1 db2 where i: "insert_note_revision ?r db = (q1, db2)" by fastforce
  note rows = insert_note_revision_rows [OF i, simplified]
  show ?thesis
  proof (cases q1)
    case (Inl e)
    with assms True i rows show ?thesis by (auto simp: note_revision_record_def Let_def)
  next
    case (Inr new)
    show ?thesis
    proof (cases new)
      case True
      with Inr assms \<open>note_revision_valid c\<close> i rows show ?thesis
        by (auto simp: note_revision_record_def Let_def) (simp_all add: note_revision_row_def nr_key_def)
    next
      case False
      obtain g db3 where g: "note_revision_get (nr_kb_id c) (nr_note_id c) (nr_version c) db2 = (g, db3)" by fastforce
      from False Inr assms \<open>note_revision_valid c\<close> i g rows note_revision_get_state [OF g] show ?thesis
        by (cases g) (auto simp: note_revision_record_def Let_def note_revision_row_def nr_key_def split: if_splits)
    qed
  qed
qed (use assms in \<open>auto simp: note_revision_record_def\<close>)

end
