(* ===== verification/NoteService.thy ===== *)
theory NoteService
  imports NoteRepository
begin

text \<open>
  internal/note/service.go: the owner-only operations on Personal Notes. The profiles, the revision
  history and WeKnora are the fields of the service; WeKnora's answers are those of the client after
  its checks, and its calls change the state.
\<close>

record 's note_service =
  nsv_profile :: "string \<Rightarrow> 's \<Rightarrow> (profile_error, profile, 's) outcome"
  nsv_list :: "string \<Rightarrow> u64 \<Rightarrow> u64 \<Rightarrow> headers \<Rightarrow> 's \<Rightarrow> (upstream_error, manual_page, 's) outcome"
  nsv_get :: "string \<Rightarrow> string \<Rightarrow> headers \<Rightarrow> 's \<Rightarrow> (upstream_error, manual_note, 's) outcome"
  nsv_create :: "string \<Rightarrow> manual_input \<Rightarrow> headers \<Rightarrow> 's \<Rightarrow> (upstream_error, manual_note, 's) outcome"
  nsv_update :: "string \<Rightarrow> string \<Rightarrow> manual_input \<Rightarrow> headers \<Rightarrow> 's \<Rightarrow> (upstream_error, manual_note, 's) outcome"
  nsv_delete :: "string \<Rightarrow> headers \<Rightarrow> 's \<Rightarrow> (upstream_error, unit, 's) outcome"
  nsv_record :: "note_revision \<Rightarrow> 's \<Rightarrow> (note_revision_error, note_revision, 's) outcome"
  nsv_revisions :: "string \<Rightarrow> string \<Rightarrow> 's \<Rightarrow> (note_revision_error, note_revision list, 's) outcome"
  nsv_revision :: "string \<Rightarrow> string \<Rightarrow> int \<Rightarrow> 's \<Rightarrow> (note_revision_error, note_revision, 's) outcome"
  nsv_lower :: "string \<Rightarrow> string"

section \<open>Authorization\<close>

definition note_authorize :: "'s note_service \<Rightarrow> string \<Rightarrow> principal \<Rightarrow> operation \<Rightarrow> 's \<Rightarrow> (note_error, unit, 's) outcome" where
  "note_authorize svc kb who action s =
     (if blank kb then (Inl note_invalid, s)
      else case nsv_profile svc kb s of
        (Inl ProfileNotFound, s1) \<Rightarrow> (Inl (NoteError (ApiError ''note_space.not_found'' 404)), s1)
      | (Inl _, s1) \<Rightarrow> (Inl (NoteError (ApiError ''note.state_unavailable'' 503)), s1)
      | (Inr p, s1) \<Rightarrow>
          if pf_product_mode p \<noteq> ModePersonalNotes then (Inl (NoteError (ApiError ''note_space.mode_required'' 409)), s1)
          else (case notes_authorize p who action of
            None \<Rightarrow> (Inr (), s1)
          | Some (PolicyDenied e) \<Rightarrow> (Inl (NoteError e), s1)
          | Some UnknownOperation \<Rightarrow> (Inl (NoteFailed UnknownOperation), s1)))"

section \<open>The quota\<close>

definition content_bytes :: "manual_note list \<Rightarrow> int" where
  "content_bytes ns = sum_list (map (\<lambda>n. int (length (note_content n))) ns)"

text \<open>
  The loop over the pages. It ends because every round but the last sees at least one more item and
  stays below the total of its page, a 64-bit number.
\<close>

function quota_loop :: "'s note_service \<Rightarrow> string \<Rightarrow> headers \<Rightarrow> manual_page \<Rightarrow> int \<Rightarrow> int \<Rightarrow> 's \<Rightarrow> (note_error, int, 's) outcome" where
  "quota_loop svc kb h p seen bytes s =
     (let seen1 = seen + int (length (mp_items p)); bytes1 = bytes + content_bytes (mp_items p) in
      if seen1 \<ge> sint (mp_total p) then (Inr bytes1, s)
      else if mp_items p = [] then (Inl (NoteError (ApiError ''note.upstream_failed'' 502)), s)
      else (case nsv_list svc kb (mp_page p + 1) (word_of_int max_note_page) h s of
        (Inl e, s1) \<Rightarrow> (Inl (translate_note_upstream e), s1)
      | (Inr next_page, s1) \<Rightarrow> quota_loop svc kb h next_page seen1 bytes1 s1))"
  by pat_completeness auto
termination
proof (relation "measure (\<lambda>(svc, kb, h, p, seen, bytes, s). nat (2 ^ 63 - seen))", goal_cases)
  case (2 svc kb h p seen bytes s seen1 bytes1 r s1 next_page)
  have "sint (mp_total p) < 2 ^ 63" using sint_lt [of "mp_total p"] by simp
  moreover from 2 have "seen < seen1" by (simp add: length_greater_0_conv)
  ultimately show ?case using 2 by simp
qed simp

declare quota_loop.simps [simp del]

definition enforce_quota ::
    "'s note_service \<Rightarrow> string \<Rightarrow> int \<Rightarrow> int \<Rightarrow> bool \<Rightarrow> headers \<Rightarrow> 's \<Rightarrow> (note_error, unit, 's) outcome" where
  "enforce_quota svc kb new_bytes replaced_bytes replacing h s =
     (case nsv_list svc kb 1 (word_of_int max_note_page) h s of
        (Inl e, s1) \<Rightarrow> (Inl (translate_note_upstream e), s1)
      | (Inr p, s1) \<Rightarrow>
          if \<not> replacing \<and> sint (mp_total p) \<ge> max_note_count then
            (Inl (NoteError (ApiError ''note.count_quota_exceeded'' 409)), s1)
          else (case quota_loop svc kb h p 0 0 s1 of
            (Inl e, s2) \<Rightarrow> (Inl e, s2)
          | (Inr bytes, s2) \<Rightarrow>
              if bytes + new_bytes - (if replacing then replaced_bytes else 0) > max_corpus_bytes then
                (Inl (NoteError (ApiError ''note.corpus_quota_exceeded'' 409)), s2)
              else (Inr (), s2)))"

section \<open>Operations\<close>

definition record_revision ::
    "'s note_service \<Rightarrow> manual_note \<Rightarrow> string \<Rightarrow> string \<Rightarrow> int option \<Rightarrow> 's \<Rightarrow> (note_error, note_revision, 's) outcome" where
  "record_revision svc item op actor restored_from s =
     (case nsv_record svc
         \<lparr>nr_kb_id = mk_kb_id item, nr_note_id = mk_id item, nr_version = note_version item, nr_title = mk_title item,
          nr_content = note_content item, nr_status = md_status (mk_metadata item), nr_operation = op,
          nr_restored_from = restored_from, nr_sha256 = [], nr_actor_user_id = actor, nr_recorded_at = 0\<rparr> s of
        (Inl e, s1) \<Rightarrow> (Inl revision_state_error, s1)
      | (Inr r, s1) \<Rightarrow> (Inr r, s1))"

definition note_list ::
    "'s note_service \<Rightarrow> string \<Rightarrow> u64 \<Rightarrow> u64 \<Rightarrow> principal \<Rightarrow> headers \<Rightarrow> 's \<Rightarrow> (note_error, note_page, 's) outcome" where
  "note_list svc kb page sz who h s =
     (case note_authorize svc kb who OpRead s of
        (Inl e, s1) \<Rightarrow> (Inl e, s1)
      | (Inr _, s1) \<Rightarrow>
          if sint page < 1 \<or> sint sz < 1 \<or> sint sz > max_note_page then (Inl note_invalid, s1)
          else (case nsv_list svc kb page sz h s1 of
            (Inl e, s2) \<Rightarrow> (Inl (translate_note_upstream e), s2)
          | (Inr p, s2) \<Rightarrow>
              (Inr \<lparr>np_items = map note_summary_of (mp_items p), np_total = mp_total p, np_page = mp_page p,
                    np_page_size = mp_page_size p\<rparr>, s2)))"

definition note_get :: "'s note_service \<Rightarrow> string \<Rightarrow> string \<Rightarrow> principal \<Rightarrow> headers \<Rightarrow> 's \<Rightarrow> (note_error, user_note, 's) outcome" where
  "note_get svc kb i who h s =
     (case note_authorize svc kb who OpRead s of
        (Inl e, s1) \<Rightarrow> (Inl e, s1)
      | (Inr _, s1) \<Rightarrow>
          (case nsv_get svc kb i h s1 of
             (Inl e, s2) \<Rightarrow> (Inl (translate_note_upstream e), s2)
           | (Inr item, s2) \<Rightarrow>
               (case record_revision svc item ''snapshot'' (pr_user_id who) None s2 of
                  (Inl e, s3) \<Rightarrow> (Inl e, s3)
                | (Inr _, s3) \<Rightarrow> (Inr (note_from_upstream item), s3))))"

definition note_create_as ::
    "'s note_service \<Rightarrow> string \<Rightarrow> write_input \<Rightarrow> string \<Rightarrow> principal \<Rightarrow> headers \<Rightarrow> 's \<Rightarrow> (note_error, user_note, 's) outcome" where
  "note_create_as svc kb w op who h s =
     (case note_authorize svc kb who OpWrite s of
        (Inl e, s1) \<Rightarrow> (Inl e, s1)
      | (Inr _, s1) \<Rightarrow>
        (case normalize_note (nsv_lower svc) w of
           Inl e \<Rightarrow> (Inl e, s1)
         | Inr n \<Rightarrow>
           (case enforce_quota svc kb (int (length (wi_content n))) 0 False h s1 of
              (Inl e, s2) \<Rightarrow> (Inl e, s2)
            | (Inr _, s2) \<Rightarrow>
              (case nsv_create svc kb (manual_input_of n) h s2 of
                 (Inl e, s3) \<Rightarrow> (Inl (translate_note_upstream e), s3)
               | (Inr item, s3) \<Rightarrow>
                 (case record_revision svc item op (pr_user_id who) None s3 of
                    (Inl e, s4) \<Rightarrow> (Inl e, snd (nsv_delete svc (mk_id item) h s4))
                  | (Inr _, s4) \<Rightarrow> (Inr (note_from_upstream item), s4))))))"

definition note_create ::
    "'s note_service \<Rightarrow> string \<Rightarrow> write_input \<Rightarrow> principal \<Rightarrow> headers \<Rightarrow> 's \<Rightarrow> (note_error, user_note, 's) outcome" where
  "note_create svc kb w who h s = note_create_as svc kb w ''create'' who h s"

definition note_import ::
    "'s note_service \<Rightarrow> string \<Rightarrow> string \<Rightarrow> string \<Rightarrow> principal \<Rightarrow> headers \<Rightarrow> 's \<Rightarrow> (note_error, user_note, 's) outcome" where
  "note_import svc kb filename content who h s =
     (case note_authorize svc kb who OpWrite s of
        (Inl e, s1) \<Rightarrow> (Inl e, s1)
      | (Inr _, s1) \<Rightarrow>
          (case import_input (nsv_lower svc) filename content of
             Inl e \<Rightarrow> (Inl e, s1)
           | Inr w \<Rightarrow> note_create_as svc kb w ''import'' who h s1))"

text \<open>What \<open>Update\<close> and \<open>Restore\<close> do first: read the note and snapshot it.\<close>

definition open_note :: "'s note_service \<Rightarrow> string \<Rightarrow> string \<Rightarrow> principal \<Rightarrow> headers \<Rightarrow> 's \<Rightarrow> (note_error, manual_note, 's) outcome" where
  "open_note svc kb i who h s =
     (case note_authorize svc kb who OpWrite s of
        (Inl e, s1) \<Rightarrow> (Inl e, s1)
      | (Inr _, s1) \<Rightarrow>
          (case nsv_get svc kb i h s1 of
             (Inl e, s2) \<Rightarrow> (Inl (translate_note_upstream e), s2)
           | (Inr existing, s2) \<Rightarrow>
               (case record_revision svc existing ''snapshot'' (pr_user_id who) None s2 of
                  (Inl e, s3) \<Rightarrow> (Inl e, s3)
                | (Inr _, s3) \<Rightarrow> (Inr existing, s3))))"

text \<open>What both do last: the quota, the write, and its revision.\<close>

definition replace_note ::
    "'s note_service \<Rightarrow> string \<Rightarrow> string \<Rightarrow> manual_note \<Rightarrow> manual_input \<Rightarrow> string \<Rightarrow> int option \<Rightarrow> principal \<Rightarrow> headers \<Rightarrow> 's \<Rightarrow>
     (note_error, user_note, 's) outcome" where
  "replace_note svc kb i existing m op restored_from who h s =
     (case enforce_quota svc kb (int (length (mi_content m))) (int (length (note_content existing))) True h s of
        (Inl e, s1) \<Rightarrow> (Inl e, s1)
      | (Inr _, s1) \<Rightarrow>
          (case nsv_update svc kb i m h s1 of
             (Inl e, s2) \<Rightarrow> (Inl (translate_note_upstream e), s2)
           | (Inr item, s2) \<Rightarrow>
               (case record_revision svc item op (pr_user_id who) restored_from s2 of
                  (Inl e, s3) \<Rightarrow> (Inl e, s3)
                | (Inr _, s3) \<Rightarrow> (Inr (note_from_upstream item), s3))))"

definition version_conflict :: note_error where
  "version_conflict = NoteError (ApiError ''note.version_conflict'' 409)"

definition note_update ::
    "'s note_service \<Rightarrow> string \<Rightarrow> string \<Rightarrow> write_input \<Rightarrow> principal \<Rightarrow> headers \<Rightarrow> 's \<Rightarrow> (note_error, user_note, 's) outcome" where
  "note_update svc kb i w who h s =
     (case open_note svc kb i who h s of
        (Inl e, s1) \<Rightarrow> (Inl e, s1)
      | (Inr existing, s1) \<Rightarrow>
          if wi_expected_version w \<noteq> Some (note_version existing) then (Inl version_conflict, s1)
          else (case normalize_note (nsv_lower svc) w of
            Inl e \<Rightarrow> (Inl e, s1)
          | Inr n \<Rightarrow> replace_note svc kb i existing (manual_input_of n) ''edit'' None who h s1))"

definition note_revisions ::
    "'s note_service \<Rightarrow> string \<Rightarrow> string \<Rightarrow> principal \<Rightarrow> 's \<Rightarrow> (note_error, note_revision list, 's) outcome" where
  "note_revisions svc kb i who s =
     (case note_authorize svc kb who OpRead s of
        (Inl e, s1) \<Rightarrow> (Inl e, s1)
      | (Inr _, s1) \<Rightarrow>
          (case nsv_revisions svc kb i s1 of
             (Inl _, s2) \<Rightarrow> (Inl revision_state_error, s2)
           | (Inr rs, s2) \<Rightarrow> (Inr rs, s2)))"

fun revision_error_of :: "note_revision_error \<Rightarrow> note_error" where
  "revision_error_of NoteRevisionNotFound = NoteError (ApiError ''note.revision_not_found'' 404)"
| "revision_error_of _ = revision_state_error"

definition note_revision_of ::
    "'s note_service \<Rightarrow> string \<Rightarrow> string \<Rightarrow> int \<Rightarrow> principal \<Rightarrow> 's \<Rightarrow> (note_error, note_revision, 's) outcome" where
  "note_revision_of svc kb i v who s =
     (case note_authorize svc kb who OpRead s of
        (Inl e, s1) \<Rightarrow> (Inl e, s1)
      | (Inr _, s1) \<Rightarrow>
          (case nsv_revision svc kb i v s1 of
             (Inl e, s2) \<Rightarrow> (Inl (revision_error_of e), s2)
           | (Inr r, s2) \<Rightarrow> (Inr r, s2)))"

definition note_restore ::
    "'s note_service \<Rightarrow> string \<Rightarrow> string \<Rightarrow> restore_input \<Rightarrow> principal \<Rightarrow> headers \<Rightarrow> 's \<Rightarrow> (note_error, user_note, 's) outcome" where
  "note_restore svc kb i w who h s =
     (case open_note svc kb i who h s of
        (Inl e, s1) \<Rightarrow> (Inl e, s1)
      | (Inr current, s1) \<Rightarrow>
          if ri_expected_version w < 1 \<or> ri_expected_version w \<noteq> note_version current then (Inl version_conflict, s1)
          else if ri_target_version w < 1 \<or> ri_target_version w \<ge> note_version current then (Inl note_invalid, s1)
          else (case nsv_revision svc kb i (ri_target_version w) s1 of
            (Inl e, s2) \<Rightarrow> (Inl (revision_error_of e), s2)
          | (Inr target, s2) \<Rightarrow>
              replace_note svc kb i current
                \<lparr>mi_title = nr_title target, mi_content = nr_content target, mi_status = nr_status target, mi_channel = ''web''\<rparr>
                ''restore'' (Some (nr_version target)) who h s2))"

definition note_delete :: "'s note_service \<Rightarrow> string \<Rightarrow> string \<Rightarrow> principal \<Rightarrow> headers \<Rightarrow> 's \<Rightarrow> (note_error, unit, 's) outcome" where
  "note_delete svc kb i who h s =
     (case note_authorize svc kb who OpWrite s of
        (Inl e, s1) \<Rightarrow> (Inl e, s1)
      | (Inr _, s1) \<Rightarrow>
          (case nsv_get svc kb i h s1 of
             (Inl e, s2) \<Rightarrow> (Inl (translate_note_upstream e), s2)
           | (Inr _, s2) \<Rightarrow>
               (case nsv_delete svc i h s2 of
                  (Inl e, s3) \<Rightarrow> (Inl (translate_note_upstream e), s3)
                | (Inr _, s3) \<Rightarrow> (Inr (), s3))))"

section \<open>The product's service\<close>

text \<open>
  The product's state is WeKnora's, of any type, beside the database. WeKnora's HTTP calls, up to the
  decoded answer, are the parameters.
\<close>

record 'w notes_upstream =
  nu_list :: "string \<Rightarrow> u64 \<Rightarrow> u64 \<Rightarrow> headers \<Rightarrow> 'w \<Rightarrow> (upstream_error, bool \<times> manual_page, 'w) outcome"
  nu_get :: "string \<Rightarrow> headers \<Rightarrow> 'w \<Rightarrow> (upstream_error, bool \<times> manual_note, 'w) outcome"
  nu_create :: "string \<Rightarrow> manual_input \<Rightarrow> headers \<Rightarrow> 'w \<Rightarrow> (upstream_error, bool \<times> manual_note, 'w) outcome"
  nu_update :: "string \<Rightarrow> manual_input \<Rightarrow> headers \<Rightarrow> 'w \<Rightarrow> (upstream_error, bool \<times> manual_note, 'w) outcome"
  nu_delete :: "string \<Rightarrow> headers \<Rightarrow> 'w \<Rightarrow> (upstream_error, bool, 'w) outcome"

definition on_fst :: "('w \<Rightarrow> ('e, 'a, 'w) outcome) \<Rightarrow> 'w \<times> 'd \<Rightarrow> ('e, 'a, 'w \<times> 'd) outcome" where
  "on_fst f s = (case f (fst s) of (r, w) \<Rightarrow> (r, (w, snd s)))"

definition on_snd :: "('d \<Rightarrow> ('e, 'a, 'd) outcome) \<Rightarrow> 'w \<times> 'd \<Rightarrow> ('e, 'a, 'w \<times> 'd) outcome" where
  "on_snd f s = (case f (snd s) of (r, d) \<Rightarrow> (r, (fst s, d)))"

definition product_notes :: "'w notes_upstream \<Rightarrow> (string \<Rightarrow> string) \<Rightarrow> (string \<Rightarrow> string) \<Rightarrow> time \<Rightarrow> ('w \<times> database) note_service" where
  "product_notes up sha256hex ulower now =
     \<lparr>nsv_profile = (\<lambda>kb. on_snd (profile_get kb)),
      nsv_list = (\<lambda>kb page sz h. on_fst (\<lambda>w. decoded (checked_page kb) (nu_list up kb page sz h w))),
      nsv_get = (\<lambda>kb i h. on_fst (\<lambda>w. decoded (checked_note kb) (nu_get up i h w))),
      nsv_create = (\<lambda>kb m h. on_fst (\<lambda>w. decoded (checked_note kb) (nu_create up kb m h w))),
      nsv_update = (\<lambda>kb i m h. on_fst (\<lambda>w. decoded (checked_note kb) (nu_update up i m h w))),
      nsv_delete = (\<lambda>i h. on_fst (\<lambda>w. decoded checked_done (nu_delete up i h w))),
      nsv_record = (\<lambda>r. on_snd (note_revision_record sha256hex now r)),
      nsv_revisions = (\<lambda>kb i. on_snd (note_revision_list kb i)),
      nsv_revision = (\<lambda>kb i v. on_snd (note_revision_get kb i v)),
      nsv_lower = ulower\<rparr>"

end
