(* ===== verification/NoteProofs.thy ===== *)
theory NoteProofs
  imports NoteService "HOL-Library.Sublist"
begin

text \<open>
  What the notes service relies on in its revision store and in the client of WeKnora, as a locale,
  what follows for its operations, and the interpretation on the product's service.
\<close>

section \<open>Calls\<close>

datatype note_call =
    NoteList u64 u64
  | NoteGet string
  | NoteCreate write_input
  | NoteUpdate string write_input
  | NoteImport string string
  | NoteRevisions string
  | NoteRevision string int
  | NoteRestore string restore_input
  | NoteDelete string

definition done_with :: "('e, 'a, 's) outcome \<Rightarrow> ('e, unit, 's) outcome" where
  "done_with r = (map_sum id (\<lambda>_. ()) (fst r), snd r)"

fun run_note :: "'s note_service \<Rightarrow> string \<Rightarrow> note_call \<Rightarrow> principal \<Rightarrow> headers \<Rightarrow> 's \<Rightarrow> (note_error, unit, 's) outcome" where
  "run_note svc kb (NoteList page sz) who h s = done_with (note_list svc kb page sz who h s)"
| "run_note svc kb (NoteGet i) who h s = done_with (note_get svc kb i who h s)"
| "run_note svc kb (NoteCreate w) who h s = done_with (note_create svc kb w who h s)"
| "run_note svc kb (NoteUpdate i w) who h s = done_with (note_update svc kb i w who h s)"
| "run_note svc kb (NoteImport f c) who h s = done_with (note_import svc kb f c who h s)"
| "run_note svc kb (NoteRevisions i) who h s = done_with (note_revisions svc kb i who s)"
| "run_note svc kb (NoteRevision i v) who h s = done_with (note_revision_of svc kb i v who s)"
| "run_note svc kb (NoteRestore i w) who h s = done_with (note_restore svc kb i w who h s)"
| "run_note svc kb (NoteDelete i) who h s = done_with (note_delete svc kb i who h s)"

lemma done_with_eq: "done_with x = (r, s1) \<longleftrightarrow> (\<exists>q. x = (q, s1) \<and> r = map_sum id (\<lambda>_. ()) q)"
  by (cases x) (auto simp: done_with_def)

section \<open>The interface\<close>

text \<open>\<open>grows a b\<close>: the history \<open>b\<close> is \<open>a\<close> with rows of new keys appended.\<close>

definition grows :: "note_revision list \<Rightarrow> note_revision list \<Rightarrow> bool" where
  "grows a b \<longleftrightarrow> (\<exists>new. b = a @ new \<and> (history_unique a \<longrightarrow> history_unique b))"

lemma grows_refl [simp, intro]: "grows a a"
  by (simp add: grows_def)

lemma grows_trans [trans]: "grows a b \<Longrightarrow> grows b c \<Longrightarrow> grows a c"
  by (auto simp: grows_def)

lemma grows_set: "grows a b \<Longrightarrow> set a \<subseteq> set b"
  by (auto simp: grows_def)

lemma grows_append: "nr_key r \<notin> nr_key ` set a \<Longrightarrow> grows a (a @ [r])"
  by (auto simp: grows_def history_unique_def)

locale note_service_deps =
  fixes svc :: "'s note_service" and rows :: "'s \<Rightarrow> note_revision list" and upstream :: "'s \<Rightarrow> 'w"
    and hash :: "string \<Rightarrow> string \<Rightarrow> string \<Rightarrow> string"
  assumes profile_view: "nsv_profile svc kb s = (pr, s1) \<Longrightarrow> rows s1 = rows s \<and> upstream s1 = upstream s"
    and list_rows: "nsv_list svc kb page sz h s = (pg, s1) \<Longrightarrow> rows s1 = rows s"
    and get_rows: "nsv_get svc kb i h s = (nr, s1) \<Longrightarrow> rows s1 = rows s"
    and create_rows: "nsv_create svc kb m h s = (nr, s1) \<Longrightarrow> rows s1 = rows s"
    and update_rows: "nsv_update svc kb i m h s = (nr, s1) \<Longrightarrow> rows s1 = rows s"
    and delete_rows: "nsv_delete svc i h s = (dr, s1) \<Longrightarrow> rows s1 = rows s"
    and get_kb: "nsv_get svc kb i h s = (Inr n, s1) \<Longrightarrow> mk_kb_id n = kb"
    and update_kb: "nsv_update svc kb i m h s = (Inr n, s1) \<Longrightarrow> mk_kb_id n = kb"
    and record_grows: "nsv_record svc c s = (rr, s1) \<Longrightarrow> grows (rows s) (rows s1)"
    and record_row: "nsv_record svc c s = (Inr r, s1) \<Longrightarrow> r \<in> set (rows s1) \<and> nr_key r = nr_key c
      \<and> nr_sha256 r = hash (nr_title c) (nr_content c) (nr_status c)"
    and revisions_rows: "nsv_revisions svc kb i s = (rl, s1) \<Longrightarrow> rows s1 = rows s"
    and revision_rows: "nsv_revision svc kb i v s = (rr, s1) \<Longrightarrow> rows s1 = rows s"
    and revision_row: "nsv_revision svc kb i v s = (Inr r, s1) \<Longrightarrow> r \<in> set (rows s) \<and> nr_key r = (kb, i, v)"
begin

lemma authorize_view: "note_authorize svc kb who a s = (r, s1) \<Longrightarrow> rows s1 = rows s \<and> upstream s1 = upstream s"
  by (auto simp: note_authorize_def split: if_splits prod.splits sum.splits profile_error.splits option.splits policy_error.splits
      dest: profile_view)

lemma record_revision_rows:
  assumes "record_revision svc item op actor from s = (q, s1)"
  shows "grows (rows s) (rows s1)
    \<and> (\<forall>r. q = Inr r \<longrightarrow> (\<exists>x\<in>set (rows s1). nr_key x = (mk_kb_id item, mk_id item, note_version item)
          \<and> nr_sha256 x = hash (mk_title item) (note_content item) (md_status (mk_metadata item))))"
proof -
  let ?c = "\<lparr>nr_kb_id = mk_kb_id item, nr_note_id = mk_id item, nr_version = note_version item, nr_title = mk_title item,
          nr_content = note_content item, nr_status = md_status (mk_metadata item), nr_operation = op,
          nr_restored_from = from, nr_sha256 = [], nr_actor_user_id = actor, nr_recorded_at = 0\<rparr>"
  obtain r where r: "nsv_record svc ?c s = (r, s1)" "q = map_sum (\<lambda>_. revision_state_error) id r"
    using assms by (auto simp: record_revision_def split: prod.splits sum.splits)
  show ?thesis
  proof (cases r)
    case (Inr x)
    from record_row [OF r(1) [unfolded Inr]] record_grows [OF r(1)] show ?thesis by (auto simp: nr_key_def)
  qed (use record_grows [OF r(1)] r(2) in simp)
qed

lemma quota_loop_rows: "sv = svc \<Longrightarrow> quota_loop sv kb h p seen bytes s = (r, s1) \<Longrightarrow> rows s1 = rows s"
proof (induction sv kb h p seen bytes s rule: quota_loop.induct)
  case (1 sv kb h p seen bytes s)
  obtain q s2 where l: "nsv_list sv kb (mp_page p + 1) (word_of_int max_note_page) h s = (q, s2)" by fastforce
  with "1.prems" list_rows have e: "rows s2 = rows s" by blast
  show ?case
  proof (cases "seen + int (length (mp_items p)) \<ge> sint (mp_total p) \<or> mp_items p = [] \<or> \<not> is_Inr q")
    case True
    with "1.prems"(2) l e show ?thesis
      by (cases q) (auto simp: quota_loop.simps [of sv kb h p] Let_def split: if_splits)
  next
    case False
    then obtain n where n: "q = Inr n" by (cases q) auto
    with False "1.prems"(2) l have "quota_loop sv kb h n (seen + int (length (mp_items p))) (bytes + content_bytes (mp_items p)) s2 = (r, s1)"
      by (simp add: quota_loop.simps [of sv kb h p] Let_def)
    with "1.IH" [OF refl refl] False n l "1.prems"(1) e show ?thesis by simp
  qed
qed

lemma enforce_quota_rows: "enforce_quota svc kb nb rb rep h s = (r, s1) \<Longrightarrow> rows s1 = rows s"
  by (auto simp: enforce_quota_def split: prod.splits sum.splits if_splits dest!: list_rows quota_loop_rows [OF refl])

lemmas same_rows = list_rows get_rows create_rows update_rows delete_rows revisions_rows revision_rows enforce_quota_rows

lemma open_note_rows:
  assumes "open_note svc kb i who h s = (q, s1)"
  shows "grows (rows s) (rows s1)
    \<and> (\<forall>n. q = Inr n \<longrightarrow> mk_kb_id n = kb \<and> (\<exists>s0 s2. nsv_get svc kb i h s0 = (Inr n, s2) \<and> rows s0 = rows s)
       \<and> (\<exists>x\<in>set (rows s1). nr_key x = (kb, mk_id n, note_version n)
          \<and> nr_sha256 x = hash (mk_title n) (note_content n) (md_status (mk_metadata n))))"
proof -
  obtain a s2 where a: "note_authorize svc kb who OpWrite s = (a, s2)" by fastforce
  obtain g s3 where g: "nsv_get svc kb i h s2 = (g, s3)" by fastforce
  note v = authorize_view [OF a] get_rows [OF g]
  show ?thesis
  proof (cases "is_Inr a \<and> is_Inr g")
    case True
    then obtain u n where n: "a = Inr u" "g = Inr n" by (auto simp: is_Inr_iff)
    obtain c s4 where c: "record_revision svc n ''snapshot'' (pr_user_id who) None s3 = (c, s4)" by fastforce
    from assms a g n c have e: "s1 = s4" "q = map_sum id (\<lambda>_. n) c"
      by (auto simp: open_note_def split: sum.splits)
    from record_revision_rows [OF c] v get_kb [OF g [unfolded n]] show ?thesis
      using g n by (cases c) (auto simp: e)
  next
    case False
    with assms a g v show ?thesis by (cases a; cases g) (auto simp: open_note_def)
  qed
qed

lemma replace_note_rows:
  assumes "replace_note svc kb i existing m op from who h s = (q, s1)"
  shows "grows (rows s) (rows s1)
    \<and> (\<forall>n. q = Inr n \<longrightarrow> nt_kb_id n = kb \<and> (\<exists>x\<in>set (rows s1). nr_key x = (kb, nt_id n, nt_version n)
          \<and> nr_sha256 x = hash (nt_title n) (nt_content n) (nt_status n)))"
proof -
  obtain a s2 where a: "enforce_quota svc kb (int (length (mi_content m))) (int (length (note_content existing))) True h s = (a, s2)"
    by fastforce
  obtain g s3 where g: "nsv_update svc kb i m h s2 = (g, s3)" by fastforce
  note v = enforce_quota_rows [OF a] update_rows [OF g]
  show ?thesis
  proof (cases "is_Inr a \<and> is_Inr g")
    case True
    then obtain u n where n: "a = Inr u" "g = Inr n" by (auto simp: is_Inr_iff)
    obtain c s4 where c: "record_revision svc n op (pr_user_id who) from s3 = (c, s4)" by fastforce
    from assms a g n c have e: "s1 = s4" "q = map_sum id (\<lambda>_. note_from_upstream n) c"
      by (auto simp: replace_note_def split: sum.splits)
    from record_revision_rows [OF c] v update_kb [OF g [unfolded n]] show ?thesis
      by (cases c) (auto simp: e note_from_upstream_def)
  next
    case False
    with assms a g v show ?thesis by (cases a; cases g) (auto simp: replace_note_def)
  qed
qed

text \<open>Before a note is overwritten the text it had is in the history, and so is the text it has after.\<close>

lemma update_kept:
  assumes "note_update svc kb i w who h s = (Inr n, s1)"
  shows "\<exists>old s0 s2. nsv_get svc kb i h s0 = (Inr old, s2) \<and> wi_expected_version w = Some (note_version old)
    \<and> (\<exists>x\<in>set (rows s1). nr_key x = (kb, mk_id old, note_version old)
         \<and> nr_sha256 x = hash (mk_title old) (note_content old) (md_status (mk_metadata old)))
    \<and> (\<exists>x\<in>set (rows s1). nr_key x = (kb, nt_id n, nt_version n) \<and> nr_sha256 x = hash (nt_title n) (nt_content n) (nt_status n))"
proof -
  obtain q s2 where o: "open_note svc kb i who h s = (q, s2)" by fastforce
  with assms obtain old where q: "q = Inr old" by (cases q) (auto simp: note_update_def)
  with assms o obtain m where r: "replace_note svc kb i old m ''edit'' None who h s2 = (Inr n, s1)"
    "wi_expected_version w = Some (note_version old)" by (auto simp: note_update_def split: if_splits sum.splits)
  from replace_note_rows [OF r(1)] have g: "set (rows s2) \<subseteq> set (rows s1)" "\<exists>x\<in>set (rows s1). nr_key x = (kb, nt_id n, nt_version n)
      \<and> nr_sha256 x = hash (nt_title n) (nt_content n) (nt_status n)" using grows_set by auto
  from open_note_rows [OF o] q obtain s0 s3 where "nsv_get svc kb i h s0 = (Inr old, s3)" "\<exists>x\<in>set (rows s2). nr_key x = (kb, mk_id old, note_version old)
         \<and> nr_sha256 x = hash (mk_title old) (note_content old) (md_status (mk_metadata old))" by blast
  with g r(2) show ?thesis by blast
qed

lemma create_grows:
  assumes "note_create_as svc kb w op who h s = (q, s1)"
  shows "grows (rows s) (rows s1)"
proof -
  obtain a s2 where a: "note_authorize svc kb who OpWrite s = (a, s2)" by fastforce
  show ?thesis
  proof (cases "is_Inr a \<and> is_Inr (normalize_note (nsv_lower svc) w)")
    case True
    then obtain u n where n: "a = Inr u" "normalize_note (nsv_lower svc) w = Inr n" by (auto simp: is_Inr_iff)
    obtain b s3 where b: "enforce_quota svc kb (int (length (wi_content n))) 0 False h s2 = (b, s3)" by fastforce
    obtain g s4 where g: "nsv_create svc kb (manual_input_of n) h s3 = (g, s4)" by fastforce
    note v = authorize_view [OF a] enforce_quota_rows [OF b] create_rows [OF g]
    show ?thesis
    proof (cases "is_Inr b \<and> is_Inr g")
      case True
      then obtain u2 item where i: "b = Inr u2" "g = Inr item" by (auto simp: is_Inr_iff)
      obtain c s5 where c: "record_revision svc item op (pr_user_id who) None s4 = (c, s5)" by fastforce
      obtain dr s6 where d: "nsv_delete svc (mk_id item) h s5 = (dr, s6)" by fastforce
      from assms a n b g i c d have "s1 = (if is_Inr c then s5 else s6)"
        by (cases c) (auto simp: note_create_as_def)
      with record_revision_rows [OF c] delete_rows [OF d] v show ?thesis by simp
    next
      case False
      with assms a n b g v show ?thesis by (cases b; cases g) (auto simp: note_create_as_def)
    qed
  next
    case False
    with assms a authorize_view [OF a] show ?thesis
      by (cases a; cases "normalize_note (nsv_lower svc) w") (auto simp: note_create_as_def)
  qed
qed

lemma update_grows: "note_update svc kb i w who h s = (q, s1) \<Longrightarrow> grows (rows s) (rows s1)"
  by (auto simp: note_update_def split: prod.splits sum.splits if_splits dest!: open_note_rows replace_note_rows
      intro: grows_trans)

lemma restore_grows: "note_restore svc kb i w who h s = (q, s1) \<Longrightarrow> grows (rows s) (rows s1)"
  by (auto simp: note_restore_def split: prod.splits sum.splits if_splits
      dest!: open_note_rows replace_note_rows revision_rows intro: grows_trans)

lemma get_grows:
  assumes "note_get svc kb i who h s = (q, s1)"
  shows "grows (rows s) (rows s1)"
proof -
  have "authorize_same": "rows s2 = rows s" if "note_authorize svc kb who OpRead s = (a, s2)" for a s2
    using authorize_view [OF that] by simp
  with assms show ?thesis
    by (auto simp: note_get_def split: prod.splits sum.splits dest!: get_rows record_revision_rows authorize_same)
qed

lemma call_grows: "run_note svc kb c who h s = (r, s1) \<Longrightarrow> grows (rows s) (rows s1)"
proof (cases c)
  case (NoteImport f t)
  have a: "rows s2 = rows s" if "note_authorize svc kb who OpWrite s = (a, s2)" for a s2
    using authorize_view [OF that] by simp
  assume "run_note svc kb c who h s = (r, s1)"
  with NoteImport a show ?thesis
    by (auto simp: done_with_eq note_import_def split: prod.splits sum.splits dest!: create_grows)
qed (auto simp: done_with_eq note_create_def note_list_def note_revisions_def note_revision_of_def note_delete_def
      split: prod.splits sum.splits if_splits
      dest!: create_grows update_grows restore_grows get_grows authorize_view same_rows)

text \<open>Every call starts with the check of the owner, and a call that fails it goes no further.\<close>

lemma call_authorized:
  assumes "run_note svc kb c who h s = (r, s1)"
  shows "\<exists>a q s2. note_authorize svc kb who a s = (q, s2) \<and> a \<in> {OpRead, OpWrite}
    \<and> (\<forall>e. q = Inl e \<longrightarrow> r = Inl e \<and> rows s1 = rows s \<and> upstream s1 = upstream s)"
proof -
  let ?a = "case c of NoteList _ _ \<Rightarrow> OpRead | NoteGet _ \<Rightarrow> OpRead | NoteRevisions _ \<Rightarrow> OpRead | NoteRevision _ _ \<Rightarrow> OpRead
    | _ \<Rightarrow> OpWrite"
  obtain q s2 where a: "note_authorize svc kb who ?a s = (q, s2)" by fastforce
  have "r = Inl e \<and> rows s1 = rows s \<and> upstream s1 = upstream s" if "q = Inl e" for e
  proof -
    have "r = Inl e \<and> s1 = s2"
      using assms a that
      by (cases c) (auto simp: done_with_eq note_create_def note_create_as_def note_list_def note_get_def note_update_def
          note_import_def note_restore_def note_revisions_def note_revision_of_def note_delete_def open_note_def)
    with authorize_view [OF a] show ?thesis by simp
  qed
  moreover have "?a \<in> {OpRead, OpWrite}" by (cases c) auto
  ultimately show ?thesis using a by blast
qed

end

section \<open>The product's notes\<close>

lemma product_notes_sel [simp]:
  "nsv_profile (product_notes up sha ulower now) = (\<lambda>kb. on_snd (profile_get kb))"
  "nsv_list (product_notes up sha ulower now) = (\<lambda>kb page sz h. on_fst (\<lambda>w. decoded (checked_page kb) (nu_list up kb page sz h w)))"
  "nsv_get (product_notes up sha ulower now) = (\<lambda>kb i h. on_fst (\<lambda>w. decoded (checked_note kb) (nu_get up i h w)))"
  "nsv_create (product_notes up sha ulower now) = (\<lambda>kb m h. on_fst (\<lambda>w. decoded (checked_note kb) (nu_create up kb m h w)))"
  "nsv_update (product_notes up sha ulower now) = (\<lambda>kb i m h. on_fst (\<lambda>w. decoded (checked_note kb) (nu_update up i m h w)))"
  "nsv_delete (product_notes up sha ulower now) = (\<lambda>i h. on_fst (\<lambda>w. decoded checked_done (nu_delete up i h w)))"
  "nsv_record (product_notes up sha ulower now) = (\<lambda>r. on_snd (note_revision_record sha now r))"
  "nsv_revisions (product_notes up sha ulower now) = (\<lambda>kb i. on_snd (note_revision_list kb i))"
  "nsv_revision (product_notes up sha ulower now) = (\<lambda>kb i v. on_snd (note_revision_get kb i v))"
  "nsv_lower (product_notes up sha ulower now) = ulower"
  by (simp_all add: product_notes_def)

lemma on_fst_eq: "on_fst f s = (r, s1) \<longleftrightarrow> f (fst s) = (r, fst s1) \<and> snd s1 = snd s"
  by (cases "f (fst s)"; cases s1) (auto simp: on_fst_def)

lemma on_snd_eq: "on_snd f s = (r, s1) \<longleftrightarrow> f (snd s) = (r, snd s1) \<and> fst s1 = fst s"
  by (cases "f (snd s)"; cases s1) (auto simp: on_snd_def)

lemma decoded_Inr: "decoded check x = (Inr y, s) \<longleftrightarrow> (\<exists>z. x = (Inr z, s) \<and> check z = Inr y)"
  by (cases x; cases "fst x") (auto simp: decoded_def)

lemma checked_note_kb: "checked_note kb z = Inr n \<Longrightarrow> mk_kb_id n = kb"
  by (auto simp: checked_note_def valid_manual_knowledge_def split: prod.splits if_splits)

lemma profile_get_rows: "profile_get kb db = (r, db1) \<Longrightarrow> db_note_revisions db1 = db_note_revisions db"
  by (auto simp: profile_get_def query_def split: if_splits)

lemma note_revision_list_rows: "note_revision_list kb i db = (r, db1) \<Longrightarrow> db_note_revisions db1 = db_note_revisions db"
  by (auto simp: note_revision_list_def query_def split: if_splits)

interpretation nd: note_service_deps "product_notes up sha ulower now" "\<lambda>s. db_note_revisions (snd s)" fst "revision_hash sha"
  for up sha ulower now
proof (unfold_locales, goal_cases)
  case (9 c s rr s1)
  then have "note_revision_record sha now c (snd s) = (rr, snd s1)" by (simp add: on_snd_eq)
  from note_revision_record_history [OF this] show ?case
    using grows_append [of "note_revision_row sha now c"] by fastforce
next
  case (10 c s r s1)
  then have "note_revision_record sha now c (snd s) = (Inr r, snd s1)" by (simp add: on_snd_eq)
  from note_revision_record_history [OF this] show ?case by blast
qed (auto simp: on_fst_eq on_snd_eq decoded_Inr dest: profile_get_rows note_revision_list_rows checked_note_kb note_revision_get_state)

end
