(* ===== verification/NoteRules.thy ===== *)
theory NoteRules
  imports NoteProofs Samples
begin

text \<open>
  The properties of the notes service on the product's database.
\<close>

section \<open>A concrete WeKnora\<close>

text \<open>The notes of one knowledge base, and the number of listings so far.\<close>

definition sample_note :: "string \<Rightarrow> string \<Rightarrow> int \<Rightarrow> manual_note" where
  "sample_note i content v =
     \<lparr>mk_id = i, mk_kb_id = ''kb'', mk_type = ''manual'', mk_title = ''T'', mk_parse_status = [], mk_error_message = [],
      mk_metadata = \<lparr>md_content = content, md_format = ''markdown'', md_status = ''publish'', md_version = v, md_updated_at = []\<rparr>,
      mk_created_at = 1, mk_updated_at = 1\<rparr>"

definition sample_put :: "manual_note \<Rightarrow> manual_input \<Rightarrow> manual_note" where
  "sample_put n m = n\<lparr>mk_title := mi_title m, mk_metadata := (mk_metadata n)\<lparr>md_content := mi_content m,
     md_status := mi_status m, md_version := note_version n + 1\<rparr>\<rparr>"

definition sample_weknora :: "(manual_note list \<times> int) notes_upstream" where
  "sample_weknora =
     \<lparr>nu_list = (\<lambda>kb page sz h (ns, k). (Inr (True, \<lparr>mp_items = take (unat sz) (drop ((unat page - 1) * unat sz) ns),
        mp_total = word_of_nat (length ns), mp_page = page, mp_page_size = sz\<rparr>), (ns, k + 1))),
      nu_get = (\<lambda>i h (ns, k). (case find (\<lambda>n. mk_id n = i) ns of
        None \<Rightarrow> Inl (UpstreamError ''upstream.not_found'' 404) | Some n \<Rightarrow> Inr (True, n), (ns, k))),
      nu_create = (\<lambda>kb m h (ns, k). let n = sample_put (sample_note ''new'' [] 0) m in (Inr (True, n), (ns @ [n], k))),
      nu_update = (\<lambda>i m h (ns, k). (case find (\<lambda>n. mk_id n = i) ns of
        None \<Rightarrow> (Inl (UpstreamError ''upstream.not_found'' 404), (ns, k))
      | Some n \<Rightarrow> (Inr (True, sample_put n m), (update_where (\<lambda>n. mk_id n = i) (\<lambda>n. sample_put n m) ns, k)))),
      nu_delete = (\<lambda>i h (ns, k). (Inr True, (filter (\<lambda>n. mk_id n \<noteq> i) ns, k)))\<rparr>"

definition sample_sha :: "string \<Rightarrow> string" where
  "sample_sha s = take 64 (filter (\<lambda>c. c \<noteq> CHR 0x00) s @ replicate 64 CHR ''0'')"

definition sample_space :: database where
  "sample_space = empty_database\<lparr>db_profiles := [\<lparr>pf_kb_id = ''kb'', pf_tenant_id = 7, pf_owner_user_id = ''ann'',
     pf_product_mode = ModePersonalNotes, pf_schema_version = 1, pf_access_policy = PolicyOwnerOnly,
     pf_index_profile = ''notes_plain'', pf_index_profile_version = 1, pf_effective_config = ''{}'',
     pf_created_at = 1, pf_updated_at = 1\<rparr>]\<rparr>"

definition sample_notes_service :: "((manual_note list \<times> int) \<times> database) note_service" where
  "sample_notes_service = product_notes sample_weknora sample_sha id 5"

definition sample_edit :: write_input where
  "sample_edit = \<lparr>wi_title = '' New '', wi_content = ''text'', wi_status = [], wi_expected_version = Some 1\<rparr>"

definition sample_edited :: "(note_error, user_note, (manual_note list \<times> int) \<times> database) outcome" where
  "sample_edited = note_update sample_notes_service ''kb'' ''n1'' sample_edit ann sample_headers
     (([sample_note ''n1'' ''old'' 1], 0), sample_space)"

lemma sample_edited_ok: "is_Inr (fst sample_edited)"
  by code_simp

section \<open>Who\<close>

text \<open>C28. Personal Notes belong to their owner alone: a call of any operation that succeeds, or that has
  any effect on WeKnora or on the revision history, is a call of the owner recorded in the profile of a
  Personal Notes space, in the owner's workspace.\<close>

theorem notes_owner_only:
  assumes "run_note (product_notes up sha ulower now) kb c who h s = (r, s1)"
    and "is_Inr r \<or> fst s1 \<noteq> fst s \<or> db_note_revisions (snd s1) \<noteq> db_note_revisions (snd s)"
  shows "\<exists>p. find (\<lambda>p. pf_kb_id p = kb) (db_profiles (snd s)) = Some p \<and> pf_product_mode p = ModePersonalNotes
     \<and> pf_access_policy p = PolicyOwnerOnly \<and> pf_owner_user_id p = pr_user_id who \<and> pf_tenant_id p = pr_tenant_id who"
proof -
  from nd.call_authorized [OF assms(1)] obtain a q s2 where a:
    "note_authorize (product_notes up sha ulower now) kb who a s = (q, s2)"
    "\<forall>e. q = Inl e \<longrightarrow> r = Inl e \<and> db_note_revisions (snd s1) = db_note_revisions (snd s) \<and> fst s1 = fst s" by blast
  with assms(2) obtain u where "q = Inr u" by (cases q) auto
  with a(1) obtain p s3 where p: "profile_get kb (snd s) = (Inr p, s3)" "pf_product_mode p = ModePersonalNotes"
    "notes_authorize p who a = None"
    by (auto simp: note_authorize_def on_snd_eq split: if_splits prod.splits sum.splits profile_error.splits option.splits
        policy_error.splits)
  then have "find (\<lambda>p. pf_kb_id p = kb) (db_profiles (snd s)) = Some p"
    by (auto simp: profile_get_def query_def split: if_splits option.splits)
  with p notes_authorize_owner_only [OF p(2,3)] show ?thesis by auto
qed

abbreviation sample_notes :: "(manual_note list \<times> int) \<times> database" where
  "sample_notes \<equiv> (([sample_note ''n1'' ''old'' 1], 0), sample_space)"

theorem notes_owner_only_witness:
  "\<exists>p. find (\<lambda>p. pf_kb_id p = ''kb'') (db_profiles sample_space) = Some p \<and> pf_owner_user_id p = pr_user_id ann"
proof -
  obtain r s1 where r: "run_note sample_notes_service ''kb'' (NoteUpdate ''n1'' sample_edit) ann sample_headers sample_notes = (r, s1)"
    by (metis surj_pair)
  then have "is_Inr r"
    using sample_edited_ok by (auto simp: done_with_def sample_edited_def is_Inr_iff)
  with notes_owner_only [OF r [unfolded sample_notes_service_def]] show ?thesis by auto
qed

section \<open>Nothing is lost\<close>



section \<open>The history\<close>

fun run_notes where
  "run_notes up sha ulower [] s = s"
| "run_notes up sha ulower ((now, kb, c, who, h) # calls) s =
     run_notes up sha ulower calls (snd (run_note (product_notes up sha ulower now) kb c who h s))"

lemma run_notes_grows: "grows (db_note_revisions (snd s)) (db_note_revisions (snd (run_notes up sha ulower calls s)))"
proof (induction calls arbitrary: s)
  case (Cons x calls)
  obtain now kb c who h where x: "x = (now, kb, c, who, h)" by (metis prod_cases5)
  obtain r s1 where r: "run_note (product_notes up sha ulower now) kb c who h s = (r, s1)" by (metis surj_pair)
  from nd.call_grows [OF r] Cons.IH [of s1] show ?case by (auto simp: x r intro: grows_trans)
qed simp

lemma find_key:
  "history_unique rows \<Longrightarrow> r \<in> set rows \<Longrightarrow> find (\<lambda>x. nr_key x = nr_key r) rows = Some r"
  by (induction rows) (auto simp: history_unique_def)

text \<open>C30. What is recorded can be read back, for ever: a revision the repository has accepted is read
  back unchanged, with the hash of the recorded title, text and status, after any sequence of calls on
  any notes by anyone, whatever WeKnora does meanwhile.\<close>

theorem revision_roundtrip:
  assumes "note_revision_record sha now c db = (Inr r, db1)" "history_unique (db_note_revisions db)"
    and "run_notes up sha ulower calls (w, db1) = (w2, db2)" "db_faults db2 = []"
  shows "note_revision_get (nr_kb_id c) (nr_note_id c) (nr_version c) db2 = (Inr r, db2)
     \<and> nr_sha256 r = revision_hash sha (nr_title c) (nr_content c) (nr_status c)"
proof -
  from note_revision_record_history [OF assms(1)] have r: "r \<in> set (db_note_revisions db1)" "nr_key r = nr_key c"
    "nr_sha256 r = revision_hash sha (nr_title c) (nr_content c) (nr_status c)" "grows (db_note_revisions db) (db_note_revisions db1)"
    using grows_append [of "note_revision_row sha now c"] by fastforce+
  from run_notes_grows [of "(w, db1)" up sha ulower calls] have g: "grows (db_note_revisions db1) (db_note_revisions db2)"
    by (simp add: assms(3))
  with r(1,4) assms(2) have "r \<in> set (db_note_revisions db2)" "history_unique (db_note_revisions db2)"
    by (auto simp: grows_def)
  from find_key [OF this(2,1)] r(2) have "find (\<lambda>x. nr_key x = nr_key c) (db_note_revisions db2) = Some r" by simp
  with r(3) assms(4) show ?thesis
    by (simp add: note_revision_get_def query_def statement_def nr_key_def)
qed

definition sample_revision :: note_revision where
  "sample_revision = \<lparr>nr_kb_id = ''kb'', nr_note_id = ''n1'', nr_version = 1, nr_title = ''T'', nr_content = ''old'',
     nr_status = ''publish'', nr_operation = ''snapshot'', nr_restored_from = None, nr_sha256 = [], nr_actor_user_id = ''ann'',
     nr_recorded_at = 0\<rparr>"

definition sample_recorded :: "(note_revision_error, note_revision, database) outcome" where
  "sample_recorded = note_revision_record sample_sha 5 sample_revision sample_space"

theorem revision_roundtrip_witness:
  "\<exists>r db2. note_revision_get ''kb'' ''n1'' 1 db2 = (Inr r, db2) \<and> nr_sha256 r = revision_hash sample_sha ''T'' ''old'' ''publish''
     \<and> db2 = snd (run_notes sample_weknora sample_sha id
         [(6, ''kb'', NoteUpdate ''n1'' sample_edit, ann, sample_headers)] (([sample_note ''n1'' ''old'' 1], 0), snd sample_recorded))"
proof -
  have ok: "is_Inr (fst sample_recorded)" and f: "db_faults (snd (run_notes sample_weknora sample_sha id
       [(6, ''kb'', NoteUpdate ''n1'' sample_edit, ann, sample_headers)] (([sample_note ''n1'' ''old'' 1], 0), snd sample_recorded))) = []"
    by code_simp+
  have u: "history_unique (db_note_revisions sample_space)"
    by (simp add: history_unique_def sample_space_def empty_database_def)
  show ?thesis
    using revision_roundtrip [OF ok_outcome [OF ok, unfolded sample_recorded_def] u surjective_pairing f [unfolded sample_recorded_def]]
    by (auto simp: sample_revision_def sample_recorded_def)
qed

end
