(* ===== verification/NoteQuota.thy ===== *)
theory NoteQuota
  imports NoteRules
begin

text \<open>
  The quota of a Personal Notes space: what the loop over the pages computes, and that it ends.
\<close>

section \<open>What it computes\<close>

text \<open>The listing of a space that holds the notes \<open>ns\<close>: page \<open>p\<close> has the \<open>p\<close>-th ten of them.\<close>

definition page_of :: "manual_note list \<Rightarrow> nat \<Rightarrow> manual_page" where
  "page_of ns p = \<lparr>mp_items = take 10 (drop (p * 10) ns), mp_total = word_of_nat (length ns), mp_page = word_of_nat (Suc p),
     mp_page_size = 10\<rparr>"

definition lists_notes :: "'s note_service \<Rightarrow> string \<Rightarrow> headers \<Rightarrow> manual_note list \<Rightarrow> 's \<Rightarrow> bool" where
  "lists_notes svc kb h ns s \<longleftrightarrow> (\<forall>p. p * 10 \<le> length ns \<longrightarrow> nsv_list svc kb (word_of_nat (Suc p)) 10 h s = (Inr (page_of ns p), s))"

lemma sint_total: "length ns < 2 ^ 62 \<Longrightarrow> sint (word_of_nat (length ns) :: u64) = int (length ns)"
  by (simp add: signed_of_nat signed_take_bit_int_eq_self)

lemma quota_loop_sum:
  assumes "lists_notes svc kb h ns s" "length ns < 2 ^ 62"
  shows "p * 10 < length ns \<or> p = 0 \<Longrightarrow> k = length ns - p * 10 \<Longrightarrow>
    quota_loop svc kb h (page_of ns p) (int (p * 10)) (content_bytes (take (p * 10) ns)) s = (Inr (content_bytes ns), s)"
proof (induction k arbitrary: p rule: less_induct)
  case (less k)
  have t: "sint (mp_total (page_of ns p)) = int (length ns)" by (simp add: page_of_def sint_total [OF assms(2)])
  have b: "content_bytes (take (p * 10) ns) + content_bytes (take 10 (drop (p * 10) ns)) = content_bytes (take (p * 10 + 10) ns)"
    by (simp add: content_bytes_def take_add)
  show ?case
  proof (cases "p * 10 + 10 < length ns")
    case True
    then have n: "length (mp_items (page_of ns p)) = 10" "mp_items (page_of ns p) \<noteq> []" by (auto simp: page_of_def)
    have w: "mp_page (page_of ns p) + 1 = word_of_nat (Suc (Suc p))" "(word_of_int max_note_page :: u64) = 10"
      by (simp_all add: page_of_def max_note_page_def)
    from assms(1) have l: "nsv_list svc kb (mp_page (page_of ns p) + 1) (word_of_int max_note_page) h s = (Inr (page_of ns (Suc p)), s)"
      unfolding w lists_notes_def using True by (auto dest: spec [of _ "Suc p"])
    have cb: "content_bytes (take (p * 10) ns) + content_bytes (mp_items (page_of ns p)) = content_bytes (take (Suc p * 10) ns)"
      by (simp add: page_of_def b add.commute)
    have "quota_loop svc kb h (page_of ns (Suc p)) (int (Suc p * 10)) (content_bytes (take (Suc p * 10) ns)) s = (Inr (content_bytes ns), s)"
      using less.prems True by (intro less.IH [OF _ _ refl]) auto
    moreover have "int (p * 10) + int (length (mp_items (page_of ns p))) = int (Suc p * 10)" using n(1) by simp
    moreover have "int (Suc p * 10) < sint (mp_total (page_of ns p))" using t True by simp
    ultimately show ?thesis
      unfolding quota_loop.simps [of svc kb h "page_of ns p"] Let_def cb l using n(2) by (simp add: add.commute)
  next
    case False
    with less.prems have "length (mp_items (page_of ns p)) = length ns - p * 10" "p * 10 \<le> length ns" by (auto simp: page_of_def)
    moreover from False have "content_bytes (take (p * 10 + 10) ns) = content_bytes ns" by simp
    moreover have "mp_items (page_of ns p) = take 10 (drop (p * 10) ns)" by (simp add: page_of_def)
    ultimately show ?thesis using b t by (simp add: quota_loop.simps [of svc kb h "page_of ns p"] Let_def of_nat_diff)
  qed
qed

text \<open>C31. The quota is exactly the documented one: over a space that holds the notes \<open>ns\<close>, a new note
  is refused from the five-hundredth on, and any write is refused when the bytes of all notes, without
  the text it replaces and with the new one, exceed two MiB; otherwise it is let through.\<close>

theorem quota_exact:
  assumes "lists_notes svc kb h ns s" "length ns < 2 ^ 62"
  shows "enforce_quota svc kb new_bytes replaced replacing h s =
    (if \<not> replacing \<and> 500 \<le> length ns then Inl (NoteError (ApiError ''note.count_quota_exceeded'' 409))
     else if content_bytes ns + new_bytes - (if replacing then replaced else 0) > 2 * 1024 * 1024 then
       Inl (NoteError (ApiError ''note.corpus_quota_exceeded'' 409))
     else Inr (), s)"
proof -
  have "nsv_list svc kb (word_of_nat (Suc 0)) 10 h s = (Inr (page_of ns 0), s)"
    using assms(1) unfolding lists_notes_def by (metis le0 mult_0)
  moreover have "sint (mp_total (page_of ns 0)) = int (length ns)" by (simp add: page_of_def sint_total [OF assms(2)])
  moreover have "quota_loop svc kb h (page_of ns 0) 0 0 s = (Inr (content_bytes ns), s)"
    using quota_loop_sum [OF assms, of 0] by (simp add: content_bytes_def)
  ultimately show ?thesis
    by (auto simp: enforce_quota_def max_note_page_def max_note_count_def max_corpus_bytes_def)
qed

text \<open>A WeKnora that holds two notes and counts its listings in steps of \<open>k\<close>.\<close>

definition sample_two :: "manual_note list" where
  "sample_two = [sample_note ''n1'' ''old'' 1, sample_note ''n2'' ''other'' 3]"

definition counting_weknora :: "int \<Rightarrow> int notes_upstream" where
  "counting_weknora k =
     \<lparr>nu_list = (\<lambda>kb page sz h w. (Inr (True, page_of sample_two 0), w + k)),
      nu_get = (\<lambda>i h w. (Inl TransportError, w)), nu_create = (\<lambda>kb m h w. (Inl TransportError, w)),
      nu_update = (\<lambda>i m h w. (Inl TransportError, w)), nu_delete = (\<lambda>i h w. (Inl TransportError, w))\<rparr>"

definition counting_service :: "int \<Rightarrow> (int \<times> database) note_service" where
  "counting_service k = product_notes (counting_weknora k) sample_sha id 5"

lemma counting_list:
  "nsv_list (counting_service k) ''kb'' page sz h s = (Inr (page_of sample_two 0), (fst s + k, snd s))"
proof -
  have "checked_page ''kb'' (True, page_of sample_two 0) = Inr (page_of sample_two 0)" by code_simp
  then show ?thesis by (simp add: counting_service_def counting_weknora_def on_fst_def decoded_def)
qed

theorem quota_exact_witness:
  "enforce_quota (counting_service 0) ''kb'' 4 3 True sample_headers (0, sample_space) = (Inr (), (0, sample_space))"
proof -
  have "length sample_two = 2" "content_bytes sample_two = 8" by code_simp+
  moreover from this have "lists_notes (counting_service 0) ''kb'' sample_headers sample_two (0, sample_space)"
    by (simp add: lists_notes_def counting_list) (intro allI impI, case_tac p, simp_all)
  ultimately show ?thesis
    using quota_exact [of "counting_service 0" "''kb''" sample_headers sample_two "(0, sample_space)" 4 3 True] by simp
qed

section \<open>That it ends\<close>

text \<open>\<open>calls\<close> counts the listings of a state, and no page reports more than \<open>N\<close> notes.\<close>

definition counts_listings :: "'s note_service \<Rightarrow> string \<Rightarrow> headers \<Rightarrow> ('s \<Rightarrow> int) \<Rightarrow> int \<Rightarrow> bool" where
  "counts_listings svc kb h calls N \<longleftrightarrow> (\<forall>page sz s r s1. nsv_list svc kb page sz h s = (r, s1) \<longrightarrow>
     calls s1 \<le> calls s + 1 \<and> (\<forall>p. r = Inr p \<longrightarrow> sint (mp_total p) \<le> N))"

lemma quota_loop_calls:
  assumes "counts_listings svc kb h calls N"
  shows "sv = svc \<Longrightarrow> k = kb \<Longrightarrow> hs = h \<Longrightarrow> quota_loop sv k hs p seen bytes s = (r, s1) \<Longrightarrow> sint (mp_total p) \<le> N \<Longrightarrow>
    calls s1 \<le> calls s + max 0 (N - seen)"
proof (induction sv k hs p seen bytes s rule: quota_loop.induct)
  case (1 sv k hs p seen bytes s)
  note eq = "1.prems"(1-3)
  obtain q s2 where l: "nsv_list svc kb (mp_page p + 1) (word_of_int max_note_page) h s = (q, s2)" by fastforce
  have c: "calls s2 \<le> calls s + 1 \<and> (\<forall>p. q = Inr p \<longrightarrow> sint (mp_total p) \<le> N)"
    using assms l unfolding counts_listings_def by blast
  let ?seen = "seen + int (length (mp_items p))"
  show ?case
  proof (cases "?seen \<ge> sint (mp_total p) \<or> mp_items p = []")
    case True
    with "1.prems"(4) show ?thesis by (auto simp: quota_loop.simps [of sv k hs p] Let_def split: if_splits)
  next
    case False
    then have s: "seen + 1 \<le> ?seen" "?seen < N" using "1.prems"(5) by (auto simp: Suc_le_eq)
    show ?thesis
    proof (cases q)
      case (Inl e)
      with False "1.prems"(4) l c s show ?thesis unfolding eq by (simp add: quota_loop.simps [of svc kb h p] Let_def)
    next
      case (Inr n)
      with False "1.prems"(4) l have "quota_loop sv k hs n ?seen (bytes + content_bytes (mp_items p)) s2 = (r, s1)"
        unfolding eq by (simp add: quota_loop.simps [of svc kb h p] Let_def)
      with "1.IH" [OF refl refl] False Inr l eq c have "calls s1 \<le> calls s2 + max 0 (N - ?seen)" by simp
      with c s show ?thesis by simp
    qed
  qed
qed

text \<open>C32. The check of the quota always ends, and soon: the loop is a total function, whatever WeKnora
  answers; and when WeKnora never reports more than \<open>N\<close> notes, it makes at most \<open>N + 1\<close> listings.\<close>

theorem quota_listings_bounded:
  assumes "counts_listings svc kb h calls N" "0 \<le> N"
  shows "calls (snd (enforce_quota svc kb new_bytes replaced replacing h s)) \<le> calls s + N + 1"
proof -
  obtain q s1 where l: "nsv_list svc kb 1 (word_of_int max_note_page) h s = (q, s1)" by fastforce
  have c: "calls s1 \<le> calls s + 1" "\<And>p. q = Inr p \<Longrightarrow> sint (mp_total p) \<le> N"
    using assms(1) l unfolding counts_listings_def by blast+
  show ?thesis
  proof (cases q)
    case (Inr p)
    obtain r s2 where r: "quota_loop svc kb h p 0 0 s1 = (r, s2)" by fastforce
    have "calls s2 \<le> calls s1 + max 0 (N - 0)"
      using quota_loop_calls [OF assms(1) refl refl refl r] c(2) [OF Inr] by blast
    with l r c Inr assms(2) show ?thesis by (cases r) (simp_all add: enforce_quota_def)
  qed (use l c assms(2) in \<open>simp add: enforce_quota_def\<close>)
qed

theorem quota_listings_bounded_witness:
  "fst (snd (enforce_quota (counting_service 1) ''kb'' 4 3 True sample_headers (0, sample_space))) \<le> 3"
proof -
  have "sint (mp_total (page_of sample_two 0)) = 2" by code_simp
  then have "counts_listings (counting_service 1) ''kb'' sample_headers fst 2"
    by (auto simp: counts_listings_def counting_list)
  from quota_listings_bounded [OF this, of 4 3 True "(0, sample_space)"] show ?thesis by simp
qed

section \<open>Titles the history cannot hold\<close>

text \<open>
  The service puts no limit on a title, the history holds 200 characters. A note whose title is
  longer can no longer be read or changed: its snapshot fails. An update brings it about: WeKnora
  has the new title by the time the revision is refused.
\<close>

lemma long_title_refused:
  assumes "200 < rune_count (mk_title n)"
  shows "record_revision (product_notes up sha ulower now) n op actor from s \<noteq> (Inr r, s1)"
proof
  assume "record_revision (product_notes up sha ulower now) n op actor from s = (Inr r, s1)"
  then obtain c where c: "note_revision_record sha now c (snd s) = (Inr r, snd s1)" "nr_title c = mk_title n"
    by (auto simp: record_revision_def on_snd_eq split: prod.splits sum.splits)
  then have "note_row_ok (note_revision_row sha now c)"
    by (auto simp: note_revision_record_def insert_note_revision_def exec_def Let_def split: if_splits sum.splits prod.splits bool.splits)
  with c(2) assms show False by (simp add: note_row_ok_def note_revision_row_def varchar_def)
qed

lemma long_title_locks_note:
  assumes "nu_get up i h w = (Inr (True, n), w1)" "200 < rune_count (mk_title n)"
  shows "\<not> is_Inr (fst (note_get (product_notes up sha ulower now) kb i who h (w, db)))"
    and "\<not> is_Inr (fst (note_update (product_notes up sha ulower now) kb i inp who h (w, db)))"
    and "\<not> is_Inr (fst (note_restore (product_notes up sha ulower now) kb i rinp who h (w, db)))"
proof -
  let ?svc = "product_notes up sha ulower now"
  have g: "x = n" if "note_authorize ?svc kb who a (w, db) = (q, s2)" "nsv_get ?svc kb i h s2 = (Inr x, s3)" for a q s2 x s3
    using nd.authorize_view [OF that(1)] that(2) assms(1) by (auto simp: on_fst_eq decoded_Inr checked_note_def split: if_splits)
  have rf: False if "note_authorize ?svc kb who a (w, db) = (q, s2)" "nsv_get ?svc kb i h s2 = (Inr x, s3)"
    "record_revision ?svc x op actor from s3 = (Inr r, s4)" for a q s2 x s3 op actor "from" r s4
    using long_title_refused [OF assms(2)] that(3) g [OF that(1,2)] by blast
  have o: "\<not> is_Inr (fst (open_note ?svc kb i who h (w, db)))"
    by (auto simp: open_note_def is_Inr_iff split: prod.splits sum.splits simp del: product_notes_sel dest: rf)
  show "\<not> is_Inr (fst (note_get ?svc kb i who h (w, db)))"
    by (auto simp: note_get_def is_Inr_iff split: prod.splits sum.splits simp del: product_notes_sel dest: rf)
  from o show "\<not> is_Inr (fst (note_update ?svc kb i inp who h (w, db)))" "\<not> is_Inr (fst (note_restore ?svc kb i rinp who h (w, db)))"
    by (auto simp: note_update_def note_restore_def split: prod.splits sum.splits)
qed

definition sample_long :: "(note_error, user_note, (manual_note list \<times> int) \<times> database) outcome" where
  "sample_long = note_update sample_notes_service ''kb'' ''n1'' (sample_edit\<lparr>wi_title := replicate 201 CHR ''a''\<rparr>) ann
     sample_headers sample_notes"

lemma long_title_written:
  "fst sample_long = Inl revision_state_error"
  "rune_count (mk_title (hd (fst (fst (snd sample_long))))) = 201"
  by code_simp+

end
