(* ===== verification/Identities.thy ===== *)
theory Identities
  imports Database
begin

text \<open>
  internal/identity/repository.go, admin.go, account.go and gate.go: the mapping of corporate
  subjects to accounts, its table (migration 000010), and the check of every session against it.
  SHA-256, from bytes to 32 bytes, is the parameter \<open>sha256\<close>.
\<close>

section \<open>Encodings\<close>

definition hex_text :: "string \<Rightarrow> string" where
  "hex_text s = hex_bytes (map (\<lambda>c. word_of_nat (of_char c)) s)"

text \<open>\<open>base64.RawURLEncoding\<close>.\<close>

definition base64_alphabet :: string where
  "base64_alphabet = ''ABCDEFGHIJKLMNOPQRSTUVWXYZabcdefghijklmnopqrstuvwxyz0123456789-_''"

fun base64_sextets :: "nat list \<Rightarrow> nat list" where
  "base64_sextets [] = []"
| "base64_sextets [a] = [a div 4, a mod 4 * 16]"
| "base64_sextets [a, b] = [a div 4, a mod 4 * 16 + b div 16, b mod 16 * 4]"
| "base64_sextets (a # b # c # r) =
     [a div 4, a mod 4 * 16 + b div 16, b mod 16 * 4 + c div 64, c mod 64] @ base64_sextets r"

definition base64url :: "string \<Rightarrow> string" where
  "base64url s = map (\<lambda>n. base64_alphabet ! n) (base64_sextets (map of_char s))"

definition hash_text :: "(string \<Rightarrow> string) \<Rightarrow> string \<Rightarrow> string" where
  "hash_text sha256 s = (if blank s then [] else hex_text (sha256 s))"

text \<open>The stable names of an employee: the broker's subject and the e-mail address WeKnora is given.\<close>

definition stable_aliases :: "(string \<Rightarrow> string) \<Rightarrow> string \<Rightarrow> string \<Rightarrow> string \<times> string" where
  "stable_aliases sha256 issuer subject =
     (let digest = sha256 (issuer @ CHR 0x00 # subject)
      in (base64url digest, ''mc-'' @ hex_text (take 16 digest) @ ''@identity.invalid''))"

section \<open>Data\<close>

datatype identity_status = StatusActive | StatusSuspended | StatusOther string

record corporate_identity =
  ci_issuer :: string
  ci_subject :: string
  ci_broker_subject :: string
  ci_upstream_email :: string
  ci_corporate_email :: string
  ci_username :: string
  ci_display_name :: string
  ci_groups :: "string list"
  ci_status :: identity_status
  ci_local_user_id :: string      \<comment> \<open>empty for SQL NULL\<close>
  ci_local_tenant_id :: u64       \<comment> \<open>zero for SQL NULL\<close>
  ci_first_seen_at :: time
  ci_last_seen_at :: time
  ci_suspended_at :: "time option"

record identity_claims =
  cl_issuer :: string
  cl_subject :: string
  cl_corporate_email :: string
  cl_username :: string
  cl_display_name :: string
  cl_groups :: "string list"

datatype identity_error = IdentityNotFound | IdentitySuspended | IdentityInvalid | IdentityUnlinked | IdentityFailed

record identity_event =
  ie_id :: string
  ie_issuer :: string
  ie_subject :: string
  ie_local_user_id :: string
  ie_action :: string
  ie_outcome :: string
  ie_error_code :: string
  ie_correlation_id :: string
  ie_source_ip :: string
  ie_created_at :: time

section \<open>Claims\<close>

definition trim_right_slashes :: "string \<Rightarrow> string" where
  "trim_right_slashes s = rev (dropWhile (\<lambda>c. c = CHR ''/'') (rev s))"

definition normalize_claims :: "(string \<Rightarrow> string) \<Rightarrow> identity_claims \<Rightarrow> identity_claims" where
  "normalize_claims ulower c =
     c\<lparr>cl_issuer := trim_right_slashes (trim_space (cl_issuer c)), cl_subject := trim_space (cl_subject c),
       cl_corporate_email := to_lower ulower (trim_space (cl_corporate_email c)),
       cl_username := trim_space (cl_username c), cl_display_name := trim_space (cl_display_name c),
       cl_groups := sort (unique (map (\<lambda>g. to_lower ulower (trim_space g)) (cl_groups c)))\<rparr>"

definition claims_valid :: "identity_claims \<Rightarrow> bool" where
  "claims_valid c \<longleftrightarrow>
     \<not> (cl_issuer c = [] \<or> int (length (cl_issuer c)) > 2048 \<or> cl_subject c = [] \<or> int (length (cl_subject c)) > 1024
        \<or> cl_corporate_email c = [] \<or> int (length (cl_corporate_email c)) > 320 \<or> \<not> contains (cl_corporate_email c) ''@''
        \<or> cl_username c = [] \<or> int (length (cl_username c)) > 160 \<or> int (length (cl_display_name c)) > 320
        \<or> int (length (cl_groups c)) > 256)"

section \<open>The table\<close>

text \<open>
  The two tables of the migration, beside the rest of the database, whose connection and random
  source they share.
\<close>

record identity_store =
  is_identities :: "corporate_identity list"
  is_events :: "identity_event list"
  is_db :: database

definition is_statement :: "identity_store \<Rightarrow> bool \<times> identity_store" where
  "is_statement s = (fst (statement (is_db s)), s\<lparr>is_db := snd (statement (is_db s))\<rparr>)"

definition is_exec ::
    "(identity_store \<Rightarrow> (identity_error, 'a, identity_store) outcome) \<Rightarrow> identity_store \<Rightarrow>
     (identity_error, 'a, identity_store) outcome" where
  "is_exec f s = (if fst (is_statement s) then f (snd (is_statement s)) else (Inl IdentityFailed, snd (is_statement s)))"

definition status_known :: "identity_status \<Rightarrow> bool" where
  "status_known st \<longleftrightarrow> st = StatusActive \<or> st = StatusSuspended"

definition identity_row_ok :: "corporate_identity \<Rightarrow> bool" where
  "identity_row_ok r \<longleftrightarrow>
     varchar 2048 (ci_issuer r) \<and> varchar 1024 (ci_subject r) \<and> varchar 64 (ci_broker_subject r)
   \<and> varchar 320 (ci_upstream_email r) \<and> varchar 320 (ci_corporate_email r) \<and> varchar 160 (ci_username r)
   \<and> varchar 320 (ci_display_name r) \<and> list_all pg_text (ci_groups r) \<and> status_known (ci_status r)
   \<and> varchar 512 (ci_local_user_id r) \<and> uint (ci_local_tenant_id r) \<le> max_int64
   \<and> ci_first_seen_at r \<le> ci_last_seen_at r \<and> (ci_status r = StatusActive \<longleftrightarrow> ci_suspended_at r = None)"

text \<open>\<open>scanIdentity\<close> refuses a row with an unknown status.\<close>

definition scan_identity :: "corporate_identity \<Rightarrow> identity_error + corporate_identity" where
  "scan_identity r = (if status_known (ci_status r) then Inr r else Inl IdentityInvalid)"

definition select_identity ::
    "(corporate_identity \<Rightarrow> bool) \<Rightarrow> identity_store \<Rightarrow> (identity_error, corporate_identity, identity_store) outcome" where
  "select_identity P =
     is_exec (\<lambda>s. (case find P (is_identities s) of None \<Rightarrow> Inl IdentityNotFound | Some r \<Rightarrow> scan_identity r, s))"

definition update_identity ::
    "(corporate_identity \<Rightarrow> bool) \<Rightarrow> (corporate_identity \<Rightarrow> corporate_identity) \<Rightarrow> identity_error \<Rightarrow> identity_store \<Rightarrow>
     (identity_error, corporate_identity, identity_store) outcome" where
  "update_identity P f missing =
     is_exec (\<lambda>s. case find P (is_identities s) of
       None \<Rightarrow> (Inl missing, s)
     | Some r \<Rightarrow>
         if \<not> identity_row_ok (f r) then (Inl IdentityFailed, s)
         else (scan_identity (f r), s\<lparr>is_identities := update_where P f (is_identities s)\<rparr>))"

text \<open>The row of a first sign-in, and what a later one changes.\<close>

definition new_identity :: "(string \<Rightarrow> string) \<Rightarrow> identity_claims \<Rightarrow> time \<Rightarrow> corporate_identity" where
  "new_identity sha256 c now =
     \<lparr>ci_issuer = cl_issuer c, ci_subject = cl_subject c,
      ci_broker_subject = fst (stable_aliases sha256 (cl_issuer c) (cl_subject c)),
      ci_upstream_email = snd (stable_aliases sha256 (cl_issuer c) (cl_subject c)),
      ci_corporate_email = cl_corporate_email c, ci_username = cl_username c, ci_display_name = cl_display_name c,
      ci_groups = cl_groups c, ci_status = StatusActive, ci_local_user_id = [], ci_local_tenant_id = 0,
      ci_first_seen_at = now, ci_last_seen_at = now, ci_suspended_at = None\<rparr>"

definition seen_again :: "identity_claims \<Rightarrow> time \<Rightarrow> corporate_identity \<Rightarrow> corporate_identity" where
  "seen_again c now r =
     r\<lparr>ci_corporate_email := cl_corporate_email c, ci_username := cl_username c, ci_display_name := cl_display_name c,
       ci_groups := cl_groups c, ci_last_seen_at := now\<rparr>"

definition identity_upsert ::
    "(string \<Rightarrow> string) \<Rightarrow> (string \<Rightarrow> string) \<Rightarrow> identity_claims \<Rightarrow> time \<Rightarrow> identity_store \<Rightarrow>
     (identity_error, corporate_identity, identity_store) outcome" where
  "identity_upsert sha256 ulower claims now s =
     (let c = normalize_claims ulower claims; same = (\<lambda>r. ci_issuer r = cl_issuer c \<and> ci_subject r = cl_subject c);
          r = new_identity sha256 c now in
      if \<not> claims_valid c \<or> is_zero_time now then (Inl IdentityInvalid, s)
      else is_exec (\<lambda>s. case find same (is_identities s) of
          Some old \<Rightarrow>
            if \<not> identity_row_ok (seen_again c now old) then (Inl IdentityFailed, s)
            else (scan_identity (seen_again c now old),
                  s\<lparr>is_identities := update_where same (seen_again c now) (is_identities s)\<rparr>)
        | None \<Rightarrow>
            if \<not> identity_row_ok r \<or> ci_broker_subject r \<in> set (map ci_broker_subject (is_identities s))
               \<or> ci_upstream_email r \<in> set (map ci_upstream_email (is_identities s)) then (Inl IdentityFailed, s)
            else (Inr r, s\<lparr>is_identities := is_identities s @ [r]\<rparr>)) s)"

definition get_by_upstream_email ::
    "(string \<Rightarrow> string) \<Rightarrow> string \<Rightarrow> identity_store \<Rightarrow> (identity_error, corporate_identity, identity_store) outcome" where
  "get_by_upstream_email ulower email = select_identity (\<lambda>r. ci_upstream_email r = to_lower ulower (trim_space email))"

definition get_by_broker_subject ::
    "string \<Rightarrow> identity_store \<Rightarrow> (identity_error, corporate_identity, identity_store) outcome" where
  "get_by_broker_subject subject = select_identity (\<lambda>r. ci_broker_subject r = trim_space subject)"

definition bind_local_principal ::
    "(string \<Rightarrow> string) \<Rightarrow> string \<Rightarrow> string \<Rightarrow> u64 \<Rightarrow> identity_store \<Rightarrow> (identity_error, unit, identity_store) outcome" where
  "bind_local_principal ulower email user tenant s =
     (if blank email \<or> blank user \<or> tenant = 0 then (Inl IdentityInvalid, s)
      else case update_identity
          (\<lambda>r. ci_upstream_email r = to_lower ulower (trim_space email)
             \<and> (ci_local_user_id r = [] \<or> ci_local_user_id r = trim_space user))
          (\<lambda>r. r\<lparr>ci_local_user_id := trim_space user, ci_local_tenant_id := tenant\<rparr>) IdentityNotFound s of
        (Inl IdentityNotFound, s1) \<Rightarrow> (Inl IdentityNotFound, s1)
      | (Inl IdentityFailed, s1) \<Rightarrow> (Inl IdentityFailed, s1)
      | (_, s1) \<Rightarrow> (Inr (), s1))"

definition bind_local_account ::
    "(string \<Rightarrow> string) \<Rightarrow> string \<Rightarrow> string \<Rightarrow> identity_store \<Rightarrow> (identity_error, unit, identity_store) outcome" where
  "bind_local_account ulower email user s =
     (if blank user \<or> blank email then (Inl IdentityInvalid, s)
      else case update_identity
          (\<lambda>r. ci_upstream_email r = to_lower ulower (trim_space email) \<and> ci_status r = StatusActive
             \<and> (ci_local_user_id r = [] \<or> ci_local_user_id r = user))
          (\<lambda>r. r\<lparr>ci_local_user_id := user\<rparr>) IdentityUnlinked s of
        (Inl IdentityUnlinked, s1) \<Rightarrow> (Inl IdentityUnlinked, s1)
      | (Inl IdentityFailed, s1) \<Rightarrow> (Inl IdentityFailed, s1)
      | (_, s1) \<Rightarrow> (Inr (), s1))"

definition member_alias ::
    "(string \<Rightarrow> string) \<Rightarrow> string \<Rightarrow> identity_store \<Rightarrow> (identity_error, string, identity_store) outcome" where
  "member_alias ulower email =
     is_exec (\<lambda>s.
       let e = to_lower ulower (trim_space email) in
       (case filter (\<lambda>r. (to_lower ulower (ci_corporate_email r) = e \<or> ci_upstream_email r = e) \<and> ci_status r = StatusActive
            \<and> ci_local_user_id r \<noteq> []) (is_identities s) of
          [r] \<Rightarrow> Inr (ci_upstream_email r)
        | _ \<Rightarrow> Inl IdentityNotFound, s))"

definition set_status_row :: "identity_status \<Rightarrow> time \<Rightarrow> corporate_identity \<Rightarrow> corporate_identity" where
  "set_status_row st now r = r\<lparr>ci_status := st, ci_suspended_at := (if st = StatusSuspended then Some now else None)\<rparr>"

definition set_status ::
    "string \<Rightarrow> identity_status \<Rightarrow> time \<Rightarrow> identity_store \<Rightarrow> (identity_error, corporate_identity, identity_store) outcome" where
  "set_status subject st now s =
     (if blank subject \<or> 64 < length subject \<or> is_zero_time now \<or> \<not> status_known st then (Inl IdentityInvalid, s)
      else update_identity (\<lambda>r. ci_broker_subject r = subject) (set_status_row st now) IdentityNotFound s)"

definition identity_event_row_ok :: "(string \<Rightarrow> string) \<Rightarrow> identity_event \<Rightarrow> bool" where
  "identity_event_row_ok sha256 e \<longleftrightarrow>
     varchar 36 (ie_id e) \<and> varchar 2048 (ie_issuer e) \<and> varchar 64 (hash_text sha256 (ie_subject e))
   \<and> varchar 512 (ie_local_user_id e) \<and> varchar 64 (ie_action e) \<and> varchar 128 (ie_error_code e)
   \<and> varchar 128 (ie_correlation_id e) \<and> varchar 64 (hash_text sha256 (ie_source_ip e))"

text \<open>The stored event has the hashes of the subject and of the address in place of them.\<close>

definition record_identity_event ::
    "(string \<Rightarrow> string) \<Rightarrow> identity_event \<Rightarrow> identity_store \<Rightarrow> (identity_error, unit, identity_store) outcome" where
  "record_identity_event sha256 e s =
     (if ie_id e = [] \<or> ie_issuer e = [] \<or> ie_subject e = [] \<or> ie_action e = [] \<or> ie_correlation_id e = []
         \<or> is_zero_time (ie_created_at e) \<or> ie_outcome e \<notin> set [''success'', ''denied'', ''failure'']
      then (Inl IdentityInvalid, s)
      else is_exec (\<lambda>s.
        if \<not> identity_event_row_ok sha256 e \<or> ie_id e \<in> set (map ie_id (is_events s)) then (Inl IdentityFailed, s)
        else (Inr (), s\<lparr>is_events := is_events s
          @ [e\<lparr>ie_subject := hash_text sha256 (ie_subject e), ie_source_ip := hash_text sha256 (ie_source_ip e)\<rparr>]\<rparr>)) s)"

section \<open>Administration and the session check\<close>

text \<open>\<open>randomUUID\<close> formats 16 random bytes as \<open>newGrantID\<close> does.\<close>

definition is_new_id :: "identity_store \<Rightarrow> string option \<times> identity_store" where
  "is_new_id s = (case new_id (is_db s) of (i, db) \<Rightarrow> (i, s\<lparr>is_db := db\<rparr>))"

definition change_status ::
    "(string \<Rightarrow> string) \<Rightarrow> time \<Rightarrow> string \<Rightarrow> identity_status \<Rightarrow> string \<Rightarrow> string \<Rightarrow> string \<Rightarrow> identity_store \<Rightarrow>
     (identity_error, corporate_identity, identity_store) outcome" where
  "change_status sha256 now subject st actor correlation source s =
     (if blank actor \<or> blank correlation then (Inl IdentityInvalid, s)
      else case set_status subject st now s of
        (Inl e, s1) \<Rightarrow> (Inl e, s1)
      | (Inr r, s1) \<Rightarrow>
          (case is_new_id s1 of
             (None, s2) \<Rightarrow> (Inl IdentityFailed, s2)
           | (Some i, s2) \<Rightarrow>
               (case record_identity_event sha256
                   \<lparr>ie_id = i, ie_issuer = ci_issuer r, ie_subject = ci_subject r, ie_local_user_id = actor,
                    ie_action = (if st = StatusSuspended then ''identity.suspended'' else ''identity.activated''),
                    ie_outcome = ''success'', ie_error_code = [], ie_correlation_id = correlation, ie_source_ip = source,
                    ie_created_at = now\<rparr> s2 of
                  (Inl e, s3) \<Rightarrow> (Inl e, s3)
                | (Inr _, s3) \<Rightarrow> (Inr r, s3))))"

record session_user =
  su_id :: string
  su_email :: string

record session_principal =
  sp_user :: "session_user option"
  sp_tenant :: "u64 option"

definition check_session ::
    "(string \<Rightarrow> string) \<Rightarrow> string list \<Rightarrow> session_principal \<Rightarrow> identity_store \<Rightarrow> (identity_error, unit, identity_store) outcome" where
  "check_session ulower break_glass p s =
     (case sp_user p of
        None \<Rightarrow> (Inl IdentityUnlinked, s)
      | Some u \<Rightarrow>
          (case sp_tenant p of
             None \<Rightarrow> (Inl IdentityUnlinked, s)
           | Some tenant \<Rightarrow>
               if su_id u = [] \<or> tenant = 0 then (Inl IdentityUnlinked, s)
               else if to_lower ulower (trim_space (su_id u)) \<in> set break_glass then (Inr (), s)
               else (case get_by_upstream_email ulower (su_email u) s of
                 (Inl e, s1) \<Rightarrow> (Inl (if e = IdentityNotFound then IdentityUnlinked else IdentityFailed), s1)
               | (Inr r, s1) \<Rightarrow>
                   if ci_status r \<noteq> StatusActive then (Inl IdentitySuspended, s1)
                   else if ci_local_user_id r \<noteq> [] \<and> ci_local_user_id r \<noteq> su_id u then (Inl IdentityUnlinked, s1)
                   else if ci_local_user_id r = [] then
                     (case bind_local_principal ulower (ci_upstream_email r) (su_id u) tenant s1 of
                        (Inl _, s2) \<Rightarrow> (Inl IdentityFailed, s2)
                      | (Inr _, s2) \<Rightarrow> (Inr (), s2))
                   else (Inr (), s1))))"

end
