(* ===== verification/IdentityBroker.thy ===== *)
theory IdentityBroker
  imports Identities Json
begin

text \<open>
  internal/identity/broker.go: the private OpenID Connect broker between the corporate provider and
  WeKnora. Its state is four maps in memory and the random tokens \<open>crypto/rand\<close> will deliver. Every
  handler is written as the code has it, as its sections under the mutex and what it does between
  them, so that the interleavings of concurrent requests are those of the sections. Of a response the
  answer is kept; diagnostics and the flow identifiers they are filed under are left out. The
  corporate provider and the RSA signature are parameters.
\<close>

section \<open>Data\<close>

record auth_transaction =
  tx_cookie_binding :: string
  tx_nonce :: string
  tx_verifier :: string
  tx_upstream_state :: string
  tx_upstream_redirect :: string
  tx_expires_at :: time

record authorization_code =
  ac_identity :: corporate_identity
  ac_redirect_uri :: string
  ac_expires_at :: time

record access_grant =
  tk_identity :: corporate_identity
  tk_expires_at :: time

record broker =
  br_transactions :: "(string \<times> auth_transaction) list"
  br_cookies :: "(string \<times> string) list"
  br_codes :: "(string \<times> authorization_code) list"
  br_tokens :: "(string \<times> access_grant) list"
  br_random :: "string option list"

definition transaction_ttl :: time where "transaction_ttl = 600000000"

definition broker_code_ttl :: time where "broker_code_ttl = 120000000"

definition broker_token_ttl :: time where "broker_token_ttl = 120000000"

text \<open>A Go map as the list of its entries.\<close>

definition put :: "string \<Rightarrow> 'a \<Rightarrow> (string \<times> 'a) list \<Rightarrow> (string \<times> 'a) list" where
  "put k v m = (k, v) # filter (\<lambda>e. fst e \<noteq> k) m"

definition remove_key :: "string \<Rightarrow> (string \<times> 'a) list \<Rightarrow> (string \<times> 'a) list" where
  "remove_key k m = filter (\<lambda>e. fst e \<noteq> k) m"

lemma map_of_put [simp]: "map_of (put k v m) k' = (if k' = k then Some v else map_of m k')"
  by (simp add: put_def map_of_filter_key)

lemma map_of_remove_key [simp]: "map_of (remove_key k m) k' = (if k' = k then None else map_of m k')"
  by (simp add: remove_key_def map_of_filter_key)

section \<open>The provider, the store and the settings\<close>

record authorization_page =
  ap_method :: string
  ap_url :: string
  ap_form :: "(string \<times> string list) list"

datatype auth_failure = GroupDenied | EmployeeTypeDenied | ProviderFailed

record corporate_provider =
  pv_authorization :: "string \<Rightarrow> string \<Rightarrow> string \<Rightarrow> unit + authorization_page"
  pv_authenticate :: "string \<Rightarrow> string \<Rightarrow> string \<Rightarrow> auth_failure \<times> identity_claims + identity_claims"
  pv_end_session_url :: string

record 's identity_ops =
  io_upsert :: "identity_claims \<Rightarrow> time \<Rightarrow> 's \<Rightarrow> (identity_error, corporate_identity, 's) outcome"
  io_get :: "string \<Rightarrow> 's \<Rightarrow> (identity_error, corporate_identity, 's) outcome"
  io_set_status :: "string \<Rightarrow> identity_status \<Rightarrow> time \<Rightarrow> 's \<Rightarrow> (identity_error, corporate_identity, 's) outcome"
  io_record :: "identity_event \<Rightarrow> 's \<Rightarrow> (identity_error, unit, 's) outcome"
  io_new_id :: "'s \<Rightarrow> string option \<times> 's"

record broker_settings =
  bs_issuer :: string              \<comment> \<open>the corporate issuer\<close>
  bs_broker_issuer :: string
  bs_client_id :: string
  bs_client_secret :: string
  bs_redirect_uri :: string
  bs_external_origin :: string
  bs_state_required :: bool
  bs_sha256 :: "string \<Rightarrow> string"
  bs_sign :: "string \<Rightarrow> string option"  \<comment> \<open>\<open>rsa.SignPKCS1v15\<close> over the digest of the text\<close>
  bs_url_ok :: "string \<Rightarrow> bool"          \<comment> \<open>\<open>url.Parse\<close> gives a scheme and a host\<close>

record broker_request =
  bq_query :: "string \<Rightarrow> string"
  bq_cookie :: "string option"
  bq_form :: "(string \<Rightarrow> string) option"  \<comment> \<open>\<open>None\<close> when \<open>ParseForm\<close> fails\<close>
  bq_basic :: "(string \<times> string) option"
  bq_authorization :: string
  bq_request_id :: string
  bq_remote :: string

datatype broker_answer =
    BrokerError nat string
  | RedirectTo string
  | PostPage authorization_page
  | BackWithError string string string         \<comment> \<open>redirect, error code, state\<close>
  | BackWithCode string string string          \<comment> \<open>redirect, broker code, state\<close>
  | TokenIssued string string                  \<comment> \<open>access token, ID token\<close>
  | UserInfo corporate_identity

section \<open>Small helpers\<close>

text \<open>\<open>strings.Fields\<close>.\<close>

definition starts_space :: "string \<Rightarrow> bool" where
  "starts_space s \<longleftrightarrow> length (trim_left s) < length s"

fun span_word :: "string \<Rightarrow> string \<times> string" where
  "span_word [] = ([], [])"
| "span_word (c # s) =
     (if starts_space (c # s) then ([], c # s) else (case span_word s of (w, r) \<Rightarrow> (c # w, r)))"

lemma span_word_rest: "length (snd (span_word s)) \<le> length s"
  by (induction s) (auto split: prod.splits)

function go_fields :: "string \<Rightarrow> string list" where
  "go_fields s =
     (case trim_left s of [] \<Rightarrow> [] | c # t \<Rightarrow> (c # fst (span_word t)) # go_fields (snd (span_word t)))"
  by pat_completeness auto
termination
proof (relation "measure length", goal_cases)
  case (2 s c t)
  with span_word_rest [of t] length_trim_left [of s] show ?case by simp
qed simp

declare go_fields.simps [simp del]

definition scope_contains :: "string \<Rightarrow> string \<Rightarrow> bool" where
  "scope_contains raw scope = list_ex (\<lambda>v. v = scope) (go_fields raw)"

definition draw :: "broker \<Rightarrow> string option \<times> broker" where
  "draw b = (case br_random b of [] \<Rightarrow> (None, b) | t # ts \<Rightarrow> (t, b\<lparr>br_random := ts\<rparr>))"

fun draws :: "nat \<Rightarrow> broker \<Rightarrow> string list option \<times> broker" where
  "draws 0 b = (Some [], b)"
| "draws (Suc n) b =
     (case draw b of
        (None, b1) \<Rightarrow> (None, b1)
      | (Some t, b1) \<Rightarrow> (case draws n b1 of (None, b2) \<Rightarrow> (None, b2) | (Some ts, b2) \<Rightarrow> (Some (t # ts), b2)))"

definition cleanup :: "(string \<Rightarrow> string) \<Rightarrow> time \<Rightarrow> broker \<Rightarrow> broker" where
  "cleanup sha256 now b =
     b\<lparr>br_transactions := filter (\<lambda>e. \<not> now > tx_expires_at (snd e)) (br_transactions b),
       br_cookies := filter (\<lambda>c. \<not> list_ex (\<lambda>e. now > tx_expires_at (snd e) \<and> fst c = hash_text sha256 (tx_cookie_binding (snd e)))
         (br_transactions b)) (br_cookies b),
       br_codes := filter (\<lambda>e. \<not> now > ac_expires_at (snd e)) (br_codes b),
       br_tokens := filter (\<lambda>e. \<not> now > tk_expires_at (snd e)) (br_tokens b)\<rparr>"

section \<open>The authorization endpoint\<close>

definition authorize_request_ok :: "broker_settings \<Rightarrow> (string \<Rightarrow> string) \<Rightarrow> bool" where
  "authorize_request_ok st q \<longleftrightarrow>
     \<not> (q ''response_type'' \<noteq> ''code'' \<or> q ''client_id'' \<noteq> bs_client_id st \<or> q ''redirect_uri'' \<noteq> bs_redirect_uri st
        \<or> \<not> scope_contains (q ''scope'') ''openid'' \<or> length (q ''state'') < 16 \<or> int (length (q ''state'')) > 4096)"

definition add_transaction :: "broker_settings \<Rightarrow> time \<Rightarrow> string \<Rightarrow> auth_transaction \<Rightarrow> broker \<Rightarrow> broker" where
  "add_transaction st now state tx b =
     (let b = cleanup (bs_sha256 st) now b; h = hash_text (bs_sha256 st) state in
      b\<lparr>br_transactions := put h tx (br_transactions b),
        br_cookies := put (hash_text (bs_sha256 st) (tx_cookie_binding tx)) h (br_cookies b)\<rparr>)"

definition broker_authorize ::
    "broker_settings \<Rightarrow> corporate_provider \<Rightarrow> time \<Rightarrow> broker_request \<Rightarrow> broker \<Rightarrow> broker_answer \<times> broker" where
  "broker_authorize st pv now rq b =
     (let q = bq_query rq in
      if \<not> authorize_request_ok st q then (BrokerError 400 ''invalid_request'', b)
      else case draws 4 b of
        (Some [state, cookie, nonce, verifier], b1) \<Rightarrow>
          (case pv_authorization pv state nonce (base64url (bs_sha256 st verifier)) of
             Inl _ \<Rightarrow> (BrokerError 502 ''identity_provider_unavailable'', b1)
           | Inr page \<Rightarrow>
               let b2 = add_transaction st now state
                 \<lparr>tx_cookie_binding = cookie, tx_nonce = nonce, tx_verifier = verifier, tx_upstream_state = q ''state'',
                  tx_upstream_redirect = q ''redirect_uri'', tx_expires_at = now + transaction_ttl\<rparr> b1
               in if ap_method page = ''POST'' then
                    (if \<not> bs_url_ok st (ap_url page) then (BrokerError 502 ''identity_provider_unavailable'', b2)
                     else case draw b2 of
                       (None, b3) \<Rightarrow> (BrokerError 500 ''server_error'', b3)
                     | (Some _, b3) \<Rightarrow> (PostPage page, b3))
                  else (RedirectTo (ap_url page), b2))
      | (_, b1) \<Rightarrow> (BrokerError 500 ''server_error'', b1))"

section \<open>The callback\<close>

text \<open>The section that takes the transaction out: state, cookie and expiry must agree.\<close>

definition callback_state_hash :: "broker_settings \<Rightarrow> broker_request \<Rightarrow> broker \<Rightarrow> string" where
  "callback_state_hash st rq b =
     (let state = trim_space (bq_query rq ''state'') in
      if state \<noteq> [] then hash_text (bs_sha256 st) state
      else if \<not> bs_state_required st then
        (case bq_cookie rq of
           None \<Rightarrow> []
         | Some c \<Rightarrow> (case map_of (br_cookies b) (hash_text (bs_sha256 st) c) of None \<Rightarrow> [] | Some h \<Rightarrow> h))
      else [])"

definition claim_transaction :: "broker_settings \<Rightarrow> time \<Rightarrow> broker_request \<Rightarrow> broker \<Rightarrow> auth_transaction option \<times> broker" where
  "claim_transaction st now rq b =
     (let h = callback_state_hash st rq b in
      case (map_of (br_transactions b) h, bq_cookie rq) of
        (Some tx, Some c) \<Rightarrow>
          if \<not> now > tx_expires_at tx \<and> c = tx_cookie_binding tx then
            (Some tx, b\<lparr>br_transactions := remove_key h (br_transactions b),
                        br_cookies := remove_key (hash_text (bs_sha256 st) (tx_cookie_binding tx)) (br_cookies b)\<rparr>)
          else (None, b)
      | _ \<Rightarrow> (None, b))"

definition record_login ::
    "'s identity_ops \<Rightarrow> time \<Rightarrow> identity_claims \<Rightarrow> string \<Rightarrow> string \<Rightarrow> broker_request \<Rightarrow> broker \<times> 's \<Rightarrow> bool \<times> broker \<times> 's" where
  "record_login ops now claims outcome code rq bs =
     (case io_new_id ops (snd bs) of
        (None, s1) \<Rightarrow> (False, fst bs, s1)
      | (Some i, s1) \<Rightarrow>
          let (correlation, b1) = (if blank (bq_request_id rq) then (case draw (fst bs) of (t, b) \<Rightarrow> ((case t of None \<Rightarrow> [] | Some t \<Rightarrow> t), b))
                                   else (trim_space (bq_request_id rq), fst bs)) in
          (case io_record ops
             \<lparr>ie_id = i, ie_issuer = cl_issuer claims, ie_subject = cl_subject claims, ie_local_user_id = [], ie_action = ''login'',
              ie_outcome = outcome, ie_error_code = code, ie_correlation_id = correlation, ie_source_ip = bq_remote rq,
              ie_created_at = now\<rparr> s1 of
             (Inl _, s2) \<Rightarrow> (False, b1, s2)
           | (Inr _, s2) \<Rightarrow> (True, b1, s2)))"

text \<open>The rest of the callback, for a transaction that has been taken out.\<close>

definition suspend_ineligible ::
    "broker_settings \<Rightarrow> 's identity_ops \<Rightarrow> time \<Rightarrow> auth_failure \<Rightarrow> identity_claims \<Rightarrow> 's \<Rightarrow> 's" where
  "suspend_ineligible st ops now f claims s =
     (if f = GroupDenied \<or> f = EmployeeTypeDenied then
        (case io_get ops (snd (stable_aliases (bs_sha256 st) (cl_issuer claims) (cl_subject claims))) s of
           (Inl _, s1) \<Rightarrow> s1
         | (Inr existing, s1) \<Rightarrow> snd (io_set_status ops (ci_broker_subject existing) StatusSuspended now s1))
      else s)"

fun failure_code :: "auth_failure \<Rightarrow> string" where
  "failure_code EmployeeTypeDenied = ''identity.employee_type_denied''"
| "failure_code GroupDenied = ''identity.group_denied''"
| "failure_code ProviderFailed = ''identity.validation_failed''"

definition known_claims :: "broker_settings \<Rightarrow> identity_claims \<Rightarrow> identity_claims" where
  "known_claims st c =
     (if cl_issuer c = [] \<or> cl_subject c = [] then
        \<lparr>cl_issuer = bs_issuer st, cl_subject = ''unknown'', cl_corporate_email = [], cl_username = [], cl_display_name = [],
         cl_groups = []\<rparr>
      else c)"

definition add_code :: "broker_settings \<Rightarrow> time \<Rightarrow> auth_transaction \<Rightarrow> corporate_identity \<Rightarrow> string \<Rightarrow> broker \<Rightarrow> broker" where
  "add_code st now tx i code b =
     b\<lparr>br_codes := put (hash_text (bs_sha256 st) code)
       \<lparr>ac_identity = i, ac_redirect_uri = tx_upstream_redirect tx, ac_expires_at = now + broker_code_ttl\<rparr> (br_codes b)\<rparr>"

definition finish_login ::
    "broker_settings \<Rightarrow> corporate_provider \<Rightarrow> 's identity_ops \<Rightarrow> auth_transaction \<Rightarrow> time \<Rightarrow> broker_request \<Rightarrow>
     broker \<times> 's \<Rightarrow> broker_answer \<times> broker \<times> 's" where
  "finish_login st pv ops tx now rq bs =
     (let back = BackWithError (tx_upstream_redirect tx); us = tx_upstream_state tx; code = trim_space (bq_query rq ''code'') in
      if \<not> blank (bq_query rq ''error'') then (back ''access_denied'' us, bs)
      else if code = [] then (back ''missing_code'' us, bs)
      else case pv_authenticate pv code (tx_verifier tx) (tx_nonce tx) of
        Inl (f, c) \<Rightarrow>
          let c1 = known_claims st c; s1 = suspend_ineligible st ops now f c1 (snd bs) in
          (back (failure_code f) us, snd (record_login ops now c1 ''denied'' (failure_code f) rq (fst bs, s1)))
      | Inr c \<Rightarrow>
          (case io_upsert ops c now (snd bs) of
             (Inl _, s1) \<Rightarrow>
               (back ''identity.provision_failed'' us,
                snd (record_login ops now c ''failure'' ''identity.provision_failed'' rq (fst bs, s1)))
           | (Inr i, s1) \<Rightarrow>
               if ci_status i \<noteq> StatusActive then
                 (back ''identity.suspended'' us, snd (record_login ops now c ''denied'' ''identity.suspended'' rq (fst bs, s1)))
               else (case record_login ops now c ''success'' [] rq (fst bs, s1) of
                 (False, bs2) \<Rightarrow> (back ''audit_unavailable'' us, bs2)
               | (True, b2, s2) \<Rightarrow>
                   (case draw b2 of
                      (None, b3) \<Rightarrow> (back ''server_error'' us, b3, s2)
                    | (Some t, b3) \<Rightarrow> (BackWithCode (tx_upstream_redirect tx) t us, add_code st now tx i t b3, s2)))))"

definition broker_callback ::
    "broker_settings \<Rightarrow> corporate_provider \<Rightarrow> 's identity_ops \<Rightarrow> time \<Rightarrow> broker_request \<Rightarrow> broker \<times> 's \<Rightarrow>
     broker_answer \<times> broker \<times> 's" where
  "broker_callback st pv ops now rq bs =
     (case claim_transaction st now rq (fst bs) of
        (None, b1) \<Rightarrow> (BrokerError 400 ''invalid_state'', b1, snd bs)
      | (Some tx, b1) \<Rightarrow> finish_login st pv ops tx now rq (b1, snd bs))"

section \<open>The token endpoint\<close>

definition consume_code :: "broker_settings \<Rightarrow> string \<Rightarrow> broker \<Rightarrow> authorization_code option \<times> broker" where
  "consume_code st code b =
     (let h = hash_text (bs_sha256 st) code in (map_of (br_codes b) h, b\<lparr>br_codes := remove_key h (br_codes b)\<rparr>))"

text \<open>The ID token: a JSON web token signed with the broker's key. \<open>unix\<close> is \<open>time.Time.Unix\<close>.\<close>

definition unix :: "time \<Rightarrow> int" where
  "unix t = t div 1000000 - 62135596800"

definition id_token_claims :: "broker_settings \<Rightarrow> time \<Rightarrow> corporate_identity \<Rightarrow> time \<Rightarrow> json" where
  "id_token_claims st now i expires =
     JObj [(''aud'', JStr (bs_client_id st)), (''email'', JStr (ci_upstream_email i)), (''exp'', JNum (itoa (unix expires))),
       (''groups'', JArr (map JStr (ci_groups i))), (''iat'', JNum (itoa (unix now))), (''iss'', JStr (bs_broker_issuer st)),
       (''name'', JStr (ci_display_name i)), (''preferred_username'', JStr (ci_username i)), (''sub'', JStr (ci_broker_subject i))]"

definition sign_id_token :: "broker_settings \<Rightarrow> time \<Rightarrow> corporate_identity \<Rightarrow> time \<Rightarrow> string option" where
  "sign_id_token st now i expires =
     (let header = json_marshal (JObj [(''alg'', JStr ''RS256''), (''kid'', JStr ''mindcreek-broker-1''), (''typ'', JStr ''JWT'')]);
          unsigned = base64url header @ ''.'' @ base64url (json_marshal (id_token_claims st now i expires))
      in map_option (\<lambda>signature. unsigned @ ''.'' @ base64url signature) (bs_sign st unsigned))"

definition issue_token ::
    "broker_settings \<Rightarrow> time \<Rightarrow> corporate_identity \<Rightarrow> broker \<Rightarrow> broker_answer \<times> broker" where
  "issue_token st now i b =
     (case draw b of
        (None, b1) \<Rightarrow> (BrokerError 500 ''server_error'', b1)
      | (Some t, b1) \<Rightarrow>
          let expires = now + broker_token_ttl;
              b2 = b1\<lparr>br_tokens := put (hash_text (bs_sha256 st) t) \<lparr>tk_identity = i, tk_expires_at = expires\<rparr> (br_tokens b1)\<rparr> in
          (case sign_id_token st now i expires of
             None \<Rightarrow> (BrokerError 500 ''server_error'', b2)
           | Some idt \<Rightarrow> (TokenIssued t idt, b2)))"

definition broker_token :: "broker_settings \<Rightarrow> time \<Rightarrow> broker_request \<Rightarrow> broker \<Rightarrow> broker_answer \<times> broker" where
  "broker_token st now rq b =
     (case bq_form rq of
        None \<Rightarrow> (BrokerError 400 ''invalid_request'', b)
      | Some form \<Rightarrow>
          if form ''grant_type'' \<noteq> ''authorization_code'' then (BrokerError 400 ''invalid_request'', b)
          else if (case bq_basic rq of Some c \<Rightarrow> c | None \<Rightarrow> (form ''client_id'', form ''client_secret''))
            \<noteq> (bs_client_id st, bs_client_secret st) then (BrokerError 401 ''invalid_client'', b)
          else (case consume_code st (form ''code'') b of
            (None, b1) \<Rightarrow> (BrokerError 400 ''invalid_grant'', b1)
          | (Some g, b1) \<Rightarrow>
              if now > ac_expires_at g \<or> form ''redirect_uri'' \<noteq> ac_redirect_uri g then (BrokerError 400 ''invalid_grant'', b1)
              else issue_token st now (ac_identity g) b1))"

section \<open>The user-info endpoint\<close>

definition broker_user_info ::
    "broker_settings \<Rightarrow> 's identity_ops \<Rightarrow> time \<Rightarrow> broker_request \<Rightarrow> broker \<times> 's \<Rightarrow> broker_answer \<times> broker \<times> 's" where
  "broker_user_info st ops now rq bs =
     (case go_fields (bq_authorization rq) of
        [scheme, token] \<Rightarrow>
          if map lower_char scheme \<noteq> ''bearer'' then (BrokerError 401 ''invalid_token'', bs)
          else (case map_of (br_tokens (fst bs)) (hash_text (bs_sha256 st) token) of
            None \<Rightarrow> (BrokerError 401 ''invalid_token'', bs)
          | Some g \<Rightarrow>
              if now > tk_expires_at g then (BrokerError 401 ''invalid_token'', bs)
              else (case io_get ops (ci_upstream_email (tk_identity g)) (snd bs) of
                (Inl _, s1) \<Rightarrow> (BrokerError 401 ''invalid_token'', fst bs, s1)
              | (Inr current, s1) \<Rightarrow>
                  if ci_status current \<noteq> StatusActive then (BrokerError 401 ''invalid_token'', fst bs, s1)
                  else (UserInfo current, fst bs, s1)))
      | _ \<Rightarrow> (BrokerError 401 ''invalid_token'', bs))"

definition broker_logout :: "broker_settings \<Rightarrow> corporate_provider \<Rightarrow> broker_answer" where
  "broker_logout st pv =
     RedirectTo (if pv_end_session_url pv = [] then bs_external_origin st @ ''/login'' else pv_end_session_url pv)"

section \<open>The product's store\<close>

definition product_identities :: "(string \<Rightarrow> string) \<Rightarrow> (string \<Rightarrow> string) \<Rightarrow> identity_store identity_ops" where
  "product_identities sha256 ulower =
     \<lparr>io_upsert = identity_upsert sha256 ulower, io_get = get_by_upstream_email ulower, io_set_status = set_status,
      io_record = record_identity_event sha256, io_new_id = is_new_id\<rparr>"

end
