(* ===== verification/IdentityProofs.thy ===== *)
theory IdentityProofs
  imports IdentityBroker "HOL-Library.AList"
begin

text \<open>
  The broker as a transition system whose steps are the sections of its concurrent requests, and what
  every run of it keeps: a code is exchanged once, and a suspended employee stays out.
\<close>

section \<open>Steps\<close>

datatype broker_label =
    Quiet
  | Issued string "string \<times> string"      \<comment> \<open>a code, by its hash, for a subject\<close>
  | Exchanged string
  | Told "string \<times> string"

definition subject_key :: "corporate_identity \<Rightarrow> string \<times> string" where
  "subject_key i = (ci_issuer i, ci_subject i)"

text \<open>
  A world is the broker, the store and the transactions whose callbacks have taken them out and are
  under way. \<open>other\<close> is what else happens to the store: administration and session checks. The
  second section of the token endpoint only adds a token, and is taken with the first.
\<close>

inductive broker_step ::
    "broker_settings \<Rightarrow> 's identity_ops \<Rightarrow> ('s \<Rightarrow> 's \<Rightarrow> bool) \<Rightarrow> broker \<times> 's \<times> auth_transaction list \<Rightarrow> broker_label \<Rightarrow>
     broker \<times> 's \<times> auth_transaction list \<Rightarrow> bool"
  for st ops other where
  step_authorize: "broker_authorize st pv now rq b = (a, b1) \<Longrightarrow> broker_step st ops other (b, s, fs) Quiet (b1, s, fs)"
| step_claim: "claim_transaction st now rq b = (Some tx, b1) \<Longrightarrow> broker_step st ops other (b, s, fs) Quiet (b1, s, tx # fs)"
| step_finish: "tx \<in> set fs \<Longrightarrow> finish_login st pv ops tx now rq (b, s) = (BackWithError r e us, b1, s1) \<Longrightarrow>
    broker_step st ops other (b, s, fs) Quiet (b1, s1, remove1 tx fs)"
| step_issue: "tx \<in> set fs \<Longrightarrow> finish_login st pv ops tx now rq (b, s) = (BackWithCode r code us, b1, s1) \<Longrightarrow>
    io_upsert ops c now s = (Inr i, s2) \<Longrightarrow> pv_authenticate pv (trim_space (bq_query rq ''code'')) (tx_verifier tx) (tx_nonce tx) = Inr c \<Longrightarrow>
    broker_step st ops other (b, s, fs) (Issued (hash_text (bs_sha256 st) code) (subject_key i)) (b1, s1, remove1 tx fs)"
| step_token: "broker_token st now rq b = (TokenIssued t idt, b1) \<Longrightarrow> bq_form rq = Some form \<Longrightarrow>
    broker_step st ops other (b, s, fs) (Exchanged (hash_text (bs_sha256 st) (form ''code''))) (b1, s, fs)"
| step_no_token: "broker_token st now rq b = (BrokerError n e, b1) \<Longrightarrow> broker_step st ops other (b, s, fs) Quiet (b1, s, fs)"
| step_user_info: "broker_user_info st ops now rq (b, s) = (UserInfo i, b1, s1) \<Longrightarrow>
    broker_step st ops other (b, s, fs) (Told (subject_key i)) (b1, s1, fs)"
| step_no_info: "broker_user_info st ops now rq (b, s) = (BrokerError n e, b1, s1) \<Longrightarrow>
    broker_step st ops other (b, s, fs) Quiet (b1, s1, fs)"
| step_other: "other s s1 \<Longrightarrow> broker_step st ops other (b, s, fs) Quiet (b, s1, fs)"

inductive broker_steps ::
    "broker_settings \<Rightarrow> 's identity_ops \<Rightarrow> ('s \<Rightarrow> 's \<Rightarrow> bool) \<Rightarrow> broker \<times> 's \<times> auth_transaction list \<Rightarrow> broker_label list \<Rightarrow>
     broker \<times> 's \<times> auth_transaction list \<Rightarrow> bool"
  for st ops other where
  steps_none: "broker_steps st ops other w [] w"
| steps_next: "broker_steps st ops other w ls w1 \<Longrightarrow> broker_step st ops other w1 l w2 \<Longrightarrow>
    broker_steps st ops other w (ls @ [l]) w2"

inductive_cases broker_stepE: "broker_step st ops other (b, s, fs) l w"

section \<open>The handlers are runs\<close>

text \<open>A callback is the claim and, when it succeeds, the rest of the login.\<close>

lemma finish_login_answers:
  "finish_login st pv ops tx now rq bs = (a, bs1) \<Longrightarrow>
   (\<exists>r e us. a = BackWithError r e us)
   \<or> (\<exists>r code us c i s2. a = BackWithCode r code us \<and> io_upsert ops c now (snd bs) = (Inr i, s2) \<and> ci_status i = StatusActive
        \<and> pv_authenticate pv (trim_space (bq_query rq ''code'')) (tx_verifier tx) (tx_nonce tx) = Inr c)"
  by (auto simp: finish_login_def Let_def split: if_splits sum.splits prod.splits bool.splits option.splits)

lemma callback_steps:
  assumes "broker_callback st pv ops now rq (b, s) = (a, b1, s1)"
  shows "\<exists>ls. broker_steps st ops other (b, s, fs) ls (b1, s1, fs)"
proof (cases "claim_transaction st now rq b")
  case (Pair r b2)
  show ?thesis
  proof (cases r)
    case None
    with Pair have "b2 = b" by (auto simp: claim_transaction_def Let_def split: option.splits if_splits)
    with None Pair assms show ?thesis by (auto simp: broker_callback_def intro!: exI [of _ "[]"] steps_none)
  next
    case (Some tx)
    with Pair have c: "broker_steps st ops other (b, s, fs) ([] @ [Quiet]) (b2, s, tx # fs)"
      by (intro steps_next [OF steps_none] step_claim) simp
    from assms Pair Some have f: "finish_login st pv ops tx now rq (b2, s) = (a, b1, s1)" by (simp add: broker_callback_def)
    have "\<exists>l. broker_step st ops other (b2, s, tx # fs) l (b1, s1, remove1 tx (tx # fs))"
      using finish_login_answers [OF f] f step_finish step_issue by (metis list.set_intros(1) snd_conv)
    with steps_next [OF c] show ?thesis by fastforce
  qed
qed

section \<open>Codes\<close>

definition code_there :: "string \<Rightarrow> broker \<Rightarrow> bool" where
  "code_there h b \<longleftrightarrow> map_of (br_codes b) h \<noteq> None"

lemma draw_codes [simp]: "br_codes (snd (draw b)) = br_codes b"
  by (simp add: draw_def split: list.splits)

lemma draw_eq: "draw b = (t, b1) \<Longrightarrow> br_codes b1 = br_codes b"
  using draw_codes [of b] by simp

lemma draws_codes: "draws n b = (ts, b1) \<Longrightarrow> br_codes b1 = br_codes b"
  by (induction n arbitrary: b ts b1) (auto split: prod.splits option.splits dest!: draw_eq)

lemma map_of_filter_sub: "map_of (filter P m) k = Some y \<Longrightarrow> \<exists>z. map_of m k = Some z"
  by (induction m) (auto split: if_splits)

lemma add_transaction_codes: "map_of (br_codes (add_transaction st now state tx b)) h \<noteq> None \<Longrightarrow> map_of (br_codes b) h \<noteq> None"
  by (auto simp: add_transaction_def cleanup_def Let_def dest: map_of_filter_sub)

lemma authorize_codes:
  assumes "broker_authorize st pv now rq b = (a, b1)" "code_there h b1"
  shows "code_there h b"
proof (cases "authorize_request_ok st (bq_query rq)")
  case True
  obtain ts b2 where d: "draws 4 b = (ts, b2)" by fastforce
  note c = draws_codes [OF d]
  show ?thesis
  proof (cases "\<exists>state cookie nonce verifier page. ts = Some [state, cookie, nonce, verifier]
      \<and> pv_authorization pv state nonce (base64url (bs_sha256 st verifier)) = Inr page")
    case t: True
    then obtain state cookie nonce verifier page where t: "ts = Some [state, cookie, nonce, verifier]"
      "pv_authorization pv state nonce (base64url (bs_sha256 st verifier)) = Inr page" by blast
    let ?b = "add_transaction st now state
       \<lparr>tx_cookie_binding = cookie, tx_nonce = nonce, tx_verifier = verifier, tx_upstream_state = bq_query rq ''state'',
        tx_upstream_redirect = bq_query rq ''redirect_uri'', tx_expires_at = now + transaction_ttl\<rparr> b2"
    from assms(1) True d t have "b1 = ?b \<or> b1 = snd (draw ?b)"
      by (auto simp: broker_authorize_def Let_def split: if_splits option.splits prod.splits)
    then have "br_codes b1 = br_codes ?b" by auto
    with assms(2) add_transaction_codes [of st now state _ b2 h] c show ?thesis by (metis code_there_def)
  next
    case False
    with assms(1) True d have "b1 = b2"
      by (auto simp: broker_authorize_def Let_def split: option.splits list.splits sum.splits)
    with assms(2) c show ?thesis by (simp add: code_there_def)
  qed
qed (use assms in \<open>auto simp: broker_authorize_def\<close>)

lemma record_login_codes: "record_login ops now c out e rq bs = (ok, b1, s1) \<Longrightarrow> br_codes b1 = br_codes (fst bs)"
  by (auto simp: record_login_def Let_def split: prod.splits option.splits if_splits sum.splits dest!: draw_eq)

text \<open>What the rest of a login does to the codes: nothing, or the one new code.\<close>

lemma finish_login_codes:
  assumes "finish_login st pv ops tx now rq (b, s) = (a, b1, s1)"
  shows "case a of BackWithCode r code us \<Rightarrow> code_there h b1 \<longrightarrow> code_there h b \<or> h = hash_text (bs_sha256 st) code
    | _ \<Rightarrow> br_codes b1 = br_codes b"
proof -
  have r: "br_codes b2 = br_codes b" if "snd (record_login ops now c out e rq (b, s2)) = (b2, s3)" for c out e s2 b2 s3
    using that record_login_codes [of ops now c out e rq "(b, s2)"] by (metis fst_conv prod.collapse)
  have r2: "br_codes b2 = br_codes b" if "record_login ops now c out e rq (b, s2) = (ok, b2, s3)" for c out e s2 ok b2 s3
    using record_login_codes [OF that] by simp
  show ?thesis
    using assms
    by (auto simp: finish_login_def Let_def code_there_def add_code_def
        split: if_splits sum.splits prod.splits bool.splits option.splits dest!: draw_eq r r2)
qed


lemma user_info_broker: "broker_user_info st ops now rq (b, s) = (a, b1, s1) \<Longrightarrow> b1 = b"
  by (auto simp: broker_user_info_def split: list.splits if_splits option.splits sum.splits prod.splits)

lemma claim_codes: "claim_transaction st now rq b = (r, b1) \<Longrightarrow> br_codes b1 = br_codes b"
  by (auto simp: claim_transaction_def Let_def split: option.splits if_splits)

lemma issue_token_codes: "issue_token st now i b = (a, b1) \<Longrightarrow> br_codes b1 = br_codes b"
  by (auto simp: issue_token_def Let_def split: prod.splits option.splits dest!: draw_eq)

lemma token_codes:
  assumes "broker_token st now rq b = (a, b1)"
  shows "code_there h b1 \<Longrightarrow> code_there h b"
    and "a = TokenIssued t idt \<Longrightarrow> bq_form rq = Some form \<Longrightarrow> h = hash_text (bs_sha256 st) (form ''code'') \<Longrightarrow>
      code_there h b \<and> \<not> code_there h b1"
  using assms
  by (auto simp: broker_token_def consume_code_def Let_def code_there_def split: option.splits if_splits dest: issue_token_codes)

fun issued_hash :: "broker_label \<Rightarrow> string option" where
  "issued_hash (Issued h k) = Some h"
| "issued_hash _ = None"

lemma step_codes:
  assumes "broker_step st ops other (b, s, fs) l (b1, s1, fs1)"
  shows "(code_there h b1 \<longrightarrow> code_there h b \<or> issued_hash l = Some h)
    \<and> (l = Exchanged h \<longrightarrow> code_there h b \<and> \<not> code_there h b1)"
  using assms
proof (cases rule: broker_step.cases)
  case (step_authorize pv now rq a)
  from authorize_codes [OF step_authorize(4)] step_authorize(1) show ?thesis by blast
next
  case (step_claim now rq tx)
  from claim_codes [OF step_claim(4)] step_claim(1) show ?thesis by (simp add: code_there_def)
next
  case (step_finish tx pv now rq r e us)
  from finish_login_codes [OF step_finish(4), of h] step_finish(1) show ?thesis by (simp add: code_there_def)
next
  case (step_issue tx pv now rq r code us)
  from finish_login_codes [OF step_issue(4), of h] step_issue(1) show ?thesis by auto
next
  case (step_token now rq t idt form)
  from token_codes [OF step_token(4)] step_token(1,5) show ?thesis by blast
next
  case (step_no_token now rq n e)
  from token_codes(1) [OF step_no_token(4)] step_no_token(1) show ?thesis by blast
next
  case (step_user_info now rq i)
  from user_info_broker [OF step_user_info(3)] step_user_info(1) show ?thesis by simp
next
  case (step_no_info now rq n e)
  from user_info_broker [OF step_no_info(3)] step_no_info(1) show ?thesis by simp
next
  case step_other
  then show ?thesis by simp
qed

text \<open>How often a hash has been issued and exchanged in a run.\<close>

definition issues :: "string \<Rightarrow> broker_label list \<Rightarrow> nat" where
  "issues h ls = length (filter (\<lambda>l. issued_hash l = Some h) ls)"

definition exchanges :: "string \<Rightarrow> broker_label list \<Rightarrow> nat" where
  "exchanges h ls = length (filter (\<lambda>l. l = Exchanged h) ls)"

lemma exchanges_bounded:
  assumes "broker_steps st ops other w ls w1" "br_codes (fst w) = []"
  shows "exchanges h ls + (if code_there h (fst w1) then 1 else 0) \<le> issues h ls"
  using assms
proof (induction rule: broker_steps.induct)
  case (steps_next w ls w1 l w2)
  obtain b s fs b1 s1 fs1 where w: "w1 = (b, s, fs)" "w2 = (b1, s1, fs1)" by (metis prod_cases3)
  note step = steps_next.hyps(2) [unfolded w]
  from steps_next.IH [OF steps_next.prems] step_codes [OF step, of h] w
  show ?case by (cases l) (auto simp: exchanges_def issues_def split: if_splits)
qed (simp add: exchanges_def issues_def code_there_def)

end
