(* ===== verification/IdentityRules.thy ===== *)
theory IdentityRules
  imports IdentityProofs
begin

text \<open>
  The table of corporate identities over time, the contract the broker relies on, and what follows
  for suspended employees.
\<close>

section \<open>The table\<close>

text \<open>Names are unique and derived from the subject; every row satisfies its constraints.\<close>

definition identities_ok :: "(string \<Rightarrow> string) \<Rightarrow> identity_store \<Rightarrow> bool" where
  "identities_ok sha256 s \<longleftrightarrow>
     distinct (map subject_key (is_identities s)) \<and> distinct (map ci_broker_subject (is_identities s))
   \<and> distinct (map ci_upstream_email (is_identities s))
   \<and> list_all (\<lambda>r. identity_row_ok r
       \<and> stable_aliases sha256 (ci_issuer r) (ci_subject r) = (ci_broker_subject r, ci_upstream_email r)) (is_identities s)"

text \<open>\<open>same_person x y\<close>: the names are those of \<open>y\<close>, and its account if it has one.\<close>

definition same_person :: "corporate_identity \<Rightarrow> corporate_identity \<Rightarrow> bool" where
  "same_person x y \<longleftrightarrow> subject_key x = subject_key y \<and> ci_broker_subject x = ci_broker_subject y
     \<and> ci_upstream_email x = ci_upstream_email y \<and> (ci_local_user_id y \<noteq> [] \<longrightarrow> ci_local_user_id x = ci_local_user_id y)"

text \<open>
  What one operation may do to the table when it activates nobody but the broker subject \<open>act\<close>.
\<close>

definition keeps_suspended :: "string option \<Rightarrow> corporate_identity \<Rightarrow> corporate_identity \<Rightarrow> bool" where
  "keeps_suspended act x y \<longleftrightarrow>
     (ci_status x = StatusSuspended \<and> act \<noteq> Some (ci_broker_subject x) \<longrightarrow> ci_status y = StatusSuspended)"

definition identity_change :: "(string \<Rightarrow> string) \<Rightarrow> string option \<Rightarrow> identity_store \<Rightarrow> identity_store \<Rightarrow> bool" where
  "identity_change sha256 act s t \<longleftrightarrow>
     is_identities t = is_identities s
   \<or> (\<exists>r. is_identities t = is_identities s @ [r] \<and> identity_row_ok r
        \<and> stable_aliases sha256 (ci_issuer r) (ci_subject r) = (ci_broker_subject r, ci_upstream_email r)
        \<and> subject_key r \<notin> subject_key ` set (is_identities s)
        \<and> ci_broker_subject r \<notin> ci_broker_subject ` set (is_identities s)
        \<and> ci_upstream_email r \<notin> ci_upstream_email ` set (is_identities s))
   \<or> (\<exists>P f. is_identities t = update_where P f (is_identities s)
        \<and> (\<forall>x\<in>set (is_identities s). P x \<longrightarrow> identity_row_ok (f x) \<and> same_person (f x) x \<and> keeps_suspended act x (f x)))"

lemma identity_change_same [simp]: "is_identities t = is_identities s \<Longrightarrow> identity_change sha256 act s t"
  by (simp add: identity_change_def)

lemma update_where_names:
  assumes "\<forall>x\<in>set xs. P x \<longrightarrow> g (f x) = g x"
  shows "map g (update_where P f xs) = map g xs"
  using assms by (induction xs) auto

lemma identity_change_ok:
  assumes "identity_change sha256 act s t" "identities_ok sha256 s"
  shows "identities_ok sha256 t"
  using assms(1) unfolding identity_change_def
proof (elim disjE exE conjE)
  fix P f
  assume t: "is_identities t = update_where P f (is_identities s)"
    and f: "\<forall>x\<in>set (is_identities s). P x \<longrightarrow> identity_row_ok (f x) \<and> same_person (f x) x \<and> keeps_suspended act x (f x)"
  from f have "map subject_key (is_identities t) = map subject_key (is_identities s)"
    "map ci_broker_subject (is_identities t) = map ci_broker_subject (is_identities s)"
    "map ci_upstream_email (is_identities t) = map ci_upstream_email (is_identities s)"
    unfolding t by (intro update_where_names; simp add: same_person_def)+
  with assms(2) f show ?thesis
    by (auto simp: identities_ok_def t list_all_iff same_person_def subject_key_def set_update_where)
qed (use assms(2) in \<open>auto simp: identities_ok_def\<close>)

definition suspended_row :: "string \<times> string \<Rightarrow> identity_store \<Rightarrow> bool" where
  "suspended_row k s \<longleftrightarrow> list_ex (\<lambda>r. subject_key r = k \<and> ci_status r = StatusSuspended) (is_identities s)"

definition held :: "(string \<Rightarrow> string) \<Rightarrow> string \<times> string \<Rightarrow> identity_store \<Rightarrow> bool" where
  "held sha256 k s \<longleftrightarrow> identities_ok sha256 s \<and> suspended_row k s"

lemma identity_change_held:
  assumes "identity_change sha256 act s t" "held sha256 k s" "act \<noteq> Some (fst (stable_aliases sha256 (fst k) (snd k)))"
  shows "held sha256 k t"
proof -
  from assms(2) obtain r where r: "r \<in> set (is_identities s)" "subject_key r = k" "ci_status r = StatusSuspended"
    and ok: "identities_ok sha256 s"
    by (auto simp: held_def suspended_row_def list_ex_iff)
  from r ok have "ci_broker_subject r = fst (stable_aliases sha256 (fst k) (snd k))"
    by (auto simp: identities_ok_def list_all_iff subject_key_def)
  with assms(3) r(3) have "keeps_suspended act r y \<longleftrightarrow> ci_status y = StatusSuspended" for y
    by (simp add: keeps_suspended_def)
  with assms(1) r have "suspended_row k t"
    unfolding identity_change_def suspended_row_def list_ex_iff
  proof (elim disjE exE conjE)
    fix P f
    assume t: "is_identities t = update_where P f (is_identities s)"
      and f: "\<forall>x\<in>set (is_identities s). P x \<longrightarrow> identity_row_ok (f x) \<and> same_person (f x) x \<and> keeps_suspended act x (f x)"
    have "(if P r then f r else r) \<in> set (is_identities t)" using r(1) unfolding t set_update_where by blast
    moreover have "subject_key (if P r then f r else r) = k \<and> ci_status (if P r then f r else r) = StatusSuspended"
      using f [rule_format, of r] r \<open>\<And>y. keeps_suspended act r y \<longleftrightarrow> ci_status y = StatusSuspended\<close> by (simp add: same_person_def)
    ultimately show "\<exists>r\<in>set (is_identities t). subject_key r = k \<and> ci_status r = StatusSuspended" by blast
  qed auto
  with identity_change_ok [OF assms(1) ok] show ?thesis by (simp add: held_def)
qed

lemma held_unique:
  assumes "held sha256 k s" "r \<in> set (is_identities s)"
    and "subject_key r = k \<or> ci_upstream_email r = snd (stable_aliases sha256 (fst k) (snd k))
      \<or> ci_broker_subject r = fst (stable_aliases sha256 (fst k) (snd k))"
  shows "subject_key r = k" "ci_status r = StatusSuspended"
proof -
  from assms(1) obtain x where x: "x \<in> set (is_identities s)" "subject_key x = k" "ci_status x = StatusSuspended"
    and ok: "identities_ok sha256 s"
    by (auto simp: held_def suspended_row_def list_ex_iff)
  from ok x have n: "stable_aliases sha256 (fst k) (snd k) = (ci_broker_subject x, ci_upstream_email x)"
    by (auto simp: identities_ok_def list_all_iff subject_key_def)
  have "r = x"
    using assms(3) unfolding n
  proof (elim disjE)
    assume "subject_key r = k"
    with ok x assms(2) show ?thesis by (auto simp: identities_ok_def intro: distinct_map_inj)
  next
    assume "ci_upstream_email r = snd (ci_broker_subject x, ci_upstream_email x)"
    with ok x assms(2) show ?thesis by (auto simp: identities_ok_def intro: distinct_map_inj)
  next
    assume "ci_broker_subject r = fst (ci_broker_subject x, ci_upstream_email x)"
    with ok x assms(2) show ?thesis by (auto simp: identities_ok_def intro: distinct_map_inj)
  qed
  with x show "subject_key r = k" "ci_status r = StatusSuspended" by auto
qed

section \<open>The operations\<close>

lemma is_statement_tables [simp]: "is_identities (snd (is_statement s)) = is_identities s"
  by (simp add: is_statement_def)

lemma select_identity_result:
  assumes "select_identity P s = (r, s1)"
  shows "is_identities s1 = is_identities s" "r = Inr i \<Longrightarrow> i \<in> set (is_identities s) \<and> P i"
  using assms
  by (auto simp: select_identity_def is_exec_def scan_identity_def split: if_splits option.splits dest: find_in_set)

lemma update_identity_change:
  assumes "update_identity P f m s = (r, s1)"
    and "\<forall>x\<in>set (is_identities s). \<forall>y\<in>set (is_identities s). P x \<longrightarrow> P y \<longrightarrow> x = y"
    and "\<forall>x. P x \<longrightarrow> same_person (f x) x \<and> keeps_suspended act x (f x)"
  shows "identity_change sha256 act s s1
    \<and> (r = Inr i \<longrightarrow> i \<in> set (is_identities s1) \<and> (\<exists>x\<in>set (is_identities s). P x \<and> i = f x))"
  proof (cases "fst (is_statement s)")
    case True
    show ?thesis
    proof (cases "find P (is_identities s)")
      case None
      with True assms(1) show ?thesis by (auto simp: update_identity_def is_exec_def)
    next
      case (Some old)
      with find_in_set have old: "old \<in> set (is_identities s)" "P old" by metis+
      show ?thesis
      proof (cases "identity_row_ok (f old)")
        case ok: True
        with True Some assms(1) have t: "is_identities s1 = update_where P f (is_identities s)" "r = scan_identity (f old)"
          by (auto simp: update_identity_def is_exec_def)
        have "\<forall>x\<in>set (is_identities s). P x \<longrightarrow> identity_row_ok (f x) \<and> same_person (f x) x \<and> keeps_suspended act x (f x)"
        proof (intro ballI impI)
          fix x assume x: "x \<in> set (is_identities s)" "P x"
          with assms(2) old have "x = old" by blast
          with x ok assms(3) show "identity_row_ok (f x) \<and> same_person (f x) x \<and> keeps_suspended act x (f x)" by blast
        qed
        then have "identity_change sha256 act s s1" using t(1) unfolding identity_change_def by blast
        then show ?thesis using t old by (auto simp: scan_identity_def set_update_where split: if_splits)
      qed (use True Some assms(1) in \<open>auto simp: update_identity_def is_exec_def\<close>)
    qed
  qed (use assms(1) in \<open>auto simp: update_identity_def is_exec_def\<close>)


lemma upsert_change:
  assumes "identity_upsert sha256 ulower c now s = (r, s1)" "identities_ok sha256 s"
  shows "identity_change sha256 None s s1" "r = Inr i \<Longrightarrow> i \<in> set (is_identities s1)"
proof -
  let ?c = "normalize_claims ulower c"
  let ?same = "\<lambda>r. ci_issuer r = cl_issuer ?c \<and> ci_subject r = cl_subject ?c"
  let ?f = "seen_again ?c now" and ?r = "new_identity sha256 ?c now" and ?t = "snd (is_statement s)"
  have f: "same_person (?f x) x" "keeps_suspended None x (?f x)" for x
    by (simp_all add: seen_again_def same_person_def subject_key_def keeps_suspended_def)
  have one: "x = y" if "x \<in> set (is_identities s)" "y \<in> set (is_identities s)" "?same x" "?same y" for x y
    using that assms(2) by (auto simp: identities_ok_def subject_key_def intro: distinct_map_inj)
  have "identity_change sha256 None s s1 \<and> (r = Inr i \<longrightarrow> i \<in> set (is_identities s1))"
  proof (cases "claims_valid ?c \<and> \<not> is_zero_time now \<and> fst (is_statement s)")
    case True
    show ?thesis
    proof (cases "find ?same (is_identities s)")
      case None
      from True None assms(1) have "identity_change sha256 None s s1 \<or> is_identities s1 = is_identities s @ [?r]
          \<and> identity_row_ok ?r \<and> ci_broker_subject ?r \<notin> set (map ci_broker_subject (is_identities s))
          \<and> ci_upstream_email ?r \<notin> set (map ci_upstream_email (is_identities s))"
        and "r = Inr i \<Longrightarrow> i \<in> set (is_identities s1)"
        by (auto simp: identity_upsert_def is_exec_def Let_def split: if_splits)
      moreover from None have "subject_key ?r \<notin> subject_key ` set (is_identities s)"
        by (auto simp: find_None subject_key_def new_identity_def)
      moreover have "stable_aliases sha256 (ci_issuer ?r) (ci_subject ?r) = (ci_broker_subject ?r, ci_upstream_email ?r)"
        by (simp add: new_identity_def)
      ultimately show ?thesis unfolding identity_change_def set_map by blast
    next
      case (Some old)
      from find_in_set [OF this] have old: "old \<in> set (is_identities s)" "?same old" by auto
      show ?thesis
      proof (cases "identity_row_ok (?f old)")
        case ok: True
        with True Some assms(1) have t: "is_identities s1 = update_where ?same ?f (is_identities s)" "r = scan_identity (?f old)"
          by (auto simp: identity_upsert_def is_exec_def Let_def)
        have "\<forall>x\<in>set (is_identities s). ?same x \<longrightarrow> identity_row_ok (?f x) \<and> same_person (?f x) x \<and> keeps_suspended None x (?f x)"
          using one old ok f by blast
        then have "identity_change sha256 None s s1" using t(1) unfolding identity_change_def by blast
        then show ?thesis using t old by (auto simp: scan_identity_def set_update_where split: if_splits)
      qed (use True Some assms(1) in \<open>auto simp: identity_upsert_def is_exec_def Let_def\<close>)
    qed
  qed (use assms(1) in \<open>auto simp: identity_upsert_def is_exec_def Let_def split: if_splits\<close>)
  then show "identity_change sha256 None s s1" "r = Inr i \<Longrightarrow> i \<in> set (is_identities s1)" by blast+
qed

lemma email_once:
  "identities_ok sha256 s \<Longrightarrow> x \<in> set (is_identities s) \<Longrightarrow> y \<in> set (is_identities s) \<Longrightarrow>
   ci_upstream_email x = ci_upstream_email y \<Longrightarrow> x = y"
  by (auto simp: identities_ok_def intro: distinct_map_inj)

lemma set_status_change:
  assumes "set_status subject st now s = (r, s1)" "identities_ok sha256 s"
  shows "identity_change sha256 (if st = StatusActive then Some subject else None) s s1
    \<and> (r = Inr i \<longrightarrow> i \<in> set (is_identities s1) \<and> ci_status i = st \<and> ci_broker_subject i = subject)"
proof (cases "blank subject \<or> 64 < length subject \<or> is_zero_time now \<or> \<not> status_known st")
  case False
  with assms(1) have u: "update_identity (\<lambda>r. ci_broker_subject r = subject) (set_status_row st now) IdentityNotFound s = (r, s1)"
    by (simp add: set_status_def)
  have one: "\<forall>x\<in>set (is_identities s). \<forall>y\<in>set (is_identities s). ci_broker_subject x = subject \<longrightarrow> ci_broker_subject y = subject \<longrightarrow> x = y"
    using assms(2) by (auto simp: identities_ok_def intro: distinct_map_inj)
  have f: "\<forall>x. ci_broker_subject x = subject \<longrightarrow> same_person (set_status_row st now x) x
    \<and> keeps_suspended (if st = StatusActive then Some subject else None) x (set_status_row st now x)"
    using False by (auto simp: same_person_def set_status_row_def keeps_suspended_def subject_key_def status_known_def)
  from update_identity_change [OF u one f, of sha256 i] show ?thesis by (auto simp: set_status_row_def)
qed (use assms(1) in \<open>auto simp: set_status_def\<close>)

lemma bind_change:
  assumes "identities_ok sha256 s" "\<forall>r. P r \<longrightarrow> ci_upstream_email r = e"
    and "\<forall>r. P r \<longrightarrow> same_person (f r) r \<and> ci_status (f r) = ci_status r" "update_identity P f m s = (r, s1)"
  shows "identity_change sha256 None s s1"
  using update_identity_change [OF assms(4), of None] assms(1-3) email_once [OF assms(1)]
  by (auto simp: keeps_suspended_def)

lemma bind_principal_change:
  assumes "bind_local_principal ulower email user tenant s = (r, s1)" "identities_ok sha256 s"
  shows "identity_change sha256 None s s1"
proof (cases "blank email \<or> blank user \<or> tenant = 0")
  case False
  obtain r2 s2 where u: "update_identity
          (\<lambda>r. ci_upstream_email r = to_lower ulower (trim_space email) \<and> (ci_local_user_id r = [] \<or> ci_local_user_id r = trim_space user))
          (\<lambda>r. r\<lparr>ci_local_user_id := trim_space user, ci_local_tenant_id := tenant\<rparr>) IdentityNotFound s = (r2, s2)" by fastforce
  from False u assms(1) have "s1 = s2"
    by (auto simp: bind_local_principal_def split: sum.splits identity_error.splits)
  have f: "\<forall>r. ci_upstream_email r = to_lower ulower (trim_space email) \<and> (ci_local_user_id r = [] \<or> ci_local_user_id r = trim_space user)
      \<longrightarrow> same_person (r\<lparr>ci_local_user_id := trim_space user, ci_local_tenant_id := tenant\<rparr>) r
        \<and> ci_status (r\<lparr>ci_local_user_id := trim_space user, ci_local_tenant_id := tenant\<rparr>) = ci_status r"
    by (auto simp: same_person_def subject_key_def)
  from \<open>s1 = s2\<close> bind_change [OF assms(2) _ f u, of "to_lower ulower (trim_space email)"] show ?thesis by blast
qed (use assms(1) in \<open>auto simp: bind_local_principal_def\<close>)

lemma bind_account_change:
  assumes "bind_local_account ulower email user s = (r, s1)" "identities_ok sha256 s"
  shows "identity_change sha256 None s s1"
proof (cases "blank user \<or> blank email")
  case False
  obtain r2 s2 where u: "update_identity
          (\<lambda>r. ci_upstream_email r = to_lower ulower (trim_space email) \<and> ci_status r = StatusActive
             \<and> (ci_local_user_id r = [] \<or> ci_local_user_id r = user))
          (\<lambda>r. r\<lparr>ci_local_user_id := user\<rparr>) IdentityUnlinked s = (r2, s2)" by fastforce
  from False u assms(1) have "s1 = s2"
    by (auto simp: bind_local_account_def split: sum.splits identity_error.splits)
  have f: "\<forall>r. ci_upstream_email r = to_lower ulower (trim_space email) \<and> ci_status r = StatusActive \<and> (ci_local_user_id r = [] \<or> ci_local_user_id r = user)
      \<longrightarrow> same_person (r\<lparr>ci_local_user_id := user\<rparr>) r \<and> ci_status (r\<lparr>ci_local_user_id := user\<rparr>) = ci_status r"
    by (auto simp: same_person_def subject_key_def)
  from \<open>s1 = s2\<close> bind_change [OF assms(2) _ f u, of "to_lower ulower (trim_space email)"] show ?thesis by blast
qed (use assms(1) in \<open>auto simp: bind_local_account_def\<close>)

lemma record_event_same:
  assumes "record_identity_event sha256 e s = (r, s1)"
  shows "is_identities s1 = is_identities s"
  using assms by (auto simp: record_identity_event_def is_exec_def split: if_splits)

lemma member_alias_same: "member_alias ulower email s = (r, s1) \<Longrightarrow> is_identities s1 = is_identities s"
  by (auto simp: member_alias_def is_exec_def Let_def split: if_splits)

lemma is_new_id_same: "is_new_id s = (i, s1) \<Longrightarrow> is_identities s1 = is_identities s"
  by (auto simp: is_new_id_def split: prod.splits)


lemma change_status_change:
  assumes "change_status sha256 now subject st actor corr src s = (r, s1)" "identities_ok sha256 s"
  shows "identity_change sha256 (if st = StatusActive then Some subject else None) s s1
    \<and> (r = Inr i \<longrightarrow> i \<in> set (is_identities s1) \<and> ci_status i = st \<and> ci_broker_subject i = subject)"
proof (cases "blank actor \<or> blank corr")
  case False
  obtain r2 s2 where c: "set_status subject st now s = (r2, s2)" by fastforce
  note ch = set_status_change [OF c assms(2)]
  from False c assms(1) have "is_identities s1 = is_identities s2 \<and> (r = Inr i \<longrightarrow> r2 = Inr i)"
    by (auto simp: change_status_def split: sum.splits prod.splits option.splits dest!: record_event_same is_new_id_same)
  with ch [of i] show ?thesis by (auto simp: identity_change_def)
qed (use assms(1) in \<open>auto simp: change_status_def\<close>)

lemma get_result:
  assumes "get_by_upstream_email ulower email s = (r, s1)"
  shows "is_identities s1 = is_identities s"
    "r = Inr i \<Longrightarrow> i \<in> set (is_identities s) \<and> ci_upstream_email i = to_lower ulower (trim_space email)"
  using select_identity_result [OF assms [unfolded get_by_upstream_email_def]] by auto

text \<open>A session is let in by a row, unless its user breaks the glass.\<close>

lemma check_session_result:
  assumes "check_session ulower bg p s = (r, s1)" "identities_ok sha256 s"
  shows "identity_change sha256 None s s1"
    and "r = Inr () \<Longrightarrow> \<exists>u. sp_user p = Some u \<and> (to_lower ulower (trim_space (su_id u)) \<in> set bg
      \<or> (\<exists>i\<in>set (is_identities s). ci_upstream_email i = to_lower ulower (trim_space (su_email u)) \<and> ci_status i = StatusActive))"
proof -
  let ?let_in = "\<exists>u. sp_user p = Some u \<and> (to_lower ulower (trim_space (su_id u)) \<in> set bg
      \<or> (\<exists>i\<in>set (is_identities s). ci_upstream_email i = to_lower ulower (trim_space (su_email u)) \<and> ci_status i = StatusActive))"
  have "identity_change sha256 None s s1 \<and> (r = Inr () \<longrightarrow> ?let_in)"
  proof (cases "\<exists>u t. sp_user p = Some u \<and> sp_tenant p = Some t \<and> su_id u \<noteq> [] \<and> t \<noteq> 0
      \<and> to_lower ulower (trim_space (su_id u)) \<notin> set bg")
    case True
    then obtain u t where p: "sp_user p = Some u" "sp_tenant p = Some t" "su_id u \<noteq> []" "t \<noteq> 0"
      "to_lower ulower (trim_space (su_id u)) \<notin> set bg" by blast
    obtain r2 s2 where g: "get_by_upstream_email ulower (su_email u) s = (r2, s2)" by fastforce
    note f = get_result [OF g]
    show ?thesis
    proof (cases r2)
      case (Inl e)
      with p g f(1) assms(1) show ?thesis by (auto simp: check_session_def)
    next
      case (Inr i)
      from f(1) assms(2) have ok: "identities_ok sha256 s2" by (simp add: identities_ok_def)
      obtain r3 s3 where b: "bind_local_principal ulower (ci_upstream_email i) (su_id u) t s2 = (r3, s3)" by fastforce
      from bind_principal_change [OF b ok] f(1) have b3: "identity_change sha256 None s s3" by (simp add: identity_change_def)
      from p g b Inr assms(1) have "(s1 = s2 \<or> s1 = s3) \<and> (r = Inr () \<longrightarrow> ci_status i = StatusActive)"
        by (auto simp: check_session_def split: if_splits sum.splits)
      with b3 f(1) f(2) [OF Inr] p(1) show ?thesis by auto
    qed
  qed (use assms(1) in \<open>auto simp: check_session_def split: option.splits if_splits\<close>)
  then show "identity_change sha256 None s s1" and "r = Inr () \<Longrightarrow> ?let_in" by blast+
qed

section \<open>Calls\<close>

text \<open>
  Every call on the store; \<open>act\<close> is the broker subject it may activate. The last rule is the rest of
  the product, which shares the connection.
\<close>

inductive identity_call ::
    "(string \<Rightarrow> string) \<Rightarrow> (string \<Rightarrow> string) \<Rightarrow> string option \<Rightarrow> identity_store \<Rightarrow> identity_store \<Rightarrow> bool"
  for sha256 ulower where
  call_upsert: "identity_upsert sha256 ulower c now s = (r, t) \<Longrightarrow> identity_call sha256 ulower None s t"
| call_get: "get_by_upstream_email ulower email s = (r, t) \<Longrightarrow> identity_call sha256 ulower None s t"
| call_find: "get_by_broker_subject subject s = (r, t) \<Longrightarrow> identity_call sha256 ulower None s t"
| call_bind: "bind_local_principal ulower email user tenant s = (r1, t) \<Longrightarrow> identity_call sha256 ulower None s t"
| call_bind_account: "bind_local_account ulower email user s = (r1, t) \<Longrightarrow> identity_call sha256 ulower None s t"
| call_alias: "member_alias ulower email s = (r2, t) \<Longrightarrow> identity_call sha256 ulower None s t"
| call_status: "set_status subject st now s = (r, t) \<Longrightarrow>
    identity_call sha256 ulower (if st = StatusActive then Some subject else None) s t"
| call_event: "record_identity_event sha256 e s = (r1, t) \<Longrightarrow> identity_call sha256 ulower None s t"
| call_change: "change_status sha256 now subject st actor corr src s = (r, t) \<Longrightarrow>
    identity_call sha256 ulower (if st = StatusActive then Some subject else None) s t"
| call_session: "check_session ulower bg p s = (r1, t) \<Longrightarrow> identity_call sha256 ulower None s t"
| call_rest: "identity_call sha256 ulower None s (s\<lparr>is_db := db\<rparr>)"

lemma identity_call_change: "identity_call sha256 ulower act s t \<Longrightarrow> identities_ok sha256 s \<Longrightarrow> identity_change sha256 act s t"
proof (induction rule: identity_call.induct)
  case (call_find subject s r t)
  then show ?case using select_identity_result(1) by (fastforce simp: get_by_broker_subject_def)
qed (simp_all add: upsert_change get_result(1) bind_principal_change bind_account_change member_alias_same
      set_status_change change_status_change record_event_same check_session_result(1))


section \<open>The contract of the broker\<close>

text \<open>
  What the broker relies on: a subject that is held out stays held out under the broker's own calls,
  and neither the upsert nor the lookup ever shows it as active.
\<close>

locale identity_contract =
  fixes ops :: "'s identity_ops" and out :: "string \<times> string \<Rightarrow> 's \<Rightarrow> bool"
  assumes upsert_out: "out k s \<Longrightarrow> io_upsert ops c now s = (r, s1) \<Longrightarrow> out k s1"
    and upsert_shows: "out k s \<Longrightarrow> io_upsert ops c now s = (Inr i, s1) \<Longrightarrow> ci_status i = StatusActive \<Longrightarrow> subject_key i \<noteq> k"
    and get_out: "out k s \<Longrightarrow> io_get ops e s = (r, s1) \<Longrightarrow> out k s1"
    and get_shows: "out k s \<Longrightarrow> io_get ops e s = (Inr i, s1) \<Longrightarrow> ci_status i = StatusActive \<Longrightarrow> subject_key i \<noteq> k"
    and suspend_out: "out k s \<Longrightarrow> io_set_status ops x StatusSuspended now s = (r, s1) \<Longrightarrow> out k s1"
    and record_out: "out k s \<Longrightarrow> io_record ops ev s = (u, s1) \<Longrightarrow> out k s1"
    and new_id_out: "out k s \<Longrightarrow> io_new_id ops s = (n, s1) \<Longrightarrow> out k s1"
begin

lemma record_login_out:
  "out k (snd bs) \<Longrightarrow> record_login ops now c res e rq bs = (ok, b1, s1) \<Longrightarrow> out k s1"
  by (auto simp: record_login_def Let_def split: prod.splits option.splits if_splits sum.splits intro: new_id_out record_out)

lemma suspend_ineligible_out: "out k s \<Longrightarrow> out k (suspend_ineligible st ops now f c s)"
  by (auto simp: suspend_ineligible_def intro: get_out dest: get_out suspend_out [OF _ prod.collapse [symmetric]]
      split: prod.splits sum.splits)

lemma record_login_snd: "out k s \<Longrightarrow> out k (snd (snd (record_login ops now c res e rq (b, s))))"
  using record_login_out [of k "(b, s)"] by (metis prod.collapse snd_conv)

lemma finish_login_out:
  assumes "out k s" "finish_login st pv ops tx now rq (b, s) = (a, b1, s1)"
  shows "out k s1"
proof -
  show ?thesis
  proof (cases "pv_authenticate pv (trim_space (bq_query rq ''code'')) (tx_verifier tx) (tx_nonce tx)")
    case (Inl fc)
    with assms record_login_snd [OF suspend_ineligible_out [OF assms(1)]] show ?thesis
      by (auto simp: finish_login_def Let_def split: if_splits prod.splits) (metis snd_conv)+
  next
    case (Inr c)
    obtain r s2 where u: "io_upsert ops c now s = (r, s2)" by fastforce
    note o2 = upsert_out [OF assms(1) u]
    from assms(1,2) Inr u have "s1 = s \<or> (\<exists>res e. s1 = snd (snd (record_login ops now c res e rq (b, s2))))"
      by (auto simp: finish_login_def Let_def split: if_splits sum.splits prod.splits bool.splits option.splits) (metis snd_conv)+
    with assms(1) record_login_snd [OF o2] show ?thesis by blast
  qed
qed

lemma user_info_out:
  assumes "out k s" "broker_user_info st ops now rq (b, s) = (a, b1, s1)"
  shows "out k s1" "a = UserInfo i \<Longrightarrow> subject_key i \<noteq> k"
  using assms
  by (auto simp: broker_user_info_def split: list.splits if_splits option.splits sum.splits prod.splits dest: get_out get_shows)

lemma step_out:
  assumes "broker_step st ops other (b, s, fs) l (b1, s1, fs1)" "out k s" "\<And>s t. other s t \<Longrightarrow> out k s \<Longrightarrow> out k t"
  shows "out k s1 \<and> (\<forall>h. l \<noteq> Issued h k) \<and> l \<noteq> Told k"
  using assms(1)
proof (cases rule: broker_step.cases)
  case (step_finish tx pv now rq r e us)
  with finish_login_out [OF assms(2) step_finish(4)] show ?thesis by simp
next
  case (step_issue tx pv now rq r code us c i s2)
  from finish_login_answers [OF step_issue(4)] step_issue(5,6) have "ci_status i = StatusActive" by auto
  with upsert_shows [OF assms(2) step_issue(5)] finish_login_out [OF assms(2) step_issue(4)] step_issue(1) show ?thesis by simp
next
  case (step_user_info now rq i)
  with user_info_out [OF assms(2) step_user_info(3)] show ?thesis by simp
next
  case (step_no_info now rq n e)
  with user_info_out(1) [OF assms(2) step_no_info(3)] show ?thesis by simp
qed (use assms(2,3) in auto)

lemma steps_out:
  assumes "broker_steps st ops other w ls w1" "out k (fst (snd w))" "\<And>s t. other s t \<Longrightarrow> out k s \<Longrightarrow> out k t"
  shows "out k (fst (snd w1)) \<and> (\<forall>h. Issued h k \<notin> set ls) \<and> Told k \<notin> set ls"
  using assms(1,2)
proof (induction rule: broker_steps.induct)
  case (steps_next w ls w1 l w2)
  obtain b s fs b1 s1 fs1 where w: "w1 = (b, s, fs)" "w2 = (b1, s1, fs1)" by (metis prod_cases3)
  from step_out [OF steps_next.hyps(2) [unfolded w] _ assms(3)] steps_next.IH [OF steps_next.prems] w show ?case by auto
qed simp

end

lemma held_change:
  "held sha256 k s \<Longrightarrow> identity_change sha256 None s t \<Longrightarrow> held sha256 k t"
  using identity_change_held [of sha256 None s t k] by simp

lemma held_ok: "held sha256 k s \<Longrightarrow> identities_ok sha256 s"
  by (simp add: held_def)

lemma held_shows: "held sha256 k s \<Longrightarrow> i \<in> set (is_identities s) \<Longrightarrow> ci_status i = StatusActive \<Longrightarrow> subject_key i \<noteq> k"
  using held_unique(2) [of sha256 k s i] by auto

lemma held_same: "held sha256 k s \<Longrightarrow> is_identities s1 = is_identities s \<Longrightarrow> held sha256 k s1"
  by (simp add: held_def identities_ok_def suspended_row_def)

lemma product_ops [simp]:
  "io_upsert (product_identities sha256 ulower) = identity_upsert sha256 ulower"
  "io_get (product_identities sha256 ulower) = get_by_upstream_email ulower"
  "io_set_status (product_identities sha256 ulower) = set_status"
  "io_record (product_identities sha256 ulower) = record_identity_event sha256"
  "io_new_id (product_identities sha256 ulower) = is_new_id"
  by (simp_all add: product_identities_def)

interpretation pi: identity_contract "product_identities sha256 ulower" "held sha256"
proof (unfold_locales, unfold product_ops, goal_cases)
  case (1 k s c now r s1)
  from held_change [OF 1(1) upsert_change(1) [OF 1(2) held_ok [OF 1(1)]]] show ?case .
next
  case (2 k s c now i s1)
  from upsert_change [OF 2(2) held_ok [OF 2(1)]] have u: "identity_change sha256 None s s1" "i \<in> set (is_identities s1)" by auto
  from held_shows [OF held_change [OF 2(1) u(1)] u(2) 2(3)] show ?case .
next
  case (3 k s e r s1)
  from held_same [OF 3(1) get_result(1) [OF 3(2)]] show ?case .
next
  case (4 k s e i s1)
  from get_result(2) [OF 4(2) refl] held_shows [OF 4(1) _ 4(3)] show ?case by blast
next
  case (5 k s x now r s1)
  from set_status_change [OF 5(2) held_ok [OF 5(1)]] held_change [OF 5(1)] show ?case by simp
next
  case (6 k s ev u s1)
  from held_same [OF 6(1) record_event_same [OF 6(2)]] show ?case .
next
  case (7 k s n s1)
  from held_same [OF 7(1) is_new_id_same [OF 7(2)]] show ?case .
qed

section \<open>Runs\<close>

definition some_call :: "(string \<Rightarrow> string) \<Rightarrow> (string \<Rightarrow> string) \<Rightarrow> identity_store \<Rightarrow> identity_store \<Rightarrow> bool" where
  "some_call sha256 ulower s t \<longleftrightarrow> (\<exists>act. identity_call sha256 ulower act s t)"

lemma identity_change_person:
  assumes "identity_change sha256 act s t" "i \<in> set (is_identities s)"
  shows "\<exists>j\<in>set (is_identities t). same_person j i"
  using assms(1) unfolding identity_change_def
proof (elim disjE exE conjE)
  fix P f
  assume t: "is_identities t = update_where P f (is_identities s)"
    and f: "\<forall>x\<in>set (is_identities s). P x \<longrightarrow> identity_row_ok (f x) \<and> same_person (f x) x \<and> keeps_suspended act x (f x)"
  have "(if P i then f i else i) \<in> set (is_identities t)" using assms(2) unfolding t set_update_where by blast
  moreover have "same_person (if P i then f i else i) i" using f assms(2) by (simp add: same_person_def)
  ultimately show ?thesis by blast
qed (use assms(2) in \<open>auto simp: same_person_def\<close>)

lemma same_person_trans: "same_person x y \<Longrightarrow> same_person y z \<Longrightarrow> same_person x z"
  by (auto simp: same_person_def)

end
