(* ===== verification/IdentitySamples.thy ===== *)
theory IdentitySamples
  imports IdentityRules
begin

text \<open>A concrete employee, store, provider and broker, with one complete login, for the witnesses.\<close>

definition sample_hash :: "string \<Rightarrow> string" where
  "sample_hash s = take 32 (rev s @ replicate 32 (CHR ''x''))"

definition sample_claims :: identity_claims where
  "sample_claims =
     \<lparr>cl_issuer = ''https://id.example'', cl_subject = ''ada'', cl_corporate_email = ''Ada@example.com'',
      cl_username = ''ada'', cl_display_name = ''Ada'', cl_groups = [''Staff'', ''staff'']\<rparr>"

definition sample_store :: identity_store where
  "sample_store = \<lparr>is_identities = [], is_events = [], is_db = empty_database\<lparr>db_random := [replicate 16 7, replicate 16 8, replicate 16 9]\<rparr>\<rparr>"

definition known_store :: identity_store where
  "known_store = snd (identity_upsert sample_hash id sample_claims 1000 sample_store)"

definition known_row :: corporate_identity where
  "known_row = hd (is_identities known_store)"

lemma known_ok: "identities_ok sample_hash known_store"
  by code_simp

lemma known_member: "is_identities known_store = [known_row]"
  by code_simp

definition bound_store :: identity_store where
  "bound_store = snd (bind_local_account id (ci_upstream_email known_row) ''u1'' known_store)"

lemma bound_call: "some_call sample_hash id known_store bound_store"
proof -
  have "bind_local_account id (ci_upstream_email known_row) ''u1'' known_store
      = (fst (bind_local_account id (ci_upstream_email known_row) ''u1'' known_store), bound_store)"
    by (simp add: bound_store_def)
  from call_bind_account [OF this] show ?thesis unfolding some_call_def by blast
qed

definition sample_settings :: broker_settings where
  "sample_settings =
     \<lparr>bs_issuer = ''https://id.example'', bs_broker_issuer = ''https://kb.example/identity'', bs_client_id = ''weknora'',
      bs_client_secret = ''secret'', bs_redirect_uri = ''https://kb.example/cb'', bs_external_origin = ''https://kb.example'',
      bs_state_required = True, bs_sha256 = sample_hash, bs_sign = (\<lambda>t. Some ''sig''), bs_url_ok = (\<lambda>u. True)\<rparr>"

definition sample_provider :: corporate_provider where
  "sample_provider =
     \<lparr>pv_authorization = (\<lambda>state nonce challenge. Inr \<lparr>ap_method = ''GET'', ap_url = ''https://id.example/auth'', ap_form = []\<rparr>),
      pv_authenticate = (\<lambda>code verifier nonce. Inr (normalize_claims id sample_claims)), pv_end_session_url = []\<rparr>"

definition sample_query :: "(string \<times> string) list \<Rightarrow> string \<Rightarrow> string" where
  "sample_query m k = (case map_of m k of None \<Rightarrow> [] | Some v \<Rightarrow> v)"

definition sample_request :: broker_request where
  "sample_request =
     \<lparr>bq_query = sample_query [], bq_cookie = Some ''cookie-1'', bq_form = None, bq_basic = None, bq_authorization = [],
      bq_request_id = ''r1'', bq_remote = ''10.0.0.1''\<rparr>"

definition start_request :: broker_request where
  "start_request = sample_request\<lparr>bq_query := sample_query
     [(''response_type'', ''code''), (''client_id'', ''weknora''), (''redirect_uri'', ''https://kb.example/cb''),
      (''scope'', ''openid email''), (''state'', ''0123456789abcdef'')]\<rparr>"

definition back_request :: broker_request where
  "back_request = sample_request\<lparr>bq_query := sample_query [(''state'', ''state-1''), (''code'', ''corporate'')]\<rparr>"

definition token_form :: "string \<Rightarrow> string" where
  "token_form = sample_query [(''grant_type'', ''authorization_code''), (''client_id'', ''weknora''),
     (''client_secret'', ''secret''), (''code'', ''code-1''), (''redirect_uri'', ''https://kb.example/cb'')]"

definition token_request :: broker_request where
  "token_request = sample_request\<lparr>bq_form := Some token_form\<rparr>"

definition fresh_broker :: broker where
  "fresh_broker = \<lparr>br_transactions = [], br_cookies = [], br_codes = [], br_tokens = [],
     br_random = map Some [''state-1'', ''cookie-1'', ''nonce-1'', ''verifier-1'', ''code-1'', ''token-1'']\<rparr>"

definition sample_ops :: "identity_store identity_ops" where
  "sample_ops = product_identities sample_hash id"

definition started_broker :: broker where
  "started_broker = snd (broker_authorize sample_settings sample_provider 1000 start_request fresh_broker)"

definition claimed :: "auth_transaction option \<times> broker" where
  "claimed = claim_transaction sample_settings 2000 back_request started_broker"

definition finished :: "broker_answer \<times> broker \<times> identity_store" where
  "finished = finish_login sample_settings sample_provider sample_ops (the (fst claimed)) 3000 back_request (snd claimed, sample_store)"

definition tokened :: "broker_answer \<times> broker" where
  "tokened = broker_token sample_settings 4000 token_request (fst (snd finished))"

lemma claimed_some: "case fst claimed of None \<Rightarrow> False | Some _ \<Rightarrow> True"
  by code_simp

lemma finished_code: "fst finished = BackWithCode ''https://kb.example/cb'' ''code-1'' ''0123456789abcdef''"
  by code_simp

lemma tokened_ok: "case fst tokened of TokenIssued t i \<Rightarrow> t = ''token-1'' | _ \<Rightarrow> False"
  by code_simp

text \<open>The labels of the login, and its run.\<close>

definition login_labels :: "broker_label list" where
  "login_labels = [Quiet, Quiet, Issued (hash_text sample_hash ''code-1'') (''https://id.example'', ''ada''),
     Exchanged (hash_text sample_hash ''code-1'')]"

lemma upsert_known: "case identity_upsert sample_hash id (normalize_claims id sample_claims) 3000 sample_store of
    (Inr i, s) \<Rightarrow> subject_key i = (''https://id.example'', ''ada'') | _ \<Rightarrow> False"
  by code_simp

lemma sample_login:
  "\<exists>w. broker_steps sample_settings sample_ops (\<lambda>s t. False) (fresh_broker, sample_store, []) login_labels w"
proof -
  let ?step = "broker_step sample_settings sample_ops (\<lambda>s t. False)"
  from claimed_some obtain tx where tx: "fst claimed = Some tx" by (auto split: option.splits)
  from upsert_known obtain i s2 where up: "io_upsert sample_ops (normalize_claims id sample_claims) 3000 sample_store = (Inr i, s2)"
    and k: "subject_key i = (''https://id.example'', ''ada'')"
    by (auto simp: sample_ops_def split: sum.splits prod.splits)
  from tokened_ok obtain t idt where tk: "fst tokened = TokenIssued t idt" by (auto split: broker_answer.splits)
  obtain b1 s1 where f: "snd finished = (b1, s1)" by fastforce
  have "?step (fresh_broker, sample_store, []) Quiet (started_broker, sample_store, [])"
    by (rule step_authorize [where a = "fst (broker_authorize sample_settings sample_provider 1000 start_request fresh_broker)"])
       (simp add: started_broker_def)
  from steps_next [OF steps_none this] have "broker_steps sample_settings sample_ops (\<lambda>s t. False)
      (fresh_broker, sample_store, []) [Quiet] (started_broker, sample_store, [])" by simp
  moreover have "?step (started_broker, sample_store, []) Quiet (snd claimed, sample_store, [tx])"
    by (rule step_claim [where now = 2000 and rq = back_request]) (metis claimed_def prod.collapse tx)
  ultimately have "broker_steps sample_settings sample_ops (\<lambda>s t. False)
      (fresh_broker, sample_store, []) [Quiet, Quiet] (snd claimed, sample_store, [tx])" using steps_next by fastforce
  moreover have "?step (snd claimed, sample_store, [tx]) (Issued (hash_text (bs_sha256 sample_settings) ''code-1'') (subject_key i)) (b1, s1, remove1 tx [tx])"
  proof (rule step_issue [OF _ _ up])
    show "finish_login sample_settings sample_provider sample_ops tx 3000 back_request (snd claimed, sample_store)
        = (BackWithCode ''https://kb.example/cb'' ''code-1'' ''0123456789abcdef'', b1, s1)"
      using finished_code f tx by (metis finished_def option.sel prod.collapse)
  qed (simp_all add: sample_provider_def)
  ultimately have "broker_steps sample_settings sample_ops (\<lambda>s t. False) (fresh_broker, sample_store, [])
      [Quiet, Quiet, Issued (hash_text sample_hash ''code-1'') (''https://id.example'', ''ada'')] (b1, s1, [])"
    using steps_next k by (fastforce simp: sample_settings_def)
  moreover have "?step (b1, s1, []) (Exchanged (hash_text (bs_sha256 sample_settings) (token_form ''code''))) (snd tokened, s1, [])"
  proof (rule step_token)
    show "broker_token sample_settings 4000 token_request b1 = (TokenIssued t idt, snd tokened)"
      using tk f by (metis fst_conv prod.collapse tokened_def)
  qed (simp add: token_request_def)
  moreover have "token_form ''code'' = ''code-1''" by code_simp
  ultimately show ?thesis unfolding login_labels_def using steps_next by (fastforce simp: sample_settings_def)
qed

definition suspension :: "(identity_error, corporate_identity, identity_store) outcome" where
  "suspension = change_status sample_hash 5000 (ci_broker_subject known_row) StatusSuspended ''admin'' ''r2'' ''10.0.0.2'' known_store"

definition refused :: "broker_answer \<times> broker \<times> identity_store" where
  "refused = finish_login sample_settings sample_provider sample_ops (the (fst claimed)) 6000 back_request (snd claimed, snd suspension)"

definition ada :: session_user where
  "ada = \<lparr>su_id = ''u1'', su_email = ci_upstream_email known_row\<rparr>"

end
