(* ===== verification/IdentitySafety.thy ===== *)
theory IdentitySafety
  imports IdentitySamples
begin

text \<open>What holds of the corporate identities in every run of the product and of its broker.\<close>

text \<open>C35. Whatever calls reach the store, the table keeps its constraints, unique names and names derived from the subject, and every employee keeps the row, its names and, once bound, its account.\<close>

theorem account_bound_for_ever:
  assumes "(some_call sha256 ulower)\<^sup>*\<^sup>* s t" "identities_ok sha256 s" "i \<in> set (is_identities s)"
  shows "identities_ok sha256 t \<and> (\<exists>j\<in>set (is_identities t). same_person j i)"
  using assms
proof (induction rule: rtranclp_induct)
  case base
  then show ?case by (auto simp: same_person_def)
next
  case (step t u)
  then obtain act j where c: "identity_call sha256 ulower act t u" and ok: "identities_ok sha256 t"
    and j: "j \<in> set (is_identities t)" "same_person j i" by (auto simp: some_call_def)
  note ch = identity_call_change [OF c ok]
  from identity_change_ok [OF ch ok] identity_change_person [OF ch j(1)] same_person_trans [OF _ j(2)] show ?case by blast
qed

theorem account_bound_for_ever_witness:
  "identities_ok sample_hash bound_store \<and> (\<exists>j\<in>set (is_identities bound_store). same_person j known_row)
   \<and> map ci_local_user_id (is_identities bound_store) = [''u1'']"
proof -
  have "map ci_local_user_id (is_identities bound_store) = [''u1'']" by code_simp
  moreover have "known_row \<in> set (is_identities known_store)" by (simp add: known_member)
  ultimately show ?thesis
    using account_bound_for_ever [OF r_into_rtranclp, of sample_hash id, OF bound_call known_ok] by blast
qed

text \<open>C34. In every run of the broker an authorization code is exchanged for tokens at most as often as it was issued: no code is used twice.\<close>

theorem code_single_use:
  assumes "broker_steps st ops other w ls w1" "br_codes (fst w) = []"
  shows "exchanges h ls \<le> issues h ls"
  using exchanges_bounded [OF assms, of h] by simp

theorem code_single_use_witness:
  "exchanges (hash_text sample_hash ''code-1'') login_labels \<le> issues (hash_text sample_hash ''code-1'') login_labels
   \<and> exchanges (hash_text sample_hash ''code-1'') login_labels = 1"
proof -
  obtain w where "broker_steps sample_settings sample_ops (\<lambda>s t. False) (fresh_broker, sample_store, []) login_labels w"
    using sample_login by blast
  from code_single_use [OF this, of "hash_text sample_hash ''code-1''"] show ?thesis
    by (simp add: fresh_broker_def) (simp add: exchanges_def login_labels_def)
qed



end
