(* ===== verification/IdentityProviders.thy ===== *)
theory IdentityProviders
  imports IdentityBroker
begin

text \<open>
  internal/identity/provider.go and oauth2_provider.go: the two adapters to the corporate provider.
  The HTTP client, the JSON and URL parsers, SHA-256 and the RSA verification are parameters; a
  decoded object has each member once, and a body is what is left of it after the code's limit.
\<close>

section \<open>Encodings\<close>

text \<open>\<open>base64.RawURLEncoding.DecodeString\<close>: line breaks are skipped, spare low bits are not looked at.\<close>

definition base64_value :: "char \<Rightarrow> nat option" where
  "base64_value c =
     (if CHR ''A'' \<le> c \<and> c \<le> CHR ''Z'' then Some (of_char c - 65)
      else if CHR ''a'' \<le> c \<and> c \<le> CHR ''z'' then Some (of_char c - 71)
      else if CHR ''0'' \<le> c \<and> c \<le> CHR ''9'' then Some (of_char c + 4)
      else if c = CHR ''-'' then Some 62 else if c = CHR ''_'' then Some 63 else None)"

fun bytes_of_sextets :: "nat list \<Rightarrow> nat list option" where
  "bytes_of_sextets [] = Some []"
| "bytes_of_sextets [a] = None"
| "bytes_of_sextets [a, b] = Some [a * 4 + b div 16]"
| "bytes_of_sextets [a, b, c] = Some [a * 4 + b div 16, b mod 16 * 16 + c div 4]"
| "bytes_of_sextets (a # b # c # d # r) =
     map_option (\<lambda>t. [a * 4 + b div 16, b mod 16 * 16 + c div 4, c mod 4 * 64 + d] @ t) (bytes_of_sextets r)"

definition base64url_decode :: "string \<Rightarrow> string option" where
  "base64url_decode s =
     (let v = map base64_value (filter (\<lambda>c. c \<noteq> CHR 0x0A \<and> c \<noteq> CHR 0x0D) s) in
      if None \<in> set v then None else map_option (map char_of) (bytes_of_sextets (map the v)))"

text \<open>\<open>url.Values.Encode\<close>: sorted by key, the values of a key in their order.\<close>

definition unreserved :: "char \<Rightarrow> bool" where
  "unreserved c \<longleftrightarrow> (CHR ''a'' \<le> c \<and> c \<le> CHR ''z'') \<or> (CHR ''A'' \<le> c \<and> c \<le> CHR ''Z'')
     \<or> (CHR ''0'' \<le> c \<and> c \<le> CHR ''9'') \<or> c \<in> set ''-_.~''"

definition upper_hex :: "nat \<Rightarrow> char" where
  "upper_hex n = ''0123456789ABCDEF'' ! n"

definition query_escape :: "string \<Rightarrow> string" where
  "query_escape s =
     concat (map (\<lambda>c. if unreserved c then [c] else if c = CHR '' '' then ''+''
       else [CHR ''%'', upper_hex (of_char c div 16), upper_hex (of_char c mod 16)]) s)"

fun join_amp :: "string list \<Rightarrow> string" where
  "join_amp [] = []"
| "join_amp [x] = x"
| "join_amp (x # y # ys) = x @ CHR ''&'' # join_amp (y # ys)"

definition form_encode :: "(string \<times> string) list \<Rightarrow> string" where
  "form_encode m = join_amp (map (\<lambda>(k, v). query_escape k @ CHR ''='' # query_escape v) (sort_key fst m))"

text \<open>\<open>url.Values.Set\<close>, with one value per key.\<close>

definition form_set :: "string \<Rightarrow> string \<Rightarrow> (string \<times> string) list \<Rightarrow> (string \<times> string) list" where
  "form_set k v m = filter (\<lambda>e. fst e \<noteq> k) m @ [(k, v)]"

text \<open>\<open>strings.FieldsFunc\<close> at commas and spaces, \<open>strings.Split\<close> at a character, \<open>strings.Join\<close> at a space.\<close>

fun split_at :: "(char \<Rightarrow> bool) \<Rightarrow> string \<Rightarrow> string list" where
  "split_at P [] = [[]]"
| "split_at P (c # s) = (if P c then [] # split_at P s else (case split_at P s of [] \<Rightarrow> [[c]] | w # ws \<Rightarrow> (c # w) # ws))"

definition comma_fields :: "string \<Rightarrow> string list" where
  "comma_fields s = filter (\<lambda>w. w \<noteq> []) (split_at (\<lambda>c. c = CHR '','' \<or> c = CHR '' '') s)"

fun join_space :: "string list \<Rightarrow> string" where
  "join_space [] = []"
| "join_space [x] = x"
| "join_space (x # y # ys) = x @ CHR '' '' # join_space (y # ys)"

text \<open>
  \<open>json.Unmarshal\<close> into a structure: a member is matched without regard to case (the Kelvin sign and
  the long s fold to ASCII letters), a null leaves the field alone, another type is an error.
\<close>

fun fold_key :: "string \<Rightarrow> string" where
  "fold_key [] = []"
| "fold_key (c # s) =
     (if c = CHR 0xC5 \<and> take 1 s = [CHR 0xBF] then CHR ''s'' # fold_key (drop 1 s)
      else if c = CHR 0xE2 \<and> take 2 s = [CHR 0x84, CHR 0xAA] then CHR ''k'' # fold_key (drop 2 s)
      else lower_char c # fold_key s)"

fun struct_string :: "string \<Rightarrow> (string \<times> json) list \<Rightarrow> string \<Rightarrow> string option" where
  "struct_string name [] v = Some v"
| "struct_string name ((k, j) # ms) v =
     (if fold_key k = fold_key name then (case j of JStr s \<Rightarrow> struct_string name ms s | JNull \<Rightarrow> struct_string name ms v | _ \<Rightarrow> None)
      else struct_string name ms v)"

fun object_members :: "json \<Rightarrow> (string \<times> json) list option" where
  "object_members (JObj ms) = Some ms"
| "object_members JNull = Some []"
| "object_members _ = None"

definition struct_strings :: "string list \<Rightarrow> json \<Rightarrow> string list option" where
  "struct_strings names j =
     (case object_members j of
        None \<Rightarrow> None
      | Some ms \<Rightarrow>
          let vs = map (\<lambda>n. struct_string n ms []) names in if None \<in> set vs then None else Some (map the vs))"

section \<open>Settings, client and state\<close>

record http_request =
  hr_method :: string
  hr_url :: string
  hr_headers :: "(string \<times> string) list"
  hr_basic :: "(string \<times> string) option"
  hr_body :: string

record http_response =
  hs_status :: int
  hs_body :: string

record parsed_url =
  pu_scheme :: string
  pu_host :: string
  pu_user :: bool          \<comment> \<open>\<open>User != nil\<close>\<close>
  pu_fragment :: string

record 'w corporate_client =
  cc_http :: "http_request \<Rightarrow> 'w \<Rightarrow> http_response option \<times> 'w"
  cc_json :: "string \<Rightarrow> json option"                   \<comment> \<open>the first value of a stream\<close>
  cc_url :: "string \<Rightarrow> parsed_url option"
  cc_query :: "string \<Rightarrow> (string \<times> string) list"
  cc_with_query :: "string \<Rightarrow> string \<Rightarrow> string"
  cc_sha256 :: "string \<Rightarrow> string"
  cc_rsa :: "string \<Rightarrow> int \<Rightarrow> string \<Rightarrow> string \<Rightarrow> bool"     \<comment> \<open>modulus, exponent, digest, signature\<close>
  cc_lower :: "string \<Rightarrow> string"

record identity_config =
  ic_issuer :: string
  ic_discovery_url :: string
  ic_callback_url :: string
  ic_corporate_redirect :: string
  ic_authorization_url :: string
  ic_token_url :: string
  ic_user_info_url :: string
  ic_client_id :: string
  ic_client_secret :: string
  ic_client_auth :: string
  ic_authorization_method :: string
  ic_authorization_grant :: string
  ic_authorization_display :: string
  ic_token_format :: string
  ic_pkce :: bool
  ic_state_required :: bool
  ic_token_transport :: string
  ic_scopes :: "string list"
  ic_allow_http :: bool
  ic_subject_claim :: string
  ic_tenant_claim :: string
  ic_tenant_scoped :: bool
  ic_username_claim :: string
  ic_email_claim :: string
  ic_group_claim :: string
  ic_display_claim :: string
  ic_uuid_claim :: string
  ic_employee_claim :: string
  ic_data_path :: string
  ic_required_groups :: "string list"
  ic_employee_types :: "string list"

record provider_metadata =
  md_issuer :: string
  md_authorization :: string
  md_token :: string
  md_user_info :: string
  md_jwks :: string
  md_end_session :: string

text \<open>\<open>decodeLimitedJSON\<close> reads at most a mebibyte.\<close>

definition limited_json :: "'w corporate_client \<Rightarrow> string \<Rightarrow> json option" where
  "limited_json cl body = cc_json cl (if int (length body) > 1048576 then take 1048576 body else body)"

definition get_json :: "'w corporate_client \<Rightarrow> string \<Rightarrow> (string \<times> string) list \<Rightarrow> 'w \<Rightarrow> json option \<times> 'w" where
  "get_json cl url headers w =
     (case cc_http cl \<lparr>hr_method = ''GET'', hr_url = url, hr_headers = headers @ [(''Accept'', ''application/json'')],
         hr_basic = None, hr_body = []\<rparr> w of
        (None, w1) \<Rightarrow> (None, w1)
      | (Some r, w1) \<Rightarrow> (if hs_status r \<noteq> 200 then None else limited_json cl (hs_body r), w1))"

definition provider_url_ok :: "'w corporate_client \<Rightarrow> bool \<Rightarrow> string \<Rightarrow> bool" where
  "provider_url_ok cl allow_http raw =
     (case cc_url cl raw of
        None \<Rightarrow> False
      | Some u \<Rightarrow> \<not> (pu_host u = [] \<or> pu_user u \<or> pu_fragment u \<noteq> []
          \<or> (pu_scheme u \<noteq> ''https'' \<and> \<not> (allow_http \<and> pu_scheme u = ''http''))))"

section \<open>OpenID Connect: metadata\<close>

definition metadata_of :: "json \<Rightarrow> provider_metadata option" where
  "metadata_of j =
     (case struct_strings [''issuer'', ''authorization_endpoint'', ''token_endpoint'', ''userinfo_endpoint'', ''jwks_uri'',
         ''end_session_endpoint''] j of
        Some [a, b, c, d, e, f] \<Rightarrow>
          Some \<lparr>md_issuer = a, md_authorization = b, md_token = c, md_user_info = d, md_jwks = e, md_end_session = f\<rparr>
      | _ \<Rightarrow> None)"

definition metadata_ok :: "'w corporate_client \<Rightarrow> identity_config \<Rightarrow> provider_metadata \<Rightarrow> bool" where
  "metadata_ok cl st m \<longleftrightarrow>
     trim_right_slashes (md_issuer m) = ic_issuer st
   \<and> list_all (provider_url_ok cl (ic_allow_http st)) [md_authorization m, md_token m, md_jwks m]
   \<and> list_all (\<lambda>u. u = [] \<or> provider_url_ok cl (ic_allow_http st) u) [md_user_info m, md_end_session m]"

text \<open>The state of the adapter is the metadata it has loaded.\<close>

definition load_metadata ::
    "'w corporate_client \<Rightarrow> identity_config \<Rightarrow> provider_metadata option \<times> 'w \<Rightarrow> provider_metadata option \<times> provider_metadata option \<times> 'w" where
  "load_metadata cl st mw =
     (case fst mw of
        Some m \<Rightarrow> (Some m, mw)
      | None \<Rightarrow>
          (case get_json cl (ic_discovery_url st) [] (snd mw) of
             (None, w1) \<Rightarrow> (None, None, w1)
           | (Some j, w1) \<Rightarrow>
               (case metadata_of j of
                  None \<Rightarrow> (None, None, w1)
                | Some m \<Rightarrow> if metadata_ok cl st m then (Some m, Some m, w1) else (None, None, w1))))"

definition oidc_authorization ::
    "'w corporate_client \<Rightarrow> identity_config \<Rightarrow> string \<Rightarrow> string \<Rightarrow> string \<Rightarrow> provider_metadata option \<times> 'w \<Rightarrow>
     (unit + authorization_page) \<times> provider_metadata option \<times> 'w" where
  "oidc_authorization cl st state nonce challenge mw =
     (case load_metadata cl st mw of
        (None, mw1) \<Rightarrow> (Inl (), mw1)
      | (Some m, mw1) \<Rightarrow>
          (case cc_url cl (md_authorization m) of
             None \<Rightarrow> (Inl (), mw1)
           | Some _ \<Rightarrow>
               (Inr \<lparr>ap_method = ''GET'',
                  ap_url = cc_with_query cl (md_authorization m) (form_encode
                    [(''response_type'', ''code''), (''client_id'', ic_client_id st), (''redirect_uri'', ic_callback_url st),
                     (''scope'', join_space (ic_scopes st)), (''state'', state), (''nonce'', nonce), (''code_challenge'', challenge),
                     (''code_challenge_method'', ''S256'')]), ap_form = []\<rparr>, mw1)))"

definition end_session_url :: "provider_metadata option \<Rightarrow> string" where
  "end_session_url m = (case m of None \<Rightarrow> [] | Some m \<Rightarrow> md_end_session m)"

section \<open>OpenID Connect: the ID token\<close>

text \<open>\<open>strconv.ParseInt(s, 10, 64)\<close>.\<close>

definition digit_value :: "char \<Rightarrow> int option" where
  "digit_value c = (if CHR ''0'' \<le> c \<and> c \<le> CHR ''9'' then Some (of_char c - 48) else None)"

fun parse_digits :: "int \<Rightarrow> string \<Rightarrow> int option" where
  "parse_digits n [] = Some n"
| "parse_digits n (c # s) = (case digit_value c of None \<Rightarrow> None | Some d \<Rightarrow> parse_digits (10 * n + d) s)"

definition parse_int64 :: "string \<Rightarrow> int option" where
  "parse_int64 s =
     (let (sign, digits) = (case s of [] \<Rightarrow> (1, []) | c # r \<Rightarrow> if c = CHR ''-'' then (- 1, r) else if c = CHR ''+'' then (1, r) else (1, s)) in
      if digits = [] then None
      else case parse_digits 0 digits of
        None \<Rightarrow> None
      | Some n \<Rightarrow> if - max_int64 - 1 \<le> sign * n \<and> sign * n \<le> max_int64 then Some (sign * n) else None)"

text \<open>\<open>time.Unix(seconds, 0)\<close>: the seconds since the zero time are a 64-bit integer that wraps.\<close>

definition from_unix :: "int \<Rightarrow> time" where
  "from_unix n = sint (word_of_int (n + 62135596800) :: u64) * 1000000"

fun numeric_date :: "json option \<Rightarrow> time option" where
  "numeric_date (Some (JNum n)) = map_option from_unix (parse_int64 n)"
| "numeric_date (Some (JStr n)) = map_option from_unix (parse_int64 n)"
| "numeric_date _ = None"

definition claim_string :: "(string \<times> json) list \<Rightarrow> string \<Rightarrow> string" where
  "claim_string claims name = trim_space (obj_string name claims)"

fun claim_strings :: "json option \<Rightarrow> string list" where
  "claim_strings (Some (JStr s)) = comma_fields s"
| "claim_strings (Some (JArr js)) = concat (map (\<lambda>j. case j of JStr s \<Rightarrow> [s] | _ \<Rightarrow> []) js)"
| "claim_strings _ = []"

definition audience_contains :: "json option \<Rightarrow> string \<Rightarrow> bool" where
  "audience_contains v client = list_ex (\<lambda>c. c = client) (claim_strings v)"

definition groups_allowed :: "(string \<Rightarrow> string) \<Rightarrow> string list \<Rightarrow> string list \<Rightarrow> bool" where
  "groups_allowed ulower groups required \<longleftrightarrow>
     required = [] \<or> list_ex (\<lambda>g. to_lower ulower (trim_space g) \<in> set required) groups"

definition decode_jwt_part :: "'w corporate_client \<Rightarrow> string \<Rightarrow> json option" where
  "decode_jwt_part cl raw =
     (case base64url_decode raw of None \<Rightarrow> None | Some d \<Rightarrow> if int (length d) > 65536 then None else cc_json cl d)"

text \<open>The first usable key of the document with the identifier.\<close>

definition rsa_key_of :: "string \<Rightarrow> json \<Rightarrow> (string \<times> int) option" where
  "rsa_key_of key_id j =
     (case struct_strings [''kid'', ''kty'', ''alg'', ''n'', ''e'', ''use''] j of
        Some [kid, kty, alg, n, e, use] \<Rightarrow>
          if kid \<noteq> key_id \<or> kty \<noteq> ''RSA'' \<or> (alg \<noteq> [] \<and> alg \<noteq> ''RS256'') then None
          else (case (base64url_decode n, base64url_decode e) of
            (Some modulus, Some eb) \<Rightarrow>
              if int (length modulus) < 256 \<or> eb = [] \<or> length eb > 4 then None
              else let ex = foldl (\<lambda>a c. a * 256 + of_char c) 0 eb in if ex < 3 then None else Some (modulus, ex)
          | _ \<Rightarrow> None)
      | _ \<Rightarrow> None)"

definition jwks_keys :: "json \<Rightarrow> json list option" where
  "jwks_keys j =
     (case object_members j of
        None \<Rightarrow> None
      | Some ms \<Rightarrow>
          (case find (\<lambda>m. fold_key (fst m) = ''keys'') ms of
             None \<Rightarrow> Some []
           | Some (_, JNull) \<Rightarrow> Some []
           | Some (_, JArr js) \<Rightarrow>
               if list_all (\<lambda>k. struct_strings [''kid'', ''kty'', ''alg'', ''n'', ''e'', ''use''] k \<noteq> None) js then Some js else None
           | _ \<Rightarrow> None))"

definition load_rsa_key :: "'w corporate_client \<Rightarrow> string \<Rightarrow> string \<Rightarrow> 'w \<Rightarrow> (string \<times> int) option \<times> 'w" where
  "load_rsa_key cl endpoint key_id w =
     (case get_json cl endpoint [] w of
        (None, w1) \<Rightarrow> (None, w1)
      | (Some j, w1) \<Rightarrow>
          (case jwks_keys j of
             None \<Rightarrow> (None, w1)
           | Some ks \<Rightarrow> (case List.map_filter (rsa_key_of key_id) ks of [] \<Rightarrow> (None, w1) | k # _ \<Rightarrow> (Some k, w1))))"

text \<open>What the code asks of the claims of a token whose signature is right.\<close>

definition token_claims_ok :: "identity_config \<Rightarrow> string \<Rightarrow> time \<Rightarrow> (string \<times> json) list \<Rightarrow> bool" where
  "token_claims_ok st nonce now c \<longleftrightarrow>
     claim_string c ''iss'' = ic_issuer st \<and> audience_contains (obj_get ''aud'' c) (ic_client_id st)
   \<and> claim_string c ''nonce'' = nonce \<and> claim_string c ''sub'' \<noteq> []
   \<and> (length (claim_strings (obj_get ''aud'' c)) > 1 \<longrightarrow> claim_string c ''azp'' = ic_client_id st)
   \<and> (case numeric_date (obj_get ''exp'' c) of None \<Rightarrow> False | Some e \<Rightarrow> e > now - 30000000)
   \<and> (case numeric_date (obj_get ''iat'' c) of None \<Rightarrow> True | Some i \<Rightarrow> \<not> i > now + 120000000)"

definition verify_id_token ::
    "'w corporate_client \<Rightarrow> identity_config \<Rightarrow> provider_metadata \<Rightarrow> string \<Rightarrow> string \<Rightarrow> time \<Rightarrow> 'w \<Rightarrow> (string \<times> json) list option \<times> 'w" where
  "verify_id_token cl st m raw nonce now w =
     (case split_at (\<lambda>c. c = CHR ''.'') raw of
        [h, p, sg] \<Rightarrow>
          (case Option.bind (decode_jwt_part cl h) (struct_strings [''alg'', ''kid'']) of
             Some [alg, kid] \<Rightarrow>
               if alg \<noteq> ''RS256'' \<or> kid = [] then (None, w)
               else (case load_rsa_key cl (md_jwks m) kid w of
                 (None, w1) \<Rightarrow> (None, w1)
               | (Some key, w1) \<Rightarrow>
                   (case base64url_decode sg of
                      None \<Rightarrow> (None, w1)
                    | Some signature \<Rightarrow>
                        if \<not> cc_rsa cl (fst key) (snd key) (cc_sha256 cl (h @ CHR ''.'' # p)) signature then (None, w1)
                        else (case Option.bind (decode_jwt_part cl p) object_members of
                          None \<Rightarrow> (None, w1)
                        | Some c \<Rightarrow> if token_claims_ok st nonce now c then (Some c, w1) else (None, w1))))
           | _ \<Rightarrow> (None, w))
      | _ \<Rightarrow> (None, w))"

section \<open>OpenID Connect: authentication\<close>

definition no_claims :: identity_claims where
  "no_claims = \<lparr>cl_issuer = [], cl_subject = [], cl_corporate_email = [], cl_username = [], cl_display_name = [], cl_groups = []\<rparr>"

text \<open>The members of the user info that may replace those of the token.\<close>

definition merge_user_info :: "(string \<times> json) list \<Rightarrow> (string \<times> json) list \<Rightarrow> (string \<times> json) list" where
  "merge_user_info info verified =
     fold (\<lambda>(k, v) c. if k \<in> set [''iss'', ''aud'', ''exp'', ''iat'', ''nonce'', ''sub''] then c else obj_set k v c) info verified"

definition oidc_claims :: "identity_config \<Rightarrow> (string \<times> json) list \<Rightarrow> identity_claims" where
  "oidc_claims st v =
     (let email = claim_string v (ic_email_claim st); name = claim_string v (ic_username_claim st) in
      \<lparr>cl_issuer = ic_issuer st, cl_subject = claim_string v ''sub'', cl_corporate_email = email,
       cl_username = (if name = [] then hd (split_at (\<lambda>c. c = CHR ''@'') email) else name),
       cl_display_name = claim_string v (ic_display_claim st), cl_groups = claim_strings (obj_get (ic_group_claim st) v)\<rparr>)"

definition post_token ::
    "'w corporate_client \<Rightarrow> http_request \<Rightarrow> string list \<Rightarrow> 'w \<Rightarrow> string list option \<times> 'w" where
  "post_token cl rq names w =
     (case cc_http cl rq w of
        (None, w1) \<Rightarrow> (None, w1)
      | (Some r, w1) \<Rightarrow>
          (if hs_status r < 200 \<or> 300 \<le> hs_status r then None else Option.bind (limited_json cl (hs_body r)) (struct_strings names), w1))"

definition oidc_eligible ::
    "'w corporate_client \<Rightarrow> identity_config \<Rightarrow> (string \<times> json) list \<Rightarrow> auth_failure \<times> identity_claims + identity_claims" where
  "oidc_eligible cl st v =
     (let c = normalize_claims (cc_lower cl) (oidc_claims st v) in
      if \<not> claims_valid c then Inl (ProviderFailed, no_claims)
      else if \<not> groups_allowed (cc_lower cl) (cl_groups c) (ic_required_groups st) then Inl (GroupDenied, c)
      else Inr c)"

definition oidc_authenticate ::
    "'w corporate_client \<Rightarrow> identity_config \<Rightarrow> string \<Rightarrow> string \<Rightarrow> string \<Rightarrow> time \<Rightarrow> provider_metadata option \<times> 'w \<Rightarrow>
     (auth_failure \<times> identity_claims + identity_claims) \<times> provider_metadata option \<times> 'w" where
  "oidc_authenticate cl st code verifier nonce now mw =
     (let failed = Inl (ProviderFailed, no_claims) in
      case load_metadata cl st mw of
        (None, mw1) \<Rightarrow> (failed, mw1)
      | (Some m, md, w1) \<Rightarrow>
          let form = [(''grant_type'', ''authorization_code''), (''code'', code), (''redirect_uri'', ic_callback_url st),
                (''client_id'', ic_client_id st), (''client_secret'', ic_client_secret st), (''code_verifier'', verifier)];
              rq = \<lparr>hr_method = ''POST'', hr_url = md_token m,
                hr_headers = [(''Content-Type'', ''application/x-www-form-urlencoded''), (''Accept'', ''application/json'')],
                hr_basic = None, hr_body = form_encode form\<rparr> in
          (case post_token cl rq [''access_token'', ''id_token'', ''token_type''] w1 of
             (Some [access, idt, _], w2) \<Rightarrow>
               if idt = [] then (failed, md, w2)
               else (case verify_id_token cl st m idt nonce now w2 of
                 (None, w3) \<Rightarrow> (failed, md, w3)
               | (Some v, w3) \<Rightarrow>
                   if md_user_info m = [] \<or> access = [] then (oidc_eligible cl st v, md, w3)
                   else (case get_json cl (md_user_info m) [(''Authorization'', ''Bearer '' @ access)] w3 of
                     (j, w4) \<Rightarrow>
                       (case Option.bind j object_members of
                          None \<Rightarrow> (failed, md, w4)
                        | Some info \<Rightarrow>
                            if claim_string info ''sub'' \<noteq> claim_string v ''sub'' then (failed, md, w4)
                            else (oidc_eligible cl st (merge_user_info info v), md, w4))))
           | (_, w2) \<Rightarrow> (failed, md, w2)))"

section \<open>OAuth 2\<close>

definition oauth_authorization ::
    "'w corporate_client \<Rightarrow> identity_config \<Rightarrow> string \<Rightarrow> string \<Rightarrow> unit + authorization_page" where
  "oauth_authorization cl st state challenge =
     (let q0 = form_set ''redirect_uri'' (ic_corporate_redirect st) (form_set ''client_id'' (ic_client_id st)
            (form_set ''response_type'' ''code'' (cc_query cl (ic_authorization_url st))));
          q1 = (if ic_authorization_display st \<noteq> [] then form_set ''display'' (ic_authorization_display st) q0 else q0);
          q2 = (if ic_state_required st then form_set ''state'' state q1 else q1);
          q3 = (if ic_scopes st \<noteq> [] then form_set ''scope'' (join_space (ic_scopes st)) q2 else q2) in
      if ic_pkce st \<and> challenge = [] then Inl ()
      else let q4 = (if ic_pkce st then form_set ''code_challenge_method'' ''S256'' (form_set ''code_challenge'' challenge q3) else q3) in
        Inr (if ic_authorization_method st = ''POST'' then
               \<lparr>ap_method = ''POST'', ap_url = cc_with_query cl (ic_authorization_url st) [], ap_form = map (\<lambda>(k, v). (k, [v])) q4\<rparr>
             else \<lparr>ap_method = ''GET'', ap_url = cc_with_query cl (ic_authorization_url st) (form_encode q4), ap_form = []\<rparr>))"

text \<open>The user-info document.\<close>

fun claim_text :: "json option \<Rightarrow> string" where
  "claim_text (Some (JStr s)) = trim_space s"
| "claim_text (Some (JNum n)) = n"
| "claim_text _ = []"

fun claim_texts :: "json option \<Rightarrow> string list" where
  "claim_texts (Some (JArr js)) = filter (\<lambda>t. t \<noteq> []) (map (\<lambda>j. claim_text (Some j)) js)"
| "claim_texts v = (if claim_text v = [] then [] else comma_fields (claim_text v))"

fun walk_path :: "string list \<Rightarrow> (string \<times> json) list \<Rightarrow> (string \<times> json) list option" where
  "walk_path [] ms = Some ms"
| "walk_path (p # ps) ms =
     (if p = [] then walk_path ps ms else (case obj_get p ms of Some (JObj ms') \<Rightarrow> walk_path ps ms' | _ \<Rightarrow> None))"

definition object_at_path :: "string \<Rightarrow> (string \<times> json) list \<Rightarrow> (string \<times> json) list option" where
  "object_at_path path ms = walk_path (split_at (\<lambda>c. c = CHR ''.'') (trim_space path)) ms"

definition values_allowed :: "(string \<Rightarrow> string) \<Rightarrow> string list \<Rightarrow> string list \<Rightarrow> bool" where
  "values_allowed ulower vals allowed \<longleftrightarrow>
     allowed = [] \<or> list_ex (\<lambda>v. to_lower ulower (trim_space v) \<in> set allowed) vals"

text \<open>The subject of an employee whose identifier is unique in the tenant only.\<close>

definition oauth_subject :: "(string \<Rightarrow> string) \<Rightarrow> identity_config \<Rightarrow> (string \<times> json) list \<Rightarrow> string option" where
  "oauth_subject sha256 st info =
     (let user = claim_text (obj_get (ic_subject_claim st) info); tenant = claim_text (obj_get (ic_tenant_claim st) info) in
      if user = [] \<or> (ic_tenant_scoped st \<and> tenant = []) then None
      else Some (if ic_tenant_scoped st then ''tenant-user:'' @ hex_text (sha256 (tenant @ CHR 0x00 # user)) else user))"

definition oauth_claims :: "(string \<Rightarrow> string) \<Rightarrow> identity_config \<Rightarrow> string \<Rightarrow> (string \<times> json) list \<Rightarrow> identity_claims" where
  "oauth_claims sha256 st subject info =
     (let get = (\<lambda>name. claim_text (obj_get name info));
          name1 = get (ic_username_claim st);
          name2 = (if name1 = [] \<and> ic_uuid_claim st \<noteq> [] then get (ic_uuid_claim st) else name1);
          name = (if name2 = [] then ''user-'' @ hex_text (take 8 (sha256 subject)) else name2);
          display = get (ic_display_claim st);
          email = (if ic_email_claim st \<noteq> [] then get (ic_email_claim st) else [])
      in \<lparr>cl_issuer = ic_issuer st, cl_subject = subject,
          cl_corporate_email = (if email = [] then snd (stable_aliases sha256 (ic_issuer st) subject) else email),
          cl_username = name, cl_display_name = (if display = [] then name else display),
          cl_groups = claim_texts (obj_get (ic_group_claim st) info)
            @ map (\<lambda>t. ''employee-type:'' @ t) (claim_texts (obj_get (ic_employee_claim st) info))\<rparr>)"

definition oauth_eligible ::
    "'w corporate_client \<Rightarrow> identity_config \<Rightarrow> (string \<times> json) list \<Rightarrow> auth_failure \<times> identity_claims + identity_claims" where
  "oauth_eligible cl st info =
     (case oauth_subject (cc_sha256 cl) st info of
        None \<Rightarrow> Inl (ProviderFailed, no_claims)
      | Some subject \<Rightarrow>
          let c = normalize_claims (cc_lower cl) (oauth_claims (cc_sha256 cl) st subject info) in
          if \<not> claims_valid c then Inl (ProviderFailed, no_claims)
          else if \<not> values_allowed (cc_lower cl) (claim_texts (obj_get (ic_employee_claim st) info)) (ic_employee_types st)
          then Inl (EmployeeTypeDenied, c)
          else if \<not> groups_allowed (cc_lower cl) (cl_groups c) (ic_required_groups st) then Inl (GroupDenied, c)
          else Inr c)"

definition user_info_target :: "'w corporate_client \<Rightarrow> identity_config \<Rightarrow> string \<Rightarrow> string \<Rightarrow> string" where
  "user_info_target cl st access scope =
     (if ic_token_transport st = ''query'' then
        let q = form_set ''client_id'' (ic_client_id st) (form_set ''access_token'' access (cc_query cl (ic_user_info_url st))) in
        cc_with_query cl (ic_user_info_url st) (form_encode (if scope \<noteq> [] then form_set ''scope'' scope q else q))
      else ic_user_info_url st)"

definition load_claims ::
    "'w corporate_client \<Rightarrow> identity_config \<Rightarrow> string \<Rightarrow> string \<Rightarrow> 'w \<Rightarrow> (auth_failure \<times> identity_claims + identity_claims) \<times> 'w" where
  "load_claims cl st access scope w =
     (case get_json cl (user_info_target cl st access scope)
         (if ic_token_transport st = ''bearer'' then [(''Authorization'', ''Bearer '' @ access)] else []) w of
        (j, w1) \<Rightarrow>
          (case Option.bind (Option.bind j object_members) (object_at_path (ic_data_path st)) of
             None \<Rightarrow> (Inl (ProviderFailed, no_claims), w1)
           | Some info \<Rightarrow> (oauth_eligible cl st info, w1)))"

definition oauth_token_request :: "identity_config \<Rightarrow> string \<Rightarrow> string \<Rightarrow> http_request" where
  "oauth_token_request st code verifier =
     (let form0 = [(''grant_type'', ic_authorization_grant st), (''code'', code), (''redirect_uri'', ic_corporate_redirect st)];
          form1 = (if ic_pkce st then form_set ''code_verifier'' verifier form0 else form0);
          form = (if ic_client_auth st = ''client_secret_post'' then
            form_set ''client_secret'' (ic_client_secret st) (form_set ''client_id'' (ic_client_id st) form1) else form1)
      in \<lparr>hr_method = ''POST'', hr_url = ic_token_url st,
          hr_headers = [(''Content-Type'', if ic_token_format st = ''json'' then ''application/json'' else ''application/x-www-form-urlencoded''),
            (''Accept'', ''application/json'')],
          hr_basic = (if ic_client_auth st = ''client_secret_basic'' then Some (ic_client_id st, ic_client_secret st) else None),
          hr_body = (if ic_token_format st = ''json'' then json_marshal (JObj (map (\<lambda>(k, v). (k, JStr v)) (sort_key fst form)))
            else form_encode form)\<rparr>)"

definition oauth_authenticate ::
    "'w corporate_client \<Rightarrow> identity_config \<Rightarrow> string \<Rightarrow> string \<Rightarrow> 'w \<Rightarrow> (auth_failure \<times> identity_claims + identity_claims) \<times> 'w" where
  "oauth_authenticate cl st code verifier w =
     (let failed = Inl (ProviderFailed, no_claims) in
      if ic_pkce st \<and> verifier = [] then (failed, w)
      else case post_token cl (oauth_token_request st code verifier) [''access_token'', ''token_type'', ''scope''] w of
        (Some [raw, kind, raw_scope], w1) \<Rightarrow>
          let access = trim_space raw;
              scope = (if blank raw_scope then join_space (ic_scopes st) else trim_space raw_scope) in
          if access = [] \<or> int (length access) > 8192 \<or> (kind \<noteq> [] \<and> map lower_char kind \<noteq> ''bearer'') then (failed, w1)
          else if int (length scope) > 4096 then (failed, w1)
          else load_claims cl st access scope w1
      | (_, w1) \<Rightarrow> (failed, w1))"

end
