(* ===== verification/IdentityLogin.thy ===== *)
theory IdentityLogin
  imports IdentityProviders
begin

text \<open>What a successful corporate login rests on.\<close>

section \<open>Base64\<close>

lemma base64_values: "list_all (\<lambda>n. base64_value (base64_alphabet ! n) = Some n \<and> base64_alphabet ! n \<noteq> CHR 0x0A
    \<and> base64_alphabet ! n \<noteq> CHR 0x0D) [0..<64]"
  by code_simp

lemma base64_value_char: "n < 64 \<Longrightarrow> base64_value (base64_alphabet ! n) = Some n \<and> base64_alphabet ! n \<noteq> CHR 0x0A
    \<and> base64_alphabet ! n \<noteq> CHR 0x0D"
  using base64_values by (simp add: list_all_iff)

lemma sextets_small: "list_all (\<lambda>b. b < 256) bs \<Longrightarrow> list_all (\<lambda>n. n < 64) (base64_sextets bs)"
  by (induction bs rule: base64_sextets.induct) auto

lemma sextet_arith:
  "(b::nat) < 256 \<Longrightarrow> a div 4 * 4 + (a mod 4 * 16 + b div 16) div 16 = a"
  "(b::nat) < 256 \<Longrightarrow> (c::nat) < 256 \<Longrightarrow> (a mod 4 * 16 + b div 16) mod 16 * 16 + (b mod 16 * 4 + c div 64) div 4 = b"
  "(c::nat) < 256 \<Longrightarrow> (b mod 16 * 4 + c div 64) mod 4 * 64 + c mod 64 = c"
  "(a::nat) div 4 * 4 + a mod 4 * 16 div 16 = a"
  "(b::nat) < 256 \<Longrightarrow> (a mod 4 * 16 + b div 16) mod 16 * 16 + b mod 16 * 4 div 4 = b"
proof -
  have q: "b < 256 \<Longrightarrow> b div 16 < 16" "c < 256 \<Longrightarrow> c div 64 < 4" for b c :: nat by (auto simp: less_mult_imp_div_less)
  show "(b::nat) < 256 \<Longrightarrow> a div 4 * 4 + (a mod 4 * 16 + b div 16) div 16 = a"
    "(b::nat) < 256 \<Longrightarrow> (c::nat) < 256 \<Longrightarrow> (a mod 4 * 16 + b div 16) mod 16 * 16 + (b mod 16 * 4 + c div 64) div 4 = b"
    "(c::nat) < 256 \<Longrightarrow> (b mod 16 * 4 + c div 64) mod 4 * 64 + c mod 64 = c"
    "(a::nat) div 4 * 4 + a mod 4 * 16 div 16 = a"
    "(b::nat) < 256 \<Longrightarrow> (a mod 4 * 16 + b div 16) mod 16 * 16 + b mod 16 * 4 div 4 = b"
    using q by simp_all
qed

lemma bytes_of_sextets_sextets: "list_all (\<lambda>b. b < 256) bs \<Longrightarrow> bytes_of_sextets (base64_sextets bs) = Some bs"
  by (induction bs rule: base64_sextets.induct) (simp_all only: base64_sextets.simps append_Cons append_Nil bytes_of_sextets.simps
    list.pred_inject sextet_arith option.map simp_thms)

text \<open>Decoding is the inverse of encoding.\<close>

lemma base64_roundtrip: "base64url_decode (base64url s) = Some s"
proof -
  let ?n = "base64_sextets (map of_char s)"
  have b: "list_all (\<lambda>b. b < 256) (map of_char s :: nat list)" by (simp add: list_all_iff)
  note small = sextets_small [OF b]
  have f: "filter (\<lambda>c. c \<noteq> CHR 0x0A \<and> c \<noteq> CHR 0x0D) (base64url s) = base64url s"
    using small base64_value_char unfolding base64url_def by (induction ?n) (auto simp: list_all_iff filter_id_conv)
  have "map base64_value (base64url s) = map Some ?n"
    using small base64_value_char by (simp add: base64url_def list_all_iff)
  then show ?thesis by (simp add: base64url_decode_def Let_def f bytes_of_sextets_sextets [OF b] image_iff o_def)
qed

section \<open>The claims\<close>

lemma merge_keeps_sub: "obj_get ''sub'' (merge_user_info info v) = obj_get ''sub'' v"
  unfolding merge_user_info_def
  by (induction info arbitrary: v) (auto simp: obj_get_set)

lemma eligible_claims:
  assumes "oidc_eligible cl st v = Inr c"
  shows "cl_issuer c = trim_right_slashes (trim_space (ic_issuer st)) \<and> cl_subject c = claim_string v ''sub'' \<and> claims_valid c
    \<and> groups_allowed (cc_lower cl) (cl_groups c) (ic_required_groups st)"
proof -
  from assms have "c = normalize_claims (cc_lower cl) (oidc_claims st v)" "claims_valid c"
    "groups_allowed (cc_lower cl) (cl_groups c) (ic_required_groups st)"
    by (auto simp: oidc_eligible_def Let_def split: if_splits)
  then show ?thesis by (simp add: normalize_claims_def oidc_claims_def claim_string_def Let_def)
qed

lemma load_metadata_ok:
  assumes "load_metadata cl st (md, w) = (Some m, mw1)" "case md of None \<Rightarrow> True | Some m \<Rightarrow> metadata_ok cl st m"
  shows "metadata_ok cl st m"
  using assms by (auto simp: load_metadata_def split: option.splits prod.splits if_splits)

lemma split_at_some [simp]: "split_at P s \<noteq> []"
  by (induction s) (auto split: list.splits)

text \<open>A verified token: signed with a key of the provider, and its claims are what the code asks for.\<close>

lemma verified_token:
  assumes "verify_id_token cl st m raw nonce now w = (Some v, w1)"
  shows "token_claims_ok st nonce now v \<and> (\<exists>h p sg signature key kid w2 w3.
    raw = h @ CHR ''.'' # p @ CHR ''.'' # sg \<and> load_rsa_key cl (md_jwks m) kid w2 = (Some key, w3)
    \<and> base64url_decode sg = Some signature \<and> cc_rsa cl (fst key) (snd key) (cc_sha256 cl (h @ CHR ''.'' # p)) signature
    \<and> Option.bind (decode_jwt_part cl p) object_members = Some v)"
proof -
  have split3: "s = h @ CHR ''.'' # p @ CHR ''.'' # sg" if "split_at (\<lambda>c. c = CHR ''.'') s = [h, p, sg]" for s h p sg
  proof -
    have one: "s = x" if "split_at P s = [x]" for P :: "char \<Rightarrow> bool" and s x
      using that by (induction s arbitrary: x) (auto split: if_splits list.splits)
    have two: "s = x @ CHR ''.'' # y" if "split_at (\<lambda>c. c = CHR ''.'') s = [x, y]" for s x y
      using that by (induction s arbitrary: x) (auto split: if_splits list.splits dest: one)
    from that show ?thesis by (induction s arbitrary: h) (auto split: if_splits list.splits dest: two)
  qed
  from assms show ?thesis
    unfolding verify_id_token_def
    by (auto split: list.splits option.splits if_splits prod.splits dest!: split3) blast+
qed

text \<open>
  An issuer that ends in a slash passes the comparison of the discovery document and never that of
  the token.
\<close>

lemma slash_issuer_refused:
  assumes "metadata_ok cl st m" "md_issuer m = ic_issuer st @ ''/''" "claim_string v ''iss'' = md_issuer m"
  shows "\<not> token_claims_ok st nonce now v"
  using assms by (simp add: token_claims_ok_def)

section \<open>A login\<close>

definition sample_documents :: "string \<Rightarrow> json option" where
  "sample_documents = map_of
     [(''M'', JObj [(''issuer'', JStr ''https://id.example''), (''authorization_endpoint'', JStr ''https://id.example/a''),
        (''token_endpoint'', JStr ''https://id.example/t''), (''jwks_uri'', JStr ''https://id.example/k'')]),
      (''T'', JObj [(''access_token'', JStr ''x''), (''id_token'', JStr (base64url ''H'' @ ''.'' @ base64url ''P'' @ ''.'' @ base64url ''S''))]),
      (''H'', JObj [(''alg'', JStr ''RS256''), (''kid'', JStr ''k1'')]),
      (''K'', JObj [(''keys'', JArr [JObj [(''kid'', JStr ''k1''), (''kty'', JStr ''RSA''), (''n'', JStr (replicate 342 CHR ''A'')),
        (''e'', JStr (base64url [CHR 0x01, CHR 0x00, CHR 0x01]))]])]),
      (''P'', JObj [(''iss'', JStr ''https://id.example''), (''aud'', JStr ''kb''), (''nonce'', JStr ''nonce-1''), (''sub'', JStr ''ada''),
        (''exp'', JNum ''2000''), (''email'', JStr ''ada@example.com''), (''groups'', JArr [JStr ''Staff''])])]"

definition sample_client :: "unit corporate_client" where
  "sample_client =
     \<lparr>cc_http = (\<lambda>rq w. (Some \<lparr>hs_status = 200, hs_body =
         (if hr_url rq = ''https://id.example/t'' then ''T'' else if hr_url rq = ''https://id.example/k'' then ''K'' else ''M'')\<rparr>, w)),
      cc_json = sample_documents, cc_url = (\<lambda>u. Some \<lparr>pu_scheme = ''https'', pu_host = ''id.example'', pu_user = False, pu_fragment = []\<rparr>),
      cc_query = (\<lambda>u. []), cc_with_query = (\<lambda>u q. u @ CHR ''?'' # q), cc_sha256 = (\<lambda>s. take 32 (rev s)),
      cc_rsa = (\<lambda>n e d sg. e = 65537 \<and> sg = ''S''), cc_lower = id\<rparr>"

definition sample_config :: identity_config where
  "sample_config =
     \<lparr>ic_issuer = ''https://id.example'', ic_discovery_url = ''https://id.example/d'', ic_callback_url = ''https://kb.example/cb'',
      ic_corporate_redirect = [], ic_authorization_url = [], ic_token_url = [], ic_user_info_url = [], ic_client_id = ''kb'',
      ic_client_secret = ''secret'', ic_client_auth = [], ic_authorization_method = ''GET'', ic_authorization_grant = [],
      ic_authorization_display = [], ic_token_format = [], ic_pkce = True, ic_state_required = True, ic_token_transport = [],
      ic_scopes = [''openid''], ic_allow_http = False, ic_subject_claim = ''sub'', ic_tenant_claim = [], ic_tenant_scoped = False,
      ic_username_claim = ''preferred_username'', ic_email_claim = ''email'', ic_group_claim = ''groups'', ic_display_claim = ''name'',
      ic_uuid_claim = [], ic_employee_claim = [], ic_data_path = [], ic_required_groups = [''staff''], ic_employee_types = []\<rparr>"

definition sample_login :: "(auth_failure \<times> identity_claims + identity_claims) \<times> provider_metadata option \<times> unit" where
  "sample_login = oidc_authenticate sample_client sample_config ''code'' ''verifier'' ''nonce-1'' (from_unix 1000) (None, ())"

lemma sample_login_claims:
  "sample_login = (Inr \<lparr>cl_issuer = ''https://id.example'', cl_subject = ''ada'', cl_corporate_email = ''ada@example.com'',
     cl_username = ''ada'', cl_display_name = [], cl_groups = [''staff'']\<rparr>, snd sample_login)"
proof -
  have "(case fst sample_login of Inr c \<Rightarrow> Some c | Inl _ \<Rightarrow> None) = Some \<lparr>cl_issuer = ''https://id.example'', cl_subject = ''ada'',
      cl_corporate_email = ''ada@example.com'', cl_username = ''ada'', cl_display_name = [], cl_groups = [''staff'']\<rparr>"
    by code_simp
  then show ?thesis by (intro prod_eqI) (auto split: sum.splits)
qed



end
