(* ===== verification/Presets.thy ===== *)
theory Presets
  imports Profiles Json
begin

text \<open>
  internal/preset: the approved indexing configurations, and what WeKnora is asked to create for one
  (the request of internal/weknora/client.go).
\<close>

section \<open>Data\<close>

record chunking_config =
  ck_size :: int
  ck_overlap :: int
  ck_separators :: "string list"
  ck_strategy :: string

record indexing_strategy =
  ix_vector :: bool
  ix_keyword :: bool
  ix_wiki :: bool
  ix_graph :: bool

record preset_models =
  pm_embedding :: string
  pm_summary :: string
  pm_rerank :: string
  pm_vlm :: string

record retrieval_config =
  rt_mode :: string
  rt_vector_top_k :: int
  rt_keyword_top_k :: int
  rt_final_top_k :: int
  rt_rerank_enabled :: bool
  rt_rerank_model :: string

record preset_limits =
  lm_file_bytes :: int
  lm_files :: int

record effective_config =
  ec_profile_id :: string
  ec_profile_version :: int
  ec_type :: string
  ec_storage :: string
  ec_chunking :: chunking_config
  ec_indexing :: indexing_strategy
  ec_retrieval :: retrieval_config
  ec_models :: preset_models
  ec_limits :: preset_limits

record preset =
  ps_mode :: product_mode
  ps_policy :: access_policy
  ps_config :: effective_config

record vlm_config =
  vl_enabled :: bool
  vl_model :: string

record create_kb_request =
  ck_id :: string
  ck_name :: string
  ck_description :: string
  ck_type :: string
  ck_embedding :: string
  ck_summary :: string
  ck_faq :: "(string \<times> string) option"     \<comment> \<open>index mode, question index mode\<close>
  ck_vlm :: vlm_config
  ck_storage :: string
  ck_chunking :: chunking_config
  ck_indexing :: indexing_strategy
  ck_questions :: "bool \<times> int"

definition kb_type_document :: string where "kb_type_document = ''document''"

definition kb_type_faq :: string where "kb_type_faq = ''faq''"

definition max_rag_file_bytes :: int where "max_rag_file_bytes = 524288000"

definition max_note_file_bytes :: int where "max_note_file_bytes = 65536"

section \<open>Construction\<close>

definition retrieval_of :: "int \<Rightarrow> int \<Rightarrow> string \<Rightarrow> retrieval_config" where
  "retrieval_of k final rerank =
     \<lparr>rt_mode = ''hybrid'', rt_vector_top_k = k, rt_keyword_top_k = k, rt_final_top_k = final,
      rt_rerank_enabled = (rerank \<noteq> []), rt_rerank_model = rerank\<rparr>"

text \<open>The third separator is the ideographic full stop U+3002.\<close>

definition separators :: "string list" where
  "separators = [[CHR 0x0A, CHR 0x0A], [CHR 0x0A], [CHR 0xE3, CHR 0x80, CHR 0x82], ''. '']"

definition preset_of ::
    "product_mode \<Rightarrow> access_policy \<Rightarrow> string \<Rightarrow> int \<Rightarrow> int \<Rightarrow> string \<Rightarrow> retrieval_config \<Rightarrow> preset_models \<Rightarrow> preset_limits \<Rightarrow> preset" where
  "preset_of mode policy profile_id chunk overlap strategy rt models limits =
     \<lparr>ps_mode = mode, ps_policy = policy, ps_config =
       \<lparr>ec_profile_id = profile_id, ec_profile_version = 1, ec_type = [], ec_storage = ''local'',
        ec_chunking = \<lparr>ck_size = chunk, ck_overlap = overlap, ck_separators = separators, ck_strategy = strategy\<rparr>,
        ec_indexing = \<lparr>ix_vector = True, ix_keyword = True, ix_wiki = False, ix_graph = False\<rparr>,
        ec_retrieval = rt, ec_models = models, ec_limits = limits\<rparr>\<rparr>"

definition build_with_managed_models :: "product_mode \<Rightarrow> string \<Rightarrow> string \<Rightarrow> string \<Rightarrow> string \<Rightarrow> preset option" where
  "build_with_managed_models mode embedding summary rerank vlm =
     (let models = \<lparr>pm_embedding = embedding, pm_summary = summary, pm_rerank = rerank, pm_vlm = vlm\<rparr> in
      if embedding = [] then None
      else case mode of
        ModePersonalNotes \<Rightarrow>
          Some (preset_of mode PolicyOwnerOnly ''notes_plain'' 800 80 ''heading'' (retrieval_of 12 8 rerank) models
            \<lparr>lm_file_bytes = max_note_file_bytes, lm_files = 500\<rparr>)
      | ModeRAG \<Rightarrow>
          Some (preset_of mode PolicyUpstream ''plain'' 1024 128 ''auto'' (retrieval_of 20 10 rerank) models
            \<lparr>lm_file_bytes = max_rag_file_bytes, lm_files = 1000\<rparr>)
      | _ \<Rightarrow> None)"

definition for_kb_type :: "preset \<Rightarrow> string \<Rightarrow> preset option" where
  "for_kb_type d t =
     (if t = [] \<or> t = kb_type_document then Some (d\<lparr>ps_config := (ps_config d)\<lparr>ec_type := []\<rparr>\<rparr>)
      else if t = kb_type_faq then
        (if ps_mode d \<noteq> ModeRAG then None
         else Some (d\<lparr>ps_config := (ps_config d)\<lparr>ec_type := kb_type_faq, ec_models := (ec_models (ps_config d))\<lparr>pm_vlm := []\<rparr>\<rparr>\<rparr>))
      else None)"

section \<open>JSON\<close>

text \<open>A member with \<open>omitempty\<close>.\<close>

definition opt_member :: "string \<Rightarrow> string \<Rightarrow> (string \<times> json) list" where
  "opt_member k v = (if v = [] then [] else [(k, JStr v)])"

definition num :: "int \<Rightarrow> json" where
  "num i = JNum (itoa i)"

definition config_json :: "effective_config \<Rightarrow> json" where
  "config_json c =
     JObj ([(''profile_id'', JStr (ec_profile_id c)), (''profile_version'', num (ec_profile_version c))]
       @ opt_member ''knowledge_base_type'' (ec_type c)
       @ [(''storage'', JObj [(''provider'', JStr (ec_storage c))]),
          (''chunking'', JObj [(''chunk_size'', num (ck_size (ec_chunking c))), (''chunk_overlap'', num (ck_overlap (ec_chunking c))),
             (''separators'', JArr (map JStr (ck_separators (ec_chunking c)))), (''strategy'', JStr (ck_strategy (ec_chunking c)))]),
          (''indexing'', JObj [(''vector_enabled'', JBool (ix_vector (ec_indexing c))), (''keyword_enabled'', JBool (ix_keyword (ec_indexing c))),
             (''wiki_enabled'', JBool (ix_wiki (ec_indexing c))), (''graph_enabled'', JBool (ix_graph (ec_indexing c)))]),
          (''retrieval'', JObj ([(''mode'', JStr (rt_mode (ec_retrieval c))), (''vector_top_k'', num (rt_vector_top_k (ec_retrieval c))),
             (''keyword_top_k'', num (rt_keyword_top_k (ec_retrieval c))), (''final_top_k'', num (rt_final_top_k (ec_retrieval c))),
             (''rerank_enabled'', JBool (rt_rerank_enabled (ec_retrieval c)))] @ opt_member ''rerank_model_id'' (rt_rerank_model (ec_retrieval c)))),
          (''models'', JObj ([(''embedding_model_id'', JStr (pm_embedding (ec_models c)))]
             @ opt_member ''summary_model_id'' (pm_summary (ec_models c)) @ opt_member ''rerank_model_id'' (pm_rerank (ec_models c))
             @ opt_member ''vlm_model_id'' (pm_vlm (ec_models c)))),
          (''limits'', JObj [(''max_file_bytes'', num (lm_file_bytes (ec_limits c))), (''max_files'', num (lm_files (ec_limits c)))])])"

definition preset_json :: "preset \<Rightarrow> string" where
  "preset_json d = json_marshal (config_json (ps_config d))"

section \<open>What WeKnora is asked for\<close>

definition enabled_model_id :: "bool \<Rightarrow> string \<Rightarrow> string" where
  "enabled_model_id enabled i = (if \<not> enabled then [] else i)"

definition preset_upstream_request :: "preset \<Rightarrow> string \<Rightarrow> string \<Rightarrow> string \<Rightarrow> create_kb_request" where
  "preset_upstream_request d i name description =
     (let c = ps_config d; t = (if ec_type c = [] then kb_type_document else ec_type c);
          vlm = (ps_mode d = ModeRAG \<and> t = kb_type_document \<and> pm_vlm (ec_models c) \<noteq> [])
      in \<lparr>ck_id = i, ck_name = name, ck_description = description, ck_type = t,
          ck_embedding = pm_embedding (ec_models c), ck_summary = pm_summary (ec_models c),
          ck_faq = (if t = kb_type_faq then Some (''question_only'', ''separate'') else None),
          ck_vlm = \<lparr>vl_enabled = vlm, vl_model = enabled_model_id vlm (pm_vlm (ec_models c))\<rparr>,
          ck_storage = ec_storage c, ck_chunking = ec_chunking c, ck_indexing = ec_indexing c, ck_questions = (False, 0)\<rparr>)"

end
