(* ===== verification/Spaces.thy ===== *)
theory Spaces
  imports Presets Gate Identities
begin

text \<open>
  internal/space: the creation of a knowledge base under an idempotency key. The ledger of the
  requests (request_repository.go, migration 000003) fixes the identifier before WeKnora is asked, so
  that a retry finds what an earlier attempt has left. WeKnora and the profiles are fields of the
  service.
\<close>

section \<open>The ledger\<close>

datatype request_status = RequestPending | RequestReady | RequestFailed

record creation_request =
  cq_tenant_id :: u64
  cq_owner :: string
  cq_key :: string
  cq_hash :: string
  cq_kb_id :: string
  cq_mode :: string
  cq_index_profile :: string
  cq_status :: request_status
  cq_last_error :: string
  cq_created_at :: time
  cq_updated_at :: time

datatype claim_error = IdempotencyConflict | ClaimFailed

record 'w space_store =
  ss_requests :: "creation_request list"
  ss_db :: database
  ss_upstream :: 'w      \<comment> \<open>WeKnora\<close>

definition ss_statement :: "'w space_store \<Rightarrow> bool \<times> 'w space_store" where
  "ss_statement s = (fst (statement (ss_db s)), s\<lparr>ss_db := snd (statement (ss_db s))\<rparr>)"

definition request_ok :: "creation_request \<Rightarrow> bool" where
  "request_ok r \<longleftrightarrow>
     \<not> (cq_tenant_id r = 0 \<or> blank (cq_owner r) \<or> blank (cq_key r) \<or> int (length (cq_key r)) > 128
        \<or> length (cq_hash r) \<noteq> 64 \<or> blank (cq_kb_id r))"

definition request_row_ok :: "creation_request \<Rightarrow> bool" where
  "request_row_ok r \<longleftrightarrow>
     uint (cq_tenant_id r) \<le> max_int64 \<and> varchar 128 (cq_owner r) \<and> varchar 128 (cq_key r) \<and> varchar 64 (cq_hash r)
   \<and> varchar 128 (cq_kb_id r) \<and> cq_mode r \<in> set [''personal_notes'', ''rag''] \<and> cq_index_profile r \<in> set [''notes_plain'', ''plain'']"

definition request_key :: "creation_request \<Rightarrow> u64 \<times> string \<times> string" where
  "request_key r = (cq_tenant_id r, cq_owner r, cq_key r)"

text \<open>
  \<open>Claim\<close>: begin, insert unless the key is there, read the row, commit. Whatever fails rolls the
  insert back.
\<close>

definition claim_insert :: "time \<Rightarrow> creation_request \<Rightarrow> creation_request list \<Rightarrow> (creation_request list \<times> bool) option" where
  "claim_insert now c rs =
     (if \<not> request_row_ok c then None
      else if request_key c \<in> set (map request_key rs) then Some (rs, False)
      else if cq_kb_id c \<in> set (map cq_kb_id rs) then None
      else Some (rs @ [c\<lparr>cq_status := RequestPending, cq_last_error := [], cq_created_at := now, cq_updated_at := now\<rparr>], True))"

definition claim_request ::
    "time \<Rightarrow> creation_request \<Rightarrow> 'w space_store \<Rightarrow> (claim_error, creation_request \<times> bool, 'w space_store) outcome" where
  "claim_request now c s =
     (if \<not> request_ok c then (Inl ClaimFailed, s)
      else let s1 = snd (ss_statement s); s2 = snd (ss_statement s1); s3 = snd (ss_statement s2); s4 = snd (ss_statement s3) in
        if \<not> fst (ss_statement s) then (Inl ClaimFailed, s1)
        else if \<not> fst (ss_statement s1) then (Inl ClaimFailed, s2)
        else case claim_insert now c (ss_requests s) of
          None \<Rightarrow> (Inl ClaimFailed, s2)
        | Some (rs, inserted) \<Rightarrow>
            if \<not> fst (ss_statement s2) then (Inl ClaimFailed, s3)
            else (case find (\<lambda>r. request_key r = request_key c) rs of
              None \<Rightarrow> (Inl ClaimFailed, s3)
            | Some stored \<Rightarrow>
                if cq_hash stored \<noteq> cq_hash c \<or> cq_mode stored \<noteq> cq_mode c \<or> cq_index_profile stored \<noteq> cq_index_profile c then
                  (Inl IdempotencyConflict, s3)
                else if \<not> fst (ss_statement s3) then (Inl ClaimFailed, s4)
                else (Inr (stored, inserted), s4\<lparr>ss_requests := rs\<rparr>)))"

definition same_request :: "creation_request \<Rightarrow> creation_request \<Rightarrow> bool" where
  "same_request c r \<longleftrightarrow> request_key r = request_key c \<and> cq_hash r = cq_hash c \<and> cq_kb_id r = cq_kb_id c"

definition settle_request ::
    "request_status \<Rightarrow> string \<Rightarrow> time \<Rightarrow> creation_request \<Rightarrow> 'w space_store \<Rightarrow> (unit, unit, 'w space_store) outcome" where
  "settle_request st message now c s =
     (if \<not> fst (ss_statement s) then (Inl (), snd (ss_statement s))
      else let s1 = snd (ss_statement s) in
        if \<not> pg_text message then (Inl (), s1)
        else (if list_ex (same_request c) (ss_requests s) then Inr () else Inl (),
              s1\<lparr>ss_requests := update_where (same_request c)
                (\<lambda>r. r\<lparr>cq_status := st, cq_last_error := message, cq_updated_at := now\<rparr>) (ss_requests s)\<rparr>))"

definition complete_request :: "time \<Rightarrow> creation_request \<Rightarrow> 'w space_store \<Rightarrow> (unit, unit, 'w space_store) outcome" where
  "complete_request = settle_request RequestReady []"

definition fail_request :: "time \<Rightarrow> creation_request \<Rightarrow> string \<Rightarrow> 'w space_store \<Rightarrow> (unit, unit, 'w space_store) outcome" where
  "fail_request now c message =
     settle_request RequestFailed (if int (length message) > 1000 then take 1000 message else message) now c"

section \<open>The service\<close>

record space_kb = knowledge_base +
  kb_vlm :: vlm_config

record 's space_service =
  sp_claim :: "creation_request \<Rightarrow> 's \<Rightarrow> (claim_error, creation_request \<times> bool, 's) outcome"
  sp_complete :: "creation_request \<Rightarrow> 's \<Rightarrow> (unit, unit, 's) outcome"
  sp_fail :: "creation_request \<Rightarrow> string \<Rightarrow> 's \<Rightarrow> (unit, unit, 's) outcome"
  sp_profile_create :: "profile \<Rightarrow> 's \<Rightarrow> (profile_error, profile, 's) outcome"
  sp_profile_get :: "string \<Rightarrow> 's \<Rightarrow> (profile_error, profile, 's) outcome"
  sp_kb_get :: "string \<Rightarrow> headers \<Rightarrow> 's \<Rightarrow> (upstream_error, space_kb, 's) outcome"
  sp_kb_create :: "create_kb_request \<Rightarrow> headers \<Rightarrow> 's \<Rightarrow> (upstream_error, space_kb, 's) outcome"
  sp_authorize :: "(string \<Rightarrow> principal \<Rightarrow> action \<Rightarrow> headers \<Rightarrow> 's \<Rightarrow> (authz_error, decision, 's) outcome) option"
  sp_new_id :: "'s \<Rightarrow> string option \<times> 's"
  sp_sha256 :: "string \<Rightarrow> string"
  sp_lower :: "string \<Rightarrow> string"
  sp_parse :: "string \<Rightarrow> json option"

record create_input =
  ci_mode :: string
  ci_index_profile :: string
  ci_kb_type :: string
  ci_name :: string
  ci_description :: string
  ci_embedding :: string
  ci_summary :: string
  ci_rerank :: string
  ci_vlm :: string
  ci_storage :: string

record create_result =
  cs_kb_id :: string
  cs_name :: string
  cs_mode :: product_mode
  cs_index_profile :: string
  cs_kb_type :: string
  cs_policy :: access_policy
  cs_created :: bool
  cs_reconciled :: bool

datatype space_error = SpaceError api_error | SpaceFailed

section \<open>Input\<close>

definition disabled_mode :: space_error where
  "disabled_mode = SpaceError (ApiError ''knowledge_mode.disabled'' 400)"

definition trim_input :: "(string \<Rightarrow> string) \<Rightarrow> create_input \<Rightarrow> create_input" where
  "trim_input ulower i =
     (let t = to_lower ulower (trim_space (ci_kb_type i)); sp = to_lower ulower (trim_space (ci_storage i)) in
      \<lparr>ci_mode = trim_space (ci_mode i), ci_index_profile = trim_space (ci_index_profile i),
       ci_kb_type = (if t = [] then kb_type_document else t), ci_name = trim_space (ci_name i),
       ci_description = trim_space (ci_description i), ci_embedding = trim_space (ci_embedding i),
       ci_summary = trim_space (ci_summary i), ci_rerank = trim_space (ci_rerank i), ci_vlm = trim_space (ci_vlm i),
       ci_storage = (if sp = [] then ''local'' else sp)\<rparr>)"

definition or_else :: "string \<Rightarrow> string \<Rightarrow> string" where
  "or_else v d = (if v = [] then d else v)"

definition normalize_create :: "(string \<Rightarrow> string) \<Rightarrow> create_input \<Rightarrow> space_error + create_input \<times> product_mode \<times> access_policy" where
  "normalize_create ulower input =
     (let i = trim_input ulower input in
      if ci_name i = [] \<or> int (rune_count (ci_name i)) > 120 \<or> int (rune_count (ci_description i)) > 1000 \<or> ci_embedding i = [] then
        Inl (SpaceError (ApiError ''space.invalid_request'' 400))
      else if ci_storage i \<noteq> ''local'' then Inl (SpaceError (ApiError ''space.storage_profile_disabled'' 400))
      else if ci_mode i = ''personal_notes'' then
        (let i = i\<lparr>ci_index_profile := or_else (ci_index_profile i) ''notes_plain''\<rparr> in
         if ci_kb_type i \<noteq> kb_type_document \<or> ci_index_profile i \<noteq> ''notes_plain'' then Inl disabled_mode
         else Inr (i, ModePersonalNotes, PolicyOwnerOnly))
      else if ci_mode i = ''rag'' then
        (let i = i\<lparr>ci_vlm := (if ci_kb_type i = kb_type_faq then [] else ci_vlm i),
                   ci_index_profile := or_else (ci_index_profile i) ''plain''\<rparr> in
         if (ci_kb_type i \<noteq> kb_type_document \<and> ci_kb_type i \<noteq> kb_type_faq) \<or> ci_index_profile i \<noteq> ''plain'' then Inl disabled_mode
         else Inr (i, ModeRAG, PolicyUpstream))
      else Inl disabled_mode)"

definition idempotency_key_error :: "string \<Rightarrow> space_error option" where
  "idempotency_key_error k =
     (if length k < 8 \<or> int (length k) > 128 then Some (SpaceError (ApiError ''request.idempotency_key_required'' 400))
      else if \<not> list_all (\<lambda>c. CHR 0x21 \<le> c \<and> c \<le> CHR 0x7E) k then Some (SpaceError (ApiError ''request.idempotency_key_invalid'' 400))
      else None)"

text \<open>The hash covers the models the server chose as well.\<close>

definition input_json :: "create_input \<Rightarrow> json" where
  "input_json i =
     JObj ([(''mode'', JStr (ci_mode i))] @ opt_member ''index_profile'' (ci_index_profile i)
       @ opt_member ''knowledge_base_type'' (ci_kb_type i) @ [(''name'', JStr (ci_name i))]
       @ opt_member ''description'' (ci_description i) @ [(''embedding_model_id'', JStr (ci_embedding i))]
       @ opt_member ''summary_model_id'' (ci_summary i) @ opt_member ''storage_provider'' (ci_storage i)
       @ opt_member ''rerank_model_id'' (ci_rerank i) @ opt_member ''vlm_model_id'' (ci_vlm i))"

definition hash_create_input :: "(string \<Rightarrow> string) \<Rightarrow> create_input \<Rightarrow> string" where
  "hash_create_input sha256 i = hex_text (sha256 (json_marshal (input_json i)))"

section \<open>Creation\<close>

definition translate_space_upstream :: "upstream_error \<Rightarrow> space_error" where
  "translate_space_upstream e = SpaceError
     (case e of
        UpstreamError code st \<Rightarrow>
          if code = ''upstream.not_found'' \<or> code = ''upstream.forbidden'' then ApiError ''resource.not_found'' 404
          else if code = ''upstream.unauthorized'' then ApiError ''auth.invalid'' 401
          else ApiError ''upstream.unavailable'' 502
      | TransportError \<Rightarrow> ApiError ''upstream.unavailable'' 502)"

definition find_upstream :: "'s space_service \<Rightarrow> string \<Rightarrow> headers \<Rightarrow> 's \<Rightarrow> (space_error, space_kb option, 's) outcome" where
  "find_upstream svc i h s =
     (case sp_kb_get svc i h s of
        (Inr kb, s1) \<Rightarrow> (Inr (Some kb), s1)
      | (Inl e, s1) \<Rightarrow>
          (if (case e of UpstreamError code _ \<Rightarrow> code = ''upstream.not_found'' | _ \<Rightarrow> False) then Inr None
           else Inl (translate_space_upstream e), s1))"

definition verify_upstream_ownership :: "space_kb \<Rightarrow> creation_request \<Rightarrow> create_input \<Rightarrow> bool" where
  "verify_upstream_ownership kb r i \<longleftrightarrow>
     \<not> (kb_id kb \<noteq> cq_kb_id r \<or> kb_tenant_id kb \<noteq> cq_tenant_id r \<or> kb_creator_id kb \<noteq> cq_owner r \<or> kb_name kb \<noteq> ci_name i
        \<or> kb_type kb \<noteq> ci_kb_type i)
   \<and> \<not> (ci_kb_type i = kb_type_document \<and> ci_vlm i \<noteq> [] \<and> (\<not> vl_enabled (kb_vlm kb) \<or> vl_model (kb_vlm kb) \<noteq> ci_vlm i))"

definition json_equal :: "(string \<Rightarrow> json option) \<Rightarrow> string \<Rightarrow> string \<Rightarrow> bool" where
  "json_equal parse l r =
     (case (parse l, parse r) of
        (Some a, Some b) \<Rightarrow> json_marshal (sort_members a) = json_marshal (sort_members b)
      | _ \<Rightarrow> False)"

definition profile_agrees :: "(string \<Rightarrow> json option) \<Rightarrow> profile \<Rightarrow> profile \<Rightarrow> bool" where
  "profile_agrees parse e p \<longleftrightarrow>
     pf_tenant_id e = pf_tenant_id p \<and> pf_owner_user_id e = pf_owner_user_id p \<and> pf_product_mode e = pf_product_mode p
   \<and> pf_access_policy e = pf_access_policy p \<and> pf_index_profile e = pf_index_profile p
   \<and> pf_index_profile_version e = pf_index_profile_version p
   \<and> json_equal parse (pf_effective_config e) (pf_effective_config p)"

definition ensure_profile :: "'s space_service \<Rightarrow> profile \<Rightarrow> 's \<Rightarrow> (space_error, unit, 's) outcome" where
  "ensure_profile svc p s =
     (case sp_profile_create svc p s of
        (Inr _, s1) \<Rightarrow> (Inr (), s1)
      | (Inl ProfileConflict, s1) \<Rightarrow>
          (case sp_profile_get svc (pf_kb_id p) s1 of
             (Inr e, s2) \<Rightarrow>
               (if profile_agrees (sp_parse svc) e p then Inr () else Inl (SpaceError (ApiError ''space.reconciliation_conflict'' 409)), s2)
           | (Inl _, s2) \<Rightarrow> (Inl (SpaceError (ApiError ''space.reconciliation_conflict'' 409)), s2))
      | (Inl _, s1) \<Rightarrow> (Inl (SpaceError (ApiError ''space.profile_create_failed'' 503)), s1))"

definition record_failure :: "'s space_service \<Rightarrow> creation_request \<Rightarrow> space_error \<Rightarrow> 's \<Rightarrow> 's" where
  "record_failure svc r e s =
     snd (sp_fail svc r (case e of SpaceError a \<Rightarrow> err_code a | SpaceFailed \<Rightarrow> ''creation failed'') s)"

text \<open>The knowledge base of a claimed request: the one WeKnora has, or a new one.\<close>

definition provide_kb ::
    "'s space_service \<Rightarrow> create_kb_request \<Rightarrow> headers \<Rightarrow> 's \<Rightarrow> (space_error, space_kb \<times> bool, 's) outcome" where
  "provide_kb svc rq h s =
     (case find_upstream svc (ck_id rq) h s of
        (Inl e, s1) \<Rightarrow> (Inl e, s1)
      | (Inr (Some kb), s1) \<Rightarrow> (Inr (kb, False), s1)
      | (Inr None, s1) \<Rightarrow>
          (case sp_kb_create svc rq h s1 of
             (Inr kb, s2) \<Rightarrow> (Inr (kb, True), s2)
           | (Inl e, s2) \<Rightarrow>
               (case find_upstream svc (ck_id rq) h s2 of
                  (Inr (Some kb), s3) \<Rightarrow> (Inr (kb, False), s3)
                | (_, s3) \<Rightarrow> (Inl (translate_space_upstream e), s3))))"

definition expected_profile :: "creation_request \<Rightarrow> principal \<Rightarrow> preset \<Rightarrow> profile" where
  "expected_profile r who d =
     \<lparr>pf_kb_id = cq_kb_id r, pf_tenant_id = pr_tenant_id who, pf_owner_user_id = pr_user_id who, pf_product_mode = ps_mode d,
      pf_schema_version = 1, pf_access_policy = ps_policy d, pf_index_profile = ec_profile_id (ps_config d),
      pf_index_profile_version = ec_profile_version (ps_config d), pf_effective_config = preset_json d, pf_created_at = 0,
      pf_updated_at = 0\<rparr>"

definition approved_preset :: "create_input \<Rightarrow> product_mode \<Rightarrow> access_policy \<Rightarrow> preset option" where
  "approved_preset i mode policy =
     (case Option.bind (build_with_managed_models mode (ci_embedding i) (ci_summary i) (ci_rerank i) (ci_vlm i))
         (\<lambda>d. for_kb_type d (ci_kb_type i)) of
        None \<Rightarrow> None
      | Some d \<Rightarrow> if ec_profile_id (ps_config d) \<noteq> ci_index_profile i \<or> ps_policy d \<noteq> policy then None else Some d)"

text \<open>The part of \<open>Create\<close> after the claim.\<close>

definition create_claimed ::
    "'s space_service \<Rightarrow> create_input \<Rightarrow> preset \<Rightarrow> principal \<Rightarrow> headers \<Rightarrow> creation_request \<Rightarrow> bool \<Rightarrow> 's \<Rightarrow>
     (space_error, create_result, 's) outcome" where
  "create_claimed svc i d who h r inserted s =
     (case provide_kb svc (preset_upstream_request d (cq_kb_id r) (ci_name i) (ci_description i)) h s of
        (Inl e, s1) \<Rightarrow> (Inl e, record_failure svc r e s1)
      | (Inr (kb, created), s1) \<Rightarrow>
          let conflict = SpaceError (ApiError ''space.reconciliation_conflict'' 409) in
          if \<not> verify_upstream_ownership kb r i then (Inl conflict, record_failure svc r conflict s1)
          else (case ensure_profile svc (expected_profile r who d) s1 of
            (Inl e, s2) \<Rightarrow> (Inl e, record_failure svc r e s2)
          | (Inr _, s2) \<Rightarrow>
              (case sp_complete svc r s2 of
                 (Inl _, s3) \<Rightarrow> (Inl (SpaceError (ApiError ''space.state_unavailable'' 503)), s3)
               | (Inr _, s3) \<Rightarrow>
                   (Inr \<lparr>cs_kb_id = cq_kb_id r, cs_name = kb_name kb, cs_mode = ps_mode d, cs_index_profile = ci_index_profile i,
                      cs_kb_type = kb_type kb, cs_policy = ps_policy d, cs_created = (inserted \<and> created),
                      cs_reconciled = (\<not> inserted \<or> \<not> created)\<rparr>, s3))))"

definition space_create ::
    "'s space_service \<Rightarrow> create_input \<Rightarrow> string \<Rightarrow> principal \<Rightarrow> headers \<Rightarrow> 's \<Rightarrow> (space_error, create_result, 's) outcome" where
  "space_create svc input key who h s =
     (case normalize_create (sp_lower svc) input of
        Inl e \<Rightarrow> (Inl e, s)
      | Inr (i, mode, policy) \<Rightarrow>
          (case approved_preset i mode policy of
             None \<Rightarrow> (Inl (SpaceError (ApiError ''space.preset_invalid'' 503)), s)
           | Some d \<Rightarrow>
               (case idempotency_key_error key of
                  Some e \<Rightarrow> (Inl e, s)
                | None \<Rightarrow>
                    if pr_user_id who = [] \<or> pr_tenant_id who = 0 then (Inl (SpaceError (ApiError ''auth.principal_invalid'' 502)), s)
                    else (case sp_new_id svc s of
                      (None, s1) \<Rightarrow> (Inl (SpaceError (ApiError ''space.id_generation_failed'' 500)), s1)
                    | (Some assigned, s1) \<Rightarrow>
                        (case sp_claim svc
                            \<lparr>cq_tenant_id = pr_tenant_id who, cq_owner = pr_user_id who, cq_key = key,
                             cq_hash = hash_create_input (sp_sha256 svc) i, cq_kb_id = assigned, cq_mode = ci_mode i,
                             cq_index_profile = ci_index_profile i, cq_status = RequestPending, cq_last_error = [], cq_created_at = 0,
                             cq_updated_at = 0\<rparr> s1 of
                           (Inl IdempotencyConflict, s2) \<Rightarrow> (Inl (SpaceError (ApiError ''request.idempotency_conflict'' 409)), s2)
                         | (Inl ClaimFailed, s2) \<Rightarrow> (Inl (SpaceError (ApiError ''space.state_unavailable'' 503)), s2)
                         | (Inr (r, inserted), s2) \<Rightarrow> create_claimed svc i d who h r inserted s2)))))"

section \<open>Reading a profile\<close>

definition space_get_profile ::
    "'s space_service \<Rightarrow> string \<Rightarrow> principal \<Rightarrow> headers \<Rightarrow> 's \<Rightarrow> (space_error, profile, 's) outcome" where
  "space_get_profile svc kb who h s =
     (let checked = (case sp_authorize svc of
          Some auth \<Rightarrow>
            (case auth kb who ActionRead h s of
               (Inr _, s1) \<Rightarrow> (Inr (), s1)
             | (Inl e, s1) \<Rightarrow>
                 (Inl (SpaceError (if e = AzDenied \<or> e = AzNotFound then ApiError ''resource.not_found'' 404
                    else ApiError ''space.state_unavailable'' 503)), s1))
        | None \<Rightarrow>
            (case sp_kb_get svc kb h s of (Inr _, s1) \<Rightarrow> (Inr (), s1) | (Inl e, s1) \<Rightarrow> (Inl (translate_space_upstream e), s1))) in
      case checked of
        (Inl e, s1) \<Rightarrow> (Inl e, s1)
      | (Inr _, s1) \<Rightarrow>
          (case sp_profile_get svc kb s1 of
             (Inl ProfileNotFound, s2) \<Rightarrow> (Inl (SpaceError (ApiError ''profile.not_found'' 404)), s2)
           | (Inl _, s2) \<Rightarrow> (Inl (SpaceError (ApiError ''space.state_unavailable'' 503)), s2)
           | (Inr p, s2) \<Rightarrow>
               if sp_authorize svc \<noteq> None then (Inr p, s2)
               else (case notes_authorize p who OpRead of
                 None \<Rightarrow> (Inr p, s2)
               | Some (PolicyDenied e) \<Rightarrow> (Inl (SpaceError e), s2)
               | Some UnknownOperation \<Rightarrow> (Inl SpaceFailed, s2))))"

section \<open>The product\<close>

definition on_db :: "(database \<Rightarrow> ('e, 'a, database) outcome) \<Rightarrow> 'w space_store \<Rightarrow> ('e, 'a, 'w space_store) outcome" where
  "on_db f s = (case f (ss_db s) of (r, db) \<Rightarrow> (r, s\<lparr>ss_db := db\<rparr>))"

definition on_upstream :: "('w \<Rightarrow> ('e, 'a, 'w) outcome) \<Rightarrow> 'w space_store \<Rightarrow> ('e, 'a, 'w space_store) outcome" where
  "on_upstream f s = (case f (ss_upstream s) of (r, w) \<Rightarrow> (r, s\<lparr>ss_upstream := w\<rparr>))"

text \<open>What surrounds the product: the clock of a call, WeKnora, and the runtime.\<close>

record 'w space_env =
  se_now :: time
  se_kb_get :: "string \<Rightarrow> headers \<Rightarrow> 'w \<Rightarrow> (upstream_error, space_kb, 'w) outcome"
  se_kb_create :: "create_kb_request \<Rightarrow> headers \<Rightarrow> 'w \<Rightarrow> (upstream_error, space_kb, 'w) outcome"
  se_authz :: "database authz_service"
  se_sha256 :: "string \<Rightarrow> string"
  se_lower :: "string \<Rightarrow> string"
  se_parse :: "string \<Rightarrow> json option"

definition product_spaces :: "'w space_env \<Rightarrow> 'w space_store space_service" where
  "product_spaces env =
     \<lparr>sp_claim = claim_request (se_now env), sp_complete = complete_request (se_now env), sp_fail = fail_request (se_now env),
      sp_profile_create = (\<lambda>p. on_db (profile_create (\<lambda>t. se_parse env t \<noteq> None) (se_now env) p)),
      sp_profile_get = (\<lambda>k. on_db (profile_get k)),
      sp_kb_get = (\<lambda>k h. on_upstream (se_kb_get env k h)), sp_kb_create = (\<lambda>rq h. on_upstream (se_kb_create env rq h)),
      sp_authorize = Some (\<lambda>k who a h. on_db (authorize_action (se_authz env) k who a h)),
       sp_new_id = (\<lambda>s. case new_id (ss_db s) of (i, db) \<Rightarrow> (i, s\<lparr>ss_db := db\<rparr>)),
      sp_sha256 = se_sha256 env, sp_lower = se_lower env, sp_parse = se_parse env\<rparr>"

end
