(* ===== verification/SpaceRules.thy ===== *)
theory SpaceRules
  imports Spaces
begin

text \<open>
  The creation of knowledge bases: what the service relies on in its ledger, as a locale, and what
  follows for retries and concurrent requests.
\<close>

section \<open>The ledger\<close>

text \<open>
  \<open>led s k\<close> is what the ledger has fixed for a key: the hash of the request and the identifier of the
  knowledge base. The operations never take it back, and no identifier serves two keys.
\<close>

locale ledger_contract =
  fixes svc :: "'s space_service" and led :: "'s \<Rightarrow> u64 \<times> string \<times> string \<Rightarrow> (string \<times> string) option" and good :: "'s \<Rightarrow> bool"
  assumes claim_binds: "good s \<Longrightarrow> sp_claim svc c s = (Inr (r, b), s1) \<Longrightarrow>
      led s1 (request_key c) = Some (cq_hash c, cq_kb_id r)"
    and claim_keeps: "good s \<Longrightarrow> sp_claim svc c s = (x, s1) \<Longrightarrow> good s1 \<and> led s \<subseteq>\<^sub>m led s1"
    and complete_keeps: "good s \<Longrightarrow> sp_complete svc c s = (y, s1) \<Longrightarrow> good s1 \<and> led s1 = led s"
    and fail_keeps: "good s \<Longrightarrow> sp_fail svc c m s = (y, s1) \<Longrightarrow> good s1 \<and> led s1 = led s"
    and profile_create_keeps: "good s \<Longrightarrow> sp_profile_create svc p s = (z, s1) \<Longrightarrow> good s1 \<and> led s1 = led s"
    and profile_get_keeps: "good s \<Longrightarrow> sp_profile_get svc k s = (z, s1) \<Longrightarrow> good s1 \<and> led s1 = led s"
    and kb_get_keeps: "good s \<Longrightarrow> sp_kb_get svc k h s = (u, s1) \<Longrightarrow> good s1 \<and> led s1 = led s"
    and kb_create_keeps: "good s \<Longrightarrow> sp_kb_create svc rq h s = (u, s1) \<Longrightarrow> good s1 \<and> led s1 = led s"
    and new_id_keeps: "good s \<Longrightarrow> sp_new_id svc s = (i, s1) \<Longrightarrow> good s1 \<and> led s1 = led s"
begin

lemma find_upstream_keeps: "good s \<Longrightarrow> find_upstream svc i h s = (r, s1) \<Longrightarrow> good s1 \<and> led s1 = led s"
  by (auto simp: find_upstream_def split: prod.splits sum.splits dest: kb_get_keeps)

lemma provide_kb_keeps:
  assumes "good s" "provide_kb svc rq h s = (r, s1)"
  shows "good s1 \<and> led s1 = led s"
proof -
  obtain r1 s2 where f: "find_upstream svc (ck_id rq) h s = (r1, s2)" by fastforce
  note k = find_upstream_keeps [OF assms(1) f]
  obtain r2 s3 where c: "sp_kb_create svc rq h s2 = (r2, s3)" by fastforce
  note kc = kb_create_keeps [OF conjunct1 [OF k] c]
  obtain r3 s4 where f2: "find_upstream svc (ck_id rq) h s3 = (r3, s4)" by fastforce
  note k2 = find_upstream_keeps [OF conjunct1 [OF kc] f2]
  from assms(2) f c f2 have "s1 = s2 \<or> s1 = s3 \<or> s1 = s4"
    by (auto simp: provide_kb_def split: sum.splits option.splits)
  with k kc k2 show ?thesis by auto
qed

lemma ensure_profile_keeps:
  assumes "good s" "ensure_profile svc p s = (r, s1)"
  shows "good s1 \<and> led s1 = led s"
proof -
  obtain r1 s2 where c: "sp_profile_create svc p s = (r1, s2)" by fastforce
  note k = profile_create_keeps [OF assms(1) c]
  obtain r2 s3 where g: "sp_profile_get svc (pf_kb_id p) s2 = (r2, s3)" by fastforce
  note kg = profile_get_keeps [OF conjunct1 [OF k] g]
  from assms(2) c g have "s1 = s2 \<or> s1 = s3"
    by (auto simp: ensure_profile_def split: sum.splits profile_error.splits)
  with k kg show ?thesis by auto
qed

lemma record_failure_keeps: "good s \<Longrightarrow> good (record_failure svc r e s) \<and> led (record_failure svc r e s) = led s"
  unfolding record_failure_def by (rule fail_keeps [OF _ prod.collapse [symmetric]])

lemma create_claimed_keeps:
  assumes "good s" "create_claimed svc i d who h r ins s = (x, s1)"
  shows "good s1 \<and> led s1 = led s \<and> (\<forall>y. x = Inr y \<longrightarrow> cs_kb_id y = cq_kb_id r)"
proof -
  obtain r1 s2 where p: "provide_kb svc (preset_upstream_request d (cq_kb_id r) (ci_name i) (ci_description i)) h s = (r1, s2)"
    by fastforce
  note kp = provide_kb_keeps [OF assms(1) p]
  note rf = record_failure_keeps [OF conjunct1 [OF kp], of r]
  obtain r2 s3 where e: "ensure_profile svc (expected_profile r who d) s2 = (r2, s3)" by fastforce
  note ke = ensure_profile_keeps [OF conjunct1 [OF kp] e]
  note rf2 = record_failure_keeps [OF conjunct1 [OF ke], of r]
  obtain r3 s4 where c: "sp_complete svc r s3 = (r3, s4)" by fastforce
  note kc = complete_keeps [OF conjunct1 [OF ke] c]
  from assms(2) p e c kp ke kc rf rf2 show ?thesis
    by (auto simp: create_claimed_def Let_def split: sum.splits if_splits)
qed

text \<open>A creation never takes anything back, and a successful one has bound its key.\<close>

lemma create_binds:
  assumes "good s" "space_create svc input key who h s = (x, s1)"
  shows "good s1 \<and> led s \<subseteq>\<^sub>m led s1 \<and> (\<forall>y. x = Inr y \<longrightarrow>
    (\<exists>i mode policy. normalize_create (sp_lower svc) input = Inr (i, mode, policy)
      \<and> led s1 (pr_tenant_id who, pr_user_id who, key) = Some (hash_create_input (sp_sha256 svc) i, cs_kb_id y)))"
proof (cases "\<exists>i mode policy d. normalize_create (sp_lower svc) input = Inr (i, mode, policy) \<and> approved_preset i mode policy = Some d
    \<and> idempotency_key_error key = None \<and> \<not> (pr_user_id who = [] \<or> pr_tenant_id who = 0)")
  case True
  then obtain i mode policy d where n: "normalize_create (sp_lower svc) input = Inr (i, mode, policy)"
    "approved_preset i mode policy = Some d" "idempotency_key_error key = None" "\<not> (pr_user_id who = [] \<or> pr_tenant_id who = 0)" by blast
  obtain a s2 where a: "sp_new_id svc s = (a, s2)" by fastforce
  note ka = new_id_keeps [OF assms(1) a]
  show ?thesis
  proof (cases a)
    case None
    with assms(2) n a ka show ?thesis by (auto simp: space_create_def)
  next
    case (Some assigned)
    define c where "c = \<lparr>cq_tenant_id = pr_tenant_id who, cq_owner = pr_user_id who, cq_key = key,
        cq_hash = hash_create_input (sp_sha256 svc) i, cq_kb_id = assigned, cq_mode = ci_mode i,
        cq_index_profile = ci_index_profile i, cq_status = RequestPending, cq_last_error = [], cq_created_at = 0,
        cq_updated_at = 0\<rparr>"
    obtain cr s3 where cl: "sp_claim svc c s2 = (cr, s3)" by fastforce
    note kc = claim_keeps [OF conjunct1 [OF ka] cl]
    show ?thesis
    proof (cases cr)
      case (Inl e)
      with assms(2) n a Some cl kc ka show ?thesis by (cases e) (auto simp: space_create_def c_def)
    next
      case (Inr rb)
      obtain r ins where rb: "rb = (r, ins)" by fastforce
      from assms(2) n a Some cl Inr rb have cc: "create_claimed svc i d who h r ins s3 = (x, s1)"
        by (simp add: space_create_def c_def)
      note k = create_claimed_keeps [OF conjunct1 [OF kc] cc]
      from claim_binds [OF conjunct1 [OF ka] cl [unfolded Inr rb]] k kc ka n(1) show ?thesis
        by (auto simp: c_def request_key_def)
    qed
  qed
next
  case False
  then have "s1 = s \<and> (\<forall>y. x \<noteq> Inr y)"
    using assms(2) by (auto simp: space_create_def split: sum.splits option.splits prod.splits if_splits)
  with assms(1) show ?thesis by auto
qed

end

section \<open>The product's ledger\<close>

definition requests_unique :: "'w space_store \<Rightarrow> bool" where
  "requests_unique s \<longleftrightarrow> table_keys request_key cq_kb_id (ss_requests s)"

definition ledger_of :: "'w space_store \<Rightarrow> u64 \<times> string \<times> string \<Rightarrow> (string \<times> string) option" where
  "ledger_of s k = map_option (\<lambda>r. (cq_hash r, cq_kb_id r)) (find (\<lambda>r. request_key r = k) (ss_requests s))"

lemma ledger_same: "ss_requests t = ss_requests s \<Longrightarrow> requests_unique s \<Longrightarrow> requests_unique t \<and> ledger_of t = ledger_of s"
  by (simp add: requests_unique_def ledger_of_def fun_eq_iff)

lemma ss_statement_requests [simp]: "ss_requests (snd (ss_statement s)) = ss_requests s"
  by (simp add: ss_statement_def)

lemma on_db_requests: "on_db f s = (r, t) \<Longrightarrow> ss_requests t = ss_requests s"
  by (auto simp: on_db_def split: prod.splits)

lemma on_upstream_requests: "on_upstream f s = (r, t) \<Longrightarrow> ss_requests t = ss_requests s"
  by (auto simp: on_upstream_def split: prod.splits)

lemma settle_keeps:
  assumes "requests_unique s" "settle_request st m now c s = (r, t)"
  shows "requests_unique t \<and> ledger_of t = ledger_of s"
proof -
  let ?f = "\<lambda>r. r\<lparr>cq_status := st, cq_last_error := m, cq_updated_at := now\<rparr>"
  have f: "request_key (?f r) = request_key r" "cq_kb_id (?f r) = cq_kb_id r" "cq_hash (?f r) = cq_hash r" for r
    by (simp_all add: request_key_def)
  from assms(2) have "ss_requests t = ss_requests s \<or> ss_requests t = update_where (same_request c) ?f (ss_requests s)"
    by (auto simp: settle_request_def Let_def split: if_splits)
  then show ?thesis
  proof
    assume t: "ss_requests t = update_where (same_request c) ?f (ss_requests s)"
    have "map request_key (ss_requests t) = map request_key (ss_requests s)" "map cq_kb_id (ss_requests t) = map cq_kb_id (ss_requests s)"
      unfolding t by (rule map_update_where; simp add: f)+
    moreover have "ledger_of t k = ledger_of s k" for k
      unfolding ledger_of_def t by (subst find_key_update_where) (simp_all add: f option.map_comp o_def if_distrib cong: if_cong)
    ultimately show ?thesis using assms(1) by (simp add: requests_unique_def table_keys_def fun_eq_iff)
  next
    assume "ss_requests t = ss_requests s"
    from ledger_same [OF this assms(1)] show ?thesis .
  qed
qed

lemma claim_insert_result:
  assumes "claim_insert now c rs = Some (rs1, b)"
  shows "rs1 = rs \<and> request_key c \<in> set (map request_key rs)
    \<or> rs1 = rs @ [c\<lparr>cq_status := RequestPending, cq_last_error := [], cq_created_at := now, cq_updated_at := now\<rparr>]
      \<and> request_key c \<notin> set (map request_key rs) \<and> cq_kb_id c \<notin> set (map cq_kb_id rs)"
  using assms by (auto simp: claim_insert_def split: if_splits)

lemma claim_result:
  assumes "claim_request now c s = (x, t)"
  shows "ss_requests t = ss_requests s \<and> (\<forall>y. x \<noteq> Inr y)
    \<or> (\<exists>b r. x = Inr (r, b) \<and> claim_insert now c (ss_requests s) = Some (ss_requests t, b)
        \<and> find (\<lambda>r. request_key r = request_key c) (ss_requests t) = Some r \<and> cq_hash r = cq_hash c)"
  using assms
  by (auto simp: claim_request_def Let_def split: if_splits option.splits prod.splits)

lemma claim_keeps_ledger:
  assumes "requests_unique s" "claim_request now c s = (x, t)"
  shows "requests_unique t \<and> ledger_of s \<subseteq>\<^sub>m ledger_of t"
  using claim_result [OF assms(2)]
proof (elim disjE exE conjE)
  fix b r
  assume i: "claim_insert now c (ss_requests s) = Some (ss_requests t, b)"
  from claim_insert_result [OF i] show ?thesis
  proof (elim disjE conjE)
    assume t: "ss_requests t = ss_requests s @ [c\<lparr>cq_status := RequestPending, cq_last_error := [], cq_created_at := now, cq_updated_at := now\<rparr>]"
      and new: "request_key c \<notin> set (map request_key (ss_requests s))" "cq_kb_id c \<notin> set (map cq_kb_id (ss_requests s))"
    have "ledger_of s \<subseteq>\<^sub>m ledger_of t"
      by (auto simp: map_le_def ledger_of_def t find_append split: option.splits)
    moreover have "requests_unique t"
      using assms(1) new by (simp add: requests_unique_def table_keys_def t request_key_def)
    ultimately show ?thesis by simp
  next
    assume "ss_requests t = ss_requests s"
    from ledger_same [OF this assms(1)] show ?thesis by simp
  qed
next
  assume "ss_requests t = ss_requests s"
  from ledger_same [OF this assms(1)] show ?thesis by simp
qed

lemma claim_binds_ledger:
  assumes "claim_request now c s = (Inr (r, b), t)"
  shows "ledger_of t (request_key c) = Some (cq_hash c, cq_kb_id r)"
  using claim_result [OF assms] by (auto simp: ledger_of_def)

interpretation led: ledger_contract "product_spaces env" ledger_of requests_unique
proof (unfold_locales, goal_cases)
  case (1 s c r b s1)
  then show ?case by (auto simp: product_spaces_def dest: claim_binds_ledger)
next
  case (2 s c x s1)
  then show ?case using claim_keeps_ledger by (simp add: product_spaces_def)
next
  case (3 s c y s1)
  then show ?case using settle_keeps by (simp add: product_spaces_def complete_request_def)
next
  case (4 s c m y s1)
  then show ?case using settle_keeps by (simp add: product_spaces_def fail_request_def)
next
  case (5 s p z s1)
  then have "ss_requests s1 = ss_requests s" by (auto simp: product_spaces_def dest: on_db_requests)
  from ledger_same [OF this 5(1)] show ?case .
next
  case (6 s k z s1)
  then have "ss_requests s1 = ss_requests s" by (auto simp: product_spaces_def dest: on_db_requests)
  from ledger_same [OF this 6(1)] show ?case .
next
  case (7 s k h u s1)
  then have "ss_requests s1 = ss_requests s" by (auto simp: product_spaces_def dest: on_upstream_requests)
  from ledger_same [OF this 7(1)] show ?case .
next
  case (8 s rq h u s1)
  then have "ss_requests s1 = ss_requests s" by (auto simp: product_spaces_def dest: on_upstream_requests)
  from ledger_same [OF this 8(1)] show ?case .
next
  case (9 s i s1)
  then have "ss_requests s1 = ss_requests s" by (auto simp: product_spaces_def split: prod.splits)
  from ledger_same [OF this 9(1)] show ?case .
qed

lemma ledger_injective:
  assumes "requests_unique s" "ledger_of s k = Some (a, i)" "ledger_of s k' = Some (a', i)"
  shows "k = k'"
proof -
  from assms(2,3) obtain r r' where f: "find (\<lambda>r. request_key r = k) (ss_requests s) = Some r" "cq_kb_id r = i"
    "find (\<lambda>r. request_key r = k') (ss_requests s) = Some r'" "cq_kb_id r' = i" by (auto simp: ledger_of_def)
  from find_in_set [OF f(1)] find_in_set [OF f(3)] f(2,4) assms(1) have "r = r'"
    by (auto simp: requests_unique_def table_keys_def intro: distinct_map_inj)
  with find_in_set [OF f(1)] find_in_set [OF f(3)] show ?thesis by auto
qed

section \<open>Runs\<close>

text \<open>
  What may happen between two calls: any creation, in any environment, that succeeds or fails, and
  anything that does not touch the ledger.
\<close>

inductive space_call :: "'w space_store \<Rightarrow> 'w space_store \<Rightarrow> bool" where
  call_create: "space_create (product_spaces env) input key who h s = (r, t) \<Longrightarrow> space_call s t"
| call_elsewhere: "ss_requests t = ss_requests s \<Longrightarrow> space_call s t"

lemma space_call_keeps:
  "space_call s t \<Longrightarrow> requests_unique s \<Longrightarrow> requests_unique t \<and> ledger_of s \<subseteq>\<^sub>m ledger_of t"
proof (induction rule: space_call.induct)
  case (call_create env input key who h s r t)
  with led.create_binds [OF call_create(2,1)] show ?case by blast
next
  case (call_elsewhere t s)
  with ledger_same [OF call_elsewhere] show ?case by simp
qed

lemma space_calls_keep:
  "space_call\<^sup>*\<^sup>* s t \<Longrightarrow> requests_unique s \<Longrightarrow> requests_unique t \<and> ledger_of s \<subseteq>\<^sub>m ledger_of t"
proof (induction rule: rtranclp_induct)
  case (step t u)
  then show ?case using space_call_keeps [OF step(2)] map_le_trans by blast
qed simp

text \<open>A successful creation goes through the claimed part and stores the profile.\<close>

lemma create_goes_through:
  assumes "space_create svc input key who h s = (Inr y, t)"
  obtains i mode policy d r ins s1 where "normalize_create (sp_lower svc) input = Inr (i, mode, policy)"
    "approved_preset i mode policy = Some d" "create_claimed svc i d who h r ins s1 = (Inr y, t)"
  using assms by (auto simp: space_create_def split: sum.splits option.splits prod.splits if_splits claim_error.splits)

text \<open>What is in the profile table once the profile is ensured.\<close>

definition space_profile :: "'w space_env \<Rightarrow> 'w space_store \<Rightarrow> profile \<Rightarrow> bool" where
  "space_profile env s e \<longleftrightarrow> list_ex (\<lambda>p. pf_kb_id p = pf_kb_id e \<and> pf_tenant_id p = pf_tenant_id e
     \<and> pf_owner_user_id p = pf_owner_user_id e \<and> pf_product_mode p = pf_product_mode e \<and> pf_access_policy p = pf_access_policy e)
     (db_profiles (ss_db s))"

lemma profile_create_stores:
  "profile_create v now e db = (Inr p, db1) \<Longrightarrow> p \<in> set (db_profiles db1) \<and> pf_kb_id p = pf_kb_id e
   \<and> pf_tenant_id p = pf_tenant_id e \<and> pf_owner_user_id p = pf_owner_user_id e \<and> pf_product_mode p = pf_product_mode e
   \<and> pf_access_policy p = pf_access_policy e"
  by (auto simp: profile_create_def Let_def split: if_splits dest!: exec_Inr)

lemma profile_get_found:
  "profile_get k db = (Inr p, db1) \<Longrightarrow> p \<in> set (db_profiles db1) \<and> pf_kb_id p = k"
  by (auto simp: profile_get_def query_def split: if_splits option.splits dest: find_in_set)

lemma ensure_profile_stores:
  assumes "ensure_profile (product_spaces env) e s = (Inr (), t)"
  shows "space_profile env t e"
proof -
  obtain r s1 where c: "on_db (profile_create (\<lambda>t. se_parse env t \<noteq> None) (se_now env) e) s = (r, s1)" by fastforce
  show ?thesis
  proof (cases r)
    case (Inr p)
    with c assms have "t = s1" by (simp add: ensure_profile_def product_spaces_def)
    from c Inr obtain db where "profile_create (\<lambda>t. se_parse env t \<noteq> None) (se_now env) e (ss_db s) = (Inr p, db)" "s1 = s\<lparr>ss_db := db\<rparr>"
      by (auto simp: on_db_def split: prod.splits)
    with profile_create_stores [OF this(1)] \<open>t = s1\<close> show ?thesis by (auto simp: space_profile_def list_ex_iff)
  next
    case (Inl er)
    obtain r2 s2 where g: "on_db (profile_get (pf_kb_id e)) s1 = (r2, s2)" by fastforce
    from assms c Inl g obtain p where p: "r2 = Inr p" "t = s2" "profile_agrees (se_parse env) p e"
      by (auto simp: ensure_profile_def product_spaces_def split: profile_error.splits sum.splits if_splits)
    from g p(1) obtain db where "profile_get (pf_kb_id e) (ss_db s1) = (Inr p, db)" "s2 = s1\<lparr>ss_db := db\<rparr>"
      by (auto simp: on_db_def split: prod.splits)
    with profile_get_found [OF this(1)] p show ?thesis by (auto simp: space_profile_def list_ex_iff profile_agrees_def)
  qed
qed

lemma approved_mode: "approved_preset i mode policy = Some d \<Longrightarrow> ps_mode d = mode \<and> ps_policy d = policy"
proof -
  assume a: "approved_preset i mode policy = Some d"
  have b: "build_with_managed_models mode e s r v = Some d1 \<Longrightarrow> for_kb_type d1 t = Some d2 \<Longrightarrow> ps_mode d2 = mode" for e s r v d1 t d2
    by (auto simp: build_with_managed_models_def for_kb_type_def preset_of_def Let_def split: if_splits product_mode.splits)
  from a show ?thesis
    by (auto simp: approved_preset_def split: option.splits if_splits Option.bind_splits dest: b)
qed

lemma create_claimed_profile:
  assumes "create_claimed (product_spaces env) i d who h r ins s = (Inr y, t)"
  shows "space_profile env t (expected_profile r who d) \<and> cs_kb_id y = cq_kb_id r \<and> cs_mode y = ps_mode d \<and> cs_policy y = ps_policy d"
proof -
  let ?svc = "product_spaces env"
  obtain r1 s1 where p: "provide_kb ?svc (preset_upstream_request d (cq_kb_id r) (ci_name i) (ci_description i)) h s = (r1, s1)"
    by fastforce
  obtain r2 s2 where e: "ensure_profile ?svc (expected_profile r who d) s1 = (r2, s2)" by fastforce
  obtain r3 s3 where c: "sp_complete ?svc r s2 = (r3, s3)" by fastforce
  from assms p e c have y: "r2 = Inr ()" "t = s3" "cs_kb_id y = cq_kb_id r" "cs_mode y = ps_mode d" "cs_policy y = ps_policy d"
    by (auto simp: create_claimed_def Let_def split: sum.splits if_splits)
  have "ss_db s3 = snd (statement (ss_db s2))"
    using c by (auto simp: product_spaces_def complete_request_def settle_request_def Let_def ss_statement_def split: if_splits)
  with ensure_profile_stores [OF e [unfolded y(1)]] y show ?thesis by (simp add: space_profile_def)
qed

end
