(* ===== verification/SpaceSafety.thy ===== *)
theory SpaceSafety
  imports SpaceRules
begin

text \<open>The properties of the creation of knowledge bases, with one creation and its retry as the example.\<close>

section \<open>A creation and its retry\<close>

definition sample_space_kb :: "create_kb_request \<Rightarrow> space_kb" where
  "sample_space_kb rq = \<lparr>kb_id = ck_id rq, kb_name = ck_name rq, kb_type = ck_type rq, kb_description = ck_description rq,
     kb_tenant_id = 7, kb_creator_id = ''ann'', kb_vlm = ck_vlm rq\<rparr>"

definition sample_space_env :: "space_kb list space_env" where
  "sample_space_env =
     \<lparr>se_now = 1000,
      se_kb_get = (\<lambda>k h w. (case find (\<lambda>b. kb_id b = k) w of None \<Rightarrow> Inl (UpstreamError ''upstream.not_found'' 404) | Some b \<Rightarrow> Inr b, w)),
      se_kb_create = (\<lambda>rq h w. (Inr (sample_space_kb rq), w @ [sample_space_kb rq])),
      se_authz = \<lparr>az_owners = (\<lambda>k h s. (Inl OwnNotFound, s)), az_grants = (\<lambda>k u t s. (Inl GrantNotFound, s)), az_published = None, az_now = 1000\<rparr>,
      se_sha256 = (\<lambda>s. take 32 (rev s @ replicate 32 CHR ''x'')), se_lower = id, se_parse = (\<lambda>t. Some (JStr t))\<rparr>"

definition sample_space_store :: "space_kb list space_store" where
  "sample_space_store = \<lparr>ss_requests = [], ss_db = empty_database\<lparr>db_random := [replicate 16 7, replicate 16 8]\<rparr>, ss_upstream = []\<rparr>"

definition sample_input :: create_input where
  "sample_input = \<lparr>ci_mode = ''personal_notes'', ci_index_profile = [], ci_kb_type = [], ci_name = ''Notes'', ci_description = [],
     ci_embedding = ''m1'', ci_summary = [], ci_rerank = [], ci_vlm = [], ci_storage = []\<rparr>"

definition sample_owner :: principal where
  "sample_owner = \<lparr>pr_user_id = ''ann'', pr_tenant_id = 7\<rparr>"

definition first_create :: "(space_error, create_result, space_kb list space_store) outcome" where
  "first_create = space_create (product_spaces sample_space_env) sample_input ''key-0001'' sample_owner (\<lambda>k. []) sample_space_store"

definition second_create :: "(space_error, create_result, space_kb list space_store) outcome" where
  "second_create = space_create (product_spaces sample_space_env) sample_input ''key-0001'' sample_owner (\<lambda>k. []) (snd first_create)"

definition sample_result :: "bool \<Rightarrow> create_result" where
  "sample_result new =
     \<lparr>cs_kb_id = ''07070707-0707-4707-8707-070707070707'', cs_name = ''Notes'', cs_mode = ModePersonalNotes, cs_index_profile = ''notes_plain'',
      cs_kb_type = ''document'', cs_policy = PolicyOwnerOnly, cs_created = new, cs_reconciled = (\<not> new)\<rparr>"

lemma first_create_result: "(case fst first_create of Inr r \<Rightarrow> Some r | Inl _ \<Rightarrow> None) = Some (sample_result True)"
  by code_simp

lemma second_create_result: "(case fst second_create of Inr r \<Rightarrow> Some r | Inl _ \<Rightarrow> None) = Some (sample_result False)"
  by code_simp

lemma sample_creates:
  "space_create (product_spaces sample_space_env) sample_input ''key-0001'' sample_owner (\<lambda>k. []) sample_space_store
     = (Inr (sample_result True), snd first_create)"
  "space_create (product_spaces sample_space_env) sample_input ''key-0001'' sample_owner (\<lambda>k. []) (snd first_create)
     = (Inr (sample_result False), snd second_create)"
proof -
  have "first_create = (Inr (sample_result True), snd first_create)" "second_create = (Inr (sample_result False), snd second_create)"
    using first_create_result second_create_result by (auto intro!: prod_eqI split: sum.splits)
  then show "space_create (product_spaces sample_space_env) sample_input ''key-0001'' sample_owner (\<lambda>k. []) sample_space_store
       = (Inr (sample_result True), snd first_create)"
    "space_create (product_spaces sample_space_env) sample_input ''key-0001'' sample_owner (\<lambda>k. []) (snd first_create)
       = (Inr (sample_result False), snd second_create)"
    by (simp_all only: first_create_def [symmetric] second_create_def [symmetric])
qed

section \<open>The properties\<close>

definition request_hash :: "'w space_env \<Rightarrow> create_input \<Rightarrow> string" where
  "request_hash env input =
     (case normalize_create (se_lower env) input of Inl _ \<Rightarrow> [] | Inr (i, _, _) \<Rightarrow> hash_create_input (se_sha256 env) i)"

text \<open>C37. Two successful creations, whatever calls lie between them, give the same knowledge base exactly when they were made by the same user in the same workspace with the same Idempotency-Key, and then for requests with the same hash.\<close>

theorem same_key_same_space:
  assumes "requests_unique s0" "space_create (product_spaces env1) input1 key1 who1 h1 s0 = (Inr r1, s1)"
    and "space_call\<^sup>*\<^sup>* s1 s2" "space_create (product_spaces env2) input2 key2 who2 h2 s2 = (Inr r2, s3)"
  shows "(cs_kb_id r1 = cs_kb_id r2 \<longleftrightarrow> who1 = who2 \<and> key1 = key2)
    \<and> (cs_kb_id r1 = cs_kb_id r2 \<longrightarrow> request_hash env1 input1 = request_hash env2 input2)"
proof -
  let ?k1 = "(pr_tenant_id who1, pr_user_id who1, key1)" and ?k2 = "(pr_tenant_id who2, pr_user_id who2, key2)"
  note b1 = led.create_binds [OF assms(1,2)]
  note k = space_calls_keep [OF assms(3) conjunct1 [OF b1]]
  note b2 = led.create_binds [OF conjunct1 [OF k] assms(4)]
  from b1 have l1: "ledger_of s1 ?k1 = Some (request_hash env1 input1, cs_kb_id r1)"
    by (auto simp: request_hash_def product_spaces_def)
  with k b2 have l3: "ledger_of s3 ?k1 = Some (request_hash env1 input1, cs_kb_id r1)"
    by (metis map_le_def domI)
  from b2 have l2: "ledger_of s3 ?k2 = Some (request_hash env2 input2, cs_kb_id r2)"
    by (auto simp: request_hash_def product_spaces_def)
  have w: "who1 = who2 \<longleftrightarrow> pr_tenant_id who1 = pr_tenant_id who2 \<and> pr_user_id who1 = pr_user_id who2" by auto
  from ledger_injective [OF conjunct1 [OF b2]] l2 l3 w show ?thesis by (metis option.inject prod.inject)
qed

theorem same_key_same_space_witness:
  "cs_kb_id (sample_result True) = cs_kb_id (sample_result False)
   \<and> request_hash sample_space_env sample_input = request_hash sample_space_env sample_input \<and> cs_reconciled (sample_result False)"
proof -
  have u: "requests_unique sample_space_store" by (simp add: requests_unique_def table_keys_def sample_space_store_def)
  from same_key_same_space [OF u sample_creates(1) rtranclp.rtrancl_refl sample_creates(2)]
  have "cs_kb_id (sample_result True) = cs_kb_id (sample_result False)"
    by blast
  then show ?thesis by (simp add: sample_result_def)
qed

text \<open>C38. A successful creation leaves a product profile for its knowledge base that names the caller as the owner, with the mode asked for and the policy of that mode: Personal Notes are the owner's only.\<close>

theorem created_space_owned:
  assumes "space_create (product_spaces env) input key who h s = (Inr y, t)"
  shows "list_ex (\<lambda>p. pf_kb_id p = cs_kb_id y \<and> pf_tenant_id p = pr_tenant_id who \<and> pf_owner_user_id p = pr_user_id who
      \<and> pf_product_mode p = cs_mode y \<and> pf_access_policy p = cs_policy y) (db_profiles (ss_db t))
    \<and> (cs_mode y = ModePersonalNotes \<and> cs_policy y = PolicyOwnerOnly \<or> cs_mode y = ModeRAG \<and> cs_policy y = PolicyUpstream)"
proof -
  obtain i mode policy d r ins s1 where n: "normalize_create (sp_lower (product_spaces env)) input = Inr (i, mode, policy)"
    "approved_preset i mode policy = Some d" "create_claimed (product_spaces env) i d who h r ins s1 = (Inr y, t)"
    using assms by (rule create_goes_through)
  from n(1) have "mode = ModePersonalNotes \<and> policy = PolicyOwnerOnly \<or> mode = ModeRAG \<and> policy = PolicyUpstream"
    by (auto simp: normalize_create_def Let_def split: if_splits)
  with create_claimed_profile [OF n(3)] approved_mode [OF n(2)] show ?thesis
    by (auto simp: space_profile_def expected_profile_def)
qed

theorem created_space_owned_witness:
  "list_ex (\<lambda>p. pf_kb_id p = cs_kb_id (sample_result True) \<and> pf_tenant_id p = 7 \<and> pf_owner_user_id p = ''ann''
      \<and> pf_product_mode p = ModePersonalNotes \<and> pf_access_policy p = PolicyOwnerOnly) (db_profiles (ss_db (snd first_create)))"
  using created_space_owned [OF sample_creates(1)]
  by (simp add: sample_owner_def sample_result_def)

end
