(* ===== verification/NativeStore.thy ===== *)
theory NativeStore
  imports Gate
begin

text \<open>
  internal/nativeaccess: who calls (gate.go), the errors of the native gate, and the two tables of
  migration 000015 (store.go): the sessions with the principal and the knowledge bases they are bound
  to, and the trail of the decisions.
\<close>

section \<open>Principals and errors\<close>

record actor =
  ac_kind :: string
  ac_id :: string
  ac_tenant_id :: u64

datatype native_error =
    NativeError (ne_status: nat) (ne_code: string)
  | NativeUpstream upstream_error   \<comment> \<open>of the WeKnora client\<close>
  | NativeFailed                    \<comment> \<open>any other error\<close>

definition native_invalid_response :: native_error where
  "native_invalid_response = NativeError 502 ''upstream.invalid_response''"

text \<open>\<open>denied\<close> of response.go and \<open>upstreamDenied\<close> of scope.go.\<close>

fun native_denied :: "native_error \<Rightarrow> bool" where
  "native_denied (NativeError st _) = (st = 403 \<or> st = 404)"
| "native_denied (NativeUpstream (UpstreamError _ st)) = (st = 403 \<or> st = 404)"
| "native_denied _ = False"

text \<open>\<open>WriteError\<close>: the status and the code of the answer.\<close>

fun native_answer :: "native_error \<Rightarrow> nat \<times> string" where
  "native_answer (NativeError st code) = (st, code)"
| "native_answer (NativeUpstream (UpstreamError code st)) = (st, code)"
| "native_answer _ = (503, ''native.authorization_unavailable'')"

section \<open>Sequencing of fallible calls\<close>

text \<open>\<open>if err != nil { return err }\<close> after a call without effects, and a loop of such calls.\<close>

definition try_then :: "'e + 'a \<Rightarrow> ('a \<Rightarrow> 'e + 'b) \<Rightarrow> 'e + 'b" where
  "try_then r f = (case r of Inl e \<Rightarrow> Inl e | Inr x \<Rightarrow> f x)"

primrec try_each :: "('a \<Rightarrow> 'e + 'b) \<Rightarrow> 'a list \<Rightarrow> 'e + 'b list" where
  "try_each f [] = Inr []"
| "try_each f (x # xs) = try_then (f x) (\<lambda>y. try_then (try_each f xs) (\<lambda>ys. Inr (y # ys)))"

lemma try_then_simps [simp]: "try_then (Inl e) f = Inl e" "try_then (Inr x) f = f x"
  by (simp_all add: try_then_def)

lemma try_then_Inr [simp]: "try_then r f = Inr y \<longleftrightarrow> (\<exists>x. r = Inr x \<and> f x = Inr y)"
  by (cases r) auto

lemma try_then_cong [fundef_cong]: "r = r' \<Longrightarrow> (\<And>x. r' = Inr x \<Longrightarrow> f x = g x) \<Longrightarrow> try_then r f = try_then r' g"
  by (cases r') auto

lemma try_each_Inr: "try_each f xs = Inr ys \<longleftrightarrow> list_all2 (\<lambda>x y. f x = Inr y) xs ys"
  by (induction xs arbitrary: ys) (auto simp: list_all2_Cons1)

lemma try_each_all: "try_each f xs = Inr ys \<Longrightarrow> x \<in> set xs \<Longrightarrow> \<exists>y\<in>set ys. f x = Inr y"
  by (induction xs arbitrary: ys) auto

lemma try_each_only: "try_each f xs = Inr ys \<Longrightarrow> y \<in> set ys \<Longrightarrow> \<exists>x\<in>set xs. f x = Inr y"
  by (induction xs arbitrary: ys) auto

text \<open>The same for a call that changes the state.\<close>

definition call_then :: "('e, 'a, 's) outcome \<Rightarrow> ('a \<Rightarrow> 's \<Rightarrow> ('e, 'b, 's) outcome) \<Rightarrow> ('e, 'b, 's) outcome" where
  "call_then r f = (case r of (Inl e, s) \<Rightarrow> (Inl e, s) | (Inr x, s) \<Rightarrow> f x s)"

lemma call_then_simps [simp]: "call_then (Inl e, s) f = (Inl e, s)" "call_then (Inr x, s) f = f x s"
  by (simp_all add: call_then_def)

lemma call_then_Inr [simp]: "call_then r f = (Inr y, t) \<longleftrightarrow> (\<exists>x s. r = (Inr x, s) \<and> f x s = (Inr y, t))"
  by (cases r rule: prod.exhaust; cases "fst r") (auto simp: call_then_def split: sum.splits)

text \<open>What each part of a sequence keeps, the sequence keeps.\<close>

lemma call_then_keeps:
  assumes "P s (snd r)" "\<And>x s1. r = (Inr x, s1) \<Longrightarrow> P s1 (snd (f x s1))" "\<And>a b c. P a b \<Longrightarrow> P b c \<Longrightarrow> P a c"
  shows "P s (snd (call_then r f))"
  using assms by (cases r; cases "fst r") fastforce+

section \<open>The tables\<close>

record native_binding =
  nb_session_id :: string
  nb_actor :: actor
  nb_kb_ids :: "string list"
  nb_created_at :: time
  nb_updated_at :: time

record native_event =
  nv_actor :: actor
  nv_operation :: string
  nv_outcome :: string
  nv_error_code :: string
  nv_kb_ids :: "string list"
  nv_correlation_id :: string
  nv_created_at :: time

record native_tables =
  nt_bindings :: "native_binding list"
  nt_events :: "native_event list"
  nt_db :: database        \<comment> \<open>the connection: which statements fail\<close>

text \<open>\<open>unique\<close> of scope.go: no duplicates, sorted; \<open>jsonb_agg(DISTINCT ...)\<close> is the same.\<close>

definition sorted_ids :: "string list \<Rightarrow> string list" where
  "sorted_ids ids = sort (remdups ids)"

lemma set_sorted_ids [simp]: "set (sorted_ids ids) = set ids"
  by (simp add: sorted_ids_def)

lemma sorted_ids_Nil [simp]: "sorted_ids [] = []"
  by (simp add: sorted_ids_def)

lemma length_sorted_ids: "length (sorted_ids ids) = card (set ids)"
  by (simp add: sorted_ids_def length_remdups_card_conv)

text \<open>
  A JSON array of strings in a \<open>jsonb\<close> column: \<open>json.Marshal\<close> puts U+FFFD for a byte that is not UTF-8,
  PostgreSQL refuses the NUL.
\<close>

primrec json_text_from :: "nat \<Rightarrow> string \<Rightarrow> string" where
  "json_text_from k [] = []"
| "json_text_from k (c # cs) =
     (if 0 < k then c # json_text_from (k - 1) cs
      else if snd (decode_rune (c # cs)) then c # json_text_from (fst (decode_rune (c # cs)) - 1) cs
      else [CHR 0xEF, CHR 0xBF, CHR 0xBD] @ json_text_from 0 cs)"

definition json_text :: "string \<Rightarrow> string" where
  "json_text s = json_text_from 0 s"

lemma json_text_from_valid: "utf8_valid_from k s \<Longrightarrow> json_text_from k s = s"
  by (induction s arbitrary: k) (auto split: if_splits)

lemma json_text_valid: "utf8_valid s \<Longrightarrow> json_text s = s"
  by (simp add: utf8_valid_def json_text_def json_text_from_valid)

definition jsonb_ids_ok :: "string list \<Rightarrow> bool" where
  "jsonb_ids_ok ids = list_all (\<lambda>i. CHR 0x00 \<notin> set i) ids"

definition actor_row_ok :: "actor \<Rightarrow> bool" where
  "actor_row_ok a \<longleftrightarrow> ac_kind a \<in> set [''human'', ''api_key''] \<and> varchar 512 (ac_id a)
     \<and> ac_tenant_id a \<noteq> 0 \<and> uint (ac_tenant_id a) \<le> max_int64"

definition binding_row_ok :: "native_binding \<Rightarrow> bool" where
  "binding_row_ok b \<longleftrightarrow> varchar 128 (nb_session_id b) \<and> actor_row_ok (nb_actor b) \<and> ac_id (nb_actor b) \<noteq> []
     \<and> jsonb_ids_ok (nb_kb_ids b) \<and> length (nb_kb_ids b) \<le> 256"

definition event_row_ok :: "native_event \<Rightarrow> bool" where
  "event_row_ok e \<longleftrightarrow> actor_row_ok (nv_actor e) \<and> varchar 128 (nv_operation e)
     \<and> nv_outcome e \<in> set [''allowed'', ''denied'', ''failure''] \<and> varchar 128 (nv_error_code e)
     \<and> jsonb_ids_ok (nv_kb_ids e) \<and> varchar 128 (nv_correlation_id e)"

definition native_exec ::
    "(native_tables \<Rightarrow> (native_error, 'a, native_tables) outcome) \<Rightarrow> native_tables \<Rightarrow> (native_error, 'a, native_tables) outcome" where
  "native_exec write s =
     (let s1 = s\<lparr>nt_db := snd (statement (nt_db s))\<rparr> in
      if fst (statement (nt_db s)) then write s1 else (Inl NativeFailed, s1))"

section \<open>Repository\<close>

definition native_bindings :: "actor \<Rightarrow> native_tables \<Rightarrow> (native_error, native_binding list, native_tables) outcome" where
  "native_bindings a = native_exec (\<lambda>s.
     let rows = take 10001 (sort_key (\<lambda>b. - nb_created_at b) (filter (\<lambda>b. nb_actor b = a) (nt_bindings s))) in
     (if int (length rows) > 10000 then Inl (NativeError 422 ''session.history_limit'') else Inr rows, s))"

definition native_binding_of :: "string \<Rightarrow> native_tables \<Rightarrow> (native_error, native_binding, native_tables) outcome" where
  "native_binding_of i = native_exec (\<lambda>s.
     (case find (\<lambda>b. nb_session_id b = i) (nt_bindings s) of
        None \<Rightarrow> Inl (NativeError 403 ''session.unbound'')
      | Some b \<Rightarrow> Inr b, s))"

text \<open>
  \<open>Bind\<close>: one statement, \<open>INSERT ... ON CONFLICT (session_id) DO UPDATE ... WHERE\<close> the principal is the
  same. No row affected means that the session belongs to somebody else.
\<close>

definition extend_binding :: "time \<Rightarrow> string list \<Rightarrow> native_binding \<Rightarrow> native_binding" where
  "extend_binding now ids b = b\<lparr>nb_kb_ids := sorted_ids (nb_kb_ids b @ ids), nb_updated_at := now\<rparr>"

definition native_bind :: "time \<Rightarrow> string \<Rightarrow> actor \<Rightarrow> string list \<Rightarrow> native_tables \<Rightarrow> (native_error, unit, native_tables) outcome" where
  "native_bind now i a ids s =
     (if i = [] \<or> length i > 128 \<or> ac_id a = [] \<or> ac_tenant_id a = 0 \<or> (ac_kind a \<noteq> ''human'' \<and> ac_kind a \<noteq> ''api_key'')
      then (Inl NativeFailed, s)
      else native_exec (\<lambda>s.
        let new = \<lparr>nb_session_id = i, nb_actor = a, nb_kb_ids = map json_text ids, nb_created_at = now, nb_updated_at = now\<rparr> in
        if \<not> binding_row_ok new then (Inl NativeFailed, s)
        else case find (\<lambda>b. nb_session_id b = i) (nt_bindings s) of
          None \<Rightarrow> (Inr (), s\<lparr>nt_bindings := nt_bindings s @ [new]\<rparr>)
        | Some b \<Rightarrow>
            if nb_actor b \<noteq> a then (Inl (NativeError 403 ''session.principal_mismatch''), s)
            else if \<not> binding_row_ok (extend_binding now (map json_text ids) b) then (Inl NativeFailed, s)
            else (Inr (), s\<lparr>nt_bindings :=
              update_where (\<lambda>b. nb_session_id b = i) (extend_binding now (map json_text ids)) (nt_bindings s)\<rparr>)) s)"

definition native_record ::
    "time \<Rightarrow> actor \<Rightarrow> string \<Rightarrow> string \<Rightarrow> string \<Rightarrow> string list \<Rightarrow> string \<Rightarrow> native_tables \<Rightarrow> (native_error, unit, native_tables) outcome" where
  "native_record now a operation outcome code ids correlation =
     native_exec (\<lambda>s.
       let e = \<lparr>nv_actor = a, nv_operation = operation, nv_outcome = outcome, nv_error_code = code, nv_kb_ids = map json_text ids,
                nv_correlation_id = (if length correlation > 128 then [] else correlation), nv_created_at = now\<rparr> in
       if event_row_ok e then (Inr (), s\<lparr>nt_events := nt_events s @ [e]\<rparr>) else (Inl NativeFailed, s))"

section \<open>What the statements do to the tables\<close>

lemma native_exec_Inr:
  "native_exec write s = (Inr x, t) \<Longrightarrow> write (s\<lparr>nt_db := snd (statement (nt_db s))\<rparr>) = (Inr x, t)"
  by (simp add: native_exec_def Let_def split: if_splits)

lemma native_bindings_state:
  "nt_bindings (snd (native_bindings a s)) = nt_bindings s" "nt_events (snd (native_bindings a s)) = nt_events s"
  by (simp_all add: native_bindings_def native_exec_def Let_def)

lemma native_binding_of_state:
  "nt_bindings (snd (native_binding_of i s)) = nt_bindings s" "nt_events (snd (native_binding_of i s)) = nt_events s"
  by (simp_all add: native_binding_of_def native_exec_def Let_def)

lemma native_binding_of_Inr:
  "native_binding_of i s = (Inr b, t) \<Longrightarrow> find (\<lambda>b. nb_session_id b = i) (nt_bindings s) = Some b"
  by (auto simp: native_binding_of_def dest!: native_exec_Inr split: option.splits)

lemma native_record_state:
  "nt_bindings (snd (native_record now a operation outcome code ids correlation s)) = nt_bindings s"
  by (simp add: native_record_def native_exec_def Let_def)

lemma native_record_Inr:
  "native_record now a operation outcome code ids correlation s = (Inr u, t) \<Longrightarrow>
   nt_bindings t = nt_bindings s \<and> nt_events t = nt_events s @
     [\<lparr>nv_actor = a, nv_operation = operation, nv_outcome = outcome, nv_error_code = code, nv_kb_ids = map json_text ids,
       nv_correlation_id = (if length correlation > 128 then [] else correlation), nv_created_at = now\<rparr>]"
  by (auto simp: native_record_def Let_def dest!: native_exec_Inr split: if_splits)

lemma native_bind_events: "nt_events (snd (native_bind now i a ids s)) = nt_events s"
  by (simp add: native_bind_def native_exec_def Let_def split: option.splits)

end
