(* ===== verification/NativeScope.thy ===== *)
theory NativeScope
  imports NativeStore IdentityProviders
begin

text \<open>
  internal/nativeaccess/scope.go, agent.go, agent_capabilities.go and describe.go: the knowledge bases
  a request may use. WeKnora is asked with the credentials of the request; its answers are parameters,
  and so is the decoding of JSON.
\<close>

section \<open>The service\<close>

definition max_scope :: int where "max_scope = 256"

record 's native_scope =
  nx_get :: "string \<Rightarrow> (string \<times> string) list \<Rightarrow> headers \<Rightarrow> upstream_error + string"  \<comment> \<open>\<open>NativeRequest\<close> with GET\<close>
  nx_kb_for_knowledge :: "string \<Rightarrow> headers \<Rightarrow> upstream_error + string"
  nx_kb_for_chunk :: "string \<Rightarrow> headers \<Rightarrow> upstream_error + string"
  nx_validate_session :: "string \<Rightarrow> headers \<Rightarrow> upstream_error + unit"
  nx_bind :: "string \<Rightarrow> actor \<Rightarrow> string list \<Rightarrow> 's \<Rightarrow> (native_error, unit, 's) outcome"
  nx_binding :: "string \<Rightarrow> 's \<Rightarrow> (native_error, native_binding, 's) outcome"
  nx_bindings :: "actor \<Rightarrow> 's \<Rightarrow> (native_error, native_binding list, 's) outcome"
  nx_record :: "actor \<Rightarrow> string \<Rightarrow> string \<Rightarrow> string \<Rightarrow> string list \<Rightarrow> string \<Rightarrow> 's \<Rightarrow> (native_error, unit, 's) outcome"
  nx_guard :: "(string \<Rightarrow> actor \<Rightarrow> headers \<Rightarrow> 's \<Rightarrow> (native_error, unit, 's) outcome) option"
  nx_parse :: "string \<Rightarrow> json option"            \<comment> \<open>one JSON value\<close>
  nx_parse_first :: "string \<Rightarrow> json option"      \<comment> \<open>the first of several\<close>
  nx_envelope :: "string \<Rightarrow> (bool \<times> json) option" \<comment> \<open>\<open>success\<close> and \<open>data\<close>\<close>
  nx_session_page :: "string \<Rightarrow> (bool \<times> string list \<times> int) option"  \<comment> \<open>\<open>success\<close>, \<open>data\<close> (unparsed), \<open>total\<close>\<close>
  nx_item_id :: "string \<Rightarrow> string option"
  nx_lower :: "string \<Rightarrow> string"

section \<open>Identifiers\<close>

definition valid_id :: "string \<Rightarrow> bool" where
  "valid_id i \<longleftrightarrow> i \<noteq> [] \<and> length i \<le> 128
     \<and> list_all (\<lambda>c. c \<notin> set [CHR ''/'', CHR ''?'', CHR ''#'', CHR 0x5C, CHR 0x00]) i \<and> i \<noteq> ''.'' \<and> i \<noteq> ''..''"

text \<open>\<open>url.PathEscape\<close>.\<close>

definition path_escape :: "string \<Rightarrow> string" where
  "path_escape s =
     concat (map (\<lambda>c. if unreserved c \<or> c \<in> set ''$&+:=@'' then [c]
       else [CHR ''%'', upper_hex (of_char c div 16), upper_hex (of_char c mod 16)]) s)"

text \<open>\<open>strconv.ParseUint(s, 10, 64)\<close> without its error: 0 for a bad syntax, the largest value out of range.\<close>

fun parse_uint_from :: "int \<Rightarrow> string \<Rightarrow> int" where
  "parse_uint_from n [] = n"
| "parse_uint_from n (c # cs) =
     (if \<not> (CHR ''0'' \<le> c \<and> c \<le> CHR ''9'') then 0
      else if n \<ge> 1844674407370955162 then 18446744073709551615
      else let n1 = n * 10 + (of_char c - 48) in
        if n1 > 18446744073709551615 then 18446744073709551615 else parse_uint_from n1 cs)"

fun uint_value :: "json \<Rightarrow> u64" where
  "uint_value (JNum n) = word_of_int (parse_uint_from 0 n)"
| "uint_value _ = 0"

text \<open>\<open>m[key]\<close> of a decoded object, a null when there is none.\<close>

definition obj_any :: "string \<Rightarrow> (string \<times> json) list \<Rightarrow> json" where
  "obj_any k ms = (case obj_get k ms of None \<Rightarrow> JNull | Some v \<Rightarrow> v)"

section \<open>Questions to WeKnora\<close>

definition native_upstream :: "upstream_error + 'a \<Rightarrow> native_error + 'a" where
  "native_upstream r = (case r of Inl e \<Rightarrow> Inl (NativeUpstream e) | Inr x \<Rightarrow> Inr x)"

fun upstream_denied :: "native_error \<Rightarrow> bool" where
  "upstream_denied (NativeUpstream (UpstreamError _ st)) = (st = 403 \<or> st = 404)"
| "upstream_denied _ = False"

definition native_data :: "'s native_scope \<Rightarrow> string \<Rightarrow> (string \<times> string) list \<Rightarrow> headers \<Rightarrow> native_error + json" where
  "native_data ns path q h =
     try_then (native_upstream (nx_get ns path q h)) (\<lambda>raw.
       case nx_envelope ns raw of Some (True, data) \<Rightarrow> Inr data | _ \<Rightarrow> Inl native_invalid_response)"

definition native_object :: "json \<Rightarrow> native_error + (string \<times> json) list" where
  "native_object j = (case j of JObj ms \<Rightarrow> Inr ms | _ \<Rightarrow> Inl native_invalid_response)"

definition kb_path :: "string \<Rightarrow> string" where
  "kb_path i = ''/api/v1/knowledge-bases/'' @ path_escape i"

definition check_kb :: "'s native_scope \<Rightarrow> string \<Rightarrow> headers \<Rightarrow> native_error + unit" where
  "check_kb ns i h =
     (if \<not> valid_id i then Inl (NativeError 400 ''scope.invalid_id'')
      else try_then (native_data ns (kb_path i) [] h) (\<lambda>value.
        try_then (native_object value) (\<lambda>kb.
          if obj_get ''id'' kb = Some (JStr i) then Inr () else Inl native_invalid_response)))"

fun list_row_id :: "json \<Rightarrow> native_error + string" where
  "list_row_id (JObj ms) =
     (let object = (case obj_get ''knowledge_base'' ms of Some (JObj nested) \<Rightarrow> nested | _ \<Rightarrow> ms) in
      case obj_get ''id'' object of
        Some (JStr i) \<Rightarrow> if valid_id i then Inr i else Inl native_invalid_response
      | _ \<Rightarrow> Inl native_invalid_response)"
| "list_row_id _ = Inl native_invalid_response"

definition list_ids :: "'s native_scope \<Rightarrow> string \<Rightarrow> (string \<times> string) list \<Rightarrow> headers \<Rightarrow> native_error + string list" where
  "list_ids ns path q h =
     try_then (native_data ns path q h) (\<lambda>value.
       case value of
         JNull \<Rightarrow> Inr []
       | JArr rows \<Rightarrow> try_then (try_each list_row_id rows) (\<lambda>ids. Inr (sorted_ids ids))
       | _ \<Rightarrow> Inl native_invalid_response)"

primrec available_from :: "'s native_scope \<Rightarrow> headers \<Rightarrow> string list \<Rightarrow> native_error + string list" where
  "available_from ns h [] = Inr []"
| "available_from ns h (i # is) =
     (case check_kb ns i h of
        Inl e \<Rightarrow> if upstream_denied e then available_from ns h is else Inl e
      | Inr _ \<Rightarrow> try_then (available_from ns h is) (\<lambda>ids. Inr (i # ids)))"

definition available :: "'s native_scope \<Rightarrow> string list \<Rightarrow> headers \<Rightarrow> native_error + string list" where
  "available ns ids h = available_from ns h (sorted_ids ids)"

text \<open>\<open>Defaults\<close>: an API key that may not list the shared bases goes without them.\<close>

definition native_defaults :: "'s native_scope \<Rightarrow> headers \<Rightarrow> native_error + string list" where
  "native_defaults ns h =
     try_then (list_ids ns ''/api/v1/knowledge-bases'' [] h) (\<lambda>ids.
       try_then (case list_ids ns ''/api/v1/shared-knowledge-bases'' [] h of
           Inl (NativeUpstream (UpstreamError code st)) \<Rightarrow>
             if h ''X-API-Key'' \<noteq> [] \<and> st = 403 then Inr [] else Inl (NativeUpstream (UpstreamError code st))
         | r \<Rightarrow> r) (\<lambda>shared.
         let all = sorted_ids (ids @ shared) in
         if int (length all) > max_scope then Inl (NativeError 422 ''scope.too_large'') else available ns all h))"

section \<open>Agents\<close>

text \<open>The loop over the shared agents: the one with the identifier, from one workspace only.\<close>

fun select_shared_agent ::
    "string \<Rightarrow> json list \<Rightarrow> (string \<times> json) list option \<Rightarrow> native_error + (string \<times> json) list option" where
  "select_shared_agent i [] selected = Inr selected"
| "select_shared_agent i (JObj share # rows) selected =
     (case obj_get ''agent'' share of
        Some (JObj agent) \<Rightarrow>
          if obj_get ''id'' agent \<noteq> Some (JStr i) then select_shared_agent i rows selected
          else let tenant = uint_value (obj_any ''source_tenant_id'' share) in
            if tenant = 0 \<or> tenant \<noteq> uint_value (obj_any ''tenant_id'' agent) then Inl native_invalid_response
            else (case selected of
                Some other \<Rightarrow>
                  if uint_value (obj_any ''tenant_id'' other) \<noteq> tenant then Inl (NativeError 409 ''agent.source_ambiguous'')
                  else select_shared_agent i rows (Some agent)
              | None \<Rightarrow> select_shared_agent i rows (Some agent))
      | _ \<Rightarrow> select_shared_agent i rows selected)"
| "select_shared_agent i (_ # rows) selected = select_shared_agent i rows selected"

definition native_agent :: "'s native_scope \<Rightarrow> string \<Rightarrow> headers \<Rightarrow> native_error + json" where
  "native_agent ns i h =
     (case native_data ns (''/api/v1/agents/'' @ path_escape i) [] h of
        Inr value \<Rightarrow> Inr value
      | Inl missing \<Rightarrow>
          (case missing of
             NativeUpstream (UpstreamError _ st) \<Rightarrow>
               if st \<noteq> 404 then Inl missing
               else try_then (native_data ns ''/api/v1/shared-agents'' [] h) (\<lambda>value.
                 case value of
                   JNull \<Rightarrow> Inl missing
                 | JArr rows \<Rightarrow> try_then (select_shared_agent i rows None) (\<lambda>selected.
                     case selected of None \<Rightarrow> Inl missing | Some agent \<Rightarrow> Inr (JObj agent))
                 | _ \<Rightarrow> Inl native_invalid_response)
           | _ \<Rightarrow> Inl missing))"

definition agent_config :: "'s native_scope \<Rightarrow> string \<Rightarrow> headers \<Rightarrow> native_error + (string \<times> json) list" where
  "agent_config ns i h =
     (if \<not> valid_id i then Inl (NativeError 400 ''scope.invalid_id'')
      else try_then (native_agent ns i h) (\<lambda>value.
        try_then (native_object value) (\<lambda>agent. native_object (obj_any ''config'' agent))))"

definition rag_tools :: "string list" where
  "rag_tools = [''knowledge_search'', ''grep_chunks'', ''list_knowledge_chunks'', ''query_knowledge_graph'',
     ''get_document_info'', ''database_query'', ''data_analysis'', ''data_schema'']"

definition wiki_tools :: "string list" where
  "wiki_tools = [''wiki_search'', ''wiki_read_page'', ''wiki_read_source_doc'', ''wiki_flag_issue'', ''wiki_write_page'',
     ''wiki_replace_text'', ''wiki_rename_page'', ''wiki_delete_page'', ''wiki_read_issue'', ''wiki_update_issue'']"

definition kb_compatible :: "'s native_scope \<Rightarrow> bool \<Rightarrow> bool \<Rightarrow> headers \<Rightarrow> string \<Rightarrow> native_error + bool" where
  "kb_compatible ns rag wiki h i =
     try_then (native_data ns (kb_path i) [] h) (\<lambda>value.
       try_then (native_object value) (\<lambda>kb.
         case obj_get ''capabilities'' kb of
           Some (JObj caps) \<Rightarrow>
             Inr (rag \<and> (obj_get ''vector'' caps = Some (JBool True) \<or> obj_get ''keyword'' caps = Some (JBool True))
               \<or> wiki \<and> obj_get ''wiki'' caps = Some (JBool True))
         | _ \<Rightarrow> Inl (NativeError 502 ''upstream.capabilities_missing'')))"

definition compatible :: "'s native_scope \<Rightarrow> string list \<Rightarrow> (string \<times> json) list \<Rightarrow> headers \<Rightarrow> native_error + string list" where
  "compatible ns ids config h =
     (let tools = string_values (obj_any ''allowed_tools'' config);
          rag = (obj_get ''agent_mode'' config = Some (JStr ''quick-answer'') \<or> list_ex (\<lambda>t. t \<in> set rag_tools) tools);
          wiki = list_ex (\<lambda>t. t \<in> set wiki_tools) tools in
      if \<not> rag \<and> \<not> wiki then Inr ids
      else try_then (try_each (\<lambda>i. kb_compatible ns rag wiki h i) ids) (\<lambda>oks. Inr (map fst (filter snd (zip ids oks)))))"

text \<open>\<open>Describe\<close>: what the client may see of each base.\<close>

definition describe_kb :: "'s native_scope \<Rightarrow> headers \<Rightarrow> string \<Rightarrow> native_error + (string \<times> json) list" where
  "describe_kb ns h i =
     try_then (native_data ns (kb_path i) [] h) (\<lambda>value.
       try_then (native_object value) (\<lambda>kb.
         Inr ((''id'', JStr i) # concat (map (\<lambda>k. case obj_get k kb of None \<Rightarrow> [] | Some v \<Rightarrow> [(k, v)])
           [''name'', ''description'', ''type'', ''capabilities'']))))"

definition describe :: "'s native_scope \<Rightarrow> string list \<Rightarrow> headers \<Rightarrow> native_error + (string \<times> json) list list" where
  "describe ns ids h = try_each (describe_kb ns h) ids"

section \<open>Resolve\<close>

definition agent_permitted :: "(string \<times> json) list \<Rightarrow> native_error + unit" where
  "agent_permitted config =
     (if obj_get ''memory_enabled'' config = Some (JBool True) then Inl (NativeError 403 ''feature.disabled'')
      else if obj_get ''agent_mode'' config = Some (JStr ''quick-answer'') then Inr ()
      else let tools = string_values (obj_any ''allowed_tools'' config) in
        if tools = [] then Inl (NativeError 409 ''agent.tools_scope_unavailable'')
        else if ''search_conversations'' \<in> set tools then Inl (NativeError 409 ''history.vector_scope_unavailable'')
        else Inr ())"

text \<open>The bases an agent may use, of those the caller may read.\<close>

definition agent_bases ::
    "'s native_scope \<Rightarrow> string \<Rightarrow> (string \<times> json) list \<Rightarrow> (string \<times> json) list \<Rightarrow> actor \<Rightarrow> headers \<Rightarrow> native_error + string list" where
  "agent_bases ns agent_id agent config a h =
     (let mode = obj_string ''kb_selection_mode'' config; tenant = uint_value (obj_any ''tenant_id'' agent) in
      try_then (if mode = ''none'' then Inr []
          else if mode = ''all'' then
            (if tenant \<noteq> 0 \<and> tenant \<noteq> ac_tenant_id a then list_ids ns ''/api/v1/knowledge-bases'' [(''agent_id'', agent_id)] h
             else native_defaults ns h)
          else Inr (string_values (obj_any ''knowledge_bases'' config))) (\<lambda>ids.
        try_then (available ns ids h) (\<lambda>allowed. if mode = ''all'' then compatible ns allowed config h else Inr allowed)))"

definition nonempty_scope :: "string list \<Rightarrow> native_error + string list" where
  "nonempty_scope ids = (if ids = [] then Inl (NativeError 403 ''scope.empty'') else Inr (sorted_ids ids))"

definition resolve_with_agent ::
    "'s native_scope \<Rightarrow> string list \<Rightarrow> bool \<Rightarrow> string \<Rightarrow> actor \<Rightarrow> headers \<Rightarrow> native_error + string list" where
  "resolve_with_agent ns ids explicit agent_id a h =
     (if \<not> valid_id agent_id then Inl (NativeError 400 ''scope.invalid_id'')
      else try_then (native_agent ns agent_id h) (\<lambda>value.
        try_then (native_object value) (\<lambda>agent.
        try_then (native_object (obj_any ''config'' agent)) (\<lambda>config.
        try_then (agent_permitted config) (\<lambda>_.
        try_then (agent_bases ns agent_id agent config a h) (\<lambda>allowed.
          let mode = obj_string ''kb_selection_mode'' config in
          if explicit \<and> \<not> is_subset ids allowed then Inl (NativeError 403 ''agent.scope_denied'')
          else if \<not> explicit \<and> obj_get ''retrieve_kb_only_when_mentioned'' config = Some (JBool True) then Inr []
          else let scope = (if explicit then ids else allowed) in
            if mode = ''none'' then Inr scope else nonempty_scope scope))))))"

definition resolve_native ::
    "'s native_scope \<Rightarrow> string list \<Rightarrow> bool \<Rightarrow> string \<Rightarrow> actor \<Rightarrow> headers \<Rightarrow> native_error + string list" where
  "resolve_native ns ids0 explicit agent_id a h =
     (let ids = sorted_ids ids0 in
      if int (length ids) > max_scope then Inl (NativeError 422 ''scope.too_large'')
      else try_then (try_each (\<lambda>i. check_kb ns i h) ids) (\<lambda>_.
        if agent_id \<noteq> [] then resolve_with_agent ns ids explicit agent_id a h
        else if \<not> explicit then try_then (native_defaults ns h) nonempty_scope
        else nonempty_scope ids))"

end
