(* ===== verification/NativeCheck.thy ===== *)
theory NativeCheck
  imports NativeScope
begin

text \<open>
  internal/nativeaccess/scope.go, from \<open>CheckSession\<close> on: what a request names, the sessions it uses,
  and \<open>Check\<close>, which lets it through with the scope written into its body, or refuses it, and records
  the decision either way.
\<close>

section \<open>What a document names\<close>

record native_refs =
  nr_kbs :: "string list"
  nr_knowledge :: "string list"
  nr_chunks :: "string list"
  nr_sessions :: "string list"
  nr_agents :: "string list"

definition no_refs :: native_refs where
  "no_refs = \<lparr>nr_kbs = [], nr_knowledge = [], nr_chunks = [], nr_sessions = [], nr_agents = []\<rparr>"

definition ref_resource :: "(string \<times> json) list \<Rightarrow> native_refs \<Rightarrow> native_refs" where
  "ref_resource ms r =
     (case obj_get ''id'' ms of
        Some (JStr i) \<Rightarrow>
          (case obj_get ''type'' ms of
             Some (JStr t) \<Rightarrow>
               if t = ''kb'' \<or> t = ''knowledge_base'' then r\<lparr>nr_kbs := nr_kbs r @ [i]\<rparr>
               else if t = ''file'' then r\<lparr>nr_knowledge := nr_knowledge r @ [i]\<rparr>
               else r
           | _ \<Rightarrow> r)
      | _ \<Rightarrow> r)"

definition ref_member :: "string \<Rightarrow> json \<Rightarrow> native_refs \<Rightarrow> native_refs" where
  "ref_member key item r =
     (if key \<in> set [''knowledge_base_id'', ''knowledge_base_ids'', ''knowledge_bases'', ''kb_id'']
        then r\<lparr>nr_kbs := nr_kbs r @ string_values item\<rparr>
      else if key \<in> set [''knowledge_id'', ''knowledge_ids''] then r\<lparr>nr_knowledge := nr_knowledge r @ string_values item\<rparr>
      else if key \<in> set [''chunk_id'', ''chunk_ids''] then r\<lparr>nr_chunks := nr_chunks r @ string_values item\<rparr>
      else if key \<in> set [''session_id'', ''session_ids''] then r\<lparr>nr_sessions := nr_sessions r @ string_values item\<rparr>
      else if key = ''agent_id'' then r\<lparr>nr_agents := nr_agents r @ string_values item\<rparr>
      else r)"

fun native_collect :: "json \<Rightarrow> native_refs \<Rightarrow> native_refs" where
  "native_collect (JArr xs) r = fold native_collect xs r"
| "native_collect (JObj ms) r =
     fold (\<lambda>m r. native_collect (snd m) (ref_member (fst m) (snd m) r)) ms (ref_resource ms r)"
| "native_collect _ r = r"

declare native_collect.simps [simp del]

definition collect_query :: "gate_request \<Rightarrow> native_refs \<Rightarrow> native_refs" where
  "collect_query rq r = fold (\<lambda>(k, v) r. native_collect (JObj [(k, JStr v)]) r) (rq_query rq) r"

section \<open>The body\<close>

definition max_native_body :: int where "max_native_body = 16777216"

definition read_object :: "'s native_scope \<Rightarrow> gate_request \<Rightarrow> native_error + (string \<times> json) list" where
  "read_object ns rq =
     (if rq_body rq = NoBody then Inr []
      else if \<not> has_prefix (to_lower (nx_lower ns) (rq_headers rq ''Content-Type'')) ''application/json'' then Inr []
      else case rq_body rq of
        Body raw \<Rightarrow>
          if int (length raw) > max_native_body then Inl (NativeError 413 ''request.body_too_large'')
          else if blank raw then Inr []
          else (case nx_parse ns raw of Some (JObj ms) \<Rightarrow> Inr ms | _ \<Rightarrow> Inl (NativeError 400 ''request.invalid_json''))
      | _ \<Rightarrow> Inl (NativeError 413 ''request.body_too_large''))"

text \<open>\<open>replaceObject\<close>; the content length is that of the body.\<close>

definition replace_object :: "gate_request \<Rightarrow> (string \<times> json) list \<Rightarrow> gate_request" where
  "replace_object rq ms = rq\<lparr>rq_body := Body (marshal_object ms),
     rq_headers := (rq_headers rq)(''Content-Type'' := ''application/json'')\<rparr>"

definition string_list :: "string list \<Rightarrow> json" where
  "string_list ids = JArr (map JStr ids)"

section \<open>Sessions\<close>

text \<open>\<open>SessionGuard\<close>, when there is one.\<close>

definition session_guard ::
    "'s native_scope \<Rightarrow> string \<Rightarrow> actor \<Rightarrow> headers \<Rightarrow> 's \<Rightarrow> (native_error, unit, 's) outcome" where
  "session_guard ns i a h s = (case nx_guard ns of None \<Rightarrow> (Inr (), s) | Some guard \<Rightarrow> guard i a h s)"

definition native_check_session ::
    "'s native_scope \<Rightarrow> string \<Rightarrow> actor \<Rightarrow> headers \<Rightarrow> 's \<Rightarrow> (native_error, native_binding, 's) outcome" where
  "native_check_session ns i a h s =
     call_then (nx_binding ns i s) (\<lambda>b s1.
       if nb_actor b \<noteq> a then (Inl (NativeError 403 ''session.principal_mismatch''), s1)
       else call_then (session_guard ns i a h s1) (\<lambda>_ s2.
         (try_then (native_upstream (nx_validate_session ns i h)) (\<lambda>_.
            try_then (try_each (\<lambda>k. check_kb ns k h) (nb_kb_ids b)) (\<lambda>_. Inr b)), s2)))"

text \<open>The sessions of a list that the caller may still use.\<close>

fun reachable_sessions ::
    "'s native_scope \<Rightarrow> actor \<Rightarrow> headers \<Rightarrow> native_binding list \<Rightarrow> 's \<Rightarrow> (native_error, string list, 's) outcome" where
  "reachable_sessions ns a h [] s = (Inr [], s)"
| "reachable_sessions ns a h (b # bs) s =
     (case native_check_session ns (nb_session_id b) a h s of
        (Inl e, s1) \<Rightarrow> if native_denied e then reachable_sessions ns a h bs s1 else (Inl e, s1)
      | (Inr _, s1) \<Rightarrow> call_then (reachable_sessions ns a h bs s1) (\<lambda>ids s2. (Inr (nb_session_id b # ids), s2)))"

text \<open>The search in past messages: by keyword only, and over the sessions the caller may use.\<close>

definition history_scope ::
    "'s native_scope \<Rightarrow> (string \<times> json) list \<Rightarrow> native_refs \<Rightarrow> gate_request \<Rightarrow> actor \<Rightarrow> 's \<Rightarrow>
     (native_error, (string \<times> json) list \<times> native_refs \<times> gate_request, 's) outcome" where
  "history_scope ns body refs rq a s =
     (if rq_path rq \<noteq> ''/api/v1/messages/search'' then (Inr (body, refs, rq), s)
      else if obj_get ''mode'' body \<noteq> Some (JStr ''keyword'') then (Inl (NativeError 409 ''history.vector_scope_unavailable''), s)
      else if nr_sessions refs \<noteq> [] then (Inr (body, refs, rq), s)
      else call_then (nx_bindings ns a s) (\<lambda>bs s1.
        call_then (reachable_sessions ns a (rq_headers rq) bs s1) (\<lambda>ids s2.
          if ids = [] then (Inl (NativeError 403 ''session.scope_empty''), s2)
          else let body1 = obj_set ''session_ids'' (string_list ids) body in
            (Inr (body1, refs\<lparr>nr_sessions := ids\<rparr>, replace_object rq body1), s2))))"

section \<open>The path\<close>

definition native_parts :: "string \<Rightarrow> string list" where
  "native_parts p = split_slash (trim_slashes p)"

definition hybrid_search_kb :: "string \<Rightarrow> string list" where
  "hybrid_search_kb p =
     (let parts = native_parts p in
      if 4 \<le> length parts \<and> parts ! 2 = ''knowledge-bases'' \<and> has_suffix p ''/hybrid-search'' then [parts ! 3] else [])"

definition native_path_sessions :: "string \<Rightarrow> string list" where
  "native_path_sessions p =
     (let parts = native_parts p in
      if length parts < 4 then []
      else if parts ! 2 = ''sessions'' then
        (if parts ! 3 = ''continue-stream'' \<and> 5 \<le> length parts then [parts ! 4]
         else if parts ! 3 \<noteq> ''batch'' then [parts ! 3] else [])
      else if parts ! 2 = ''knowledge-chat'' \<or> parts ! 2 = ''agent-chat'' then [parts ! 3]
      else if parts ! 2 = ''messages'' \<and> parts ! 3 \<noteq> ''search'' \<and> parts ! 3 \<noteq> ''chat-history-stats'' then [parts ! 3]
      else [])"

definition path_refs :: "gate_request \<Rightarrow> (string \<times> json) list \<Rightarrow> native_refs \<Rightarrow> native_refs" where
  "path_refs rq body r =
     r\<lparr>nr_kbs := nr_kbs r @ hybrid_search_kb (rq_path rq),
       nr_sessions := nr_sessions r @ native_path_sessions (rq_path rq)
         @ (if rq_path rq = ''/api/v1/sessions/batch'' then string_values (obj_any ''ids'' body) else [])\<rparr>"

definition is_retrieval :: "gate_request \<Rightarrow> bool" where
  "is_retrieval rq \<longleftrightarrow> rq_method rq = ''POST'' \<and> (rq_path rq = ''/api/v1/knowledge-search''
     \<or> has_prefix (rq_path rq) ''/api/v1/knowledge-chat/'' \<or> has_prefix (rq_path rq) ''/api/v1/agent-chat/'')"

section \<open>Check\<close>

text \<open>\<open>requestState\<close>: what the response filter will need, filled in as the checks go on.\<close>

record request_state =
  qs_actor :: actor
  qs_kb_ids :: "string list"
  qs_session_ids :: "string list"
  qs_create :: bool
  qs_strict :: bool

definition initial_state :: "gate_request \<Rightarrow> actor \<Rightarrow> request_state" where
  "initial_state rq a = \<lparr>qs_actor = a, qs_kb_ids = [], qs_session_ids = [],
     qs_create = (rq_method rq = ''POST'' \<and> rq_path rq = ''/api/v1/sessions''), qs_strict = False\<rparr>"

definition enter_path :: "gate_request \<Rightarrow> request_state \<Rightarrow> request_state" where
  "enter_path rq q =
     (case hybrid_search_kb (rq_path rq) of [] \<Rightarrow> q | ks \<Rightarrow> q\<lparr>qs_kb_ids := ks, qs_strict := True\<rparr>)"

fun check_sessions ::
    "'s native_scope \<Rightarrow> actor \<Rightarrow> headers \<Rightarrow> string list \<Rightarrow> request_state \<times> 's \<Rightarrow> (native_error, unit, request_state \<times> 's) outcome" where
  "check_sessions ns a h [] qs = (Inr (), qs)"
| "check_sessions ns a h (i # is) (q, s) =
     (case native_check_session ns i a h s of
        (Inl e, s1) \<Rightarrow> (Inl e, q, s1)
      | (Inr b, s1) \<Rightarrow> check_sessions ns a h is
          (q\<lparr>qs_session_ids := qs_session_ids q @ [i], qs_kb_ids := qs_kb_ids q @ nb_kb_ids b, qs_strict := True\<rparr>, s1))"

text \<open>The bases of the documents and chunks named, and those named themselves: each must be readable.\<close>

definition named_bases :: "'s native_scope \<Rightarrow> native_refs \<Rightarrow> headers \<Rightarrow> native_error + string list" where
  "named_bases ns refs h =
     try_then (try_each (\<lambda>i. native_upstream (nx_kb_for_knowledge ns i h)) (sorted_ids (nr_knowledge refs))) (\<lambda>of_knowledge.
     try_then (try_each (\<lambda>i. native_upstream (nx_kb_for_chunk ns i h)) (sorted_ids (nr_chunks refs))) (\<lambda>of_chunks.
       Inr (nr_kbs refs @ of_knowledge @ of_chunks)))"

definition readable_bases :: "'s native_scope \<Rightarrow> native_refs \<Rightarrow> headers \<Rightarrow> native_error + string list" where
  "readable_bases ns refs h =
     try_then (named_bases ns refs h) (\<lambda>kbs.
     try_then (try_each (\<lambda>i. check_kb ns i h) (sorted_ids kbs)) (\<lambda>_. Inr kbs))"

text \<open>The agent of a retrieval, and the workspace it must come from.\<close>

definition retrieval_agent ::
    "'s native_scope \<Rightarrow> native_refs \<Rightarrow> (string \<times> json) list \<Rightarrow> headers \<Rightarrow> native_error + string" where
  "retrieval_agent ns refs body h =
     (if length (sorted_ids (nr_agents refs)) > 1 then Inl (NativeError 400 ''agent.ambiguous'')
      else let agent_id = (case nr_agents refs of [] \<Rightarrow> [] | i # _ \<Rightarrow> i);
               source = uint_value (obj_any ''agent_source_tenant_id'' body) in
        if source \<noteq> 0 \<and> agent_id \<noteq> [] then
          try_then (native_agent ns agent_id h) (\<lambda>value.
            case value of
              JObj metadata \<Rightarrow>
                if uint_value (obj_any ''tenant_id'' metadata) \<noteq> source then Inl (NativeError 409 ''agent.source_ambiguous'')
                else Inr agent_id
            | _ \<Rightarrow> Inl (NativeError 409 ''agent.source_ambiguous''))
        else Inr agent_id)"

fun bind_sessions ::
    "'s native_scope \<Rightarrow> actor \<Rightarrow> string list \<Rightarrow> string list \<Rightarrow> 's \<Rightarrow> (native_error, unit, 's) outcome" where
  "bind_sessions ns a kbs [] s = (Inr (), s)"
| "bind_sessions ns a kbs (i # is) s = call_then (nx_bind ns i a kbs s) (\<lambda>_. bind_sessions ns a kbs is)"

definition native_scoped_body :: "string list \<Rightarrow> (string \<times> json) list \<Rightarrow> (string \<times> json) list" where
  "native_scoped_body kbs body = obj_del ''knowledge_base_id'' (obj_set ''knowledge_base_ids'' (string_list kbs) body)"

definition native_retrieval ::
    "'s native_scope \<Rightarrow> native_refs \<Rightarrow> string list \<Rightarrow> (string \<times> json) list \<Rightarrow> gate_request \<Rightarrow> actor \<Rightarrow>
     request_state \<times> 's \<Rightarrow> (native_error, gate_request, request_state \<times> 's) outcome" where
  "native_retrieval ns refs kbs body rq a qs =
     (let q = (fst qs)\<lparr>qs_strict := True\<rparr>; s = snd qs; h = rq_headers rq in
      case retrieval_agent ns refs body h of
        Inl e \<Rightarrow> (Inl e, q, s)
      | Inr agent_id \<Rightarrow>
          (case resolve_native ns kbs (kbs \<noteq> []) agent_id a h of
             Inl e \<Rightarrow> (Inl e, q\<lparr>qs_kb_ids := []\<rparr>, s)
           | Inr scope \<Rightarrow>
               let q1 = q\<lparr>qs_kb_ids := scope\<rparr>; (r, s1) = bind_sessions ns a scope (qs_session_ids q1) s in
               (try_then r (\<lambda>_. Inr (replace_object rq (native_scoped_body scope body))), q1, s1)))"

definition check_parts ::
    "'s native_scope \<Rightarrow> (string \<times> json) list \<Rightarrow> native_refs \<Rightarrow> gate_request \<Rightarrow> actor \<Rightarrow>
     request_state \<times> 's \<Rightarrow> (native_error, gate_request, request_state \<times> 's) outcome" where
  "check_parts ns body refs rq a qs =
     call_then (check_sessions ns a (rq_headers rq) (sorted_ids (nr_sessions refs)) (enter_path rq (fst qs), snd qs)) (\<lambda>_ qs1.
       case readable_bases ns refs (rq_headers rq) of
         Inl e \<Rightarrow> (Inl e, qs1)
       | Inr kbs \<Rightarrow> if is_retrieval rq then native_retrieval ns refs kbs body rq a qs1 else (Inr rq, qs1))"

definition check_body ::
    "'s native_scope \<Rightarrow> gate_request \<Rightarrow> actor \<Rightarrow> 's \<Rightarrow> (native_error, gate_request, request_state \<times> 's) outcome" where
  "check_body ns rq a s =
     (let q = initial_state rq a in
      case read_object ns rq of
        Inl e \<Rightarrow> (Inl e, q, s)
      | Inr body \<Rightarrow>
          (case history_scope ns body (native_collect (JObj body) no_refs) rq a s of
             (Inl e, s1) \<Rightarrow> (Inl e, q, s1)
           | (Inr (body1, refs, rq1), s1) \<Rightarrow>
               check_parts ns body1 (path_refs rq1 body1 (collect_query rq1 refs)) rq1 a (q, s1)))"

text \<open>The deferred record: an error of it replaces the answer.\<close>

definition check_outcome :: "native_error + 'a \<Rightarrow> string \<times> string" where
  "check_outcome r =
     (case r of Inr _ \<Rightarrow> (''allowed'', []) | Inl (NativeError _ code) \<Rightarrow> (''denied'', code) | Inl _ \<Rightarrow> (''denied'', ''scope.denied''))"

definition check_request ::
    "'s native_scope \<Rightarrow> gate_request \<Rightarrow> actor \<Rightarrow> 's \<Rightarrow> (native_error, gate_request \<times> request_state, 's) outcome" where
  "check_request ns rq a s =
     (let (r, q, s1) = check_body ns rq a s; (outcome, code) = check_outcome r in
      call_then (nx_record ns a ''web.scope'' outcome code (qs_kb_ids q) (rq_headers rq ''X-Request-ID'') s1)
        (\<lambda>_ s2. (map_sum id (\<lambda>rq1. (rq1, q)) r, s2)))"

end
