(* ===== verification/NativeResponse.thy ===== *)
theory NativeResponse
  imports NativeCheck
begin

text \<open>
  internal/nativeaccess/response.go and history.go: what of WeKnora's answer reaches the client. A JSON
  answer is read whole, a stream event by event; the list of sessions is collected over WeKnora's pages.
\<close>

section \<open>References\<close>

definition check_references :: "'s native_scope \<Rightarrow> json \<Rightarrow> request_state \<Rightarrow> headers \<Rightarrow> native_error + unit" where
  "check_references ns value q h =
     try_then (named_bases ns (native_collect value no_refs) h) (\<lambda>kbs.
       if qs_strict q \<and> \<not> is_subset (sorted_ids kbs) (qs_kb_ids q) then Inl (NativeError 502 ''upstream.scope_violation'')
       else try_then (try_each (\<lambda>i. check_kb ns i h) (sorted_ids kbs)) (\<lambda>_. Inr ()))"

section \<open>Streams\<close>

text \<open>
  The source of a stream: its bytes, and whether they end or break off. \<open>read_event\<close> takes the lines up
  to a blank one or the end; it gives the event's bytes, its data, the bytes left and whether the end
  was reached.
\<close>

datatype stream_end = StreamEOF | StreamBroken

definition max_event :: int where "max_event = 2097152"

fun next_line :: "string \<Rightarrow> string \<times> string" where
  "next_line [] = ([], [])"
| "next_line (c # cs) = (if c = CHR 0x0A then ([c], cs) else let (line, rest) = next_line cs in (c # line, rest))"

lemma next_line_append: "next_line src = (line, rest) \<Longrightarrow> line @ rest = src"
  by (induction src arbitrary: line rest) (auto split: if_splits prod.splits)

definition terminated :: "string \<Rightarrow> bool" where
  "terminated line \<longleftrightarrow> line \<noteq> [] \<and> last line = CHR 0x0A"

lemma next_line_shorter: "next_line src = (line, rest) \<Longrightarrow> terminated line \<Longrightarrow> length rest < length src"
  by (drule next_line_append) (auto simp: terminated_def)

text \<open>\<open>strings.TrimRight(line, "\r\n")\<close>.\<close>

definition trim_crlf :: "string \<Rightarrow> string" where
  "trim_crlf line = rev (dropWhile (\<lambda>c. c = CHR 0x0D \<or> c = CHR 0x0A) (rev line))"

definition event_data :: "string \<Rightarrow> string \<Rightarrow> string" where
  "event_data data trimmed =
     (if has_prefix trimmed ''data:'' then (if data = [] then [] else data @ [CHR 0x0A]) @ trim_space (drop 5 trimmed) else data)"

function (sequential) read_event ::
    "stream_end \<Rightarrow> string \<Rightarrow> string \<Rightarrow> string \<Rightarrow> native_error + (string \<times> string \<times> string \<times> bool)" where
  "read_event fin event data src =
     (let line = fst (next_line src); rest = snd (next_line src); trimmed = trim_crlf line; data1 = event_data data trimmed in
      if int (length event) + int (length line) > max_event then Inl (NativeError 502 ''upstream.event_too_large'')
      else if \<not> terminated line \<and> fin = StreamBroken then Inl NativeFailed
      else if terminated line \<and> trimmed \<noteq> [] then read_event fin (event @ line) data1 rest
      else Inr (event @ line, data1, rest, \<not> terminated line))"
  by pat_completeness auto
termination
  by (relation "measure (\<lambda>(_, _, _, src). length src)") (auto intro: next_line_shorter [OF surjective_pairing])

declare read_event.simps [simp del]

lemma read_event_append: "read_event fin event data src = Inr (e, d, rest, last_one) \<Longrightarrow> e @ rest = event @ src"
proof (induction fin event data src rule: read_event.induct)
  case (1 fin event data src)
  have "fst (next_line src) @ snd (next_line src) = src" by (rule next_line_append) simp
  with 1 show ?case
    by (subst (asm) (2) read_event.simps) (auto simp: Let_def split: if_splits)
qed

text \<open>\<open>checkedStream.Read\<close>: an event is released once its data has been checked; an error ends the stream.\<close>

definition check_event :: "'s native_scope \<Rightarrow> request_state \<Rightarrow> headers \<Rightarrow> string \<Rightarrow> native_error + unit" where
  "check_event ns q h data =
     (if data = [] \<or> data = ''[DONE]'' then Inr ()
      else case nx_parse ns data of
        None \<Rightarrow> Inl (NativeError 502 ''upstream.invalid_event'')
      | Some value \<Rightarrow> check_references ns value q h)"

lemma read_event_shorter:
  assumes "read_event fin [] [] src = Inr (event, data, rest, last_one)" "event \<noteq> []"
  shows "length rest < length src"
  using read_event_append [OF assms(1)] assms(2) by (cases event) auto

function checked_stream :: "(string \<Rightarrow> native_error + unit) \<Rightarrow> stream_end \<Rightarrow> string \<Rightarrow> string list \<times> native_error option" where
  "checked_stream check fin src =
     (case read_event fin [] [] src of
        Inl e \<Rightarrow> ([], Some e)
      | Inr (event, data, rest, last_one) \<Rightarrow>
          (case check data of
             Inl e \<Rightarrow> ([], Some e)
           | Inr _ \<Rightarrow>
               if event = [] then ([], None)
               else if last_one then ([event], None)
               else let (events, err) = checked_stream check fin rest in (event # events, err)))"
  by pat_completeness auto
termination
  by (relation "measure (\<lambda>(_, _, src). length src)") (auto intro: read_event_shorter)

declare checked_stream.simps [simp del]

section \<open>FilterResponse\<close>

record native_response =
  np_request :: gate_request
  np_state :: "request_state option"
  np_status :: int
  np_content_type :: string
  np_body :: request_body
  np_content_length :: "string option"
  np_checked :: bool          \<comment> \<open>the body is read through \<open>checkedStream\<close>\<close>

definition max_native_response :: int where "max_native_response = 16777216"

text \<open>An envelope that is the JSON null decodes into a nil map.\<close>

definition envelope_data :: "(string \<times> json) list option \<Rightarrow> json" where
  "envelope_data env = (case env of None \<Rightarrow> JNull | Some ms \<Rightarrow> obj_any ''data'' ms)"

definition read_envelope :: "'s native_scope \<Rightarrow> native_response \<Rightarrow> native_error + (string \<times> json) list option" where
  "read_envelope ns p =
     (case np_body p of
        Body raw \<Rightarrow>
          if int (length raw) > max_native_response then Inl (NativeError 502 ''upstream.response_too_large'')
          else (case nx_parse_first ns raw of
            Some (JObj ms) \<Rightarrow> Inr (Some ms) | Some JNull \<Rightarrow> Inr None | _ \<Rightarrow> Inl native_invalid_response)
      | NoBody \<Rightarrow> Inl native_invalid_response
      | BodyFails \<Rightarrow> Inl (NativeError 502 ''upstream.response_too_large''))"

definition history_stats_shown :: "native_response \<Rightarrow> json \<Rightarrow> bool" where
  "history_stats_shown p data \<longleftrightarrow> rq_path (np_request p) = ''/api/v1/messages/chat-history-stats''
     \<and> (case data of JObj ms \<Rightarrow> obj_get ''enabled'' ms = Some (JBool True) | _ \<Rightarrow> False)"

text \<open>A new session is bound to its creator before the client learns of it.\<close>

definition bind_created :: "'s native_scope \<Rightarrow> request_state \<Rightarrow> json \<Rightarrow> 's \<Rightarrow> (native_error, unit, 's) outcome" where
  "bind_created ns q data s =
     (if \<not> qs_create q then (Inr (), s)
      else case data of
        JObj ms \<Rightarrow>
          (case obj_get ''id'' ms of
             Some (JStr i) \<Rightarrow> if valid_id i then nx_bind ns i (qs_actor q) [] s else (Inl native_invalid_response, s)
           | _ \<Rightarrow> (Inl native_invalid_response, s))
      | _ \<Rightarrow> (Inl native_invalid_response, s))"

fun visible_sessions :: "'s native_scope \<Rightarrow> actor \<Rightarrow> headers \<Rightarrow> json list \<Rightarrow> 's \<Rightarrow> (native_error, json list, 's) outcome" where
  "visible_sessions ns a h [] s = (Inr [], s)"
| "visible_sessions ns a h (JObj ms # items) s =
     (case native_check_session ns (obj_string ''id'' ms) a h s of
        (Inl e, s1) \<Rightarrow> if native_denied e then visible_sessions ns a h items s1 else (Inl e, s1)
      | (Inr _, s1) \<Rightarrow> call_then (visible_sessions ns a h items s1) (\<lambda>vs s2. (Inr (JObj ms # vs), s2)))"
| "visible_sessions ns a h (_ # items) s = (Inl native_invalid_response, s)"

definition is_session_list :: "gate_request \<Rightarrow> bool" where
  "is_session_list rq \<longleftrightarrow> rq_path rq = ''/api/v1/sessions'' \<and> rq_method rq = ''GET''"

definition filter_sessions ::
    "'s native_scope \<Rightarrow> native_response \<Rightarrow> request_state \<Rightarrow> (string \<times> json) list option \<Rightarrow> 's \<Rightarrow>
     (native_error, (string \<times> json) list option, 's) outcome" where
  "filter_sessions ns p q env s =
     (if \<not> is_session_list (np_request p) then (Inr env, s)
      else case envelope_data env of
        JArr items \<Rightarrow>
          call_then (visible_sessions ns (qs_actor q) (rq_headers (np_request p)) items s) (\<lambda>visible s1.
            (Inr (map_option (\<lambda>ms. obj_set ''total'' (JNum (itoa (int (length visible)))) (obj_set ''data'' (JArr visible) ms)) env), s1))
      | _ \<Rightarrow> (Inl native_invalid_response, s))"

definition encode_envelope :: "(string \<times> json) list option \<Rightarrow> string" where
  "encode_envelope env = (case env of None \<Rightarrow> ''null'' | Some ms \<Rightarrow> marshal_object ms)"

definition filter_envelope ::
    "'s native_scope \<Rightarrow> native_response \<Rightarrow> request_state \<Rightarrow> (string \<times> json) list option \<Rightarrow> 's \<Rightarrow>
     (native_error, native_response, 's) outcome" where
  "filter_envelope ns p q env s =
     (if history_stats_shown p (envelope_data env) then (Inl (NativeError 409 ''history.aggregate_scope_unavailable''), s)
      else call_then (bind_created ns q (envelope_data env) s) (\<lambda>_ s1.
        call_then (filter_sessions ns p q env s1) (\<lambda>env1 s2.
          (try_then (check_references ns (envelope_data env1) q (rq_headers (np_request p))) (\<lambda>_.
             Inr (p\<lparr>np_body := Body (encode_envelope env1),
                    np_content_length := Some (itoa (int (length (encode_envelope env1))))\<rparr>)), s2))))"

definition filter_native :: "'s native_scope \<Rightarrow> native_response \<Rightarrow> 's \<Rightarrow> (native_error, native_response, 's) outcome" where
  "filter_native ns p s =
     (case np_state p of
        None \<Rightarrow> (Inr p, s)
      | Some q \<Rightarrow>
          if np_status p < 200 \<or> 300 \<le> np_status p then (Inr p, s)
          else if has_prefix (np_content_type p) ''text/event-stream'' then
            (Inr (p\<lparr>np_checked := True, np_content_length := None\<rparr>), s)
          else if \<not> contains (np_content_type p) ''json'' then (Inr p, s)
          else (case read_envelope ns p of
            Inl e \<Rightarrow> (Inl e, s)
          | Inr env \<Rightarrow> filter_envelope ns p q env s))"

section \<open>The list of sessions\<close>

text \<open>\<open>Local\<close>: the answer to \<open>GET /sessions\<close> is put together from WeKnora's pages of 100.\<close>

fun visible_items :: "'s native_scope \<Rightarrow> actor \<Rightarrow> headers \<Rightarrow> string list \<Rightarrow> 's \<Rightarrow> (native_error, string list, 's) outcome" where
  "visible_items ns a h [] s = (Inr [], s)"
| "visible_items ns a h (item # items) s =
     (case nx_item_id ns item of
        None \<Rightarrow> (Inl native_invalid_response, s)
      | Some i \<Rightarrow>
          if i = [] then (Inl native_invalid_response, s)
          else (case native_check_session ns i a h s of
            (Inl e, s1) \<Rightarrow> if native_denied e then visible_items ns a h items s1 else (Inl e, s1)
          | (Inr _, s1) \<Rightarrow> call_then (visible_items ns a h items s1) (\<lambda>vs s2. (Inr (item # vs), s2))))"

definition session_page_query :: "gate_request \<Rightarrow> int \<Rightarrow> (string \<times> string) list" where
  "session_page_query rq current = form_set ''page'' (itoa current) (form_set ''page_size'' ''100'' (rq_query rq))"

definition session_page ::
    "'s native_scope \<Rightarrow> gate_request \<Rightarrow> int \<Rightarrow> native_error + (string list \<times> int)" where
  "session_page ns rq current =
     try_then (native_upstream (nx_get ns ''/api/v1/sessions'' (session_page_query rq current) (rq_headers rq))) (\<lambda>raw.
       case nx_session_page ns raw of
         Some (True, items, reported) \<Rightarrow>
           if reported > 10000 then Inl (NativeError 422 ''session.history_limit'') else Inr (items, reported)
       | _ \<Rightarrow> Inl native_invalid_response)"

text \<open>The loop \<open>current = 1 .. 101\<close>, by the number of pages that may follow.\<close>

primrec session_pages :: "'s native_scope \<Rightarrow> gate_request \<Rightarrow> actor \<Rightarrow> nat \<Rightarrow> 's \<Rightarrow> (native_error, string list, 's) outcome" where
  "session_pages ns rq a 0 s =
     (case session_page ns rq 101 of
        Inl e \<Rightarrow> (Inl e, s)
      | Inr (items, reported) \<Rightarrow>
          call_then (visible_items ns a (rq_headers rq) items s) (\<lambda>vs s1.
            if 10100 \<ge> reported \<or> items = [] then (Inr vs, s1) else (Inl (NativeError 422 ''session.history_limit''), s1)))"
| "session_pages ns rq a (Suc n) s =
     (let current = 100 - int n in
      case session_page ns rq current of
        Inl e \<Rightarrow> (Inl e, s)
      | Inr (items, reported) \<Rightarrow>
          call_then (visible_items ns a (rq_headers rq) items s) (\<lambda>vs s1.
            if current * 100 \<ge> reported \<or> items = [] then (Inr vs, s1)
            else call_then (session_pages ns rq a n s1) (\<lambda>more s2. (Inr (vs @ more), s2))))"

definition page_parameter :: "string \<Rightarrow> int \<Rightarrow> int \<Rightarrow> gate_request \<Rightarrow> native_error + int" where
  "page_parameter key fallback limit rq =
     (case query_values key rq of
        [] \<Rightarrow> Inr fallback
      | v # _ \<Rightarrow>
          if v = [] then Inr fallback
          else (case parse_int64 v of
            Some n \<Rightarrow> if n < 1 \<or> n > limit then Inl (NativeError 400 ''request.invalid_pagination'') else Inr n
          | None \<Rightarrow> Inl (NativeError 400 ''request.invalid_pagination'')))"

record session_listing =
  sl_items :: "string list"
  sl_total :: int
  sl_page :: int
  sl_page_size :: int

definition list_sessions ::
    "'s native_scope \<Rightarrow> gate_request \<Rightarrow> actor \<Rightarrow> 's \<Rightarrow> (native_error, session_listing option, 's) outcome" where
  "list_sessions ns rq a s =
     (if \<not> is_session_list rq then (Inr None, s)
      else case page_parameter ''page'' 1 10000 rq of
        Inl e \<Rightarrow> (Inl e, s)
      | Inr page \<Rightarrow>
          (case page_parameter ''page_size'' 20 100 rq of
             Inl e \<Rightarrow> (Inl e, s)
           | Inr sz \<Rightarrow>
               call_then (session_pages ns rq a 100 s) (\<lambda>visible s1.
                 let reported = int (length visible); start = min ((page - 1) * sz) reported; stop = min (start + sz) reported in
                 (Inr (Some \<lparr>sl_items = take (nat (stop - start)) (drop (nat start) visible), sl_total = reported,
                    sl_page = page, sl_page_size = sz\<rparr>), s1))))"

end
