(* ===== verification/NativeModels.thy ===== *)
theory NativeModels
  imports NativeCheck
begin

text \<open>
  internal/nativeaccess/models.go: the models and features a request to WeKnora may use. A missing model
  gets the managed one; every model named must exist, be active and be of its kind. Uploads are checked
  part by part.
\<close>

section \<open>The policy\<close>

definition managed_chat_id :: string where "managed_chat_id = ''builtin-mindcreek-chat''"

definition managed_embedding_id :: string where "managed_embedding_id = ''builtin-mindcreek-embedding''"

definition managed_rerank_id :: string where "managed_rerank_id = ''builtin-mindcreek-rerank''"

definition managed_vlm_id :: string where "managed_vlm_id = ''builtin-mindcreek-vlm''"

text \<open>A model as WeKnora reports it: \<open>success\<close>, identifier, type and status.\<close>

record model_reply =
  mr_success :: bool
  mr_id :: string
  mr_type :: string
  mr_status :: string

text \<open>
  A multipart body, read by the library: the parts up to its end, or up to the place where it is
  malformed; of each part the file name (empty when it has none), the number of bytes that could be read of it and
  whether these are all.
\<close>

record multipart_body =
  mb_parts :: "(string \<times> int \<times> bool) list"
  mb_complete :: bool

record 's model_policy =
  mp_scope :: "'s native_scope"     \<comment> \<open>the reader of WeKnora and the JSON decoder\<close>
  mp_graph_enabled :: bool
  mp_max_file_bytes :: int
  mp_model :: "string \<Rightarrow> model_reply option"
  mp_engine :: "string \<Rightarrow> string option"
  mp_boundary :: "string \<Rightarrow> string option"  \<comment> \<open>\<open>mime.ParseMediaType\<close>\<close>
  mp_multipart :: "string \<Rightarrow> string \<Rightarrow> multipart_body"
  mp_spool :: bool                  \<comment> \<open>the temporary file can be created\<close>

definition validate_model :: "'s model_policy \<Rightarrow> string \<Rightarrow> string \<Rightarrow> headers \<Rightarrow> native_error + unit" where
  "validate_model mp i kind h =
     (if \<not> valid_id i then Inl (NativeError 400 ''models.invalid_reference'')
      else try_then (native_upstream (nx_get (mp_scope mp) (''/api/v1/models/'' @ path_escape i) [] h)) (\<lambda>raw.
        case mp_model mp raw of
          Some m \<Rightarrow>
            if \<not> mr_success m \<or> mr_id m \<noteq> i \<or> mr_type m \<noteq> kind \<or> mr_status m \<noteq> ''active''
            then Inl (NativeError 400 ''models.invalid_reference'') else Inr ()
        | None \<Rightarrow> Inl (NativeError 400 ''models.invalid_reference'')))"

section \<open>Bodies\<close>

definition fill_model :: "string \<Rightarrow> string \<Rightarrow> (string \<times> json) list \<Rightarrow> (string \<times> json) list" where
  "fill_model key v body =
     (case obj_get key body of
        None \<Rightarrow> obj_set key (JStr v) body
      | Some JNull \<Rightarrow> obj_set key (JStr v) body
      | Some (JStr []) \<Rightarrow> obj_set key (JStr v) body
      | _ \<Rightarrow> body)"

text \<open>The kind of model a member must name.\<close>

definition model_kind :: "string \<Rightarrow> string \<Rightarrow> string" where
  "model_kind parent key =
     (if key \<in> set [''embedding_model_id'', ''embeddingModelId''] then ''Embedding''
      else if key \<in> set [''summary_model_id'', ''llmModelId''] then ''KnowledgeQA''
      else if key = ''rerank_model_id'' then ''Rerank''
      else if key = ''model_id'' then
        (if parent \<in> set [''config'', ''auto_tag_config'', ''extract_config''] then ''KnowledgeQA''
         else if parent \<in> set [''vlm_config'', ''image_processing_config''] then ''VLLM''
         else if parent = ''asr_config'' then ''ASR''
         else [])
      else [])"

definition config_keys :: "string list" where
  "config_keys = [''config'', ''auto_tag_config'', ''extract_config'', ''vlm_config'', ''image_processing_config'', ''asr_config'']"

definition model_member :: "'s model_policy \<Rightarrow> headers \<Rightarrow> string \<Rightarrow> string \<times> json \<Rightarrow> native_error + unit" where
  "model_member mp h parent m =
     (if model_kind parent (fst m) = [] \<or> snd m = JNull \<or> snd m = JStr [] then Inr ()
      else case snd m of
        JStr i \<Rightarrow> validate_model mp i (model_kind parent (fst m)) h
      | _ \<Rightarrow> Inl (NativeError 400 ''models.invalid_reference''))"

fun model_fields :: "'s model_policy \<Rightarrow> headers \<Rightarrow> string \<Rightarrow> (string \<times> json) list \<Rightarrow> native_error + unit"
and model_nested :: "'s model_policy \<Rightarrow> headers \<Rightarrow> string \<Rightarrow> json \<Rightarrow> native_error + unit" where
  "model_fields mp h parent [] = Inr ()"
| "model_fields mp h parent ((key, v) # ms) =
     try_then (model_member mp h parent (key, v)) (\<lambda>_.
     try_then (if key \<in> set config_keys then model_nested mp h key v else Inr ()) (\<lambda>_.
       model_fields mp h parent ms))"
| "model_nested mp h key (JObj nested) = model_fields mp h key nested"
| "model_nested mp h key v = Inr ()"

text \<open>Members whose \<open>enabled\<close> asks for the graph, also inside a \<open>config\<close>.\<close>

definition enabled_in :: "string \<Rightarrow> string \<Rightarrow> (string \<times> json) list \<Rightarrow> bool" where
  "enabled_in key flag body = (case obj_get key body of Some (JObj ms) \<Rightarrow> obj_get flag ms = Some (JBool True) | _ \<Rightarrow> False)"

lemma obj_get_size: "obj_get k ms = Some v \<Longrightarrow> size v < Suc (size_list (size_prod (\<lambda>_. 0) size) ms)"
  by (induction ms) (auto simp: obj_get_def split: if_splits)

function graph_requested :: "(string \<times> json) list \<Rightarrow> bool" where
  "graph_requested body =
     (enabled_in ''indexing_strategy'' ''graph_enabled'' body \<or> enabled_in ''extract_config'' ''enabled'' body
      \<or> enabled_in ''nodeExtract'' ''enabled'' body
      \<or> (case obj_get ''config'' body of Some (JObj config) \<Rightarrow> graph_requested config | _ \<Rightarrow> False))"
  by pat_completeness auto
termination
  by (relation "measure (\<lambda>body. size (JObj body))") (auto dest!: obj_get_size)

declare graph_requested.simps [simp del]

definition memory_requested :: "(string \<times> json) list \<Rightarrow> bool" where
  "memory_requested body \<longleftrightarrow> enabled_in ''memory_config'' ''enabled'' body
     \<or> obj_get ''memory_enabled'' body = Some (JBool True) \<or> enabled_in ''config'' ''memory_enabled'' body"

text \<open>Which of the checked requests it is.\<close>

definition is_kb_request :: "gate_request \<Rightarrow> bool" where
  "is_kb_request rq = has_prefix (rq_path rq) ''/api/v1/knowledge-bases''"

definition is_initialization :: "gate_request \<Rightarrow> bool" where
  "is_initialization rq = has_prefix (rq_path rq) ''/api/v1/initialization/config/''"

definition is_graph_preview :: "gate_request \<Rightarrow> bool" where
  "is_graph_preview rq = has_prefix (rq_path rq) ''/api/v1/initialization/extract/''"

definition is_agent_request :: "gate_request \<Rightarrow> bool" where
  "is_agent_request rq = has_prefix (rq_path rq) ''/api/v1/agents''"

definition is_chat_request :: "gate_request \<Rightarrow> bool" where
  "is_chat_request rq \<longleftrightarrow> has_prefix (rq_path rq) ''/api/v1/knowledge-chat/'' \<or> has_prefix (rq_path rq) ''/api/v1/agent-chat/''"

definition graph_available :: "'s model_policy \<Rightarrow> headers \<Rightarrow> native_error + unit" where
  "graph_available mp h =
     (if \<not> mp_graph_enabled mp then Inl (NativeError 409 ''graph.dependencies_unavailable'')
      else try_then (native_upstream (nx_get (mp_scope mp) ''/api/v1/system/info'' [] h)) (\<lambda>raw.
        if mp_engine mp raw = Some ''Neo4j'' then Inr () else Inl (NativeError 409 ''graph.dependencies_unavailable'')))"

text \<open>The defaults of a knowledge base, an agent, a chat and an initialization.\<close>

definition fill_agent :: "gate_request \<Rightarrow> (string \<times> json) list \<Rightarrow> (string \<times> json) list" where
  "fill_agent rq body =
     (if \<not> is_agent_request rq \<or> \<not> (rq_method rq = ''POST'' \<and> rq_path rq = ''/api/v1/agents'' \<or> rq_method rq = ''PUT'') then body
      else let fill = (\<lambda>config. obj_set ''config'' (JObj (fill_model ''rerank_model_id'' managed_rerank_id
             (fill_model ''model_id'' managed_chat_id config))) body) in
        case obj_get ''config'' body of
          Some (JObj config) \<Rightarrow> fill config
        | _ \<Rightarrow> if rq_method rq = ''POST'' then fill [] else body)"

definition fill_defaults :: "gate_request \<Rightarrow> (string \<times> json) list \<Rightarrow> (string \<times> json) list" where
  "fill_defaults rq body =
     (let b1 = (if is_kb_request rq \<and> rq_method rq = ''POST'' \<and> rq_path rq = ''/api/v1/knowledge-bases''
            then fill_model ''summary_model_id'' managed_chat_id (fill_model ''embedding_model_id'' managed_embedding_id body)
            else body);
          b2 = fill_agent rq b1;
          b3 = (if is_chat_request rq \<and> (obj_any ''agent_id'' b2 = JNull \<or> obj_any ''agent_id'' b2 = JStr [])
            then fill_model ''summary_model_id'' managed_chat_id b2 else b2)
      in if is_initialization rq then fill_model ''llmModelId'' managed_chat_id b3 else b3)"

definition preview_model ::
    "'s model_policy \<Rightarrow> gate_request \<Rightarrow> (string \<times> json) list \<Rightarrow> native_error + (string \<times> json) list" where
  "preview_model mp rq body =
     (if \<not> is_graph_preview rq then Inr body
      else let b = fill_model ''model_id'' managed_chat_id body in
        case obj_get ''model_id'' b of
          Some (JStr i) \<Rightarrow> try_then (validate_model mp i ''KnowledgeQA'' (rq_headers rq)) (\<lambda>_. Inr b)
        | _ \<Rightarrow> Inl (NativeError 400 ''models.invalid_reference''))"

definition vlm_model :: "(string \<times> json) list \<Rightarrow> native_error + (string \<times> json) list" where
  "vlm_model body =
     (case obj_get ''vlm_config'' body of
        Some (JObj config) \<Rightarrow>
          if list_ex (\<lambda>f. obj_any f config \<noteq> JNull \<and> obj_any f config \<noteq> JStr []) [''api_key'', ''base_url'', ''model_name'']
          then Inl (NativeError 403 ''models.managed_policy'')
          else if obj_get ''enabled'' config = Some (JBool True)
          then Inr (obj_set ''vlm_config'' (JObj (fill_model ''model_id'' managed_vlm_id config)) body)
          else Inr body
      | _ \<Rightarrow> Inr body)"

section \<open>Uploads\<close>

text \<open>\<open>filepath.Ext\<close>: from the last dot of the last element.\<close>

fun ext_rev :: "string \<Rightarrow> string \<Rightarrow> string" where
  "ext_rev acc [] = []"
| "ext_rev acc (c # cs) = (if c = CHR ''/'' then [] else if c = CHR ''.'' then c # acc else ext_rev (c # acc) cs)"

definition file_ext :: "string \<Rightarrow> string" where
  "file_ext name = ext_rev [] (rev name)"

definition upload_types :: string where
  "upload_types = ''|.md|.txt|.pdf|.doc|.docx|.xls|.xlsx|.ppt|.pptx|.csv|.html|.htm|.json|.xml|''"

definition upload_limit :: "'s model_policy \<Rightarrow> int" where
  "upload_limit mp = (if mp_max_file_bytes mp \<le> 0 then 524288000 else mp_max_file_bytes mp)"

definition upload_part :: "'s model_policy \<Rightarrow> string \<times> int \<times> bool \<Rightarrow> native_error + unit" where
  "upload_part mp part =
     (if fst part = [] then Inr ()
      else if \<not> contains upload_types (CHR ''|'' # to_lower (nx_lower (mp_scope mp)) (file_ext (fst part)) @ ''|'')
      then Inl (NativeError 400 ''upload.unsupported_type'')
      else if fst (snd part) > upload_limit mp then Inl (NativeError 413 ''upload.file_too_large'')
      else if \<not> snd (snd part) then Inl NativeFailed
      else Inr ())"

definition check_upload :: "'s model_policy \<Rightarrow> gate_request \<Rightarrow> native_error + gate_request" where
  "check_upload mp rq =
     (case mp_boundary mp (rq_headers rq ''Content-Type'') of
        None \<Rightarrow> Inl (NativeError 400 ''upload.invalid_multipart'')
      | Some boundary \<Rightarrow>
          if \<not> mp_spool mp then Inl NativeFailed
          else (case rq_body rq of
            BodyFails \<Rightarrow> Inl NativeFailed
          | body \<Rightarrow>
              let raw = (case body of Body b \<Rightarrow> b | _ \<Rightarrow> []); parts = mp_multipart mp boundary raw in
              if int (length raw) > upload_limit mp + 8388608 then Inl (NativeError 413 ''upload.file_too_large'')
              else try_then (try_each (upload_part mp) (mb_parts parts)) (\<lambda>_.
                if mb_complete parts then Inr (rq\<lparr>rq_body := Body raw\<rparr>) else Inl (NativeError 400 ''upload.invalid_multipart''))))"

section \<open>Check\<close>

definition check_model_body ::
    "'s model_policy \<Rightarrow> gate_request \<Rightarrow> (string \<times> json) list \<Rightarrow> native_error + gate_request" where
  "check_model_body mp rq body =
     try_then (if is_graph_preview rq \<or> graph_requested body then graph_available mp (rq_headers rq) else Inr ()) (\<lambda>_.
     try_then (preview_model mp rq (fill_defaults rq body)) (\<lambda>b1.
     try_then (vlm_model b1) (\<lambda>b2.
     try_then (model_fields mp (rq_headers rq) [] b2) (\<lambda>_. Inr (replace_object rq b2)))))"

definition check_models :: "'s model_policy \<Rightarrow> gate_request \<Rightarrow> native_error + gate_request" where
  "check_models mp rq =
     (if rq_method rq \<in> set [''GET'', ''DELETE'', ''HEAD''] then Inr rq
      else if has_prefix (rq_headers rq ''Content-Type'') ''multipart/form-data'' then check_upload mp rq
      else try_then (read_object (mp_scope mp) rq) (\<lambda>body.
        if memory_requested body then Inl (NativeError 403 ''feature.disabled'')
        else if has_prefix (rq_path rq) ''/api/v1/initialization/initialize/'' then Inl (NativeError 403 ''models.managed_policy'')
        else if \<not> is_kb_request rq \<and> \<not> is_agent_request rq \<and> \<not> is_chat_request rq \<and> \<not> is_initialization rq \<and> \<not> is_graph_preview rq
        then Inr rq
        else check_model_body mp rq body))"

end
