(* ===== verification/NativeGate.thy ===== *)
theory NativeGate
  imports NativeResponse NativeModels
begin

text \<open>
  internal/nativeaccess/routes.go and gate.go: the classification of requests against the pinned manifest
  of WeKnora's routes, the principal of a request, and the gate that puts the checks together.
\<close>

section \<open>Routes\<close>

record native_route =
  rt_method :: string
  rt_path :: string
  rt_disposition :: string
  rt_checks :: "string list"

definition specificity :: "string \<Rightarrow> int" where
  "specificity path =
     sum_list (map (\<lambda>part. if part \<noteq> [] \<and> \<not> has_prefix part '':'' \<and> \<not> has_prefix part ''*'' then 100 + int (length part) else 0)
       (split_slash path))"

text \<open>
  The pattern of a route, part by part: \<open>:name\<close> is any one non-empty part, \<open>*name\<close> is \<open>.*\<close>, the rest
  of any length without a line feed; anything else is literal.
\<close>

function (sequential) parts_match :: "string list \<Rightarrow> string list \<Rightarrow> bool" where
  "parts_match [] [] = True"
| "parts_match (p # ps) (x # xs) =
     (if has_prefix p '':'' then x \<noteq> [] \<and> parts_match ps xs
      else if has_prefix p ''*'' then CHR 0x0A \<notin> set x \<and> (parts_match ps xs \<or> parts_match (p # ps) xs)
      else p = x \<and> parts_match ps xs)"
| "parts_match _ _ = False"
  by pat_completeness auto
termination by (relation "measure (\<lambda>(_, xs). length xs)") auto

definition route_matches :: "string \<Rightarrow> string \<Rightarrow> native_route \<Rightarrow> bool" where
  "route_matches meth path r \<longleftrightarrow> meth = rt_method r \<and> parts_match (split_slash (rt_path r)) (split_slash path)"

text \<open>\<open>LoadRoutes\<close>, after the manifest is decoded: the pins, each route once and well-formed, the most specific first.\<close>

record route_manifest =
  rm_schema_version :: int
  rm_tag :: string
  rm_commit :: string
  rm_routes :: "native_route list"

definition route_valid :: "native_route \<Rightarrow> bool" where
  "route_valid r \<longleftrightarrow> has_prefix (rt_path r) ''/'' \<and> rt_method r \<noteq> [] \<and> rt_disposition r \<in> set [''native'', ''disabled'']"

definition route_key :: "native_route \<Rightarrow> string" where
  "route_key r = rt_method r @ CHR '' '' # rt_path r"

definition order_routes :: "native_route list \<Rightarrow> native_route list option" where
  "order_routes rs =
     (if \<not> distinct (map route_key rs) \<or> \<not> list_all route_valid rs then None
      else Some (sort_key (\<lambda>r. - specificity (rt_path r)) rs))"

definition load_routes :: "route_manifest \<Rightarrow> native_route list option" where
  "load_routes m =
     (if rm_schema_version m \<noteq> 1 \<or> rm_tag m \<noteq> ''v0.8.0'' \<or> rm_commit m \<noteq> ''1edcd54b43606d9079bb36650efe3f68707a79ea''
         \<or> int (length (rm_routes m)) \<noteq> 429 then None
      else order_routes (rm_routes m))"

definition native_match :: "native_route list \<Rightarrow> string \<Rightarrow> string \<Rightarrow> native_route option" where
  "native_match routes meth path = find (route_matches meth path) routes"

text \<open>The namespaces of the old product.\<close>

definition retired :: "string \<Rightarrow> bool" where
  "retired path \<longleftrightarrow>
     (let segs = split_slash path; n = length segs in
      4 \<le> n \<and> segs ! 0 = [] \<and> segs ! 1 = ''api'' \<and> segs ! 2 = ''v1''
      \<and> (segs ! 3 = ''knowledge-spaces''
         \<or> segs ! 3 = ''knowledge-bases'' \<and> 6 \<le> n \<and> segs ! 4 \<noteq> [] \<and> segs ! 5 \<in> set [''product-profile'', ''notes'', ''ingestions'']
         \<or> segs ! 3 = ''mindcreek'' \<and> 5 \<le> n \<and> (segs ! 4 \<in> set [''knowledge-bases'', ''users'', ''catalog'', ''publications'']
              \<or> segs ! 4 = ''me'' \<and> 6 \<le> n \<and> segs ! 5 = ''subscriptions'')))"

section \<open>The principal of a request\<close>

record wk_user =
  wu_id :: string
  wu_active :: bool

record wk_principal =
  wp_user :: "wk_user option"
  wp_tenant :: "u64 option"

definition resolve_actor ::
    "(headers \<Rightarrow> upstream_error + wk_principal) option \<Rightarrow> (string \<Rightarrow> string) \<Rightarrow> headers \<Rightarrow> native_error + actor" where
  "resolve_actor resolver sha256 h =
     (case resolver of
        None \<Rightarrow> Inl (NativeError 503 ''identity.unavailable'')
      | Some current \<Rightarrow>
          let bearer = trim_space (h ''Authorization''); key = trim_space (h ''X-API-Key'') in
          if bearer = [] \<and> key = [] then Inl (NativeError 401 ''auth.required'')
          else if bearer \<noteq> [] \<and> key \<noteq> [] then Inl (NativeError 400 ''auth.ambiguous_credentials'')
          else try_then (native_upstream (current h)) (\<lambda>p.
            let t = (case wp_tenant p of None \<Rightarrow> 0 | Some t \<Rightarrow> t) in
            if t = 0 then Inl (NativeError 409 ''workspace.required'')
            else if h ''X-Tenant-ID'' \<noteq> [] \<and> h ''X-Tenant-ID'' \<noteq> itoa (uint t) then Inl (NativeError 403 ''workspace.denied'')
            else if key \<noteq> [] then
              Inr \<lparr>ac_kind = ''api_key'', ac_id = hex_text (sha256 (''mindcreek:r3:api-key:'' @ key)), ac_tenant_id = t\<rparr>
            else (case wp_user p of
                Some u \<Rightarrow>
                  if wu_id u = [] \<or> \<not> wu_active u then Inl (NativeError 403 ''identity.inactive'')
                  else Inr \<lparr>ac_kind = ''human'', ac_id = wu_id u, ac_tenant_id = t\<rparr>
              | None \<Rightarrow> Inl (NativeError 403 ''identity.inactive''))))"

section \<open>The gate\<close>

type_synonym 's request_check = "gate_request \<Rightarrow> actor \<Rightarrow> 's \<Rightarrow> (native_error, gate_request \<times> request_state option, 's) outcome"

record 's native_gate =
  ng_routes :: "native_route list"
  ng_principals :: "(headers \<Rightarrow> upstream_error + wk_principal) option"
  ng_sha256 :: "string \<Rightarrow> string"
  ng_scope_check :: "'s request_check option"
  ng_model_check :: "'s request_check option"
  ng_local :: "(gate_request \<Rightarrow> actor \<Rightarrow> 's \<Rightarrow> (native_error, session_listing option, 's) outcome) option"
  ng_lower :: "string \<Rightarrow> string"

datatype gate_result =
    Refused native_error
  | Answered session_listing
  | Forwarded gate_request "request_state option"

text \<open>The checks of a route in their order; a later scope check replaces the state of an earlier one.\<close>

fun run_checks ::
    "'s native_gate \<Rightarrow> actor \<Rightarrow> string list \<Rightarrow> gate_request \<Rightarrow> request_state option \<Rightarrow> 's \<Rightarrow>
     (native_error, gate_request \<times> request_state option, 's) outcome" where
  "run_checks g a [] rq q s = (Inr (rq, q), s)"
| "run_checks g a (name # names) rq q s =
     (let check = (if name \<in> set [''scope_session'', ''agent_binding''] then Some (ng_scope_check g)
         else if name \<in> set [''models_upload'', ''feature_settings''] then Some (ng_model_check g) else None) in
      case check of
        None \<Rightarrow> run_checks g a names rq q s
      | Some None \<Rightarrow> (Inl (NativeError 503 ''native.adapter_not_ready''), s)
      | Some (Some f) \<Rightarrow> call_then (f rq a s) (\<lambda>(rq1, q1) s1.
          run_checks g a names rq1 (if q1 = None then q else q1) s1))"

definition needs_actor :: "native_route \<Rightarrow> bool" where
  "needs_actor r = list_ex (\<lambda>name. name \<noteq> ''enterprise'') (rt_checks r)"

definition gate_checked :: "'s native_gate \<Rightarrow> native_route \<Rightarrow> gate_request \<Rightarrow> 's \<Rightarrow> gate_result \<times> 's" where
  "gate_checked g r rq s =
     (case resolve_actor (ng_principals g) (ng_sha256 g) (rq_headers rq) of
        Inl e \<Rightarrow> (Refused e, s)
      | Inr a \<Rightarrow>
          (case run_checks g a (rt_checks r) rq None s of
             (Inl e, s1) \<Rightarrow> (Refused e, s1)
           | (Inr (rq1, q), s1) \<Rightarrow>
               (case ng_local g of
                  None \<Rightarrow> (Forwarded rq1 q, s1)
                | Some local \<Rightarrow>
                    (case local rq1 a s1 of
                       (Inl e, s2) \<Rightarrow> (Refused e, s2)
                     | (Inr (Some l), s2) \<Rightarrow> (Answered l, s2)
                     | (Inr None, s2) \<Rightarrow> (Forwarded rq1 q, s2)))))"

text \<open>\<open>Wrap\<close>; \<open>escaped\<close> is the escaped form of the path.\<close>

definition native_wrap :: "'s native_gate \<Rightarrow> string \<Rightarrow> gate_request \<Rightarrow> 's \<Rightarrow> gate_result \<times> 's" where
  "native_wrap g escaped rq s =
     (case normalize_request_path (ng_lower g) escaped (rq_path rq) of
        None \<Rightarrow> (Refused (NativeError 400 ''request.path_invalid''), s)
      | Some path \<Rightarrow>
          if retired path then (Refused (NativeError 410 ''feature.retired''), s)
          else (case native_match (ng_routes g) (rq_method rq) path of
            None \<Rightarrow> (Refused (NativeError 404 ''route.unclassified''), s)
          | Some r \<Rightarrow>
              if rt_disposition r = ''disabled'' then (Refused (NativeError 404 ''feature.disabled''), s)
              else if has_prefix path ''/api/v1/auth/'' \<or> path = ''/health'' then (Forwarded rq None, s)
              else if \<not> needs_actor r then (Forwarded rq None, s)
              else gate_checked g r rq s))"

text \<open>The wiring of \<open>cmd/gateway/native.go\<close>.\<close>

definition scope_request_check :: "'s native_scope \<Rightarrow> 's request_check" where
  "scope_request_check ns rq a s = call_then (check_request ns rq a s) (\<lambda>(rq1, q) s1. (Inr (rq1, Some q), s1))"

definition model_request_check :: "'s model_policy \<Rightarrow> 's request_check" where
  "model_request_check mp rq a s = (map_sum id (\<lambda>rq1. (rq1, None)) (check_models mp rq), s)"

text \<open>What the native workspace is made of: WeKnora, the decoders, the clock and the switches.\<close>

record native_environment =
  nw_get :: "string \<Rightarrow> (string \<times> string) list \<Rightarrow> headers \<Rightarrow> upstream_error + string"
  nw_kb_for_knowledge :: "string \<Rightarrow> headers \<Rightarrow> upstream_error + string"
  nw_kb_for_chunk :: "string \<Rightarrow> headers \<Rightarrow> upstream_error + string"
  nw_validate_session :: "string \<Rightarrow> headers \<Rightarrow> upstream_error + unit"
  nw_guard :: "(string \<Rightarrow> actor \<Rightarrow> headers \<Rightarrow> native_tables \<Rightarrow> native_error + unit) option"  \<comment> \<open>of the assistant, a read\<close>
  nw_current_principal :: "headers \<Rightarrow> upstream_error + wk_principal"
  nw_parse :: "string \<Rightarrow> json option"
  nw_parse_first :: "string \<Rightarrow> json option"
  nw_envelope :: "string \<Rightarrow> (bool \<times> json) option"
  nw_session_page :: "string \<Rightarrow> (bool \<times> string list \<times> int) option"
  nw_item_id :: "string \<Rightarrow> string option"
  nw_model :: "string \<Rightarrow> model_reply option"
  nw_engine :: "string \<Rightarrow> string option"
  nw_boundary :: "string \<Rightarrow> string option"
  nw_multipart :: "string \<Rightarrow> string \<Rightarrow> multipart_body"
  nw_spool :: bool
  nw_graph_enabled :: bool
  nw_max_file_bytes :: int
  nw_sha256 :: "string \<Rightarrow> string"
  nw_lower :: "string \<Rightarrow> string"
  nw_now :: time

definition product_scope :: "native_environment \<Rightarrow> native_tables native_scope" where
  "product_scope env =
     \<lparr>nx_get = nw_get env, nx_kb_for_knowledge = nw_kb_for_knowledge env, nx_kb_for_chunk = nw_kb_for_chunk env,
      nx_validate_session = nw_validate_session env, nx_bind = native_bind (nw_now env), nx_binding = native_binding_of,
      nx_bindings = native_bindings, nx_record = native_record (nw_now env), nx_guard = map_option (\<lambda>guard i a h s. (guard i a h s, s)) (nw_guard env),
      nx_parse = nw_parse env, nx_parse_first = nw_parse_first env, nx_envelope = nw_envelope env,
      nx_session_page = nw_session_page env, nx_item_id = nw_item_id env, nx_lower = nw_lower env\<rparr>"

definition product_models :: "native_environment \<Rightarrow> native_tables model_policy" where
  "product_models env =
     \<lparr>mp_scope = product_scope env, mp_graph_enabled = nw_graph_enabled env, mp_max_file_bytes = nw_max_file_bytes env,
      mp_model = nw_model env, mp_engine = nw_engine env, mp_boundary = nw_boundary env, mp_multipart = nw_multipart env,
      mp_spool = nw_spool env\<rparr>"

definition native_product_gate :: "native_environment \<Rightarrow> native_route list \<Rightarrow> native_tables native_gate" where
  "native_product_gate env routes =
     \<lparr>ng_routes = routes, ng_principals = Some (nw_current_principal env), ng_sha256 = nw_sha256 env,
      ng_scope_check = Some (scope_request_check (product_scope env)),
      ng_model_check = Some (model_request_check (product_models env)),
      ng_local = Some (list_sessions (product_scope env)), ng_lower = nw_lower env\<rparr>"

end
