(* ===== verification/NativeRules.thy ===== *)
theory NativeRules
  imports NativeGate
begin

text \<open>
  The lemmas of the native gate. What the checks rely on is the interface of the session store, a
  locale; the repository of \<open>NativeStore\<close> provides it.
\<close>

section \<open>The scope of a request\<close>

lemma available_from_checked: "available_from ns h ids = Inr ks \<Longrightarrow> k \<in> set ks \<Longrightarrow> check_kb ns k h = Inr ()"
  by (induction ids arbitrary: ks) (auto split: sum.splits if_splits)

lemma available_checked: "available ns ids h = Inr ks \<Longrightarrow> k \<in> set ks \<Longrightarrow> check_kb ns k h = Inr ()"
  by (auto simp: available_def dest: available_from_checked)

lemma native_defaults_checked: "native_defaults ns h = Inr ks \<Longrightarrow> k \<in> set ks \<Longrightarrow> check_kb ns k h = Inr ()"
  by (auto simp: native_defaults_def Let_def dest: available_checked split: if_splits)

lemma filtered_zip_sub: "set (map fst (filter P (zip xs ys))) \<subseteq> set xs"
  by (auto dest: set_zip_leftD)

lemma compatible_sub:
  assumes "compatible ns ids config h = Inr ks"
  shows "set ks \<subseteq> set ids"
proof -
  have "ks = ids \<or> (\<exists>oks. ks = map fst (filter snd (zip ids oks)))"
    using assms by (simp add: compatible_def Let_def split: if_splits) blast
  then show ?thesis using filtered_zip_sub by (metis order_refl)
qed

lemma agent_bases_checked: "agent_bases ns i agent config a h = Inr ks \<Longrightarrow> k \<in> set ks \<Longrightarrow> check_kb ns k h = Inr ()"
  by (fastforce simp: agent_bases_def Let_def dest: available_checked compatible_sub split: if_splits)

lemma nonempty_scope_Inr: "nonempty_scope ids = Inr ks \<Longrightarrow> ids \<noteq> [] \<and> ks = sorted_ids ids"
  by (auto simp: nonempty_scope_def split: if_splits)

lemma try_each_units: "try_each f xs = Inr (us :: unit list) \<Longrightarrow> x \<in> set xs \<Longrightarrow> f x = Inr ()"
  using try_each_all by fastforce

lemma resolve_with_agent_Inr:
  assumes "resolve_with_agent ns ids explicit i a h = Inr ks"
  shows "(explicit \<longrightarrow> set ks = set ids) \<and> (\<exists>agent config allowed. native_agent ns i h = Inr (JObj agent)
    \<and> obj_any ''config'' agent = JObj config \<and> agent_permitted config = Inr ()
    \<and> agent_bases ns i agent config a h = Inr allowed \<and> set ks \<subseteq> set allowed)"
  using assms
  by (auto simp: resolve_with_agent_def Let_def native_object_def is_subset_def list_all_iff
      dest!: nonempty_scope_Inr split: if_splits json.splits)

lemma resolve_native_checked:
  assumes "resolve_native ns ids explicit i a h = Inr ks"
  shows "(explicit \<longrightarrow> set ks = set ids) \<and> (\<forall>k\<in>set ks. check_kb ns k h = Inr ())"
proof -
  obtain us where c: "try_each (\<lambda>i. check_kb ns i h) (sorted_ids ids) = Inr us"
    and r: "(if i \<noteq> [] then resolve_with_agent ns (sorted_ids ids) explicit i a h
        else if \<not> explicit then try_then (native_defaults ns h) nonempty_scope
        else nonempty_scope (sorted_ids ids)) = Inr ks"
    using assms by (auto simp: resolve_native_def Let_def split: if_splits)
  from c have ok: "\<forall>k\<in>set ids. check_kb ns k h = Inr ()" using try_each_units by fastforce
  show ?thesis
  proof (cases "i = []")
    case True
    with r ok show ?thesis by (auto dest!: nonempty_scope_Inr dest: native_defaults_checked split: if_splits)
  next
    case False
    with r have "resolve_with_agent ns (sorted_ids ids) explicit i a h = Inr ks" by simp
    from resolve_with_agent_Inr [OF this] show ?thesis by (auto dest: agent_bases_checked)
  qed
qed

lemma check_parts_Inr:
  assumes "check_parts ns body refs rq a qs = (Inr rq1, qs2)"
  obtains qs1 kbs where
    "check_sessions ns a (rq_headers rq) (sorted_ids (nr_sessions refs)) (enter_path rq (fst qs), snd qs) = (Inr (), qs1)"
    "readable_bases ns refs (rq_headers rq) = Inr kbs"
    "if is_retrieval rq then native_retrieval ns refs kbs body rq a qs1 = (Inr rq1, qs2) else rq1 = rq \<and> qs2 = qs1"
  using assms by (cases "readable_bases ns refs (rq_headers rq)") (auto simp: check_parts_def split: if_splits)

section \<open>What the operations keep\<close>

text \<open>
  A preorder on states that the reads of the store, and its \<open>Bind\<close>, stay within: so does everything the
  checks and the filters do before the decision is recorded.
\<close>

locale store_reads =
  fixes ns :: "'s native_scope" and keeps :: "'s \<Rightarrow> 's \<Rightarrow> bool"
  assumes keeps_refl: "keeps s s"
    and keeps_trans: "keeps s t \<Longrightarrow> keeps t u \<Longrightarrow> keeps s u"
    and binding_keeps: "keeps s (snd (nx_binding ns i s))"
    and bindings_keeps: "keeps s (snd (nx_bindings ns a s))"
    and guard_keeps: "keeps s (snd (session_guard ns i a h s))"
begin

lemma then_keeps: "keeps s (snd r) \<Longrightarrow> (\<And>x s1. r = (Inr x, s1) \<Longrightarrow> keeps s1 (snd (f x s1))) \<Longrightarrow> keeps s (snd (call_then r f))"
  by (rule call_then_keeps [of keeps]) (auto intro: keeps_trans)

lemma check_session_keeps: "keeps s (snd (native_check_session ns i a h s))"
  by (auto simp: native_check_session_def intro!: then_keeps binding_keeps guard_keeps keeps_refl)

lemma kept_or_skipped:
  assumes "\<And>u. keeps u (snd (f u))"
  shows "keeps s (snd (case native_check_session ns i a h s of
    (Inl e, s1) \<Rightarrow> if native_denied e then f s1 else (Inl e, s1) | (Inr _, s1) \<Rightarrow> call_then (f s1) (\<lambda>x s2. (Inr (g x), s2))))"
proof -
  obtain r t where c: "native_check_session ns i a h s = (r, t)" by fastforce
  then have "keeps s t" using check_session_keeps [of s i a h] by simp
  moreover have "keeps t (snd (call_then (f t) (\<lambda>x s2. (Inr (g x), s2))))"
    by (rule then_keeps [OF assms]) (simp add: keeps_refl)
  ultimately show ?thesis using assms [of t] c by (cases r) (auto intro: keeps_trans)
qed

lemma reachable_sessions_keeps: "keeps s (snd (reachable_sessions ns a h bs s))"
proof (induction bs arbitrary: s)
  case (Cons b bs)
  show ?case using kept_or_skipped [OF Cons.IH, where s = s and i = "nb_session_id b" and a = a and h = h and g = "\<lambda>ids. nb_session_id b # ids"] by simp
qed (simp add: keeps_refl)

lemma history_scope_keeps: "keeps s (snd (history_scope ns body refs rq a s))"
  by (auto simp: history_scope_def Let_def intro!: then_keeps bindings_keeps reachable_sessions_keeps keeps_refl)

lemma check_sessions_keeps: "keeps (snd qs) (snd (snd (check_sessions ns a h is qs)))"
proof (induction "is" arbitrary: qs)
  case (Cons i "is")
  obtain q s r t where c: "qs = (q, s)" "native_check_session ns i a h s = (r, t)" by (metis surj_pair)
  then have "keeps s t" using check_session_keeps [of s i a h] by simp
  with Cons.IH [of "(q', t)" for q'] show ?case by (cases r) (auto simp: c intro: keeps_trans)
qed (simp add: keeps_refl)

lemma visible_sessions_keeps: "keeps s (snd (visible_sessions ns a h items s))"
proof (induction items arbitrary: s)
  case (Cons item items)
  show ?case
  proof (cases item)
    case (JObj ms)
    then show ?thesis using kept_or_skipped [OF Cons.IH, where s = s and i = "obj_string ''id'' ms" and a = a and h = h and g = "\<lambda>vs. JObj ms # vs"] by simp
  qed (simp_all add: keeps_refl)
qed (simp add: keeps_refl)

lemma visible_items_keeps: "keeps s (snd (visible_items ns a h items s))"
proof (induction items arbitrary: s)
  case (Cons item items)
  show ?case
  proof (cases "nx_item_id ns item")
    case (Some i)
    then show ?thesis using kept_or_skipped [OF Cons.IH, where s = s and i = i and a = a and h = h and g = "\<lambda>vs. item # vs"] by (simp add: keeps_refl)
  qed (simp add: keeps_refl)
qed (simp add: keeps_refl)

lemma session_pages_keeps: "keeps s (snd (session_pages ns rq a n s))"
proof (induction n arbitrary: s)
  case 0
  show ?case by (auto intro!: then_keeps visible_items_keeps keeps_refl split: sum.splits)
next
  case (Suc n)
  show ?case by (auto intro!: then_keeps visible_items_keeps Suc.IH keeps_refl simp: Let_def split: sum.splits)
qed

lemma list_sessions_keeps: "keeps s (snd (list_sessions ns rq a s))"
  by (auto simp: list_sessions_def Let_def intro!: then_keeps session_pages_keeps keeps_refl split: sum.splits)

lemma filter_sessions_keeps: "keeps s (snd (filter_sessions ns p q env s))"
  by (auto simp: filter_sessions_def intro!: then_keeps visible_sessions_keeps keeps_refl split: json.splits)

end

locale store_frame = store_reads +
  assumes bind_keeps: "keeps s (snd (nx_bind ns i a ids s))"
begin

lemma bind_sessions_keeps: "keeps s (snd (bind_sessions ns a kbs is s))"
  by (induction "is" arbitrary: s) (auto intro!: then_keeps bind_keeps keeps_refl)

lemma native_retrieval_keeps: "keeps (snd qs) (snd (snd (native_retrieval ns refs kbs body rq a qs)))"
proof -
  have "keeps s t" if "bind_sessions ns a ks is s = (r, t)" for ks "is" s r t
    using bind_sessions_keeps [of s a ks "is"] that by simp
  then show ?thesis by (auto simp: native_retrieval_def Let_def keeps_refl split: sum.splits prod.splits)
qed

lemma check_parts_keeps: "keeps (snd qs) (snd (snd (check_parts ns body refs rq a qs)))"
  unfolding check_parts_def
proof (rule call_then_keeps [of "\<lambda>s t. keeps (snd s) (snd t)"])
  show "keeps (snd qs) (snd (snd (check_sessions ns a (rq_headers rq) (sorted_ids (nr_sessions refs)) (enter_path rq (fst qs), snd qs))))"
    using check_sessions_keeps [of "(enter_path rq (fst qs), snd qs)"] by simp
qed (auto intro: native_retrieval_keeps keeps_trans keeps_refl split: sum.splits)

lemma check_body_keeps: "keeps s (snd (snd (check_body ns rq a s)))"
proof (cases "read_object ns rq")
  case (Inr body)
  obtain r t where h: "history_scope ns body (native_collect (JObj body) no_refs) rq a s = (r, t)" by fastforce
  then have "keeps s t" using history_scope_keeps [of s body _ rq a] by (metis snd_conv)
  with check_parts_keeps [of "(initial_state rq a, t)"] show ?thesis
    by (cases r) (auto simp: check_body_def Inr h intro: keeps_trans split: prod.splits)
qed (simp add: check_body_def keeps_refl)

lemma bind_created_keeps: "keeps s (snd (bind_created ns q data s))"
  by (auto simp: bind_created_def intro: bind_keeps keeps_refl split: json.splits option.splits)

lemma filter_envelope_keeps: "keeps s (snd (filter_envelope ns p q env s))"
  by (auto simp: filter_envelope_def intro!: then_keeps bind_created_keeps filter_sessions_keeps keeps_refl)

lemma filter_native_keeps: "keeps s (snd (filter_native ns p s))"
  by (auto simp: filter_native_def intro: filter_envelope_keeps keeps_refl split: option.splits sum.splits)

lemma check_request_keeps:
  assumes "\<And>a operation outcome code ids correlation s. keeps s (snd (nx_record ns a operation outcome code ids correlation s))"
  shows "keeps s (snd (check_request ns rq a s))"
proof -
  obtain r q s1 where b: "check_body ns rq a s = (r, q, s1)" by (metis surj_pair)
  then have "keeps s s1" using check_body_keeps [of s rq a] by simp
  then have "keeps s (snd (call_then (nx_record ns a ''web.scope'' (fst (check_outcome r)) (snd (check_outcome r)) (qs_kb_ids q)
      (rq_headers rq ''X-Request-ID'') s1) (\<lambda>_ s2. (map_sum id (\<lambda>rq1. (rq1, q)) r, s2))))"
    by (rule keeps_trans) (auto intro!: then_keeps assms keeps_refl)
  then show ?thesis by (simp add: check_request_def b split_def Let_def)
qed

end

section \<open>The session store\<close>

text \<open>To whom each session is bound, and for which bases: bindings only grow.\<close>

definition sessions_grow :: "(string \<Rightarrow> (actor \<times> string set) option) \<Rightarrow> (string \<Rightarrow> (actor \<times> string set) option) \<Rightarrow> bool" where
  "sessions_grow v w \<longleftrightarrow> (\<forall>i a ks. v i = Some (a, ks) \<longrightarrow> (\<exists>ks'. w i = Some (a, ks') \<and> ks \<subseteq> ks'))"

lemma sessions_grow_refl [simp]: "sessions_grow v v"
  by (simp add: sessions_grow_def)

lemma sessions_growD: "sessions_grow v w \<Longrightarrow> v i = Some (a, ks) \<Longrightarrow> \<exists>ks'. w i = Some (a, ks') \<and> ks \<subseteq> ks'"
  by (simp add: sessions_grow_def)

lemma sessions_grow_trans: "sessions_grow u v \<Longrightarrow> sessions_grow v w \<Longrightarrow> sessions_grow u w"
  by (fastforce simp: sessions_grow_def)

locale session_store =
  fixes ns :: "'s native_scope" and view :: "'s \<Rightarrow> string \<Rightarrow> (actor \<times> string set) option"
  assumes bind_grows: "sessions_grow (view s) (view (snd (nx_bind ns i a ids s)))"
    and bind_binds: "nx_bind ns i a ids s = (Inr u, t) \<Longrightarrow> \<exists>ks. view t i = Some (a, ks) \<and> json_text ` set ids \<subseteq> ks"
    and binding_shows: "nx_binding ns i s = (Inr b, t) \<Longrightarrow> view s i = Some (nb_actor b, set (nb_kb_ids b))"
    and binding_reads: "view (snd (nx_binding ns i s)) = view s"
    and bindings_reads: "view (snd (nx_bindings ns a s)) = view s"
    and record_reads: "view (snd (nx_record ns a operation outcome code ids correlation s)) = view s"
    and guard_reads: "view (snd (session_guard ns i a h s)) = view s"

sublocale session_store \<subseteq> reading: store_reads ns "\<lambda>s t. view t = view s"
  by unfold_locales (simp_all add: binding_reads bindings_reads guard_reads)

sublocale session_store \<subseteq> growing: store_frame ns "\<lambda>s t. sessions_grow (view s) (view t)"
  by unfold_locales (auto simp: binding_reads bindings_reads guard_reads bind_grows intro: sessions_grow_trans)

context session_store begin

lemma check_request_grows: "sessions_grow (view s) (view (snd (check_request ns rq a s)))"
  by (rule growing.check_request_keeps) (simp add: record_reads)

lemma check_session_state: "native_check_session ns i a h s = (r, t) \<Longrightarrow> view t = view s"
  using reading.check_session_keeps [where s = s and i = i and a = a and h = h] by simp

lemma check_session_owner:
  assumes "native_check_session ns i a h s = (Inr b, t)"
  shows "view s i = Some (a, set (nb_kb_ids b)) \<and> (\<forall>k\<in>set (nb_kb_ids b). check_kb ns k h = Inr ())"
  using assms by (auto simp: native_check_session_def dest: binding_shows try_each_units split: if_splits)

text \<open>Every session that the check lets through belongs to the caller.\<close>

lemma check_sessions_owner:
  assumes "check_sessions ns a h is (q, s) = (Inr u, q1, t)"
  shows "qs_session_ids q1 = qs_session_ids q @ is \<and> (\<forall>i\<in>set is. \<exists>ks. view s i = Some (a, ks)) \<and> view t = view s
    \<and> qs_actor q1 = qs_actor q \<and> qs_create q1 = qs_create q \<and> (qs_strict q \<or> is \<noteq> [] \<longrightarrow> qs_strict q1)"
  using assms
proof (induction "is" arbitrary: q s)
  case (Cons i "is")
  obtain b s1 where c: "native_check_session ns i a h s = (Inr b, s1)"
    and r: "check_sessions ns a h is (q\<lparr>qs_session_ids := qs_session_ids q @ [i], qs_kb_ids := qs_kb_ids q @ nb_kb_ids b, qs_strict := True\<rparr>, s1)
        = (Inr u, q1, t)"
    using Cons.prems by (auto split: prod.splits sum.splits)
  from Cons.IH [OF r] check_session_owner [OF c] check_session_state [OF c] show ?case by auto
qed simp

lemma check_parts_owner:
  assumes "check_parts ns body refs rq a (initial_state rq0 a, s) = (Inr rq1, q, t)"
  shows "set (qs_session_ids q) = set (nr_sessions refs) \<and> (\<forall>i\<in>set (qs_session_ids q). \<exists>ks. view s i = Some (a, ks))
    \<and> qs_actor q = a \<and> (nr_sessions refs \<noteq> [] \<longrightarrow> qs_strict q)"
proof -
  obtain q1 s1 kbs where c: "check_sessions ns a (rq_headers rq) (sorted_ids (nr_sessions refs)) (enter_path rq (initial_state rq0 a), s) = (Inr (), q1, s1)"
    and r: "if is_retrieval rq then native_retrieval ns refs kbs body rq a (q1, s1) = (Inr rq1, q, t) else rq1 = rq \<and> (q, t) = (q1, s1)"
    using check_parts_Inr [OF assms] by (metis fst_conv prod.collapse snd_conv)
  have "qs_session_ids q = qs_session_ids q1 \<and> qs_actor q = qs_actor q1 \<and> (qs_strict q1 \<longrightarrow> qs_strict q)"
    using r by (auto simp: native_retrieval_def Let_def split: sum.splits if_splits prod.splits)
  moreover have "qs_session_ids (enter_path rq (initial_state rq0 a)) = []" "qs_actor (enter_path rq (initial_state rq0 a)) = a"
    by (auto simp: enter_path_def initial_state_def split: list.splits)
  moreover have "sorted_ids (nr_sessions refs) = [] \<longleftrightarrow> nr_sessions refs = []"
    using set_sorted_ids [of "nr_sessions refs"] by (metis set_empty)
  ultimately show ?thesis using check_sessions_owner [OF c] by auto
qed

text \<open>A creation that is answered has bound the new session to the caller.\<close>

lemma bind_created_binds:
  assumes "bind_created ns q data s = (Inr u, t)" "qs_create q"
  shows "\<exists>ms i ks. data = JObj ms \<and> obj_get ''id'' ms = Some (JStr i) \<and> view t i = Some (qs_actor q, ks)"
  using assms bind_binds by (fastforce simp: bind_created_def split: json.splits option.splits if_splits)

lemma filter_native_creates:
  assumes "filter_native ns p s = (Inr p1, t)" "np_state p = Some q" "qs_create q" "200 \<le> np_status p" "np_status p < 300"
    "contains (np_content_type p) ''json''" "\<not> has_prefix (np_content_type p) ''text/event-stream''"
  shows "\<exists>env ms i ks. read_envelope ns p = Inr env \<and> envelope_data env = JObj ms \<and> obj_get ''id'' ms = Some (JStr i)
    \<and> view t i = Some (qs_actor q, ks)"
proof -
  obtain env u s1 env1 where e: "read_envelope ns p = Inr env" "bind_created ns q (envelope_data env) s = (Inr u, s1)"
    "filter_sessions ns p q env s1 = (Inr env1, t)"
    using assms by (auto simp: filter_native_def filter_envelope_def split: sum.splits if_splits)
  have "view t = view s1" using reading.filter_sessions_keeps e(3) by (metis snd_conv)
  with bind_created_binds [OF e(2) assms(3)] e(1) show ?thesis by auto
qed

end

section \<open>The repository provides the interface\<close>

definition session_view :: "native_tables \<Rightarrow> string \<Rightarrow> (actor \<times> string set) option" where
  "session_view s i =
     map_option (\<lambda>b. (nb_actor b, set (nb_kb_ids b))) (find (\<lambda>b. nb_session_id b = i) (nt_bindings s))"

lemma find_updated:
  "\<forall>x. k (f x) = k x \<Longrightarrow> find (\<lambda>x. k x = j) (update_where (\<lambda>x. k x = i) f xs)
     = (if i = j then map_option f (find (\<lambda>x. k x = j) xs) else find (\<lambda>x. k x = j) xs)"
  by (induction xs) (auto simp: update_where_def)

lemma extend_binding_key [simp]: "nb_session_id (extend_binding now ids b) = nb_session_id b"
  by (simp add: extend_binding_def)

lemma native_bind_view:
  assumes "native_bind now i a ids s = (r, t)"
  shows "session_view t = session_view s \<and> r \<noteq> Inr () \<or>
    (\<exists>ks. session_view t = (session_view s)(i \<mapsto> (a, ks)) \<and> json_text ` set ids \<subseteq> ks
       \<and> (session_view s i = None \<or> (\<exists>ks0. session_view s i = Some (a, ks0) \<and> ks0 \<subseteq> ks)))"
proof -
  let ?new = "\<lparr>nb_session_id = i, nb_actor = a, nb_kb_ids = map json_text ids, nb_created_at = now, nb_updated_at = now\<rparr>"
  let ?found = "find (\<lambda>b. nb_session_id b = i) (nt_bindings s)"
  consider "nt_bindings t = nt_bindings s" "r \<noteq> Inr ()"
    | "find (\<lambda>b. nb_session_id b = i) (nt_bindings s) = None" "nt_bindings t = nt_bindings s @ [?new]"
    | b where "find (\<lambda>b. nb_session_id b = i) (nt_bindings s) = Some b" "nb_actor b = a"
        "nt_bindings t = update_where (\<lambda>b. nb_session_id b = i) (extend_binding now (map json_text ids)) (nt_bindings s)"
  proof (cases ?found)
    case None
    with assms that(1,2) show ?thesis by (auto simp: native_bind_def native_exec_def Let_def split: if_splits)
  next
    case (Some b)
    with assms that(1) that(3) [OF Some] show ?thesis by (auto simp: native_bind_def native_exec_def Let_def split: if_splits)
  qed
  then show ?thesis
  proof cases
    case 1
    then show ?thesis by (simp add: session_view_def fun_eq_iff)
  next
    case 2
    then have "session_view t = (session_view s)(i \<mapsto> (a, json_text ` set ids))"
      by (auto simp: session_view_def fun_eq_iff find_append split: option.splits)
    with 2(1) show ?thesis by (auto simp: session_view_def)
  next
    case 3
    then have "session_view t = (session_view s)(i \<mapsto> (a, set (nb_kb_ids b) \<union> json_text ` set ids))"
      by (auto simp: session_view_def fun_eq_iff find_updated extend_binding_def)
    with 3(1,2) show ?thesis by (auto simp: session_view_def)
  qed
qed

lemma session_view_same: "nt_bindings t = nt_bindings s \<Longrightarrow> session_view t = session_view s"
  by (simp add: session_view_def fun_eq_iff)

lemma session_view_reads:
  "session_view (snd (native_binding_of i s)) = session_view s" "session_view (snd (native_bindings a s)) = session_view s"
  "session_view (snd (native_record now a operation outcome code ids correlation s)) = session_view s"
  "session_view (snd (session_guard (product_scope env) i a h s)) = session_view s"
     apply (rule session_view_same, simp add: native_binding_of_state)
    apply (rule session_view_same, simp add: native_bindings_state)
   apply (rule session_view_same, simp add: native_record_state)
  apply (simp add: session_guard_def product_scope_def split: option.splits)
  done

lemma session_guard_events: "nt_events (snd (session_guard (product_scope env) i a h s)) = nt_events s"
  by (simp add: session_guard_def product_scope_def split: option.splits)

lemma product_scope_sel:
  "nx_bind (product_scope env) = native_bind (nw_now env)" "nx_binding (product_scope env) = native_binding_of"
  "nx_bindings (product_scope env) = native_bindings" "nx_record (product_scope env) = native_record (nw_now env)"
  by (simp_all add: product_scope_def)

interpretation native: session_store "product_scope env" session_view for env
proof
  fix s i a ids
  obtain r t where b: "native_bind (nw_now env) i a ids s = (r, t)" by fastforce
  from native_bind_view [OF b] show "sessions_grow (session_view s) (session_view (snd (nx_bind (product_scope env) i a ids s)))"
    by (auto simp: product_scope_sel b sessions_grow_def subset_iff)
next
  fix i a ids s u t
  assume "nx_bind (product_scope env) i a ids s = (Inr u, t)"
  then have "native_bind (nw_now env) i a ids s = (Inr u, t)" by (simp add: product_scope_sel)
  from native_bind_view [OF this] show "\<exists>ks. session_view t i = Some (a, ks) \<and> json_text ` set ids \<subseteq> ks" by auto
next
  fix i s b t
  assume "nx_binding (product_scope env) i s = (Inr b, t)"
  then show "session_view s i = Some (nb_actor b, set (nb_kb_ids b))"
    by (simp add: product_scope_sel session_view_def native_binding_of_Inr)
qed (simp_all add: session_view_reads product_scope_sel)

text \<open>Before the decision is recorded, the trail is not touched.\<close>

interpretation untold: store_frame "product_scope env" "\<lambda>s t. nt_events t = nt_events s" for env
  by unfold_locales
    (simp_all add: product_scope_sel native_binding_of_state native_bindings_state native_bind_events session_guard_events)

end
