(* ===== verification/NativeSamples.thy ===== *)
theory NativeSamples
  imports NativeRules
begin

text \<open>A small WeKnora with two knowledge bases, and the requests the witnesses use.\<close>

definition native_get :: "string \<Rightarrow> (string \<times> string) list \<Rightarrow> headers \<Rightarrow> upstream_error + string" where
  "native_get p q h =
     (if p = ''/api/v1/knowledge-bases/a'' then Inr ''base a''
      else if p = ''/api/v1/knowledge-bases/b'' then Inr ''base b''
      else if p = ''/api/v1/models/m1'' then Inr ''model m1''
      else if p = ''/api/v1/sessions'' then Inr ''sessions''
      else Inl (UpstreamError ''upstream.not_found'' 404))"

definition native_document :: "string \<Rightarrow> json option" where
  "native_document raw =
     (if raw = ''question'' then Some (JObj [(''query'', JStr ''x''), (''knowledge_base_id'', JStr ''a''), (''summary_model_id'', JStr ''m1'')])
      else if raw = ''hit'' then Some (JObj [(''knowledge_base_id'', JStr ''a'')])
      else if raw = ''answer'' then Some (JObj [(''success'', JBool True), (''data'', JArr [JObj [(''knowledge_base_id'', JStr ''a'')]])])
      else None)"

definition native_env :: native_environment where
  "native_env =
     \<lparr>nw_get = native_get, nw_kb_for_knowledge = (\<lambda>i h. Inr ''a''), nw_kb_for_chunk = (\<lambda>i h. Inr ''a''),
      nw_validate_session = (\<lambda>i h. Inr ()), nw_guard = None,
      nw_current_principal = (\<lambda>h. Inr \<lparr>wp_user = Some \<lparr>wu_id = ''ann'', wu_active = True\<rparr>, wp_tenant = Some 7\<rparr>),
      nw_parse = native_document, nw_parse_first = native_document,
      nw_envelope = (\<lambda>raw. if raw = ''base a'' then Some (True, JObj [(''id'', JStr ''a'')])
        else if raw = ''base b'' then Some (True, JObj [(''id'', JStr ''b'')]) else None),
      nw_session_page = (\<lambda>raw. Some (True, [''s1'', ''s2''], 2)), nw_item_id = Some,
      nw_model = (\<lambda>raw. Some \<lparr>mr_success = True, mr_id = ''m1'', mr_type = ''KnowledgeQA'', mr_status = ''active''\<rparr>),
      nw_engine = (\<lambda>raw. None), nw_boundary = (\<lambda>t. None), nw_multipart = (\<lambda>b raw. \<lparr>mb_parts = [], mb_complete = True\<rparr>),
      nw_spool = True, nw_graph_enabled = False, nw_max_file_bytes = 0, nw_sha256 = id, nw_lower = id, nw_now = 1000\<rparr>"

definition native_ann :: actor where
  "native_ann = \<lparr>ac_kind = ''human'', ac_id = ''ann'', ac_tenant_id = 7\<rparr>"

definition native_bob :: actor where
  "native_bob = \<lparr>ac_kind = ''human'', ac_id = ''bob'', ac_tenant_id = 7\<rparr>"

definition native_start :: native_tables where
  "native_start =
     \<lparr>nt_bindings =
        [\<lparr>nb_session_id = ''s1'', nb_actor = native_ann, nb_kb_ids = [''b''], nb_created_at = 1, nb_updated_at = 1\<rparr>,
         \<lparr>nb_session_id = ''s2'', nb_actor = native_bob, nb_kb_ids = [''b''], nb_created_at = 2, nb_updated_at = 2\<rparr>],
      nt_events = [], nt_db = empty_database\<rparr>"

definition native_headers :: "string \<Rightarrow> headers" where
  "native_headers content k = (if k = ''Content-Type'' then content else if k = ''Authorization'' then ''Bearer t'' else [])"

definition native_chat :: gate_request where
  "native_chat = \<lparr>rq_method = ''POST'', rq_path = ''/api/v1/knowledge-chat/s1'', rq_query = [],
     rq_headers = native_headers ''application/json'', rq_body = Body ''question''\<rparr>"

definition native_listing :: gate_request where
  "native_listing = \<lparr>rq_method = ''GET'', rq_path = ''/api/v1/sessions'', rq_query = [],
     rq_headers = native_headers [], rq_body = NoBody\<rparr>"

definition native_deletion :: gate_request where
  "native_deletion = \<lparr>rq_method = ''DELETE'', rq_path = ''/api/v1/sessions/batch'', rq_query = [],
     rq_headers = native_headers ''text/plain'', rq_body = Body ''{ids: [s2]}''\<rparr>"

definition native_routes :: "native_route list" where
  "native_routes =
     [\<lparr>rt_method = ''POST'', rt_path = ''/api/v1/knowledge-chat/:session_id'', rt_disposition = ''native'', rt_checks = [''scope_session'']\<rparr>,
      \<lparr>rt_method = ''GET'', rt_path = ''/health'', rt_disposition = ''native'', rt_checks = []\<rparr>]"

text \<open>The chat goes through, and leaves a trace in the tables.\<close>

definition native_chat_check :: "(native_error, gate_request \<times> request_state, native_tables) outcome" where
  "native_chat_check = check_request (product_scope native_env) native_chat native_ann native_start"

definition native_chat_wrap :: "gate_result \<times> native_tables" where
  "native_chat_wrap = native_wrap (native_product_gate native_env native_routes) (rq_path native_chat) native_chat native_start"

definition native_chat_state :: request_state where
  "native_chat_state = \<lparr>qs_actor = native_ann, qs_kb_ids = [''a''], qs_session_ids = [''s1''], qs_create = False, qs_strict = True\<rparr>"

lemma native_chat_check_state: "(case fst native_chat_check of Inr (rq, q) \<Rightarrow> Some q | Inl _ \<Rightarrow> None) = Some native_chat_state"
  by code_simp

lemma native_chat_wrap_state: "(case fst native_chat_wrap of Forwarded rq q \<Rightarrow> q | _ \<Rightarrow> None) = Some native_chat_state"
  by code_simp

lemma native_chat_checked:
  obtains rq1 where "check_request (product_scope native_env) native_chat native_ann native_start = (Inr (rq1, native_chat_state), snd native_chat_check)"
proof -
  from native_chat_check_state obtain rq1 where "fst native_chat_check = Inr (rq1, native_chat_state)" by (auto split: sum.splits prod.splits)
  then have "native_chat_check = (Inr (rq1, native_chat_state), snd native_chat_check)" by (simp add: prod_eq_iff)
  then show thesis by (intro that) (simp only: native_chat_check_def [symmetric])
qed

lemma native_chat_wrapped:
  obtains rq1 where "native_wrap (native_product_gate native_env native_routes) (rq_path native_chat) native_chat native_start
    = (Forwarded rq1 (Some native_chat_state), snd native_chat_wrap)"
proof -
  from native_chat_wrap_state obtain rq1 where "fst native_chat_wrap = Forwarded rq1 (Some native_chat_state)" by (auto split: gate_result.splits)
  then have "native_chat_wrap = (Forwarded rq1 (Some native_chat_state), snd native_chat_wrap)" by (simp add: prod_eq_iff)
  then show thesis by (intro that) (simp only: native_chat_wrap_def [symmetric])
qed

end
