(* ===== verification/NativeSafety.thy ===== *)
theory NativeSafety
  imports NativeSamples
begin

text \<open>
  The native workspace over time: any sequence of requests and answers, with whatever WeKnora says and
  whichever statements fail, and what holds of it.
\<close>

section \<open>Calls\<close>

lemma call_then_obtain: "call_then r f = (x, t) \<Longrightarrow> (\<exists>e. r = (Inl e, t) \<and> x = Inl e) \<or> (\<exists>y s. r = (Inr y, s) \<and> f y s = (x, t))"
  by (cases r; cases "fst r") auto

definition native_checks_keep :: "native_tables native_gate \<Rightarrow> bool" where
  "native_checks_keep g \<longleftrightarrow>
     (\<forall>f rq a s. Some f \<in> set [ng_scope_check g, ng_model_check g] \<longrightarrow> sessions_grow (session_view s) (session_view (snd (f rq a s))))"

lemma product_checks_keep: "native_checks_keep (native_product_gate env routes)"
proof -
  have "sessions_grow (session_view s) (session_view (snd (scope_request_check (product_scope env) rq a s)))" for rq a s
    unfolding scope_request_check_def
    by (rule call_then_keeps [of "\<lambda>s t. sessions_grow (session_view s) (session_view t)"])
      (auto intro: native.check_request_grows elim: sessions_grow_trans)
  then show ?thesis by (auto simp: native_checks_keep_def native_product_gate_def model_request_check_def)
qed

lemma run_checks_grow:
  assumes "native_checks_keep g"
  shows "sessions_grow (session_view s) (session_view (snd (run_checks g a names rq q s)))"
proof (induction names arbitrary: rq q s)
  case (Cons name names)
  have step: "sessions_grow (session_view s) (session_view (snd (call_then (f rq a s) (\<lambda>(rq1, q1) s1.
      run_checks g a names rq1 (if q1 = None then q else q1) s1))))" if "Some f \<in> set [ng_scope_check g, ng_model_check g]" for f
    by (rule call_then_keeps [of "\<lambda>s t. sessions_grow (session_view s) (session_view t)"])
      (use assms that Cons.IH in \<open>auto simp: native_checks_keep_def elim: sessions_grow_trans split: prod.splits\<close>)
  show ?case
    using step Cons.IH by (auto simp: Let_def split: option.splits)
qed simp

lemma native_wrap_grows: "sessions_grow (session_view s) (session_view (snd (native_wrap (native_product_gate env routes) escaped rq s)))"
proof -
  let ?g = "native_product_gate env routes"
  have l: "ng_local ?g = Some (list_sessions (product_scope env))" by (simp add: native_product_gate_def)
  have c: "sessions_grow (session_view s) (session_view (snd (gate_checked ?g r rq s)))" for r
  proof (cases "resolve_actor (ng_principals ?g) (ng_sha256 ?g) (rq_headers rq)")
    case (Inr a)
    obtain x s1 where run: "run_checks ?g a (rt_checks r) rq None s = (x, s1)" by fastforce
    then have grow: "sessions_grow (session_view s) (session_view s1)"
      using run_checks_grow [OF product_checks_keep [of env routes], where s = s and a = a and names = "rt_checks r" and rq = rq and q = None]
      by simp
    show ?thesis
    proof (cases x)
      case (Inr p)
      obtain rq1 q y s2 where p: "p = (rq1, q)" "list_sessions (product_scope env) rq1 a s1 = (y, s2)" by (metis surj_pair)
      then have "session_view s2 = session_view s1"
        using native.reading.list_sessions_keeps [where env = env and s = s1 and rq = rq1 and a = a] by simp
      with grow show ?thesis
        by (auto simp: gate_checked_def \<open>resolve_actor _ _ _ = _\<close> run Inr p l split: sum.splits option.splits)
    qed (use grow in \<open>simp add: gate_checked_def \<open>resolve_actor _ _ _ = _\<close> run\<close>)
  qed (simp add: gate_checked_def)
  then show ?thesis by (auto simp: native_wrap_def split: option.splits)
qed

text \<open>A step: a request through the gate, an answer through the filter, or something on the connection.\<close>

inductive native_call :: "native_tables \<Rightarrow> native_tables \<Rightarrow> bool" where
  wrapped: "native_call s (snd (native_wrap (native_product_gate env routes) escaped rq s))"
| answered: "native_call s (snd (filter_native (product_scope env) p s))"
| elapsed: "nt_bindings t = nt_bindings s \<Longrightarrow> nt_events t = nt_events s \<Longrightarrow> native_call s t"

lemma native_call_grows: "native_call s t \<Longrightarrow> sessions_grow (session_view s) (session_view t)"
proof (induction rule: native_call.induct)
  case (elapsed t s)
  then show ?case by (simp only: session_view_same [OF elapsed(1)] sessions_grow_refl)
qed (rule native_wrap_grows, rule native.growing.filter_native_keeps)

lemma native_calls_grow: "native_call\<^sup>*\<^sup>* s t \<Longrightarrow> sessions_grow (session_view s) (session_view t)"
  by (induction rule: rtranclp_induct) (auto intro: native_call_grows sessions_grow_trans)

section \<open>What was forwarded\<close>

text \<open>A check that runs before the scope check leaves the request line alone.\<close>

lemma replace_object_line [simp]:
  "rq_method (replace_object rq ms) = rq_method rq" "rq_path (replace_object rq ms) = rq_path rq" "rq_query (replace_object rq ms) = rq_query rq"
  by (simp_all add: replace_object_def)

lemma check_models_line: "check_models mp rq = Inr rq1 \<Longrightarrow> rq_path rq1 = rq_path rq \<and> rq_method rq1 = rq_method rq"
  by (auto simp: check_models_def check_model_body_def check_upload_def Let_def split: if_splits option.splits request_body.splits)

lemma check_request_Inr:
  assumes "check_request ns rq a s = (Inr (rq1, q), t)"
  obtains s1 where "check_body ns rq a s = (Inr rq1, q, s1)"
    "nx_record ns a ''web.scope'' ''allowed'' [] (qs_kb_ids q) (rq_headers rq ''X-Request-ID'') s1 = (Inr (), t)"
proof -
  obtain r q' s1 where b: "check_body ns rq a s = (r, q', s1)" by (metis surj_pair)
  with assms have "r = Inr rq1 \<and> q' = q"
    by (cases r) (auto simp: check_request_def split_def Let_def)
  with assms b that show thesis by (auto simp: check_request_def check_outcome_def Let_def)
qed

lemma check_body_Inr:
  assumes "check_body ns rq a s = (Inr rq1, q, t)"
  obtains body body1 refs rq2 s1 where "read_object ns rq = Inr body"
    "history_scope ns body (native_collect (JObj body) no_refs) rq a s = (Inr (body1, refs, rq2), s1)"
    "check_parts ns body1 (path_refs rq2 body1 (collect_query rq2 refs)) rq2 a (initial_state rq a, s1) = (Inr rq1, q, t)"
proof (cases "read_object ns rq")
  case (Inr body)
  obtain r s1 where h: "history_scope ns body (native_collect (JObj body) no_refs) rq a s = (r, s1)" by fastforce
  with assms Inr obtain x where "r = Inr x" by (cases r) (auto simp: check_body_def)
  with assms Inr h that show thesis by (cases x) (auto simp: check_body_def)
qed (use assms in \<open>simp add: check_body_def\<close>)

lemma history_scope_line:
  assumes "history_scope ns body refs rq a s = (Inr (body1, refs1, rq1), t)"
  shows "rq_path rq1 = rq_path rq \<and> (rq_path rq \<noteq> ''/api/v1/messages/search'' \<longrightarrow> body1 = body \<and> refs1 = refs \<and> rq1 = rq \<and> t = s)"
  using assms by (auto simp: history_scope_def Let_def split: if_splits)

text \<open>Every session of a forwarded request, those in its path among them, is bound to the caller.\<close>

lemma forwarded_sessions:
  assumes "check_request (product_scope env) rq a s = (Inr (rq1, q), t)"
  shows "set (native_path_sessions (rq_path rq)) \<subseteq> set (qs_session_ids q)
    \<and> (\<forall>i\<in>set (qs_session_ids q). \<exists>ks. session_view s i = Some (a, ks)) \<and> qs_actor q = a"
proof -
  obtain s1 where b: "check_body (product_scope env) rq a s = (Inr rq1, q, s1)" using assms by (rule check_request_Inr)
  then obtain body body1 refs rq2 s2 where
    h: "history_scope (product_scope env) body (native_collect (JObj body) no_refs) rq a s = (Inr (body1, refs, rq2), s2)"
    and c: "check_parts (product_scope env) body1 (path_refs rq2 body1 (collect_query rq2 refs)) rq2 a (initial_state rq a, s2) = (Inr rq1, q, s1)"
    by (rule check_body_Inr)
  have "session_view s2 = session_view s"
    using native.reading.history_scope_keeps h by (metis snd_conv)
  with native.check_parts_owner [OF c] history_scope_line [OF h] show ?thesis by (auto simp: path_refs_def)
qed

lemma native_retrieval_line: "native_retrieval ns refs kbs body rq a qs = (Inr rq1, qs1) \<Longrightarrow> rq_path rq1 = rq_path rq"
  by (auto simp: native_retrieval_def Let_def split: sum.splits prod.splits)

lemma check_request_line:
  assumes "check_request ns rq a s = (Inr (rq1, q), t)"
  shows "rq_path rq1 = rq_path rq"
proof -
  obtain s1 where b: "check_body ns rq a s = (Inr rq1, q, s1)" using assms by (rule check_request_Inr)
  then obtain body body1 refs rq2 s2 where
    h: "history_scope ns body (native_collect (JObj body) no_refs) rq a s = (Inr (body1, refs, rq2), s2)"
    and c: "check_parts ns body1 (path_refs rq2 body1 (collect_query rq2 refs)) rq2 a (initial_state rq a, s2) = (Inr rq1, q, s1)"
    by (rule check_body_Inr)
  from c have "rq_path rq1 = rq_path rq2"
    by (rule check_parts_Inr) (auto dest: native_retrieval_line split: if_splits)
  with history_scope_line [OF h] show ?thesis by simp
qed

text \<open>The state a forwarded request carries comes from a scope check in which it was let through.\<close>

lemma run_checks_state:
  assumes "run_checks (native_product_gate env routes) a names rq q0 s = (Inr (rq1, q1), t)"
  shows "q1 = q0 \<or> (\<exists>rq2 rq3 q s1 s2. check_request (product_scope env) rq2 a s1 = (Inr (rq3, q), s2) \<and> q1 = Some q
    \<and> rq_path rq2 = rq_path rq \<and> sessions_grow (session_view s) (session_view s1))"
  using assms
proof (induction names arbitrary: rq q0 s)
  case (Cons name names)
  let ?g = "native_product_gate env routes"
  have sel: "ng_scope_check ?g = Some (scope_request_check (product_scope env))"
    "ng_model_check ?g = Some (model_request_check (product_models env))"
    by (simp_all add: native_product_gate_def)
  consider "run_checks ?g a names rq q0 s = (Inr (rq1, q1), t)"
    | rq2 q s1 where "check_request (product_scope env) rq a s = (Inr (rq2, q), s1)"
        "run_checks ?g a names rq2 (Some q) s1 = (Inr (rq1, q1), t)"
    | rq2 where "check_models (product_models env) rq = Inr rq2" "run_checks ?g a names rq2 q0 s = (Inr (rq1, q1), t)"
  proof (cases "name \<in> set [''scope_session'', ''agent_binding'']")
    case True
    with Cons.prems obtain p s1 where "check_request (product_scope env) rq a s = (Inr p, s1)"
      "run_checks ?g a names (fst p) (Some (snd p)) s1 = (Inr (rq1, q1), t)"
      by (auto simp: Let_def sel scope_request_check_def)
    then show thesis by (cases p) (auto intro: that(2))
  next
    case scope: False
    show thesis
    proof (cases "name \<in> set [''models_upload'', ''feature_settings'']")
      case True
      with scope Cons.prems obtain rq2 where "check_models (product_models env) rq = Inr rq2"
        "run_checks ?g a names rq2 q0 s = (Inr (rq1, q1), t)"
        by (cases "check_models (product_models env) rq") (auto simp: Let_def sel model_request_check_def)
      then show thesis by (rule that(3))
    next
      case False
      with scope Cons.prems show thesis by (intro that(1)) (simp add: Let_def)
    qed
  qed
  then show ?case
  proof cases
    case 1
    then show ?thesis by (rule Cons.IH)
  next
    case 2
    have "sessions_grow (session_view s) (session_view s1)"
      using native.check_request_grows [where env = env and rq = rq and a = a and s = s] 2(1) by simp
    then show ?thesis
      using Cons.IH [OF 2(2)] 2(1) check_request_line [OF 2(1)] sessions_grow_refl
      by (metis sessions_grow_trans)
  next
    case 3
    then show ?thesis using Cons.IH [OF 3(2)] check_models_line [OF 3(1)] by simp
  qed
qed simp

lemma native_wrap_forwarded:
  assumes "native_wrap (native_product_gate env routes) escaped rq s = (Forwarded rq1 (Some q), t)"
  shows "\<exists>a rq2 rq3 s1 s2. resolve_actor (Some (nw_current_principal env)) (nw_sha256 env) (rq_headers rq) = Inr a
    \<and> check_request (product_scope env) rq2 a s1 = (Inr (rq3, q), s2) \<and> rq_path rq2 = rq_path rq
    \<and> sessions_grow (session_view s) (session_view s1)"
proof -
  let ?g = "native_product_gate env routes"
  have sel: "ng_principals ?g = Some (nw_current_principal env)" "ng_sha256 ?g = nw_sha256 env"
    "ng_local ?g = Some (list_sessions (product_scope env))"
    by (simp_all add: native_product_gate_def)
  obtain r where "gate_checked ?g r rq s = (Forwarded rq1 (Some q), t)"
    using assms by (auto simp: native_wrap_def split: option.splits if_splits)
  then obtain a s1 where "resolve_actor (Some (nw_current_principal env)) (nw_sha256 env) (rq_headers rq) = Inr a"
    "run_checks ?g a (rt_checks r) rq None s = (Inr (rq1, Some q), s1)"
    by (auto simp: gate_checked_def sel split: sum.splits prod.splits option.splits)
  with run_checks_state [OF this(2)] show ?thesis by fastforce
qed

section \<open>Sessions\<close>



section \<open>Retrieval\<close>

lemma scoped_body_members:
  "(\<lambda>k. obj_get k (native_scoped_body ks body))
     = (\<lambda>k. obj_get k body)(''knowledge_base_ids'' := Some (string_list ks), ''knowledge_base_id'' := None)"
  by (simp add: native_scoped_body_def obj_get_set obj_get_del fun_eq_iff)

text \<open>C6. What a retrieval is forwarded with: its own body, with the knowledge bases replaced by the resolved scope. The credentials of the request can read each base of it, and if the request names any bases, by themselves or by a document or chunk, the scope is those, all of them.\<close>

theorem retrieval_scope_resolved:
  assumes "check_request ns rq a s = (Inr (rq1, q), t)" "is_retrieval rq"
  shows "\<exists>body body1 kbs. read_object ns rq = Inr body \<and> rq_body rq1 = Body (marshal_object body1)
    \<and> (\<lambda>k. obj_get k body1) = (\<lambda>k. obj_get k body)(''knowledge_base_ids'' := Some (string_list (qs_kb_ids q)), ''knowledge_base_id'' := None)
    \<and> list_all (\<lambda>k. check_kb ns k (rq_headers rq) = Inr ()) (qs_kb_ids q) \<and> qs_strict q
    \<and> named_bases ns (path_refs rq body (collect_query rq (native_collect (JObj body) no_refs))) (rq_headers rq) = Inr kbs
    \<and> (kbs = [] \<or> set (qs_kb_ids q) = set kbs)"
proof -
  obtain s1 where b: "check_body ns rq a s = (Inr rq1, q, s1)" using assms(1) by (rule check_request_Inr)
  then obtain body body1 refs rq2 s2 where r: "read_object ns rq = Inr body"
    and h: "history_scope ns body (native_collect (JObj body) no_refs) rq a s = (Inr (body1, refs, rq2), s2)"
    and c: "check_parts ns body1 (path_refs rq2 body1 (collect_query rq2 refs)) rq2 a (initial_state rq a, s2) = (Inr rq1, q, s1)"
    by (rule check_body_Inr)
  have "rq_path rq \<noteq> ''/api/v1/messages/search''" using assms(2) by (auto simp: is_retrieval_def has_prefix_def)
  with history_scope_line [OF h] have same: "body1 = body" "refs = native_collect (JObj body) no_refs" "rq2 = rq" by auto
  let ?refs = "path_refs rq body (collect_query rq (native_collect (JObj body) no_refs))"
  obtain qs1 kbs where k: "readable_bases ns ?refs (rq_headers rq) = Inr kbs"
    "native_retrieval ns ?refs kbs body rq a qs1 = (Inr rq1, q, s1)"
    using check_parts_Inr [OF c [unfolded same]] assms(2) by metis
  then obtain agent where "resolve_native ns kbs (kbs \<noteq> []) agent a (rq_headers rq) = Inr (qs_kb_ids q)"
    "rq1 = replace_object rq (native_scoped_body (qs_kb_ids q) body)" "qs_strict q"
    by (auto simp: native_retrieval_def Let_def split: sum.splits prod.splits)
  moreover from this(1) have "(kbs \<noteq> [] \<longrightarrow> set (qs_kb_ids q) = set kbs) \<and> (\<forall>k\<in>set (qs_kb_ids q). check_kb ns k (rq_headers rq) = Inr ())"
    by (rule resolve_native_checked)
  moreover have "named_bases ns ?refs (rq_headers rq) = Inr kbs" using k(1) by (auto simp: readable_bases_def)
  ultimately show ?thesis
    using r scoped_body_members [of "qs_kb_ids q" body]
    by (intro exI [where x = body, OF exI [where x = "native_scoped_body (qs_kb_ids q) body", OF exI [where x = kbs]]])
      (auto simp: replace_object_def list_all_iff)
qed

theorem retrieval_scope_resolved_witness:
  "\<exists>(rq1 :: gate_request) body1. rq_body rq1 = Body (marshal_object body1)
   \<and> obj_get ''knowledge_base_ids'' body1 = Some (string_list [''a'']) \<and> obj_get ''knowledge_base_id'' body1 = None"
proof -
  obtain rq1 where c: "check_request (product_scope native_env) native_chat native_ann native_start
    = (Inr (rq1, native_chat_state), snd native_chat_check)" by (rule native_chat_checked)
  have r: "is_retrieval native_chat" by code_simp
  have q: "qs_kb_ids native_chat_state = [''a'']" by (simp add: native_chat_state_def)
  obtain body body1 where b: "rq_body rq1 = Body (marshal_object body1)" "(\<lambda>k. obj_get k body1)
      = (\<lambda>k. obj_get k body)(''knowledge_base_ids'' := Some (string_list [''a'']), ''knowledge_base_id'' := None)"
    using retrieval_scope_resolved [OF c r, unfolded q] by blast
  have "obj_get ''knowledge_base_ids'' body1 = Some (string_list [''a''])" "obj_get ''knowledge_base_id'' body1 = None"
    using fun_cong [OF b(2), of "''knowledge_base_ids''"] fun_cong [OF b(2), of "''knowledge_base_id''"] by simp_all
  with b(1) show ?thesis by blast
qed

end
