(* ===== verification/NativeAnswers.thy ===== *)
theory NativeAnswers
  imports NativeSafety
begin

text \<open>
  The properties of the native gate beyond its sessions: answers and streams, the recorded decisions,
  models, routes, the list of sessions.
\<close>

section \<open>Answers\<close>

lemma check_references_Inr:
  assumes "check_references ns value q h = Inr ()"
  shows "\<exists>kbs. named_bases ns (native_collect value no_refs) h = Inr kbs \<and> (qs_strict q \<longrightarrow> set kbs \<subseteq> set (qs_kb_ids q))
    \<and> list_all (\<lambda>k. check_kb ns k h = Inr ()) kbs"
proof -
  obtain kbs us where "named_bases ns (native_collect value no_refs) h = Inr kbs"
    "\<not> (qs_strict q \<and> \<not> is_subset (sorted_ids kbs) (qs_kb_ids q))" "try_each (\<lambda>i. check_kb ns i h) (sorted_ids kbs) = Inr us"
    using assms by (auto simp: check_references_def split: if_splits)
  moreover from this(2) have "qs_strict q \<longrightarrow> set kbs \<subseteq> set (qs_kb_ids q)" by (auto simp: is_subset_def list_all_iff)
  moreover from \<open>try_each _ _ = _\<close> have "list_all (\<lambda>k. check_kb ns k h = Inr ()) kbs"
    using try_each_units by (fastforce simp: list_all_iff)
  ultimately show ?thesis by blast
qed


definition native_answer_response :: native_response where
  "native_answer_response = \<lparr>np_request = native_chat, np_state = Some native_chat_state, np_status = 200,
     np_content_type = ''application/json'', np_body = Body ''answer'', np_content_length = None, np_checked = False\<rparr>"

definition native_answered :: "(native_error, native_response, native_tables) outcome" where
  "native_answered = filter_native (product_scope native_env) native_answer_response native_start"

lemma native_answered_ok: "is_Inr (fst native_answered)"
  by code_simp


section \<open>Streams\<close>

lemma next_line_again: "next_line src = (line, rest) \<Longrightarrow> terminated line \<Longrightarrow> next_line (line @ x) = (line, x)"
  by (induction src arbitrary: line rest) (auto simp: terminated_def split: if_splits prod.splits)

lemma next_line_last: "next_line src = (line, rest) \<Longrightarrow> \<not> terminated line \<Longrightarrow> rest = [] \<and> line = src"
  by (induction src arbitrary: line rest) (auto simp: terminated_def split: if_splits prod.splits)

text \<open>An event read on its own has the same data.\<close>

lemma read_event_rule [consumes 1, case_names more last]:
  assumes "read_event fin event data src = Inr (e, d, rest, l)"
    and more: "\<And>event data src line more. next_line src = (line, more) \<Longrightarrow> int (length event) + int (length line) \<le> max_event \<Longrightarrow>
      terminated line \<Longrightarrow> trim_crlf line \<noteq> [] \<Longrightarrow> P (event @ line) (event_data data (trim_crlf line)) more \<Longrightarrow> P event data src"
    and last: "\<And>event data src line. next_line src = (line, rest) \<Longrightarrow> int (length event) + int (length line) \<le> max_event \<Longrightarrow>
      \<not> terminated line \<or> trim_crlf line = [] \<Longrightarrow> e = event @ line \<Longrightarrow> d = event_data data (trim_crlf line) \<Longrightarrow>
      l = (\<not> terminated line) \<Longrightarrow> P event data src"
  shows "P event data src"
  using assms(1)
proof (induction src arbitrary: event data rule: length_induct)
  case (1 src)
  obtain line tl where n: "next_line src = (line, tl)" by fastforce
  show ?case
  proof (cases "terminated line \<and> trim_crlf line \<noteq> []")
    case True
    with 1(2) n have "read_event fin (event @ line) (event_data data (trim_crlf line)) tl = Inr (e, d, rest, l)"
      and small: "int (length event) + int (length line) \<le> max_event"
      by (auto simp: read_event.simps [of fin event data src] Let_def split: if_splits)
    with 1(1) next_line_shorter [OF n] True have "P (event @ line) (event_data data (trim_crlf line)) tl" by blast
    with more [OF n small] True show ?thesis by blast
  next
    case False
    with 1(2) n have small: "int (length event) + int (length line) \<le> max_event" and "tl = rest"
      "e = event @ line" "d = event_data data (trim_crlf line)" "l = (\<not> terminated line)"
      by (auto simp: read_event.simps [of fin event data src] Let_def split: if_splits)
    with last [of src line event data] n False show ?thesis by auto
  qed
qed

lemma read_event_self:
  "read_event fin event data src = Inr (e, d, rest, l) \<Longrightarrow> \<exists>x. e = event @ x \<and> read_event StreamEOF event data x = Inr (e, d, [], l)"
proof (induction rule: read_event_rule)
  case (more event data src line more)
  then obtain x where "e = (event @ line) @ x" "read_event StreamEOF (event @ line) (event_data data (trim_crlf line)) x = Inr (e, d, [], l)"
    by blast
  with more(2-4) next_line_again [OF more(1), of x] show ?case
    by (intro exI [of _ "line @ x"]) (simp add: read_event.simps [of StreamEOF event data "line @ x"])
next
  case (last event data src line)
  then have "next_line line = (line, [])"
    using next_line_again [OF last(1), of "[]"] next_line_last [OF last(1)] by (cases "terminated line") auto
  with last(2-6) show ?case
    by (intro exI [of _ line]) (auto simp: read_event.simps [of StreamEOF event data line])
qed

definition event_payload :: "string \<Rightarrow> string" where
  "event_payload event = (case read_event StreamEOF [] [] event of Inr (_, data, _, _) \<Rightarrow> data | Inl _ \<Rightarrow> [])"

lemma event_payload: "read_event fin [] [] src = Inr (event, data, rest, l) \<Longrightarrow> event_payload event = data"
  using read_event_self [of fin "[]" "[]" src event data rest l] by (auto simp: event_payload_def)

text \<open>A line ends at the line feed only: data after a lone carriage return is not seen.\<close>

lemma carriage_return_hides_data:
  "event_payload (''event: x'' @ [CHR 0x0D] @ ''data: hit'' @ [CHR 0x0A, CHR 0x0A]) = []"
  by code_simp

lemma read_event_end: "read_event fin event data src = Inr (e, d, rest, l) \<Longrightarrow> l \<or> e = [] \<longrightarrow> rest = []"
proof (induction rule: read_event_rule)
  case (last event data src line)
  then show ?case using next_line_last [OF last(1)] by (auto simp: terminated_def)
qed simp

lemma checked_stream_events:
  assumes "checked_stream check fin src = (events, err)"
  shows "(\<exists>rest. src = concat events @ rest \<and> (err = None \<longrightarrow> rest = [])) \<and> list_all (\<lambda>e. check (event_payload e) = Inr ()) events"
  using assms
proof (induction check fin src arbitrary: events err rule: checked_stream.induct)
  case (1 check fin src)
  show ?case
  proof (cases "read_event fin [] [] src")
    case (Inl e)
    with 1(2) show ?thesis by (auto simp: checked_stream.simps [of check fin src])
  next
    case (Inr ev)
    obtain event data rest l where r: "read_event fin [] [] src = Inr (event, data, rest, l)" using Inr by (cases ev) auto
    note src = read_event_append [OF r] and pay = event_payload [OF r] and fin = read_event_end [OF r]
    show ?thesis
    proof (cases "check data")
      case (Inl e)
      with 1(2) r show ?thesis by (auto simp: checked_stream.simps [of check fin src])
    next
      case (Inr u)
      consider "event = []" "events = []" "err = None" | "event \<noteq> []" l "events = [event]" "err = None"
        | more where "event \<noteq> []" "\<not> l" "events = event # more" "checked_stream check fin rest = (more, err)"
        using 1(2) r Inr by (auto simp: checked_stream.simps [of check fin src] split: if_splits prod.splits)
      then show ?thesis
      proof cases
        case 3
        from 1(1) [OF r refl refl refl Inr 3(1,2,4)] 3 src pay Inr show ?thesis by auto
      qed (use src pay fin Inr in auto)
    qed
  qed
qed


definition native_stream :: string where
  "native_stream = ''data: hit'' @ [CHR 0x0A, CHR 0x0A] @ ''data: [DONE]'' @ [CHR 0x0A, CHR 0x0A]"

definition native_streamed :: "string list \<times> native_error option" where
  "native_streamed = checked_stream (check_event (product_scope native_env) native_chat_state (rq_headers native_chat)) StreamEOF native_stream"

lemma native_streamed_ok: "int (length (fst native_streamed)) = 2 \<and> snd native_streamed = None"
  by code_simp


section \<open>The trail\<close>

text \<open>C9. Every decision of the scope check is on record before anything is forwarded: a request that is let through has left an event that says so and lists its scope; a request that is refused has left an event that says that, or was refused because no event could be written.\<close>

theorem decisions_recorded:
  assumes "check_request (product_scope env) rq a s = (r, t)"
  shows "(r = Inl NativeFailed \<and> nt_events t = nt_events s)
    \<or> (\<exists>e. nt_events t = nt_events s @ [e] \<and> nv_actor e = a \<and> nv_operation e = ''web.scope'' \<and> nv_created_at e = nw_now env
        \<and> (case r of Inr (rq1, q) \<Rightarrow> nv_outcome e = ''allowed'' \<and> nv_kb_ids e = map json_text (qs_kb_ids q)
           | Inl _ \<Rightarrow> nv_outcome e = ''denied''))"
proof -
  obtain r1 q s1 where b: "check_body (product_scope env) rq a s = (r1, q, s1)" by (metis surj_pair)
  have same: "nt_events s1 = nt_events s"
    using untold.check_body_keeps [where env = env and s = s and rq = rq and a = a] b by simp
  obtain u s2 where n: "native_record (nw_now env) a ''web.scope'' (fst (check_outcome r1)) (snd (check_outcome r1)) (qs_kb_ids q)
      (rq_headers rq ''X-Request-ID'') s1 = (u, s2)" by fastforce
  show ?thesis
  proof (cases u)
    case (Inl e)
    with n have "e = NativeFailed \<and> nt_events s2 = nt_events s1"
      by (auto simp: native_record_def native_exec_def Let_def split: if_splits)
    with assms b n Inl same show ?thesis by (auto simp: check_request_def product_scope_sel split_def Let_def)
  next
    case (Inr v)
    with assms b n have "t = s2" "r = map_sum id (\<lambda>rq1. (rq1, q)) r1"
      by (auto simp: check_request_def product_scope_sel split_def Let_def)
    with native_record_Inr [OF n [unfolded Inr]] same show ?thesis
      by (cases r1) (auto simp: check_outcome_def split: native_error.splits)
  qed
qed

theorem decisions_recorded_witness:
  "\<exists>e. nt_events (snd native_chat_check) = [e] \<and> nv_actor e = native_ann \<and> nv_outcome e = ''allowed'' \<and> nv_kb_ids e = [json_text ''a'']"
proof -
  obtain rq1 where c: "check_request (product_scope native_env) native_chat native_ann native_start
    = (Inr (rq1, native_chat_state), snd native_chat_check)" by (rule native_chat_checked)
  have "nt_events native_start = []" "qs_kb_ids native_chat_state = [''a'']" by (simp_all add: native_start_def native_chat_state_def)
  with decisions_recorded [OF c] show ?thesis by auto
qed

end
