(* ===== verification/NativePolicy.thy ===== *)
theory NativePolicy
  imports NativeAnswers
begin

text \<open>The properties of the native gate's routes, model policy and session list.\<close>

section \<open>Routes\<close>

lemma find_first_sorted:
  assumes "sorted (map f xs)" "find P xs = Some x" "y \<in> set xs" "P y"
  shows "f x \<le> f y"
  using assms by (induction xs) (auto split: if_splits)

lemma loaded_routes:
  assumes "order_routes given = Some rs"
  shows "sorted (map (\<lambda>r. - specificity (rt_path r)) rs) \<and> set rs = set given \<and> list_all route_valid given"
  using assms by (auto simp: order_routes_def split: if_splits)

lemma load_routes_order: "load_routes m = Some rs \<Longrightarrow> order_routes (rm_routes m) = Some rs"
  by (simp add: load_routes_def split: if_splits)

definition scope_demanded :: "native_route \<Rightarrow> bool" where
  "scope_demanded r \<longleftrightarrow> ''scope_session'' \<in> set (rt_checks r) \<or> ''agent_binding'' \<in> set (rt_checks r)"

lemma run_checks_scope:
  assumes "run_checks (native_product_gate env routes) a names rq q s = (Inr (rq1, q1), t)"
  shows "(q \<noteq> None \<longrightarrow> q1 \<noteq> None) \<and> (''scope_session'' \<in> set names \<or> ''agent_binding'' \<in> set names \<longrightarrow> q1 \<noteq> None)"
  using assms
proof (induction names arbitrary: rq q s)
  case (Cons name names)
  let ?g = "native_product_gate env routes"
  have sel: "ng_scope_check ?g = Some (scope_request_check (product_scope env))"
    "ng_model_check ?g = Some (model_request_check (product_models env))"
    by (simp_all add: native_product_gate_def)
  show ?case
  proof (cases "name \<in> set [''scope_session'', ''agent_binding'']")
    case True
    with Cons.prems obtain p s1 where "run_checks ?g a names (fst p) (Some (snd p)) s1 = (Inr (rq1, q1), t)"
      by (auto simp: Let_def sel scope_request_check_def)
    from Cons.IH [OF this] show ?thesis by simp
  next
    case scope: False
    show ?thesis
    proof (cases "name \<in> set [''models_upload'', ''feature_settings'']")
      case True
      with scope Cons.prems obtain rq2 where "run_checks ?g a names rq2 q s = (Inr (rq1, q1), t)"
        by (cases "check_models (product_models env) rq") (auto simp: Let_def sel model_request_check_def)
      from Cons.IH [OF this] scope show ?thesis by auto
    next
      case False
      with scope Cons.prems have "run_checks ?g a names rq q s = (Inr (rq1, q1), t)" by (simp add: Let_def)
      from Cons.IH [OF this] scope show ?thesis by auto
    qed
  qed
qed simp



text \<open>Static parts do not always win: a parameter early in the path is preferred when the rest is longer.\<close>

lemma static_part_may_lose:
  "native_match (sort_key (\<lambda>r. - specificity (rt_path r))
     [\<lparr>rt_method = ''GET'', rt_path = ''/api/v1/datasource/logs/:log_id'', rt_disposition = ''disabled'', rt_checks = []\<rparr>,
      \<lparr>rt_method = ''GET'', rt_path = ''/api/v1/datasource/:id/resources'', rt_disposition = ''disabled'', rt_checks = []\<rparr>])
     ''GET'' ''/api/v1/datasource/logs/resources''
   = Some \<lparr>rt_method = ''GET'', rt_path = ''/api/v1/datasource/:id/resources'', rt_disposition = ''disabled'', rt_checks = []\<rparr>"
  by code_simp

section \<open>Models\<close>

text \<open>The native configuration objects of a body, with the member they are the value of.\<close>

inductive config_object :: "string \<Rightarrow> (string \<times> json) list \<Rightarrow> string \<Rightarrow> (string \<times> json) list \<Rightarrow> bool" where
  itself: "config_object parent body parent body"
| nested: "(key, JObj ms) \<in> set body \<Longrightarrow> key \<in> set config_keys \<Longrightarrow> config_object key ms k2 ms2 \<Longrightarrow> config_object parent body k2 ms2"

lemma model_fields_Inr:
  "model_fields mp h parent body = Inr () \<Longrightarrow> m \<in> set body \<Longrightarrow>
   model_member mp h parent m = Inr () \<and> (fst m \<in> set config_keys \<longrightarrow> model_nested mp h (fst m) (snd m) = Inr ())"
  by (induction body) (auto split: if_splits)

lemma config_object_models:
  assumes "config_object parent body k2 ms2" "model_fields mp h parent body = Inr ()"
  shows "model_fields mp h k2 ms2 = Inr ()"
  using assms by (induction rule: config_object.induct) (auto dest: model_fields_Inr)

lemma model_member_Inr:
  "model_member mp h parent (k, JStr i) = Inr () \<Longrightarrow> model_kind parent k \<noteq> [] \<Longrightarrow> i \<noteq> [] \<Longrightarrow> validate_model mp i (model_kind parent k) h = Inr ()"
  by (simp add: model_member_def split: if_splits)



section \<open>The list of sessions\<close>

lemma visible_items_owner:
  assumes "visible_items (product_scope env) a h items s = (Inr vs, t)" "item \<in> set vs"
  shows "\<exists>i ks. nw_item_id env item = Some i \<and> session_view s i = Some (a, ks)"
  using assms
proof (induction items arbitrary: s vs)
  case (Cons it items)
  obtain i where i: "nx_item_id (product_scope env) it = Some i" "i \<noteq> []"
    using Cons.prems(1) by (auto split: option.splits if_splits)
  obtain r s1 where c: "native_check_session (product_scope env) i a h s = (r, s1)" by fastforce
  note same = native.check_session_state [OF c]
  have rest: "\<exists>i ks. nw_item_id env item = Some i \<and> session_view s i = Some (a, ks)"
    if "visible_items (product_scope env) a h items s1 = (Inr us, t)" "item \<in> set us" for us
    using Cons.IH [OF that] same by simp
  show ?case
  proof (cases r)
    case (Inl e)
    with Cons.prems i c rest show ?thesis by (auto split: if_splits)
  next
    case (Inr b)
    with Cons.prems(1) i c obtain us where us: "visible_items (product_scope env) a h items s1 = (Inr us, t)" "vs = it # us" by auto
    show ?thesis
    proof (cases "item \<in> set us")
      case False
      with us(2) Cons.prems(2) have "item = it" by simp
      with i native.check_session_owner [OF c [unfolded Inr]] show ?thesis by (auto simp: product_scope_def)
    qed (use rest us in blast)
  qed
qed simp

lemma session_pages_owner:
  assumes "session_pages (product_scope env) rq a n s = (Inr vs, t)" "item \<in> set vs"
  shows "\<exists>i ks. nw_item_id env item = Some i \<and> session_view s i = Some (a, ks)"
  using assms
proof (induction n arbitrary: s vs)
  case 0
  then obtain items rep where "session_page (product_scope env) rq 101 = Inr (items, rep)"
    "visible_items (product_scope env) a (rq_headers rq) items s = (Inr vs, t)"
    by (auto split: sum.splits if_splits)
  with 0(2) show ?case by (blast intro: visible_items_owner)
next
  case (Suc n)
  then obtain items rep us s1 where p: "session_page (product_scope env) rq (100 - int n) = Inr (items, rep)"
    "visible_items (product_scope env) a (rq_headers rq) items s = (Inr us, s1)"
    "vs = us \<or> (\<exists>ws. session_pages (product_scope env) rq a n s1 = (Inr ws, t) \<and> vs = us @ ws)"
    by (auto simp: Let_def split: sum.splits if_splits)
  have same: "session_view s1 = session_view s"
    using native.reading.visible_items_keeps p(2) by (metis snd_conv)
  from p(3) Suc.prems(2) consider "item \<in> set us"
    | ws where "session_pages (product_scope env) rq a n s1 = (Inr ws, t)" "item \<in> set ws"
    by auto
  then show ?case
  proof cases
    case 1
    then show ?thesis by (rule visible_items_owner [OF p(2)])
  next
    case 2
    from Suc.IH [OF this] show ?thesis by (simp only: same)
  qed
qed

lemma page_length:
  fixes xs :: "'a list"
  assumes "0 \<le> x" "1 \<le> sz"
  shows "int (length (take (nat (min (min x (int (length xs)) + sz) (int (length xs)) - min x (int (length xs))))
      (drop (nat (min x (int (length xs)))) xs))) = max 0 (min sz (int (length xs) - x))"
proof -
  obtain m k where mk: "x = int m" "sz = int k" using assms by (metis nonneg_int_cases order_trans zero_le_one)
  show ?thesis
  proof (cases "m < length xs")
    case True
    then have "min (int m) (int (length xs)) = int m" by simp
    then show ?thesis using True by (simp add: mk min_def max_def) linarith
  next
    case False
    then have "min (int m) (int (length xs)) = int (length xs)" by simp
    then show ?thesis using False by (simp add: mk max_def min_def)
  qed
qed


definition native_listed :: "(native_error, session_listing option, native_tables) outcome" where
  "native_listed = list_sessions (product_scope native_env) native_listing native_ann native_start"

definition native_own_list :: session_listing where
  "native_own_list = \<lparr>sl_items = [''s1''], sl_total = 1, sl_page = 1, sl_page_size = 20\<rparr>"

lemma native_listed_ok: "(case fst native_listed of Inr l \<Rightarrow> l | Inl _ \<Rightarrow> None) = Some native_own_list"
  by code_simp


section \<open>What is not looked at\<close>

text \<open>C40. The scope check reads a body only under a JSON content type: a batch deletion of sessions with another one is let through whatever sessions its body names, and none of them is checked.\<close>

theorem unlabelled_body_unread:
  assumes "\<not> has_prefix (to_lower (nx_lower ns) (rq_headers rq ''Content-Type'')) ''application/json''"
    and "rq_path rq = ''/api/v1/sessions/batch''" "rq_query rq = []"
  shows "check_body ns rq a s = (Inr rq, initial_state rq a, s)"
proof -
  have "read_object ns rq = Inr []" using assms(1) by (simp add: read_object_def)
  moreover have "native_collect (JObj []) no_refs = no_refs" by (simp add: native_collect.simps ref_resource_def obj_get_def)
  moreover have "collect_query rq no_refs = no_refs" by (simp add: collect_query_def assms(3))
  moreover have "path_refs rq [] no_refs = no_refs"
    unfolding path_refs_def assms(2) no_refs_def by code_simp
  moreover have "hybrid_search_kb ''/api/v1/sessions/batch'' = []" by code_simp
  moreover have "\<not> is_retrieval rq" using assms(2) by (simp add: is_retrieval_def has_prefix_def)
  ultimately show ?thesis
    using assms(2) by (simp add: check_body_def history_scope_def check_parts_def enter_path_def readable_bases_def named_bases_def)
        (simp add: no_refs_def)
qed

theorem unlabelled_body_unread_witness:
  "check_body (product_scope native_env) native_deletion native_ann native_start
   = (Inr native_deletion, initial_state native_deletion native_ann, native_start)"
proof -
  have c: "\<not> has_prefix (to_lower (nx_lower (product_scope native_env)) (rq_headers native_deletion ''Content-Type'')) ''application/json''"
    by code_simp
  show ?thesis by (rule unlabelled_body_unread [OF c]) (simp_all add: native_deletion_def)
qed

end
