(* ===== verification/Spec2Isabelle.thy ===== *)
theory Spec2Isabelle
  imports GateScope NoteQuota IdentitySafety IdentityLogin SpaceSafety NativePolicy
begin

text \<open>
  A model of the gateway of this repository (\<open>src/services/gateway\<close>, Go) and the theorems that make it
  correct. The gateway stands in front of WeKnora, a service that is not in the repository: it adds
  sharing, publication and subscription of knowledge bases, Personal Notes, corporate sign-in and two
  audit trails, and checks every request before it is forwarded. Paths below are relative to
  \<open>src/services/gateway/internal\<close>.

  Parts and theories, in the order they build on each other.

  Foundations. \<open>Prelude\<close>: machine types, time, outcomes, lists as tables. \<open>GoStrings\<close> and \<open>Json\<close>: the
  functions of Go's standard library the code uses (trimming, UTF-8, \<open>path.Clean\<close>, UUIDs,
  \<open>json.Marshal\<close>). \<open>Database\<close>: the PostgreSQL schema as one record of tables, statements that may fail,
  transactions. \<open>Frames\<close> and \<open>Reads\<close>: what operations leave unchanged.

  Data and repositories. \<open>Profiles\<close>, \<open>ProfileRepository\<close>, \<open>Ownership\<close> (profile, notespolicy, ownership);
  \<open>Grants\<close>, \<open>GrantRepository\<close> (grant); \<open>Publications\<close>, \<open>PublicationRepository\<close> (publication);
  \<open>Subscriptions\<close>, \<open>SubscriptionRepository\<close> (subscription); \<open>RevisionRepository\<close> (revision);
  \<open>AuditEvents\<close>, \<open>AuditRepository\<close> (audit, agentaudit); \<open>SessionScopes\<close> (sessionscope);
  \<open>NoteRevisions\<close>, \<open>NoteRepository\<close> (note). A table is the list of its rows in insertion order, a
  statement a function on the database, and the constraints of the migrations are part of each
  insert and update.

  Services. \<open>GrantService\<close>, \<open>PublicationService\<close>, \<open>SubscriptionService\<close>: the owner's and the
  subscriber's operations. \<open>Authorization\<close>: who may do what. \<open>Listing\<close>: library, catalog, agent scope and
  paging. \<open>Notes\<close>, \<open>NoteService\<close>: Personal Notes with quota and history. \<open>Routes\<close>, \<open>GatePaths\<close>, \<open>Gate\<close>,
  \<open>GateService\<close>: classification of requests (policy, routeaction) and the gate with its response
  filter (access). A service is a record of what the Go struct holds; the operations of its
  dependencies are fields, and the product's wiring (\<open>cmd/gateway\<close>) is one instance.

  Identity. \<open>Identities\<close>: the table of corporate subjects, administration and the session check
  (identity/repository.go, admin.go, account.go, gate.go). \<open>IdentityBroker\<close>: the private OpenID Connect
  provider WeKnora signs in with (identity/broker.go). \<open>IdentityProviders\<close>: the adapters to the corporate
  provider (identity/provider.go, oauth2_provider.go).

  Knowledge spaces. \<open>Presets\<close>: the index profiles and the creation request sent to WeKnora
  (preset/preset.go). \<open>Spaces\<close>: the ledger of creations and the idempotent creation of a knowledge base
  (space/request_repository.go, space/service.go).

  Native workspace, the mode the gateway now runs in (nativeaccess). \<open>NativeStore\<close>: principals, errors,
  the session bindings and the trail. \<open>NativeScope\<close>: the bases and agents of a request. \<open>NativeCheck\<close>: the
  scope and session check. \<open>NativeResponse\<close>: answers, streams and the list of sessions. \<open>NativeModels\<close>:
  models, features, uploads. \<open>NativeGate\<close>: the route manifest, the gate and its wiring.

  What the lemmas show. \<open>GrantProofs\<close>, \<open>PublicationProofs\<close>, \<open>SubscriptionProofs\<close>, \<open>NoteProofs\<close>,
  \<open>GateProofs\<close> and \<open>IdentityRules\<close> state each interface between components as a locale (what a client
  relies on), prove the client's lemmas in it and interpret it on the product's definitions. \<open>System\<close> is
  the product's database under any sequence of service calls, failures included, and \<open>Lifecycle\<close> its
  properties: unique keys, a revocation is final, a revision is used once, only owners share. \<open>AccessRules\<close>:
  the decision procedure refines the rule \<open>access_role\<close> over the tables. \<open>ListingRules\<close>: scopes and
  catalog agree with the decisions, pages partition the list. \<open>Routes\<close>: classified paths are canonical and
  route matching does not depend on the order of the rules. \<open>GateRules\<close>, \<open>GateScope\<close>: every knowledge base
  a forwarded request names was authorised, and what is forwarded, recorded and filtered is exactly
  that. \<open>NoteRules\<close>, \<open>NoteQuota\<close>: owner only, no text is lost to an update, the quota counts every note and
  its loop ends. \<open>IdentityProofs\<close>, \<open>IdentitySafety\<close>: the broker as a transition system whose steps are the
  sections under its mutex, so that all interleavings of requests are covered; a code is used once, a
  suspended employee stays out. \<open>IdentityLogin\<close>: what a verified login rests on. \<open>SpaceRules\<close>,
  \<open>SpaceSafety\<close>: one knowledge base per user, workspace and key, whatever fails in between, and its
  profile names its owner. \<open>NativeRules\<close> states what every check keeps,
  as locales over the store; \<open>NativeSafety\<close>, \<open>NativeAnswers\<close>, \<open>NativePolicy\<close>: a session is one principal's
  for ever, what is forwarded and answered stays within the resolved scope, every decision is on
  record. \<open>Samples\<close>, \<open>GateSamples\<close>, \<open>IdentitySamples\<close> and \<open>NativeSamples\<close> are the concrete inputs of the witnesses.

  Conventions. A call that changes the state and may fail is a function into an outcome, a sum and the
  state afterwards on both branches. Time is in microseconds since Go's zero time; a call reads the
  clock once. A statement either takes effect or fails and leaves the tables unchanged; which ones fail
  is a script in the state, over which the theorems quantify, and so are the random bytes. A
  \<open>uint64\<close> is a 64-bit word, and a comparison with a bound is written at that width where it can
  overflow; a Go \<open>int\<close> that is only compared or stored is an \<open>int\<close>. Text compares bytewise (the
  collation of the deployment), and an over-long trailing run of spaces counts against a \<open>varchar\<close>.
  Of an error its code and status are kept, of HTTP headers one value per name. In a decoded JSON object
  each member occurs once.

  Parameters. WeKnora's answers, SHA-256, RSA, the JSON and URL decoders, the regular expression engine
  and lower-casing outside ASCII are arguments of the definitions that use them. Their laws, where a
  theorem needs one, are hypotheses of the theorem, with a witness.

  Loops. All recursions are total. The quota loop over WeKnora's pages ends by the measure of the
  notes still unseen below the reported total, a 63-bit number, and each page must bring a new note; the
  loop over WeKnora's pages of sessions has 101 rounds as in the code, which the reported total, at most
  10000, cannot exhaust; a stream is read by the bytes left. The other loops are structural.

  Not modelled. The HTTP server's decoding and encoding (server), the client of WeKnora (weknora), the
  configuration (config), migrations, logging and diagnostics, and the components that mostly relay
  to WeKnora: managedmodel, assistant, mcp, enterprise, ingestion, graphview and capability. Of the broker the three read-only documents are left out. What is left out is
  listed with its reason in the manifest.
\<close>

end
